(* ===== verification/WH_Prelude.thy ===== *)
theory WH_Prelude
  imports Main
begin

text \<open>
  Shared vocabulary of the development.
  \<^item> \<open>'a result\<close>-shaped values are sums: \<open>Inl e\<close> is the error return of a Go function, \<open>Inr v\<close>
    its value with a nil error. \<open>bindE\<close> is the ``if err != nil then return'' of the code.
  \<^item> An operation that touches the outside world (a server, a timer, a file, the scheduler) takes
    the world and returns it: \<open>'w \<Rightarrow> 'r \<times> 'w\<close>.
  \<^item> \<open>loop\<close> is Go's \<open>for { ... }\<close>: its body returns (\<open>Inl\<close>) or goes round again (\<open>Inr\<close>).
    The value \<open>None\<close> of \<open>loop\<close> is a loop that never returns; the rules below say when it does.
\<close>

named_theorems wh_defs \<open>definitions that step-by-step proofs unfold\<close>

section \<open>Error returns\<close>

fun bindE :: "'e + 'a \<Rightarrow> ('a \<Rightarrow> 'e + 'b) \<Rightarrow> 'e + 'b" where
  "bindE (Inl e) f = Inl e"
| "bindE (Inr a) f = f a"

fun mapE :: "('a \<Rightarrow> 'b) \<Rightarrow> 'e + 'a \<Rightarrow> 'e + 'b" where
  "mapE f (Inl e) = Inl e"
| "mapE f (Inr a) = Inr (f a)"

lemma bindE_Inr_iff: "bindE m f = Inr b \<longleftrightarrow> (\<exists>a. m = Inr a \<and> f a = Inr b)"
  by (cases m) auto

lemma bindE_Inl_iff: "bindE m f = Inl e \<longleftrightarrow> m = Inl e \<or> (\<exists>a. m = Inr a \<and> f a = Inl e)"
  by (cases m) auto

lemma mapE_Inr_iff [simp]: "mapE f m = Inr b \<longleftrightarrow> (\<exists>a. m = Inr a \<and> b = f a)"
  by (cases m) auto

lemma mapE_Inl_iff [simp]: "mapE f m = Inl e \<longleftrightarrow> m = Inl e"
  by (cases m) auto

section \<open>Loops without a condition\<close>

partial_function (option) loop :: "('s \<Rightarrow> 'r + 's) \<Rightarrow> 's \<Rightarrow> 'r option" where
  "loop body s = (case body s of Inl r \<Rightarrow> Some r | Inr s' \<Rightarrow> loop body s')"

declare loop.simps [code]

text \<open>\<open>steps body n s\<close> is the state after \<open>n\<close> rounds, if none of them returned.\<close>

fun steps :: "('s \<Rightarrow> 'r + 's) \<Rightarrow> nat \<Rightarrow> 's \<Rightarrow> 's option" where
  "steps body 0 s = Some s"
| "steps body (Suc n) s = (case body s of Inl _ \<Rightarrow> None | Inr s' \<Rightarrow> steps body n s')"

lemma loop_return: "body s = Inl r \<Longrightarrow> loop body s = Some r"
  by (simp add: loop.simps)

lemma loop_continue: "body s = Inr s' \<Longrightarrow> loop body s = loop body s'"
  by (subst loop.simps) simp

lemma loop_steps: "steps body n s = Some s' \<Longrightarrow> loop body s = loop body s'"
  by (induction n arbitrary: s) (auto split: sum.splits simp: loop_continue)

lemma loop_steps_return: "steps body n s = Some s' \<Longrightarrow> body s' = Inl r \<Longrightarrow> loop body s = Some r"
  by (simp add: loop_steps loop_return)

lemma steps_snoc:
  "steps body n s = Some s' \<Longrightarrow> body s' = Inr s'' \<Longrightarrow> steps body (Suc n) s = Some s''"
proof (induction n arbitrary: s)
  case 0
  then show ?case by simp
next
  case (Suc n)
  then obtain t where "body s = Inr t" and "steps body n t = Some s'"
    by (auto split: sum.splits)
  with Suc.IH Suc.prems(2) show ?case by (simp del: steps.simps add: steps.simps(2) [of body "Suc n"])
qed

text \<open>A loop returns exactly when some round returns.\<close>

lemma loop_Some_steps:
  fixes body :: "'s \<Rightarrow> 'r + 's"
  assumes "loop body s = Some r"
  shows "\<exists>n s'. steps body n s = Some s' \<and> body s' = Inl r"
proof (rule loop.raw_induct [where P = "\<lambda>body s r. \<exists>n s'. steps body n s = Some s' \<and> body s' = Inl r",
      OF _ assms])
  fix f :: "('s \<Rightarrow> 'r + 's) \<Rightarrow> 's \<Rightarrow> 'r option" and body :: "'s \<Rightarrow> 'r + 's" and s r
  assume IH: "\<And>body s r. f body s = Some r \<Longrightarrow> \<exists>n s'. steps body n s = Some s' \<and> body s' = Inl r"
    and eq: "(case body s of Inl r \<Rightarrow> Some r | Inr s' \<Rightarrow> f body s') = Some r"
  show "\<exists>n s'. steps body n s = Some s' \<and> body s' = Inl r"
  proof (cases "body s")
    case (Inl a)
    with eq show ?thesis by (intro exI [of _ 0] exI [of _ s]) simp
  next
    case (Inr t)
    with eq IH obtain n s' where "steps body n t = Some s'" "body s' = Inl r" by fastforce
    with Inr show ?thesis by (intro exI [of _ "Suc n"] exI [of _ s']) simp
  qed
qed

lemma steps_invariant:
  assumes "steps body n s = Some s'" and "I s"
    and "\<And>s s'. I s \<Longrightarrow> body s = Inr s' \<Longrightarrow> I s'"
  shows "I s'"
  using assms(1,2)
  by (induction n arbitrary: s) (auto split: sum.splits intro: assms(3))

text \<open>Partial correctness, total correctness and divergence.\<close>

lemma loop_invariant:
  assumes "loop body s = Some r" and "I s"
    and "\<And>s s'. I s \<Longrightarrow> body s = Inr s' \<Longrightarrow> I s'"
    and "\<And>s r. I s \<Longrightarrow> body s = Inl r \<Longrightarrow> Q r"
  shows "Q r"
proof -
  obtain n s' where st: "steps body n s = Some s'" and "body s' = Inl r"
    using loop_Some_steps [OF assms(1)] by blast
  moreover have "I s'" using st assms(2,3) by (rule steps_invariant)
  ultimately show ?thesis using assms(4) by blast
qed

lemma loop_terminates:
  fixes m :: "'s \<Rightarrow> nat"
  assumes "I s"
    and "\<And>s s'. I s \<Longrightarrow> body s = Inr s' \<Longrightarrow> I s' \<and> m s' < m s"
  shows "\<exists>r. loop body s = Some r"
  using assms(1)
proof (induction "m s" arbitrary: s rule: less_induct)
  case less
  show ?case
  proof (cases "body s")
    case (Inl r)
    then show ?thesis by (auto simp: loop_return)
  next
    case (Inr s')
    with less assms(2) show ?thesis by (metis loop_continue)
  qed
qed

lemma loop_diverges:
  assumes "I s" and "\<And>s. I s \<Longrightarrow> \<exists>s'. body s = Inr s' \<and> I s'"
  shows "loop body s = None"
proof (rule ccontr)
  assume "loop body s \<noteq> None"
  then obtain r where "loop body s = Some r" by blast
  then obtain n s' where st: "steps body n s = Some s'" and ret: "body s' = Inl r"
    using loop_Some_steps [of body s r] by blast
  have "I s'" using st assms(1) by (rule steps_invariant) (use assms(2) in fastforce)
  with assms(2) ret show False by fastforce
qed

section \<open>Lists\<close>

lemma filter_Cons_ex: "filter P xs = y # ys \<Longrightarrow> y \<in> set xs \<and> P y"
  using filter_eq_ConsD [of P xs y ys] by auto

end
