(* ===== verification/GoText.thy ===== *)
theory GoText
  imports WH_Prelude "HOL-Library.Sublist"
begin

text \<open>
  The functions of Go's \<open>strings\<close>, \<open>strconv\<close>, \<open>fmt\<close> and \<open>unicode/utf8\<close> that the program calls.
  A Go string is its list of bytes, so \<open>length\<close> is Go's \<open>len\<close>.
\<close>

section \<open>Searching and splitting\<close>

fun hasPrefix :: "string \<Rightarrow> string \<Rightarrow> bool" where
  "hasPrefix s [] = True"
| "hasPrefix [] (c # p) = False"
| "hasPrefix (d # s) (c # p) = (c = d \<and> hasPrefix s p)"

lemma hasPrefix_iff: "hasPrefix s p \<longleftrightarrow> prefix p s"
  by (induction s p rule: hasPrefix.induct) auto

fun containsStr :: "string \<Rightarrow> string \<Rightarrow> bool" where
  "containsStr [] t = (t = [])"
| "containsStr (c # s) t = (hasPrefix (c # s) t \<or> containsStr s t)"

lemma containsStr_iff: "containsStr s t \<longleftrightarrow> (\<exists>u v. s = u @ t @ v)"
proof (induction s)
  case Nil
  then show ?case by auto
next
  case (Cons c s)
  have "(\<exists>u v. c # s = u @ t @ v) \<longleftrightarrow> (\<exists>v. c # s = t @ v) \<or> (\<exists>u v. s = u @ t @ v)"
  proof
    assume "\<exists>u v. c # s = u @ t @ v"
    then obtain u v where "c # s = u @ t @ v" by blast
    then show "(\<exists>v. c # s = t @ v) \<or> (\<exists>u v. s = u @ t @ v)" by (cases u) auto
  next
    assume "(\<exists>v. c # s = t @ v) \<or> (\<exists>u v. s = u @ t @ v)"
    then show "\<exists>u v. c # s = u @ t @ v" by (metis append_Cons append_Nil)
  qed
  with Cons.IH show ?case by (simp add: hasPrefix_iff prefix_def)
qed

lemma containsStr_append: "containsStr s t \<Longrightarrow> containsStr (u @ s) t"
  unfolding containsStr_iff by (metis append.assoc)

text \<open>A text without a certain character is not found across an occurrence of it.\<close>

lemma containsStr_space:
  assumes "c \<notin> set t"
  shows "containsStr (a @ c # b) t \<longleftrightarrow> containsStr (a @ [c]) t \<or> containsStr b t"
proof
  assume "containsStr (a @ c # b) t"
  then obtain u v where eq: "a @ c # b = u @ t @ v" by (auto simp: containsStr_iff)
  then consider us where "a @ [c] = u @ us" "us @ b = t @ v" | us where "u = (a @ [c]) @ us" "b = us @ t @ v"
    using append_eq_append_conv2 [of "a @ [c]" b u "t @ v"] by auto
  then show "containsStr (a @ [c]) t \<or> containsStr b t"
  proof cases
    case (1 us)
    then consider ws where "us = t @ ws" | ws where "t = us @ ws" "b = ws @ v"
      using append_eq_append_conv2 [of us b t v] by auto
    then show ?thesis
    proof cases
      case 1
      with \<open>a @ [c] = u @ us\<close> have "a @ [c] = u @ t @ ws" by simp
      then show ?thesis unfolding containsStr_iff by blast
    next
      case (2 ws)
      have "us = []"
      proof (rule ccontr)
        assume "us \<noteq> []"
        then have "last us = c" using \<open>a @ [c] = u @ us\<close> by (metis last_appendR last_snoc)
        with \<open>us \<noteq> []\<close> have "c \<in> set t" using 2(1) last_in_set by fastforce
        with assms show False by simp
      qed
      with 2 have "b = [] @ t @ v" by simp
      then show ?thesis unfolding containsStr_iff by blast
    qed
  next
    case (2 us)
    then show ?thesis unfolding containsStr_iff by blast
  qed
next
  assume "containsStr (a @ [c]) t \<or> containsStr b t"
  then show "containsStr (a @ c # b) t"
  proof
    assume "containsStr (a @ [c]) t"
    then obtain u v where "a @ [c] = u @ t @ v" unfolding containsStr_iff by blast
    then have "a @ c # b = u @ t @ v @ b" by (metis append.assoc append_Cons append_Nil)
    then show ?thesis unfolding containsStr_iff by blast
  qed (use containsStr_append [of b t "a @ [c]"] in simp)
qed
text \<open>\<open>strings.FieldsFunc\<close>: the maximal runs of characters that are not separators.\<close>

fun fieldsFunc_aux :: "(char \<Rightarrow> bool) \<Rightarrow> string \<Rightarrow> string \<Rightarrow> string list" where
  "fieldsFunc_aux f cur [] = (if cur = [] then [] else [cur])"
| "fieldsFunc_aux f cur (c # s) =
     (if f c then (if cur = [] then [] else [cur]) @ fieldsFunc_aux f [] s
      else fieldsFunc_aux f (cur @ [c]) s)"

definition fieldsFunc :: "string \<Rightarrow> (char \<Rightarrow> bool) \<Rightarrow> string list" where
  "fieldsFunc s f = fieldsFunc_aux f [] s"

lemma fieldsFunc_aux_sound:
  "x \<in> set (fieldsFunc_aux f cur s) \<Longrightarrow> \<forall>c \<in> set cur. \<not> f c \<Longrightarrow>
    x \<noteq> [] \<and> (\<forall>c \<in> set x. \<not> f c)"
  by (induction f cur s rule: fieldsFunc_aux.induct) (auto split: if_splits)

lemma fieldsFunc_sound: "x \<in> set (fieldsFunc s f) \<Longrightarrow> x \<noteq> [] \<and> (\<forall>c \<in> set x. \<not> f c)"
  unfolding fieldsFunc_def by (rule fieldsFunc_aux_sound) auto

lemma concat_fieldsFunc_aux: "concat (fieldsFunc_aux f cur s) = cur @ filter (\<lambda>c. \<not> f c) s"
  by (induction f cur s rule: fieldsFunc_aux.induct) auto

lemma concat_fieldsFunc: "concat (fieldsFunc s f) = filter (\<lambda>c. \<not> f c) s"
  by (simp add: fieldsFunc_def concat_fieldsFunc_aux)

lemma fieldsFunc_Nil_iff: "fieldsFunc s f = [] \<longleftrightarrow> (\<forall>c \<in> set s. f c)"
proof -
  have "fieldsFunc s f = [] \<longleftrightarrow> concat (fieldsFunc s f) = []"
    using fieldsFunc_sound [of _ s f] by (auto simp: concat_eq_Nil_conv)
  then show ?thesis by (simp add: concat_fieldsFunc filter_empty_conv)
qed

text \<open>\<open>strings.Join\<close>.\<close>

fun joinStr :: "string \<Rightarrow> string list \<Rightarrow> string" where
  "joinStr sep [] = []"
| "joinStr sep [x] = x"
| "joinStr sep (x # y # ys) = x @ sep @ joinStr sep (y # ys)"

text \<open>Splitting what was joined gives the items back, if they are not empty and hold no separator.\<close>

lemma fieldsFunc_aux_run:
  "\<forall>c \<in> set x. \<not> f c \<Longrightarrow> fieldsFunc_aux f cur (x @ s) = fieldsFunc_aux f (cur @ x) s"
  by (induction x arbitrary: cur) auto

lemma fieldsFunc_join:
  assumes "\<forall>x \<in> set xs. x \<noteq> [] \<and> (\<forall>c \<in> set x. \<not> f c)" and "f sep"
  shows "fieldsFunc (joinStr [sep] xs) f = xs"
  using assms(1)
proof (induction "[sep]" xs rule: joinStr.induct)
  case 1
  then show ?case by (simp add: fieldsFunc_def)
next
  case (2 x)
  then show ?case using fieldsFunc_aux_run [of x f "[]" "[]"] by (simp add: fieldsFunc_def)
next
  case (3 x y ys)
  have run: "fieldsFunc_aux f [] (x @ [sep] @ joinStr [sep] (y # ys))
      = fieldsFunc_aux f x ([sep] @ joinStr [sep] (y # ys))"
    using 3 fieldsFunc_aux_run [of x f "[]"] by simp
  from 3 have "fieldsFunc_aux f [] (joinStr [sep] (y # ys)) = y # ys"
    by (simp add: fieldsFunc_def)
  with run 3 \<open>f sep\<close> show ?case by (simp add: fieldsFunc_def)
qed

section \<open>Numbers\<close>

lemma char_of_eq:
  fixes n :: nat
  assumes "n < 256"
  shows "char_of n = c \<longleftrightarrow> n = of_char c" and "c = char_of n \<longleftrightarrow> n = of_char c"
  using assms by (metis char_of_char mod_less of_char_of)+

fun digitsNat :: "nat \<Rightarrow> string" where
  "digitsNat n = (if n < 10 then [char_of (48 + n)] else digitsNat (n div 10) @ [char_of (48 + n mod 10)])"

declare digitsNat.simps [simp del]

definition itoa :: "int \<Rightarrow> string" where
  "itoa n = (if n < 0 then CHR ''-'' # digitsNat (nat (- n)) else digitsNat (nat n))"

lemma digitsNat_nonempty [simp]: "digitsNat n \<noteq> []"
  by (subst digitsNat.simps) simp

definition isDigit :: "char \<Rightarrow> bool" where
  "isDigit c \<longleftrightarrow> 48 \<le> (of_char c :: nat) \<and> (of_char c :: nat) \<le> 57"

definition digitVal :: "char \<Rightarrow> int" where
  "digitVal c = int (of_char c) - 48"

definition numVal :: "string \<Rightarrow> int" where
  "numVal s = foldl (\<lambda>n c. 10 * n + digitVal c) 0 s"

text \<open>
  \<open>strconv.Atoi\<close>: an optional sign, then one or more decimal digits; \<open>None\<close> is any of its errors
  (syntax, or a value outside the 64-bit range).
\<close>

definition atoi :: "string \<Rightarrow> int option" where
  "atoi s =
     (let (neg, ds) = (case s of [] \<Rightarrow> (False, [])
                        | c # cs \<Rightarrow> if c = CHR ''-'' then (True, cs)
                                    else if c = CHR ''+'' then (False, cs) else (False, s))
      in if ds = [] \<or> \<not> list_all isDigit ds then None
         else let v = (if neg then - numVal ds else numVal ds)
              in if - (2 ^ 63) \<le> v \<and> v < 2 ^ 63 then Some v else None)"

lemma numVal_snoc: "numVal (s @ [c]) = 10 * numVal s + digitVal c"
  by (simp add: numVal_def)

lemma digit_char: "n < 10 \<Longrightarrow> isDigit (char_of (48 + n)) \<and> digitVal (char_of (48 + n)) = int n"
  for n :: nat
  by (simp add: isDigit_def digitVal_def of_char_of)

lemma digitsNat_spec: "list_all isDigit (digitsNat n) \<and> numVal (digitsNat n) = int n"
proof (induction n rule: digitsNat.induct)
  case (1 n)
  show ?case
  proof (cases "n < 10")
    case True
    then show ?thesis using digit_char [of n]
      by (subst (1 2) digitsNat.simps) (simp add: numVal_def)
  next
    case False
    with 1 have IH: "list_all isDigit (digitsNat (n div 10))"
        "numVal (digitsNat (n div 10)) = int (n div 10)" by auto
    have d: "isDigit (char_of (48 + n mod 10))" "digitVal (char_of (48 + n mod 10)) = int (n mod 10)"
      using digit_char [of "n mod 10"] by auto
    have "10 * int (n div 10) + int (n mod 10) = int n"
      by (metis mult_div_mod_eq of_nat_add of_nat_mult of_nat_numeral)
    with False IH d show ?thesis
      by (subst (1 2) digitsNat.simps) (simp add: numVal_snoc)
  qed
qed

lemma digitsNat_head: "\<exists>c cs. digitsNat n = c # cs \<and> isDigit c"
  using digitsNat_spec [of n] digitsNat_nonempty [of n] by (cases "digitsNat n") auto

lemma not_isDigit_sign [simp]: "\<not> isDigit CHR ''-''" "\<not> isDigit CHR ''+''"
  by (simp_all add: isDigit_def)

text \<open>Printing and reading an \<open>int\<close> is a round trip on the 64-bit range.\<close>

lemma atoi_itoa: "- (2 ^ 63) \<le> n \<Longrightarrow> n < 2 ^ 63 \<Longrightarrow> atoi (itoa n) = Some n"
proof -
  assume range: "- (2 ^ 63) \<le> n" "n < 2 ^ 63"
  obtain c cs where pos: "digitsNat (nat n) = c # cs" "isDigit c" using digitsNat_head by blast
  then have "c \<noteq> CHR ''-''" "c \<noteq> CHR ''+''" by auto
  then show ?thesis
    using range pos digitsNat_spec [of "nat n"] digitsNat_spec [of "nat (- n)"]
    by (cases "n < 0") (simp_all add: atoi_def itoa_def Let_def)
qed

end
