(* ===== verification/GoError.thy ===== *)
theory GoError
  imports GoText
begin

text \<open>
  Go's error values, as far as the program inspects them. An error is a chain: \<open>fmt.Errorf\<close> with
  \<open>%w\<close>, \<open>*url.Error\<close> and \<open>*fs.PathError\<close> wrap a cause that \<open>errors.As\<close>, \<open>errors.AsType\<close> and
  \<open>errors.Is\<close> find; everything made by \<open>errors.New\<close> or by \<open>fmt.Errorf\<close> without \<open>%w\<close> is a plain
  message. \<open>GoPanic\<close> is a run-time panic, which no caller in the program recovers.
\<close>

datatype go_error =
    HttpResponseError int
  | ErrEOF
  | ErrUnexpectedEOF
  | ErrCanceled
  | ErrDeadlineExceeded
  | ENOENT
  | NetOpError string
  | UrlError string string go_error
  | PathError string string go_error
  | Errorf string go_error
  | ErrString string
  | GoPanic string

text \<open>
  \<open>UrlError op url e\<close> prints its URL quoted; the field holds the quoted text. \<open>NetOpError\<close> stands
  for the other errors of package \<open>net\<close> (a failed dial, a DNS failure, a timeout).
\<close>

definition httpErrorText :: "int \<Rightarrow> string" where
  "httpErrorText code = ''HTTP status '' @ itoa code"

fun errorText :: "go_error \<Rightarrow> string" where
  "errorText (HttpResponseError code) = httpErrorText code"
| "errorText ErrEOF = ''EOF''"
| "errorText ErrUnexpectedEOF = ''unexpected EOF''"
| "errorText ErrCanceled = ''context canceled''"
| "errorText ErrDeadlineExceeded = ''context deadline exceeded''"
| "errorText ENOENT = ''no such file or directory''"
| "errorText (NetOpError t) = t"
| "errorText (UrlError op url e) = op @ '' '' @ url @ '': '' @ errorText e"
| "errorText (PathError op path e) = op @ '' '' @ path @ '': '' @ errorText e"
| "errorText (Errorf ctx e) = ctx @ '': '' @ errorText e"
| "errorText (ErrString t) = t"
| "errorText (GoPanic t) = t"

text \<open>\<open>errors.Unwrap\<close>, and the chain that \<open>errors.Is\<close> and \<open>errors.As\<close> walk.\<close>

fun unwrap :: "go_error \<Rightarrow> go_error option" where
  "unwrap (UrlError _ _ e) = Some e"
| "unwrap (PathError _ _ e) = Some e"
| "unwrap (Errorf _ e) = Some e"
| "unwrap _ = None"

fun errChain :: "go_error \<Rightarrow> go_error list" where
  "errChain (UrlError op u e) = UrlError op u e # errChain e"
| "errChain (PathError op p e) = PathError op p e # errChain e"
| "errChain (Errorf ctx e) = Errorf ctx e # errChain e"
| "errChain e = [e]"

lemma errChain_unwrap:
  "errChain e = e # (case unwrap e of None \<Rightarrow> [] | Some c \<Rightarrow> errChain c)"
  by (cases e) auto

definition errorsIs :: "go_error \<Rightarrow> go_error \<Rightarrow> bool" where
  "errorsIs e target \<longleftrightarrow> target \<in> set (errChain e)"

text \<open>
  \<open>errors.AsType[HttpResponseError]\<close>: the status of the first \<open>HttpResponseError\<close> in the chain.
\<close>

definition httpCode :: "go_error \<Rightarrow> int option" where
  "httpCode e = (case e of HttpResponseError c \<Rightarrow> Some c | _ \<Rightarrow> None)"

fun firstSome :: "('a \<Rightarrow> 'b option) \<Rightarrow> 'a list \<Rightarrow> 'b option" where
  "firstSome f [] = None"
| "firstSome f (x # xs) = (case f x of Some y \<Rightarrow> Some y | None \<Rightarrow> firstSome f xs)"

definition asHttpResponseError :: "go_error \<Rightarrow> int option" where
  "asHttpResponseError e = firstSome httpCode (errChain e)"

text \<open>
  The types that have the methods of the interface \<open>net.Error\<close> (\<open>Error\<close>, \<open>Timeout\<close>, \<open>Temporary\<close>):
  \<open>*url.Error\<close> has them whatever it wraps, and so does the error of an expired deadline.
\<close>

fun isNetError :: "go_error \<Rightarrow> bool" where
  "isNetError (UrlError _ _ _) = True"
| "isNetError (NetOpError _) = True"
| "isNetError ErrDeadlineExceeded = True"
| "isNetError _ = False"

definition asNetError :: "go_error \<Rightarrow> bool" where
  "asNetError e = list_ex isNetError (errChain e)"

text \<open>A \<open>context.Context\<close> is what its \<open>Err\<close> method returns in a given world.\<close>

type_synonym 'w ctx = "'w \<Rightarrow> go_error option"

lemma asHttp_simps [simp]:
  "asHttpResponseError (HttpResponseError c) = Some c"
  "asHttpResponseError (Errorf t e) = asHttpResponseError e"
  "asHttpResponseError (UrlError op u e) = asHttpResponseError e"
  "asHttpResponseError (PathError op u e) = asHttpResponseError e"
  "asHttpResponseError (ErrString t) = None"
  "asHttpResponseError (NetOpError t) = None"
  "asHttpResponseError ErrUnexpectedEOF = None"
  "asHttpResponseError ErrEOF = None"
  "asHttpResponseError ErrCanceled = None"
  "asHttpResponseError ErrDeadlineExceeded = None"
  by (simp_all add: asHttpResponseError_def httpCode_def)

lemma errorsIs_simps [simp]:
  "errorsIs (Errorf t e) x \<longleftrightarrow> x = Errorf t e \<or> errorsIs e x"
  "errorsIs (ErrString t) x \<longleftrightarrow> x = ErrString t"
  "errorsIs (HttpResponseError c) x \<longleftrightarrow> x = HttpResponseError c"
  by (auto simp: errorsIs_def)

lemma errorsIs_refl [simp]: "errorsIs e e"
  by (subst errorsIs_def, subst errChain_unwrap) simp

lemma asNetError_simps [simp]:
  "asNetError (Errorf t e) = asNetError e"
  "asNetError (UrlError op u e)"
  "asNetError (NetOpError t)"
  "\<not> asNetError (ErrString t)"
  "\<not> asNetError (HttpResponseError c)"
  by (simp_all add: asNetError_def)

end
