(* ===== verification/GoTime.thy ===== *)
theory GoTime
  imports WH_Prelude Complex_Main "HOL-Library.Word"
begin

text \<open>
  \<open>time.Duration\<close> is a signed 64-bit count of nanoseconds, kept at its width: \<open>+\<close>, \<open>-\<close> and \<open>*\<close> wrap,
  comparisons are signed. \<open>float64\<close> values are dyadic numbers \<open>mantissa * 2 ^ exponent\<close>, each
  operation rounded to 53 bits, half to even, as IEEE 754 prescribes (finite values only; the
  program's values are far from the subnormal and the overflow range).
\<close>

section \<open>Durations\<close>

type_synonym duration = "64 word"

definition millisecond :: duration where "millisecond = 1000000"
definition second :: duration where "second = 1000000000"

definition durMin :: "duration \<Rightarrow> duration \<Rightarrow> duration" where
  "durMin a b = (if b <s a then b else a)"

definition durMax :: "duration \<Rightarrow> duration \<Rightarrow> duration" where
  "durMax a b = (if a <s b then b else a)"

lemma sint_durMin [simp]: "sint (durMin a b) = min (sint a) (sint b)"
  by (simp add: durMin_def word_sless_alt)

lemma sint_durMax [simp]: "sint (durMax a b) = max (sint a) (sint b)"
  by (simp add: durMax_def word_sless_alt)

lemma sint_range: "- (2 ^ 63) \<le> sint (a :: 64 word)" "sint (a :: 64 word) < 2 ^ 63"
  using sint_greater_eq [of a] sint_lt [of a] by simp_all

lemma sint_eq_in_range:
  "- (2 ^ 63) \<le> k \<Longrightarrow> k < 2 ^ 63 \<Longrightarrow> sint (word_of_int k :: 64 word) = k"
  by (simp add: sint_sbintrunc' signed_take_bit_int_eq_self)

lemma sint_diff_in_range:
  assumes "- (2 ^ 63) \<le> sint a - sint b" and "sint a - sint b < 2 ^ 63"
  shows "sint (a - b :: 64 word) = sint a - sint b"
  using assms by (simp add: sint_word_ariths signed_take_bit_int_eq_self)

lemma sint_double_in_range:
  assumes "- (2 ^ 63) \<le> 2 * sint a" and "2 * sint a < 2 ^ 63"
  shows "sint (a * 2 :: 64 word) = 2 * sint a"
  using assms by (simp add: sint_word_ariths signed_take_bit_int_eq_self mult.commute)

section \<open>Floating point\<close>

datatype f64 = F64 int int

definition f64val :: "f64 \<Rightarrow> real" where
  "f64val x = (case x of F64 m e \<Rightarrow> of_int m * 2 powr (of_int e))"

function bitLen :: "int \<Rightarrow> nat" where
  "bitLen n = (if n \<le> 0 then 0 else Suc (bitLen (n div 2)))"
  by pat_completeness auto
termination
  by (relation "measure nat") auto

declare bitLen.simps [simp del]

definition roundShift :: "int \<Rightarrow> nat \<Rightarrow> int" where
  "roundShift n k =
     (if k = 0 then n
      else let q = n div 2 ^ k; r = n mod 2 ^ k; h = 2 ^ (k - 1)
           in if r < h \<or> (r = h \<and> even q) then q else q + 1)"

definition f64round :: "int \<Rightarrow> int \<Rightarrow> f64" where
  "f64round m e =
     (let k = bitLen \<bar>m\<bar> - 53
      in F64 (sgn m * roundShift \<bar>m\<bar> k) (e + int k))"

definition f64ofInt :: "int \<Rightarrow> f64" where
  "f64ofInt n = f64round n 0"

fun f64mul :: "f64 \<Rightarrow> f64 \<Rightarrow> f64" where
  "f64mul (F64 m e) (F64 n d) = f64round (m * n) (e + d)"

text \<open>Both numbers on the smaller of the two exponents.\<close>

fun f64align :: "f64 \<Rightarrow> f64 \<Rightarrow> int \<times> int \<times> int" where
  "f64align (F64 m e) (F64 n d) =
     (m * 2 ^ nat (e - min e d), n * 2 ^ nat (d - min e d), min e d)"

definition f64sub :: "f64 \<Rightarrow> f64 \<Rightarrow> f64" where
  "f64sub x y = (let (a, b, e) = f64align x y in f64round (a - b) e)"

definition f64less :: "f64 \<Rightarrow> f64 \<Rightarrow> bool" where
  "f64less x y = (let (a, b, e) = f64align x y in a < b)"

text \<open>Conversion to an integer truncates towards zero.\<close>

fun f64trunc :: "f64 \<Rightarrow> int" where
  "f64trunc (F64 m e) =
     (if 0 \<le> e then m * 2 ^ nat e else sgn m * (\<bar>m\<bar> div 2 ^ nat (- e)))"

definition f64zero :: f64 where "f64zero = F64 0 0"
definition f64one :: f64 where "f64one = F64 1 0"

text \<open>The double nearest to 0.1.\<close>

definition f64tenth :: f64 where "f64tenth = F64 3602879701896397 (- 55)"


section \<open>Error bounds\<close>

lemma bitLen_le: "0 < n \<Longrightarrow> 2 ^ (bitLen n - 1) \<le> n"
proof (induction n rule: bitLen.induct)
  case (1 n)
  show ?case
  proof (cases "n = 1")
    case True
    then show ?thesis by (simp add: bitLen.simps [of 1] bitLen.simps [of 0])
  next
    case False
    with 1 have IH: "2 ^ (bitLen (n div 2) - 1) \<le> n div 2" and pos: "0 < n div 2" by auto
    then have "bitLen n - 1 = Suc (bitLen (n div 2) - 1)"
      using 1(2) by (simp add: bitLen.simps [of n] bitLen.simps [of "n div 2"])
    with IH show ?thesis by simp
  qed
qed

lemma bitLen_0 [simp]: "bitLen 0 = 0"
  by (simp add: bitLen.simps)

lemma roundShift_0 [simp]: "roundShift 0 k = 0"
  by (simp add: roundShift_def)

text \<open>Rounding to 53 bits adds at most one part in \<open>2 ^ 53\<close>.\<close>

lemma roundShift_le:
  assumes k: "k = bitLen n - 53" and n0: "0 \<le> n"
  shows "2 ^ 53 * (roundShift n k * 2 ^ k) \<le> (2 ^ 53 + 1) * n"
proof (cases "k = 0")
  case True
  with n0 show ?thesis by (simp add: roundShift_def)
next
  case False
  define q r where "q = n div 2 ^ k" and "r = n mod 2 ^ k"
  define h :: int where "h = 2 ^ (k - 1)"
  have n: "n = q * 2 ^ k + r" unfolding q_def r_def by (rule div_mult_mod_eq [symmetric])
  have r0: "0 \<le> r" and h0: "0 < h" by (simp_all add: r_def h_def)
  have h2: "2 * h = 2 ^ k" using False by (cases k) (simp_all add: h_def)
  have "0 < n" using False k n0 by (cases "n = 0") auto
  then have "2 ^ (bitLen n - 1) \<le> n" by (rule bitLen_le)
  moreover have "bitLen n - 1 = 53 + (k - 1)" using False k by simp
  ultimately have small: "2 ^ 53 * h \<le> n" by (simp add: h_def power_add)
  have "roundShift n k * 2 ^ k \<le> n + h"
  proof (cases "r < h \<or> (r = h \<and> even q)")
    case True
    then have "roundShift n k = q" using False
      by (simp add: roundShift_def q_def r_def h_def Let_def)
    then show ?thesis using n r0 h0 by simp
  next
    case up: False
    then have "roundShift n k = q + 1" using False
      by (auto simp: roundShift_def q_def r_def h_def Let_def)
    then have "roundShift n k * 2 ^ k = q * 2 ^ k + 2 * h" using h2 by (simp add: distrib_right)
    with up n show ?thesis by linarith
  qed
  then have "2 ^ 53 * (roundShift n k * 2 ^ k) \<le> 2 ^ 53 * (n + h)"
    by (rule mult_left_mono) simp
  also have "\<dots> \<le> (2 ^ 53 + 1) * n" using small by simp
  finally show ?thesis .
qed

fun f64nonneg :: "f64 \<Rightarrow> bool" where
  "f64nonneg (F64 m e) \<longleftrightarrow> 0 \<le> m"

definition roundErr :: real where "roundErr = 1 + 1 / 2 ^ 53"

lemma f64val_nonneg: "f64nonneg x \<Longrightarrow> 0 \<le> f64val x"
  by (cases x) (simp add: f64val_def)

lemma roundShift_nonneg: "0 \<le> n \<Longrightarrow> 0 \<le> roundShift n k"
  by (auto simp: roundShift_def Let_def pos_imp_zdiv_nonneg_iff)

lemma f64round_nonneg: "0 \<le> m \<Longrightarrow> f64nonneg (f64round m e)"
  by (cases "m = 0") (simp_all add: f64round_def Let_def roundShift_nonneg)

lemma f64round_le:
  assumes "0 \<le> m"
  shows "f64val (f64round m e) \<le> f64val (F64 m e) * roundErr"
proof -
  define k where "k = bitLen m - 53"
  have sgn: "sgn m * roundShift m k = roundShift m k"
    using assms by (cases "m = 0") simp_all
  have "real_of_int (2 ^ 53 * (roundShift m k * 2 ^ k)) \<le> real_of_int ((2 ^ 53 + 1) * m)"
    using roundShift_le [OF k_def assms] by (simp only: of_int_le_iff)
  then have "real_of_int (roundShift m k) * 2 ^ k \<le> of_int m * roundErr"
    by (simp add: roundErr_def field_simps)
  then have "(of_int (roundShift m k) * 2 ^ k) * 2 powr of_int e \<le> (of_int m * roundErr) * 2 powr of_int e"
    by (rule mult_right_mono) simp
  moreover have "f64val (f64round m e) = (of_int (roundShift m k) * 2 ^ k) * 2 powr of_int e"
    using sgn assms by (simp add: f64round_def Let_def k_def f64val_def powr_add powr_realpow)
  moreover have "f64val (F64 m e) * roundErr = (of_int m * roundErr) * 2 powr of_int e"
    by (simp add: f64val_def)
  ultimately show ?thesis by (simp only:)
qed

lemma f64mul_nonneg: "f64nonneg x \<Longrightarrow> f64nonneg y \<Longrightarrow> f64nonneg (f64mul x y)"
  by (cases x; cases y) (simp add: f64round_nonneg)

lemma f64mul_le:
  "f64nonneg x \<Longrightarrow> f64nonneg y \<Longrightarrow> f64val (f64mul x y) \<le> f64val x * f64val y * roundErr"
proof (cases x; cases y)
  fix m e n d
  assume x: "x = F64 m e" and y: "y = F64 n d" and "f64nonneg x" "f64nonneg y"
  then have "0 \<le> m * n" by simp
  from f64round_le [OF this, of "e + d"] show ?thesis
    by (simp add: x y f64val_def powr_add mult_ac)
qed

lemma f64align_val:
  assumes "f64align x y = (a, b, e)"
  shows "f64val x = of_int a * 2 powr of_int e" "f64val y = of_int b * 2 powr of_int e"
proof -
  obtain m i n j where x: "x = F64 m i" and y: "y = F64 n j" by (cases x; cases y)
  have shift: "2 powr real_of_int i = 2 ^ nat (i - k) * 2 powr real_of_int k" if "k \<le> i" for i k
    using that by (simp add: powr_realpow [symmetric] powr_add [symmetric])
  from assms shift [of e i] shift [of e j]
  show "f64val x = of_int a * 2 powr of_int e" "f64val y = of_int b * 2 powr of_int e"
    by (auto simp: x y f64val_def)
qed

lemma f64less_iff: "f64less x y \<longleftrightarrow> f64val x < f64val y"
proof -
  obtain a b e where "f64align x y = (a, b, e)" by (cases "f64align x y")
  then show ?thesis using f64align_val [of x y a b e] by (simp add: f64less_def)
qed

lemma f64sub_le:
  assumes "f64val y \<le> f64val x"
  shows "f64nonneg (f64sub x y) \<and> f64val (f64sub x y) \<le> (f64val x - f64val y) * roundErr"
proof -
  obtain a b e where al: "f64align x y = (a, b, e)" by (cases "f64align x y")
  note v = f64align_val [OF al]
  have "0 \<le> a - b" using assms by (simp add: v)
  then show ?thesis using f64round_nonneg [of "a - b" e] f64round_le [of "a - b" e]
    by (simp add: f64sub_def al v f64val_def [of "F64 _ _"] algebra_simps)
qed

lemma f64trunc_bounds:
  assumes "f64nonneg x"
  shows "0 \<le> f64trunc x" "of_int (f64trunc x) \<le> f64val x"
proof -
  obtain m e where x: "x = F64 m e" by (cases x)
  with assms have m: "0 \<le> m" by simp
  show "0 \<le> f64trunc x" using m by (cases "m = 0") (auto simp: x pos_imp_zdiv_nonneg_iff)
  show "of_int (f64trunc x) \<le> f64val x"
  proof (cases "0 \<le> e")
    case True
    then show ?thesis by (simp add: x f64val_def powr_realpow [symmetric])
  next
    case False
    have "real_of_int (m div 2 ^ nat (- e)) \<le> of_int m / 2 ^ nat (- e)"
      using real_of_int_div4 [of m "2 ^ nat (- e)"] by simp
    also have "\<dots> = f64val x"
      using False by (simp add: x f64val_def powr_realpow [symmetric] powr_minus_divide [symmetric]
          divide_inverse powr_minus [symmetric])
    finally show ?thesis using False m by (cases "m = 0") (auto simp: x)
  qed
qed

end
