(* ===== verification/SelfHealConfig.thy ===== *)
theory SelfHealConfig
  imports GoError GoTime
begin

text \<open>
  \<open>internal/selfheal/config.go\<close>: the bounds of the retry backoff, and the two functions of
  \<open>recovery.go\<close> that compute a delay from them.
\<close>

record selfheal_config =
  MinRetryBackoff :: duration
  MaxRetryBackoff :: duration

definition MinimumRetryBackoff :: duration where
  "MinimumRetryBackoff = 100 * millisecond"

definition DefaultMinRetryBackoff :: duration where
  "DefaultMinRetryBackoff = MinimumRetryBackoff"

definition DefaultMaxRetryBackoff :: duration where
  "DefaultMaxRetryBackoff = 15 * second"

definition DefaultConfig :: selfheal_config where
  "DefaultConfig = \<lparr>MinRetryBackoff = DefaultMinRetryBackoff, MaxRetryBackoff = DefaultMaxRetryBackoff\<rparr>"

text \<open>\<open>Validate\<close>: \<open>None\<close> is a nil error.\<close>

definition Validate :: "selfheal_config \<Rightarrow> go_error option" where
  "Validate c =
     (if MinRetryBackoff c <s MinimumRetryBackoff
      then Some (ErrString ''min-retry-backoff must be at least 100ms'')
      else if MaxRetryBackoff c <=s 0
      then Some (ErrString ''max-retry-backoff must be positive'')
      else if MaxRetryBackoff c <s MinRetryBackoff c
      then Some (ErrString ''min-retry-backoff must not exceed max-retry-backoff'')
      else None)"

lemma sint_MinimumRetryBackoff [simp]: "sint MinimumRetryBackoff = 100000000"
  by (simp add: MinimumRetryBackoff_def millisecond_def)

lemma sint_DefaultMaxRetryBackoff [simp]: "sint DefaultMaxRetryBackoff = 15000000000"
  by (simp add: DefaultMaxRetryBackoff_def second_def)

lemma Validate_None_iff:
  "Validate c = None \<longleftrightarrow>
     100000000 \<le> sint (MinRetryBackoff c) \<and> sint (MinRetryBackoff c) \<le> sint (MaxRetryBackoff c)"
  by (auto simp: Validate_def word_sless_alt word_sle_eq)

lemma Validate_DefaultConfig: "Validate DefaultConfig = None"
  by (simp add: Validate_None_iff DefaultConfig_def DefaultMinRetryBackoff_def)

section \<open>One step of the backoff\<close>

definition nextBackoff :: "duration \<Rightarrow> duration \<Rightarrow> duration \<Rightarrow> duration" where
  "nextBackoff previous minimum maximum =
     (let backoff = minimum;
          backoff = (if 0 <s previous
                     then if maximum <=s previous \<or> maximum - previous <s previous
                          then maximum else previous * 2
                     else backoff);
          backoff = (if backoff <s minimum then minimum else backoff)
      in if maximum <s backoff then maximum else backoff)"

definition clampJitter :: "f64 \<Rightarrow> f64" where
  "clampJitter j = (if f64less j f64zero then f64zero else if f64less f64one j then f64one else j)"

text \<open>\<open>time.Duration(float64(backoff) * 0.1 * (1 - jitterValue))\<close>.\<close>

definition jitterCut :: "duration \<Rightarrow> f64 \<Rightarrow> duration" where
  "jitterCut backoff jitterValue =
     word_of_int (f64trunc (f64mul (f64mul (f64ofInt (sint backoff)) f64tenth)
                                   (f64sub f64one jitterValue)))"

text \<open>
  \<open>nextRetryDelay\<close> draws one jitter value and returns the backoff, which the next round starts
  from, and the delay to sleep now.
\<close>

definition nextRetryDelay ::
  "duration \<Rightarrow> duration \<Rightarrow> duration \<Rightarrow> ('w \<Rightarrow> f64 \<times> 'w) \<Rightarrow> 'w \<Rightarrow> (duration \<times> duration) \<times> 'w" where
  "nextRetryDelay previous minimum maximum jitter w =
     (let backoff = nextBackoff previous minimum maximum;
          (jitterValue, w') = jitter w;
          delay = backoff - jitterCut backoff (clampJitter jitterValue);
          delay = durMax delay minimum;
          delay = durMin delay maximum
      in ((backoff, delay), w'))"

lemma sint_nextBackoff:
  assumes "0 < sint minimum" and "sint minimum \<le> sint maximum"
    and "0 \<le> sint previous" and "sint previous \<le> sint maximum"
  shows "sint (nextBackoff previous minimum maximum)
     = min (sint maximum) (max (sint minimum) (2 * sint previous))"
proof -
  have diff: "sint (maximum - previous) = sint maximum - sint previous"
    using assms sint_range [of maximum] by (intro sint_diff_in_range) auto
  show ?thesis
  proof (cases "2 * sint previous \<le> sint maximum")
    case True
    then have "sint (previous * 2) = 2 * sint previous"
      using assms sint_range [of maximum] by (intro sint_double_in_range) auto
    with True diff assms show ?thesis
      by (auto simp: nextBackoff_def Let_def word_sless_alt word_sle_eq)
  next
    case False
    with diff assms show ?thesis
      by (auto simp: nextBackoff_def Let_def word_sless_alt word_sle_eq)
  qed
qed

lemma nextBackoff_bounds:
  assumes "0 < sint minimum" and "sint minimum \<le> sint maximum"
    and "0 \<le> sint previous" and "sint previous \<le> sint maximum"
  shows "sint minimum \<le> sint (nextBackoff previous minimum maximum)"
    and "sint (nextBackoff previous minimum maximum) \<le> sint maximum"
  using sint_nextBackoff [OF assms] assms by auto

section \<open>The jitter takes off at most a tenth\<close>

lemma clampJitter_range: "0 \<le> f64val (clampJitter j) \<and> f64val (clampJitter j) \<le> 1"
  by (auto simp: clampJitter_def f64less_iff f64zero_def f64one_def f64val_def [of "F64 _ _"])

lemma tenth_rounding: "f64val f64tenth * roundErr ^ 4 \<le> 1 / 10 * (1 + 1 / 2 ^ 50)"
  by (simp add: f64tenth_def f64val_def roundErr_def powr_minus divide_simps)

text \<open>The cut as an integer, before it is stored in 64 bits.\<close>

lemma cut_bounds:
  assumes b: "0 \<le> b" and j: "0 \<le> f64val j" "f64val j \<le> 1"
  defines "off \<equiv> f64trunc (f64mul (f64mul (f64ofInt b) f64tenth) (f64sub f64one j))"
  shows "0 \<le> off" and "10 * 2 ^ 50 * off \<le> (2 ^ 50 + 1) * b"
proof -
  let ?x = "f64ofInt b" and ?y = "f64sub f64one j" and ?r = roundErr
  have one: "f64val f64one = 1" by (simp add: f64one_def f64val_def)
  have r: "0 \<le> ?r" by (simp add: roundErr_def)
  have x: "f64nonneg ?x" "f64val ?x \<le> of_int b * ?r"
    using b f64round_nonneg [of b 0] f64round_le [of b 0] by (simp_all add: f64ofInt_def f64val_def)
  have t: "f64nonneg f64tenth" by (simp add: f64tenth_def)
  have "(1 - f64val j) * ?r \<le> 1 * ?r" using j r by (intro mult_right_mono) auto
  then have y: "f64nonneg ?y" "f64val ?y \<le> ?r"
    using f64sub_le [of j f64one] j one by auto
  let ?p = "f64mul ?x f64tenth"
  have p: "f64nonneg ?p" using x t by (simp add: f64mul_nonneg)
  have "f64val ?p \<le> f64val ?x * f64val f64tenth * ?r" using x t by (simp add: f64mul_le)
  also have "\<dots> \<le> (of_int b * ?r) * f64val f64tenth * ?r"
    using x t r f64val_nonneg by (intro mult_right_mono) auto
  finally have pv: "f64val ?p \<le> (of_int b * ?r) * f64val f64tenth * ?r" .
  have q: "f64nonneg (f64mul ?p ?y)" using p y by (simp add: f64mul_nonneg)
  show "0 \<le> off" using f64trunc_bounds [OF q] by (simp add: off_def)
  have "real_of_int off \<le> f64val (f64mul ?p ?y)" using f64trunc_bounds [OF q] by (simp add: off_def)
  also have "\<dots> \<le> f64val ?p * f64val ?y * ?r" using p y by (simp add: f64mul_le)
  also have "\<dots> \<le> ((of_int b * ?r) * f64val f64tenth * ?r) * ?r * ?r"
    using pv y p r f64val_nonneg b t by (intro mult_right_mono mult_mono) auto
  also have "\<dots> = of_int b * (f64val f64tenth * ?r ^ 4)" by (simp add: power4_eq_xxxx mult_ac)
  also have "\<dots> \<le> of_int b * (1 / 10 * (1 + 1 / 2 ^ 50))"
    using tenth_rounding b by (intro mult_left_mono) auto
  finally have "real_of_int (10 * 2 ^ 50 * off) \<le> real_of_int ((2 ^ 50 + 1) * b)"
    by (simp add: field_simps)
  then show "10 * 2 ^ 50 * off \<le> (2 ^ 50 + 1) * b" by (simp only: of_int_le_iff)
qed

lemma sint_jitterCut:
  assumes "0 \<le> sint b" and "0 \<le> f64val j" and "f64val j \<le> 1"
  shows "0 \<le> sint (jitterCut b j)" and "10 * 2 ^ 50 * sint (jitterCut b j) \<le> (2 ^ 50 + 1) * sint b"
proof -
  let ?cut = "f64trunc (f64mul (f64mul (f64ofInt (sint b)) f64tenth) (f64sub f64one j))"
  note c = cut_bounds [OF assms]
  have "?cut < 2 ^ 63" using c sint_range [of b] by simp
  with c have "sint (jitterCut b j) = ?cut"
    unfolding jitterCut_def by (intro sint_eq_in_range) auto
  with c show "0 \<le> sint (jitterCut b j)"
    and "10 * 2 ^ 50 * sint (jitterCut b j) \<le> (2 ^ 50 + 1) * sint b" by simp_all
qed

lemma sint_jittered:
  assumes "0 \<le> sint b" and "0 \<le> f64val j" and "f64val j \<le> 1"
  shows "sint (b - jitterCut b j) = sint b - sint (jitterCut b j)"
  using sint_jitterCut [OF assms] assms sint_range [of b] by (intro sint_diff_in_range) auto

end
