(* ===== verification/GoUtf8.thy ===== *)
theory GoUtf8
  imports GoText
begin

text \<open>
  Go's UTF-8 decoding (\<open>unicode/utf8\<close>) on byte strings. A rune is one well-formed sequence of one
  to four bytes; a byte that starts none counts as one (invalid) rune of width 1. \<open>fmt\<close> measures
  the width of a field in runes, not in bytes.
\<close>

abbreviation byte :: "char \<Rightarrow> nat" where "byte c \<equiv> of_char c"

definition utf8_cont :: "char \<Rightarrow> bool" where
  "utf8_cont c \<longleftrightarrow> 0x80 \<le> byte c \<and> byte c \<le> 0xBF"

text \<open>The range of the second byte after each first byte that starts a longer sequence.\<close>

definition utf8_second :: "char \<Rightarrow> char \<Rightarrow> bool" where
  "utf8_second b c \<longleftrightarrow>
     (if byte b < 0xC2 \<or> 0xF4 < byte b then False
      else if byte b = 0xE0 then 0xA0 \<le> byte c \<and> byte c \<le> 0xBF
      else if byte b = 0xED then 0x80 \<le> byte c \<and> byte c \<le> 0x9F
      else if byte b = 0xF0 then 0x90 \<le> byte c \<and> byte c \<le> 0xBF
      else if byte b = 0xF4 then 0x80 \<le> byte c \<and> byte c \<le> 0x8F
      else utf8_cont c)"

fun runeWidth :: "string \<Rightarrow> nat" where
  "runeWidth [] = 0"
| "runeWidth (b # s) =
     (if byte b < 0x80 then 1
      else case s of [] \<Rightarrow> 1
      | c1 # s1 \<Rightarrow>
          if \<not> utf8_second b c1 then 1
          else if byte b < 0xE0 then 2
          else case s1 of [] \<Rightarrow> 1
          | c2 # s2 \<Rightarrow>
              if \<not> utf8_cont c2 then 1
              else if byte b < 0xF0 then 3
              else case s2 of [] \<Rightarrow> 1
              | c3 # _ \<Rightarrow> if utf8_cont c3 then 4 else 1)"

lemma runeWidth_pos [simp]: "s \<noteq> [] \<Longrightarrow> 0 < runeWidth s"
  by (cases s) (auto split: list.splits)

lemma runeWidth_le: "runeWidth s \<le> length s"
  by (cases s) (auto split: list.splits)

function runes :: "string \<Rightarrow> string list" where
  "runes s = (if s = [] then [] else take (runeWidth s) s # runes (drop (runeWidth s) s))"
  by pat_completeness auto
termination
  by (relation "measure length") auto

declare runes.simps [simp del]

lemma runes_Nil [simp]: "runes [] = []"
  by (simp add: runes.simps)

text \<open>\<open>utf8.RuneCountInString\<close>.\<close>

definition runeCount :: "string \<Rightarrow> nat" where
  "runeCount s = length (runes s)"

lemma runeCount_Nil [simp]: "runeCount [] = 0"
  by (simp add: runeCount_def)

lemma runeCount_step: "s \<noteq> [] \<Longrightarrow> runeCount s = Suc (runeCount (drop (runeWidth s) s))"
  by (simp add: runeCount_def runes.simps [of s])

lemma concat_runes: "concat (runes s) = s"
  by (induction s rule: runes.induct) (subst runes.simps, simp)

lemma runeCount_le_length: "runeCount s \<le> length s"
proof (induction s rule: runes.induct)
  case (1 s)
  show ?case
  proof (cases "s = []")
    case False
    with 1 have "runeCount (drop (runeWidth s) s) \<le> length s - runeWidth s" by simp
    moreover have "0 < runeWidth s" and "runeWidth s \<le> length s"
      using False runeWidth_le by simp_all
    ultimately have "Suc (runeCount (drop (runeWidth s) s)) \<le> length s" by linarith
    then show ?thesis by (simp add: runeCount_step [OF False])
  qed simp
qed

definition ascii :: "string \<Rightarrow> bool" where
  "ascii s \<longleftrightarrow> list_all (\<lambda>c. byte c < 0x80) s"

lemma runeCount_ascii_Cons: "byte c < 0x80 \<Longrightarrow> runeCount (c # s) = Suc (runeCount s)"
  by (simp add: runeCount_step)

lemma runeCount_ascii: "ascii s \<Longrightarrow> runeCount s = length s"
  by (induction s) (auto simp: ascii_def runeCount_ascii_Cons)

text \<open>
  Counting is not additive in general (a sequence may be cut in two), but no sequence crosses an
  ASCII byte, so what is followed by ASCII text counts on its own.
\<close>

definition ascii_start :: "string \<Rightarrow> bool" where
  "ascii_start t \<longleftrightarrow> (case t of [] \<Rightarrow> True | c # _ \<Rightarrow> byte c < 0x80)"

lemma ascii_not_cont: "byte c < 0x80 \<Longrightarrow> \<not> utf8_cont c"
  by (simp add: utf8_cont_def)

lemma ascii_not_second: "byte c < 0x80 \<Longrightarrow> \<not> utf8_second b c"
  by (auto simp: utf8_second_def utf8_cont_def)

lemma runeWidth_append:
  assumes "s \<noteq> []" and "ascii_start t"
  shows "runeWidth (s @ t) = runeWidth s"
proof -
  have second: "\<not> utf8_second b (hd t)" and cont: "\<not> utf8_cont (hd t)" if "t \<noteq> []" for b
    using assms(2) that ascii_not_second ascii_not_cont
    by (cases t; simp add: ascii_start_def)+
  consider (one) b where "s = [b]" | (two) b c1 where "s = [b, c1]"
    | (three) b c1 c2 where "s = [b, c1, c2]" | (more) b c1 c2 c3 r where "s = b # c1 # c2 # c3 # r"
    using assms(1) by (metis neq_Nil_conv)
  then show ?thesis
    by cases (cases t; use second cont in simp)+
qed

lemma runeCount_append: "ascii_start t \<Longrightarrow> runeCount (s @ t) = runeCount s + runeCount t"
proof (induction s rule: runes.induct)
  case (1 s)
  show ?case
  proof (cases "s = []")
    case False
    have "drop (runeWidth s) (s @ t) = drop (runeWidth s) s @ t"
      using runeWidth_le [of s] by simp
    with False 1 show ?thesis by (simp add: runeCount_step runeWidth_append)
  qed simp
qed

section \<open>Padding\<close>

text \<open>
  \<open>fmt\<close>'s \<open>%-*s\<close>: the value, then spaces up to the given width in runes. A width above one million
  is reported in the output instead of obeyed.
\<close>

definition fmtMaxWidth :: int where "fmtMaxWidth = 1000000"

definition padRight :: "nat \<Rightarrow> string \<Rightarrow> string" where
  "padRight w s = (if fmtMaxWidth < int w then ''%!(BADWIDTH)'' @ s
                   else s @ replicate (w - runeCount s) CHR '' '')"

lemma ascii_start_replicate [simp]: "ascii_start (replicate n CHR '' '')"
  by (cases n) (simp_all add: ascii_start_def)

lemma runeCount_spaces [simp]: "runeCount (replicate n CHR '' '') = n"
  by (simp add: runeCount_ascii ascii_def list_all_iff)

lemma runeCount_padRight:
  "runeCount s \<le> w \<Longrightarrow> int w \<le> fmtMaxWidth \<Longrightarrow> runeCount (padRight w s) = w"
  by (simp add: padRight_def runeCount_append)

section \<open>Trimming and quoting\<close>

text \<open>\<open>unicode.IsSpace\<close> on one rune, and \<open>strings.TrimSpace\<close>.\<close>

definition isSpaceRune :: "string \<Rightarrow> bool" where
  "isSpaceRune r \<longleftrightarrow> map byte r \<in> set
     [[9], [10], [11], [12], [13], [32], [0xC2, 0x85], [0xC2, 0xA0], [0xE1, 0x9A, 0x80],
      [0xE2, 0x80, 0x80], [0xE2, 0x80, 0x81], [0xE2, 0x80, 0x82], [0xE2, 0x80, 0x83],
      [0xE2, 0x80, 0x84], [0xE2, 0x80, 0x85], [0xE2, 0x80, 0x86], [0xE2, 0x80, 0x87],
      [0xE2, 0x80, 0x88], [0xE2, 0x80, 0x89], [0xE2, 0x80, 0x8A], [0xE2, 0x80, 0xA8],
      [0xE2, 0x80, 0xA9], [0xE2, 0x80, 0xAF], [0xE2, 0x81, 0x9F], [0xE3, 0x80, 0x80]]"

definition TrimSpace :: "string \<Rightarrow> string" where
  "TrimSpace s =
     concat (rev (dropWhile isSpaceRune (rev (dropWhile isSpaceRune (runes s)))))"

text \<open>
  \<open>strconv.Quote\<close> (the verb \<open>%q\<close>); runes beyond ASCII are taken to be printable, and single bytes
  beyond ASCII are not well-formed.
\<close>

definition hexLower :: "nat \<Rightarrow> char" where
  "hexLower n = (if n < 10 then char_of (48 + n) else char_of (87 + n))"

definition quoteRune :: "string \<Rightarrow> string" where
  "quoteRune r =
     (case r of
        [c] \<Rightarrow>
          if c = CHR 0x22 \<or> c = CHR 0x5C then [CHR 0x5C, c]
          else if 32 \<le> byte c \<and> byte c < 127 then [c]
          else if byte c = 7 then [CHR 0x5C, CHR ''a'']
          else if byte c = 8 then [CHR 0x5C, CHR ''b'']
          else if byte c = 9 then [CHR 0x5C, CHR ''t'']
          else if byte c = 10 then [CHR 0x5C, CHR ''n'']
          else if byte c = 11 then [CHR 0x5C, CHR ''v'']
          else if byte c = 12 then [CHR 0x5C, CHR ''f'']
          else if byte c = 13 then [CHR 0x5C, CHR ''r'']
          else [CHR 0x5C, CHR ''x'', hexLower (byte c div 16), hexLower (byte c mod 16)]
      | _ \<Rightarrow> r)"

definition quote :: "string \<Rightarrow> string" where
  "quote s = [CHR 0x22] @ concat (map quoteRune (runes s)) @ [CHR 0x22]"

text \<open>The verb \<open>%q\<close> on a list of strings.\<close>

definition quoteList :: "string list \<Rightarrow> string" where
  "quoteList xs = ''['' @ joinStr '' '' (map quote xs) @ '']''"

end
