(* ===== verification/GoJson.thy ===== *)
theory GoJson
  imports GoError GoUtf8
begin

text \<open>
  \<open>encoding/json\<close> on the level of JSON values: how a Go struct is encoded (with \<open>omitempty\<close>) and
  how a value is decoded into an existing Go value (\<open>null\<close> leaves a string alone and sets a pointer
  to nil, unknown keys are skipped, a key matches a field exactly or after case folding, a value of
  the wrong kind is an error). The text of a document is not modelled; a body that is no document
  is a case of its own where a body is read.
\<close>

datatype json =
    JNull
  | JBool bool
  | JNum string
  | JStr string
  | JArr "json list"
  | JObj "(string \<times> json) list"

section \<open>Encoding\<close>

text \<open>Bytes that are not UTF-8 are written as the replacement character.\<close>

definition validRune :: "string \<Rightarrow> bool" where
  "validRune r \<longleftrightarrow> 1 < length r \<or> (\<exists>c. r = [c] \<and> byte c < 0x80)"

definition coerceRune :: "string \<Rightarrow> string" where
  "coerceRune r =
     (case r of [c] \<Rightarrow> if byte c < 0x80 then r else [char_of (0xEF::nat), char_of (0xBF::nat), char_of (0xBD::nat)]
      | _ \<Rightarrow> r)"

definition coerceUtf8 :: "string \<Rightarrow> string" where
  "coerceUtf8 s = concat (map coerceRune (runes s))"

definition validUtf8 :: "string \<Rightarrow> bool" where
  "validUtf8 s \<longleftrightarrow> list_all (\<lambda>r. coerceRune r = r) (runes s)"

lemma coerceUtf8_valid: "validUtf8 s \<Longrightarrow> coerceUtf8 s = s"
  by (simp add: coerceUtf8_def validUtf8_def list_all_iff concat_runes cong: map_cong)

definition encString :: "string \<Rightarrow> json" where
  "encString s = JStr (coerceUtf8 s)"

text \<open>A field with \<open>omitempty\<close>: a nil pointer and an empty slice are left out.\<close>

definition optField :: "string \<Rightarrow> ('a \<Rightarrow> json) \<Rightarrow> 'a option \<Rightarrow> (string \<times> json) list" where
  "optField name enc x = (case x of None \<Rightarrow> [] | Some v \<Rightarrow> [(name, enc v)])"

definition sliceField :: "string \<Rightarrow> ('a \<Rightarrow> json) \<Rightarrow> 'a list \<Rightarrow> (string \<times> json) list" where
  "sliceField name enc xs = (if xs = [] then [] else [(name, JArr (map enc xs))])"

section \<open>Decoding\<close>

type_synonym 'a decoder = "'a \<Rightarrow> json \<Rightarrow> go_error + 'a"

definition typeError :: go_error where
  "typeError = ErrString ''json: cannot unmarshal value into Go value''"

fun decString :: "string decoder" where
  "decString old JNull = Inr old"
| "decString old (JStr s) = Inr s"
| "decString old v = Inl typeError"

definition decPtr :: "'a \<Rightarrow> 'a decoder \<Rightarrow> 'a option decoder" where
  "decPtr zero dec old v =
     (case v of JNull \<Rightarrow> Inr None
      | _ \<Rightarrow> mapE Some (dec (case old of None \<Rightarrow> zero | Some x \<Rightarrow> x) v))"

fun decElems :: "'a \<Rightarrow> 'a decoder \<Rightarrow> json list \<Rightarrow> go_error + 'a list" where
  "decElems zero dec [] = Inr []"
| "decElems zero dec (v # vs) =
     bindE (dec zero v) (\<lambda>x. mapE ((#) x) (decElems zero dec vs))"

definition decSlice :: "'a \<Rightarrow> 'a decoder \<Rightarrow> 'a list decoder" where
  "decSlice zero dec old v =
     (case v of JNull \<Rightarrow> Inr [] | JArr vs \<Rightarrow> decElems zero dec vs | _ \<Rightarrow> Inl typeError)"

text \<open>\<open>foldName\<close>: upper case, with the two non-ASCII characters that fold to ASCII letters.\<close>

definition toUpperChar :: "char \<Rightarrow> char" where
  "toUpperChar c = (if 97 \<le> byte c \<and> byte c \<le> 122 then char_of (byte c - 32) else c)"

definition foldRune :: "string \<Rightarrow> string" where
  "foldRune r =
     (if map byte r = [0xC5, 0xBF] then ''S''
      else if map byte r = [0xE2, 0x84, 0xAA] then ''K''
      else map toUpperChar r)"

definition foldName :: "string \<Rightarrow> string" where
  "foldName s = concat (map foldRune (runes s))"

type_synonym 'r field = "string \<times> ('r \<Rightarrow> json \<Rightarrow> go_error + 'r)"

definition lookupField :: "'r field list \<Rightarrow> string \<Rightarrow> ('r \<Rightarrow> json \<Rightarrow> go_error + 'r) option" where
  "lookupField fields key =
     (case map_of fields key of
        Some f \<Rightarrow> Some f
      | None \<Rightarrow> map_option snd (find (\<lambda>(name, f). foldName name = foldName key) fields))"

fun decFields :: "'r field list \<Rightarrow> 'r \<Rightarrow> (string \<times> json) list \<Rightarrow> go_error + 'r" where
  "decFields fields old [] = Inr old"
| "decFields fields old ((key, v) # kvs) =
     (case lookupField fields key of
        None \<Rightarrow> decFields fields old kvs
      | Some f \<Rightarrow> bindE (f old v) (\<lambda>new. decFields fields new kvs))"

definition decStruct :: "'r field list \<Rightarrow> 'r decoder" where
  "decStruct fields old v =
     (case v of JNull \<Rightarrow> Inr old | JObj kvs \<Rightarrow> decFields fields old kvs | _ \<Rightarrow> Inl typeError)"

text \<open>The setter of one field, from its getter and its update function.\<close>

definition setter ::
  "('r \<Rightarrow> 'a) \<Rightarrow> (('a \<Rightarrow> 'a) \<Rightarrow> 'r \<Rightarrow> 'r) \<Rightarrow> 'a decoder \<Rightarrow> 'r \<Rightarrow> json \<Rightarrow> go_error + 'r" where
  "setter get upd dec r v = mapE (\<lambda>x. upd (\<lambda>_. x) r) (dec (get r) v)"

lemma decFields_append:
  "decFields fields old (xs @ ys) = bindE (decFields fields old xs) (\<lambda>r. decFields fields r ys)"
proof (induction xs arbitrary: old)
  case (Cons kv xs)
  obtain k v where kv: "kv = (k, v)" by (cases kv)
  show ?case
  proof (cases "lookupField fields k")
    case None
    with Cons kv show ?thesis by simp
  next
    case (Some f)
    with Cons kv show ?thesis by (cases "f old v") simp_all
  qed
qed simp

text \<open>Decoding the array of the documents of a list, and a list of strings.\<close>

lemma decElems_map:
  "(\<And>x. x \<in> set xs \<Longrightarrow> dec zero (doc x) = Inr (val x)) \<Longrightarrow> decElems zero dec (map doc xs) = Inr (map val xs)"
  by (induction xs) auto

lemma decSlice_map:
  "(\<And>x. x \<in> set xs \<Longrightarrow> dec zero (doc x) = Inr (val x)) \<Longrightarrow>
    decSlice zero dec old (JArr (map doc xs)) = Inr (map val xs)"
  by (simp add: decSlice_def decElems_map)

lemma decSlice_strings: "decSlice [] decString old (JArr (map JStr xs)) = Inr xs"
  using decSlice_map [of xs decString "[]" JStr id] by simp

end
