(* ===== verification/RegistryTypes.thy ===== *)
theory RegistryTypes
  imports GoJson
begin

text \<open>
  \<open>internal/routeregistry/types.go\<close>: the records of the Route Registry API, their JSON encoding and
  decoding as their field tags prescribe, and the two \<open>Matches\<close> methods behind the interface
  \<open>Identifiable\<close>. A \<open>*string\<close> is a \<open>string option\<close>; a nil and an empty slice are both \<open>[]\<close>, which
  the code never tells apart. \<open>JWKSet\<close>, \<open>ValidationError\<close> and \<open>HTTPValidationError\<close> are declared but
  used nowhere in the program and are left out.
\<close>

definition MinIDLength :: nat where "MinIDLength = 8"

section \<open>Records\<close>

record airlock =
  alJwtIssuerURL :: "string option"

record tunnel =
  tnURL :: "string option"
  tnJWT :: "string option"
  tnEndpoint :: "string option"

record entity_set =
  esUsers :: "string list"
  esGroups :: "string list"

record rules =
  ruVersion :: "string option"
  ruAllowed :: "entity_set option"
  ruDisallowed :: "entity_set option"

record route =
  rtName :: string
  rtDomainName :: "string option"
  rtCommunityName :: "string option"
  rtID :: "string option"
  rtDst :: "string option"
  rtSrc :: "string option"
  rtURL :: "string option"
  rtToken :: "string option"
  rtEndpoint :: "string option"
  rtJWT :: "string option"
  rtCommunityID :: "string option"
  rtRules :: "rules option"

record community =
  cmName :: string
  cmID :: "string option"
  cmRoutes :: "route list"

record registration_request =
  rqName :: string
  rqDomainName :: "string option"
  rqCommunityName :: "string option"

record registration_response =
  rpURL :: string
  rpAirlock :: airlock
  rpTunnel :: tunnel
  rpEndpoint :: "string option"
  rpJWT :: "string option"

record membership_response =
  mrEntityID :: "string option"
  mrCommunityID :: "string option"
  mrRouteID :: "string option"
  mrStatus :: "string option"

text \<open>A \<open>*RegistrationResponse\<close>, which may be nil.\<close>

type_synonym registration = "registration_response option"

text \<open>Zero values.\<close>

definition zeroAirlock :: airlock where
  "zeroAirlock = \<lparr>alJwtIssuerURL = None\<rparr>"

definition zeroTunnel :: tunnel where
  "zeroTunnel = \<lparr>tnURL = None, tnJWT = None, tnEndpoint = None\<rparr>"

definition zeroEntitySet :: entity_set where
  "zeroEntitySet = \<lparr>esUsers = [], esGroups = []\<rparr>"

definition zeroRules :: rules where
  "zeroRules = \<lparr>ruVersion = None, ruAllowed = None, ruDisallowed = None\<rparr>"

definition zeroRoute :: route where
  "zeroRoute = \<lparr>rtName = [], rtDomainName = None, rtCommunityName = None, rtID = None, rtDst = None,
     rtSrc = None, rtURL = None, rtToken = None, rtEndpoint = None, rtJWT = None,
     rtCommunityID = None, rtRules = None\<rparr>"

definition zeroCommunity :: community where
  "zeroCommunity = \<lparr>cmName = [], cmID = None, cmRoutes = []\<rparr>"

definition zeroRegistrationResponse :: registration_response where
  "zeroRegistrationResponse = \<lparr>rpURL = [], rpAirlock = zeroAirlock, rpTunnel = zeroTunnel,
     rpEndpoint = None, rpJWT = None\<rparr>"

definition zeroMembershipResponse :: membership_response where
  "zeroMembershipResponse = \<lparr>mrEntityID = None, mrCommunityID = None, mrRouteID = None, mrStatus = None\<rparr>"

lemmas zero_defs = zeroAirlock_def zeroTunnel_def zeroEntitySet_def zeroRules_def zeroRoute_def
  zeroCommunity_def zeroRegistrationResponse_def zeroMembershipResponse_def

section \<open>Decoding\<close>

definition decStringPtr :: "string option decoder" where
  "decStringPtr = decPtr [] decString"

definition decAirlock :: "airlock decoder" where
  "decAirlock = decStruct [(''jwt_issuer_url'', setter alJwtIssuerURL alJwtIssuerURL_update decStringPtr)]"

definition decTunnel :: "tunnel decoder" where
  "decTunnel = decStruct
     [(''url'', setter tnURL tnURL_update decStringPtr),
      (''jwt'', setter tnJWT tnJWT_update decStringPtr),
      (''endpoint'', setter tnEndpoint tnEndpoint_update decStringPtr)]"

definition decEntitySet :: "entity_set decoder" where
  "decEntitySet = decStruct
     [(''users'', setter esUsers esUsers_update (decSlice [] decString)),
      (''groups'', setter esGroups esGroups_update (decSlice [] decString))]"

definition decRules :: "rules decoder" where
  "decRules = decStruct
     [(''version'', setter ruVersion ruVersion_update decStringPtr),
      (''allowed'', setter ruAllowed ruAllowed_update (decPtr zeroEntitySet decEntitySet)),
      (''disallowed'', setter ruDisallowed ruDisallowed_update (decPtr zeroEntitySet decEntitySet))]"

definition decRoute :: "route decoder" where
  "decRoute = decStruct
     [(''name'', setter rtName rtName_update decString),
      (''domain_name'', setter rtDomainName rtDomainName_update decStringPtr),
      (''community_name'', setter rtCommunityName rtCommunityName_update decStringPtr),
      (''id'', setter rtID rtID_update decStringPtr),
      (''dst'', setter rtDst rtDst_update decStringPtr),
      (''src'', setter rtSrc rtSrc_update decStringPtr),
      (''url'', setter rtURL rtURL_update decStringPtr),
      (''token'', setter rtToken rtToken_update decStringPtr),
      (''endpoint'', setter rtEndpoint rtEndpoint_update decStringPtr),
      (''jwt'', setter rtJWT rtJWT_update decStringPtr),
      (''community_id'', setter rtCommunityID rtCommunityID_update decStringPtr),
      (''rules'', setter rtRules rtRules_update (decPtr zeroRules decRules))]"

definition decCommunity :: "community decoder" where
  "decCommunity = decStruct
     [(''name'', setter cmName cmName_update decString),
      (''id'', setter cmID cmID_update decStringPtr),
      (''routes'', setter cmRoutes cmRoutes_update (decSlice zeroRoute decRoute))]"

definition decRegistrationResponse :: "registration_response decoder" where
  "decRegistrationResponse = decStruct
     [(''url'', setter rpURL rpURL_update decString),
      (''airlock'', setter rpAirlock rpAirlock_update decAirlock),
      (''tunnel'', setter rpTunnel rpTunnel_update decTunnel),
      (''endpoint'', setter rpEndpoint rpEndpoint_update decStringPtr),
      (''jwt'', setter rpJWT rpJWT_update decStringPtr)]"

definition decMembershipResponse :: "membership_response decoder" where
  "decMembershipResponse = decStruct
     [(''entity_id'', setter mrEntityID mrEntityID_update decStringPtr),
      (''community_id'', setter mrCommunityID mrCommunityID_update decStringPtr),
      (''route_id'', setter mrRouteID mrRouteID_update decStringPtr),
      (''status'', setter mrStatus mrStatus_update decStringPtr)]"

section \<open>Encoding\<close>

definition encEntitySet :: "entity_set \<Rightarrow> json" where
  "encEntitySet e = JObj (sliceField ''users'' encString (esUsers e) @
     sliceField ''groups'' encString (esGroups e))"

definition encRules :: "rules \<Rightarrow> json" where
  "encRules r = JObj (optField ''version'' encString (ruVersion r) @
     optField ''allowed'' encEntitySet (ruAllowed r) @
     optField ''disallowed'' encEntitySet (ruDisallowed r))"

definition encRoute :: "route \<Rightarrow> json" where
  "encRoute r = JObj ([(''name'', encString (rtName r))] @
     optField ''domain_name'' encString (rtDomainName r) @
     optField ''community_name'' encString (rtCommunityName r) @
     optField ''id'' encString (rtID r) @ optField ''dst'' encString (rtDst r) @
     optField ''src'' encString (rtSrc r) @ optField ''url'' encString (rtURL r) @
     optField ''token'' encString (rtToken r) @ optField ''endpoint'' encString (rtEndpoint r) @
     optField ''jwt'' encString (rtJWT r) @ optField ''community_id'' encString (rtCommunityID r) @
     optField ''rules'' encRules (rtRules r))"

definition encCommunity :: "community \<Rightarrow> json" where
  "encCommunity c = JObj ([(''name'', encString (cmName c)),
     (''id'', case cmID c of None \<Rightarrow> JNull | Some i \<Rightarrow> encString i)] @
     sliceField ''routes'' encRoute (cmRoutes c))"

definition encRegistrationRequest :: "registration_request \<Rightarrow> json" where
  "encRegistrationRequest r = JObj ([(''name'', encString (rqName r))] @
     optField ''domain_name'' encString (rqDomainName r) @
     optField ''community_name'' encString (rqCommunityName r))"

section \<open>Matching by name or partial ID\<close>

definition Community_Matches :: "community \<Rightarrow> string \<Rightarrow> bool" where
  "Community_Matches c identifier \<longleftrightarrow>
     (if cmName c = identifier \<or>
         (case cmID c of None \<Rightarrow> False
          | Some i \<Rightarrow> MinIDLength \<le> length identifier \<and> hasPrefix i identifier)
      then True else False)"

definition Route_Matches :: "route \<Rightarrow> string \<Rightarrow> bool" where
  "Route_Matches r identifier \<longleftrightarrow>
     (if (case rtID r of None \<Rightarrow> False
          | Some i \<Rightarrow> MinIDLength \<le> length identifier \<and> hasPrefix i identifier)
      then True
      else case rtDomainName r of
        None \<Rightarrow> False
      | Some d \<Rightarrow> if d @ ''/'' @ rtName r = identifier then True else False)"

end
