(* ===== verification/SelfHealRetry.thy ===== *)
theory SelfHealRetry
  imports SelfHealConfig RegistryTypes
begin

text \<open>
  \<open>internal/selfheal/recovery.go\<close>, lines 19 to 163: retrying a Route Registry request.
  A request, a sleep, the random number
  generator and the logger are functions on the world, parameters as they are in the code. The
  retry loop is a \<open>loop\<close>: its value \<open>None\<close> is ``retries forever''.
\<close>

datatype log_event =
    RetryWarning duration go_error
  | RejectedWarning
  | UnauthorizedWarning

type_synonym 'w logger = "log_event \<Rightarrow> 'w \<Rightarrow> 'w"

record 'w retry_runtime =
  rrSleep :: "'w ctx \<Rightarrow> duration \<Rightarrow> 'w \<Rightarrow> go_error option \<times> 'w"
  rrJitter :: "'w \<Rightarrow> f64 \<times> 'w"

text \<open>
  The default runtime. \<open>timerFirst ctx delay w\<close> is the \<open>select\<close> of \<open>sleep\<close>: which of the timer
  (\<open>True\<close>) and \<open>ctx.Done\<close> (\<open>False\<close>) it sees, and the world then; \<open>randFloat64\<close> is \<open>rand.Float64\<close>.
\<close>

definition defaultRetryRuntime ::
  "('w ctx \<Rightarrow> duration \<Rightarrow> 'w \<Rightarrow> bool \<times> 'w) \<Rightarrow> ('w \<Rightarrow> f64 \<times> 'w) \<Rightarrow> 'w retry_runtime" where
  "defaultRetryRuntime timerFirst randFloat64 =
     \<lparr>rrSleep = (\<lambda>ctx delay w. case timerFirst ctx delay w of
          (True, w') \<Rightarrow> (None, w')
        | (False, w') \<Rightarrow> (ctx w', w')),
      rrJitter = randFloat64\<rparr>"

definition registrationRetryable :: "go_error \<Rightarrow> bool" where
  "registrationRetryable err =
     (case asHttpResponseError err of
        Some code \<Rightarrow> code = 408 \<or> code = 429 \<or> (500 \<le> code \<and> code \<le> 599)
      | None \<Rightarrow> if errorsIs err ErrUnexpectedEOF then True else asNetError err)"

section \<open>The loop\<close>

text \<open>One round: the result of the whole call (\<open>Inl\<close>), or the backoff to go on with (\<open>Inr\<close>).\<close>

definition retryRound ::
  "'w ctx \<Rightarrow> ('w ctx \<Rightarrow> 'w \<Rightarrow> (go_error + 'a) \<times> 'w) \<Rightarrow> selfheal_config \<Rightarrow> 'w logger \<Rightarrow> 'w retry_runtime \<Rightarrow>
   duration \<times> 'w \<Rightarrow> ((go_error + 'a) \<times> 'w) + (duration \<times> 'w)" where
  "retryRound ctx operation config logger runtime s =
     (let (previous, w) = s in
      case operation ctx w of
        (Inr result, w1) \<Rightarrow> Inl (Inr result, w1)
      | (Inl err, w1) \<Rightarrow>
          (case ctx w1 of
             Some ctxErr \<Rightarrow> Inl (Inl ctxErr, w1)
           | None \<Rightarrow>
               if \<not> registrationRetryable err then Inl (Inl err, w1)
               else
                 let ((backoff, delay), w2) =
                       nextRetryDelay previous (MinRetryBackoff config) (MaxRetryBackoff config)
                         (rrJitter runtime) w1;
                     w3 = logger (RetryWarning delay err) w2
                 in case rrSleep runtime ctx delay w3 of
                      (Some sleepErr, w4) \<Rightarrow> Inl (Inl sleepErr, w4)
                    | (None, w4) \<Rightarrow> Inr (backoff, w4)))"

definition retryRouteRegistry ::
  "'w ctx \<Rightarrow> ('w ctx \<Rightarrow> 'w \<Rightarrow> (go_error + 'a) \<times> 'w) \<Rightarrow> selfheal_config \<Rightarrow> 'w logger \<Rightarrow> 'w retry_runtime \<Rightarrow>
   'w \<Rightarrow> ((go_error + 'a) \<times> 'w) option" where
  "retryRouteRegistry ctx operation config logger runtime w =
     loop (retryRound ctx operation config logger runtime) (0, w)"

text \<open>The calls with their error context.\<close>

fun wrapError :: "string \<Rightarrow> (go_error + 'a) \<times> 'w \<Rightarrow> (go_error + 'a) \<times> 'w" where
  "wrapError msg (Inl err, w) = (Inl (Errorf msg err), w)"
| "wrapError msg (Inr a, w) = (Inr a, w)"

definition registerRouteWithRetry ::
  "'w ctx \<Rightarrow> ('w ctx \<Rightarrow> string \<Rightarrow> string \<Rightarrow> 'w \<Rightarrow> (go_error + registration) \<times> 'w) \<Rightarrow> string \<Rightarrow> string \<Rightarrow>
   selfheal_config \<Rightarrow> 'w logger \<Rightarrow> 'w retry_runtime \<Rightarrow> 'w \<Rightarrow> ((go_error + registration) \<times> 'w) option" where
  "registerRouteWithRetry ctx register community name config logger runtime w =
     map_option (wrapError ''register route'')
       (retryRouteRegistry ctx (\<lambda>ctx. register ctx community name) config logger runtime w)"

definition refreshJWTWithRetry ::
  "'w ctx \<Rightarrow> ('w ctx \<Rightarrow> string \<Rightarrow> 'w \<Rightarrow> (go_error + string) \<times> 'w) \<Rightarrow> string \<Rightarrow>
   selfheal_config \<Rightarrow> 'w logger \<Rightarrow> 'w retry_runtime \<Rightarrow> 'w \<Rightarrow> ((go_error + string) \<times> 'w) option" where
  "refreshJWTWithRetry ctx refresh jwt config logger runtime w =
     map_option (wrapError ''refresh Piko JWT'')
       (retryRouteRegistry ctx (\<lambda>ctx. refresh ctx jwt) config logger runtime w)"

definition RegisterRoute ::
  "('w ctx \<Rightarrow> duration \<Rightarrow> 'w \<Rightarrow> bool \<times> 'w) \<Rightarrow> ('w \<Rightarrow> f64 \<times> 'w) \<Rightarrow>
   'w ctx \<Rightarrow> ('w ctx \<Rightarrow> string \<Rightarrow> string \<Rightarrow> 'w \<Rightarrow> (go_error + registration) \<times> 'w) \<Rightarrow> string \<Rightarrow> string \<Rightarrow>
   selfheal_config \<Rightarrow> 'w logger \<Rightarrow> 'w \<Rightarrow> ((go_error + registration) \<times> 'w) option" where
  "RegisterRoute timerFirst randFloat64 ctx register community name config logger w =
     registerRouteWithRetry ctx register community name config logger
       (defaultRetryRuntime timerFirst randFloat64) w"

lemma wrapError_Inl_iff: "wrapError msg r = (Inl e, w) \<longleftrightarrow> (\<exists>e0. r = (Inl e0, w) \<and> e = Errorf msg e0)"
  by (cases r; cases "fst r") auto

lemma wrapError_Inr_iff [simp]: "wrapError msg r = (Inr a, w) \<longleftrightarrow> r = (Inr a, w)"
  by (cases r; cases "fst r") auto

section \<open>Inversion of a round\<close>

lemma nextRetryDelay_backoff:
  "nextRetryDelay previous lo hi jitter w = ((backoff, delay), w') \<Longrightarrow>
    backoff = nextBackoff previous lo hi"
  by (auto simp: nextRetryDelay_def Let_def split: prod.splits)

lemma retryRound_Inr:
  assumes "retryRound ctx operation config logger runtime (previous, w) = Inr (backoff, w4)"
  shows "\<exists>err w1 delay w2.
    operation ctx w = (Inl err, w1) \<and> ctx w1 = None \<and> registrationRetryable err \<and>
    nextRetryDelay previous (MinRetryBackoff config) (MaxRetryBackoff config) (rrJitter runtime) w1
      = ((backoff, delay), w2) \<and>
    rrSleep runtime ctx delay (logger (RetryWarning delay err) w2) = (None, w4)"
  using assms
  by (auto simp: retryRound_def Let_def split: prod.splits sum.splits option.splits if_splits)

lemma retryRound_Inl:
  assumes "retryRound ctx operation config logger runtime (previous, w) = Inl (r, w')"
  shows "(\<exists>a. r = Inr a \<and> operation ctx w = (Inr a, w')) \<or>
    (\<exists>err. operation ctx w = (Inl err, w') \<and> (\<exists>e. ctx w' = Some e \<and> r = Inl e)) \<or>
    (\<exists>err. operation ctx w = (Inl err, w') \<and> ctx w' = None \<and> \<not> registrationRetryable err \<and> r = Inl err) \<or>
    (\<exists>delay w3 e. rrSleep runtime ctx delay w3 = (Some e, w') \<and> r = Inl e)"
  using assms
  by (auto simp: retryRound_def Let_def split: prod.splits sum.splits option.splits if_splits)

section \<open>The backoff schedule\<close>

definition validBackoff :: "selfheal_config \<Rightarrow> bool" where
  "validBackoff config \<longleftrightarrow>
     0 < sint (MinRetryBackoff config) \<and> sint (MinRetryBackoff config) \<le> sint (MaxRetryBackoff config)"

lemma Validate_validBackoff: "Validate config = None \<Longrightarrow> validBackoff config"
  by (simp add: Validate_None_iff validBackoff_def)

text \<open>The backoff in force after \<open>n\<close> failed attempts, as an integer: doubling, up to the maximum.\<close>

definition schedule :: "selfheal_config \<Rightarrow> nat \<Rightarrow> int" where
  "schedule config n =
     (case n of 0 \<Rightarrow> 0
      | Suc k \<Rightarrow> min (sint (MaxRetryBackoff config)) (sint (MinRetryBackoff config) * 2 ^ k))"

lemma schedule_range:
  "validBackoff config \<Longrightarrow> 0 \<le> schedule config n \<and> schedule config n \<le> sint (MaxRetryBackoff config)"
  by (cases n) (auto simp: schedule_def validBackoff_def)

lemma schedule_Suc:
  assumes "validBackoff config"
  shows "schedule config (Suc n)
    = min (sint (MaxRetryBackoff config)) (max (sint (MinRetryBackoff config)) (2 * schedule config n))"
proof (cases n)
  case 0
  with assms show ?thesis by (simp add: schedule_def validBackoff_def)
next
  case (Suc k)
  define x where "x = sint (MinRetryBackoff config) * 2 ^ k"
  have "sint (MinRetryBackoff config) * 1 \<le> x"
    unfolding x_def using assms by (intro mult_left_mono) (auto simp: validBackoff_def)
  moreover have "schedule config (Suc n) = min (sint (MaxRetryBackoff config)) (2 * x)"
    "schedule config n = min (sint (MaxRetryBackoff config)) x"
    by (simp_all add: schedule_def Suc x_def)
  ultimately show ?thesis using assms by (auto simp: validBackoff_def)
qed

lemma sint_nextBackoff_schedule:
  assumes "validBackoff config" and "sint previous = schedule config n"
  shows "sint (nextBackoff previous (MinRetryBackoff config) (MaxRetryBackoff config))
    = schedule config (Suc n)"
proof -
  have "0 \<le> sint previous" "sint previous \<le> sint (MaxRetryBackoff config)"
    using schedule_range [OF assms(1), of n] assms(2) by simp_all
  with assms show ?thesis
    by (simp add: sint_nextBackoff schedule_Suc validBackoff_def)
qed

lemma retry_steps_schedule:
  assumes "validBackoff config"
    and "steps (retryRound ctx operation config logger runtime) n (0, w) = Some (previous, w')"
  shows "sint previous = schedule config n"
proof -
  have "steps (retryRound ctx operation config logger runtime) k (p, v) = Some (previous, w') \<Longrightarrow>
      sint p = schedule config m \<Longrightarrow> sint previous = schedule config (m + k)" for k p v m
  proof (induction k arbitrary: p v m)
    case (Suc k)
    obtain q u where rnd: "retryRound ctx operation config logger runtime (p, v) = Inr (q, u)"
      and rest: "steps (retryRound ctx operation config logger runtime) k (q, u) = Some (previous, w')"
      using Suc.prems(1) by (auto split: sum.splits)
    have "q = nextBackoff p (MinRetryBackoff config) (MaxRetryBackoff config)"
      using retryRound_Inr [OF rnd] by (auto dest: nextRetryDelay_backoff)
    then have "sint q = schedule config (Suc m)"
      using sint_nextBackoff_schedule [OF assms(1) Suc.prems(2)] by simp
    from Suc.IH [OF rest this] show ?case by simp
  qed simp
  from this [OF assms(2), of 0] show ?thesis by (simp add: schedule_def)
qed

section \<open>The delay of one round\<close>

lemma nextRetryDelay_bounds:
  assumes "0 < sint lo" and "sint lo \<le> sint hi"
    and "0 \<le> sint previous" and "sint previous \<le> sint hi"
    and "nextRetryDelay previous lo hi jitter w = ((backoff, delay), w')"
  shows "sint lo \<le> sint delay \<and> sint delay \<le> sint backoff \<and> sint backoff \<le> sint hi"
    and "10 * 2 ^ 50 * (sint backoff - sint delay) \<le> (2 ^ 50 + 1) * sint backoff"
proof -
  obtain j where "fst (jitter w) = j" by simp
  define cutoff where "cutoff = jitterCut backoff (clampJitter j)"
  have b: "backoff = nextBackoff previous lo hi" using assms(5) by (rule nextRetryDelay_backoff)
  have range: "sint lo \<le> sint backoff" "sint backoff \<le> sint hi"
    using nextBackoff_bounds [OF assms(1-4)] b by simp_all
  have d: "delay = durMin (durMax (backoff - cutoff) lo) hi"
    using assms(5) b \<open>fst (jitter w) = j\<close>
    by (auto simp: nextRetryDelay_def Let_def cutoff_def split: prod.splits)
  have j: "0 \<le> f64val (clampJitter j)" "f64val (clampJitter j) \<le> 1"
    using clampJitter_range by auto
  have pos: "0 \<le> sint backoff" using range assms by simp
  note c = sint_jitterCut [OF pos j, folded cutoff_def] and s = sint_jittered [OF pos j, folded cutoff_def]
  from d s have d': "sint delay = min (max (sint backoff - sint cutoff) (sint lo)) (sint hi)" by simp
  then show "sint lo \<le> sint delay \<and> sint delay \<le> sint backoff \<and> sint backoff \<le> sint hi"
    using c range assms by auto
  have "sint backoff - sint delay \<le> sint cutoff" using d' c range by auto
  then have "10 * 2 ^ 50 * (sint backoff - sint delay) \<le> 10 * 2 ^ 50 * sint cutoff"
    by (intro mult_left_mono) auto
  with c show "10 * 2 ^ 50 * (sint backoff - sint delay) \<le> (2 ^ 50 + 1) * sint backoff" by linarith
qed

end
