(* ===== verification/PikoClient.thy ===== *)
theory PikoClient
  imports GoError GoTime
begin

text \<open>
  \<open>internal/piko/client.go\<close>: the credentials of a tunnel, the quiet logger, one connection attempt
  and the test for rejected credentials. The Piko library (\<open>client.Upstream\<close>), the URL parser and
  the verbose logger's construction are parameters.
\<close>

record credentials =
  credURL :: string
  credJWT :: string
  credEndpointID :: string

record ('u, 'l) upstream =
  upURL :: 'u
  upToken :: string
  upMinReconnectBackoff :: duration
  upMaxReconnectBackoff :: duration
  upLogger :: 'l

section \<open>Loggers\<close>

text \<open>What the quiet logger writes for a message, whatever its level: three messages pass.\<close>

definition quietLog :: "string \<Rightarrow> string list" where
  "quietLog msg =
     (if msg = ''disconnected; reconnecting'' \<or> msg = ''connect failed; retrying'' \<or> msg = ''connected''
      then [msg] else [])"

datatype zap_level = DebugLevel | InfoLevel | WarnLevel | ErrorLevel

datatype 'z piko_logger = QuietLogger | ZapLogger 'z

definition NewLogger :: "(zap_level \<Rightarrow> go_error + 'z) \<Rightarrow> bool \<Rightarrow> go_error + 'z piko_logger" where
  "NewLogger build verbose =
     (if \<not> verbose then Inr QuietLogger else mapE ZapLogger (build DebugLevel))"

section \<open>Connecting\<close>

definition ListenAndForward ::
  "(string \<Rightarrow> go_error + 'u) \<Rightarrow>
   (('u, 'l) upstream \<Rightarrow> string \<Rightarrow> string \<Rightarrow> 'w \<Rightarrow> (go_error + 'f) \<times> 'w) \<Rightarrow>
   credentials \<Rightarrow> string \<Rightarrow> duration \<Rightarrow> duration \<Rightarrow> 'l \<Rightarrow> 'w \<Rightarrow> (go_error + 'f) \<times> 'w" where
  "ListenAndForward parse upstreamListen credentials targetAddr minB maxB logger w =
     (case parse (credURL credentials) of
        Inl err \<Rightarrow> (Inl (Errorf ''parse Piko URL'' err), w)
      | Inr endpoint \<Rightarrow>
          upstreamListen
            \<lparr>upURL = endpoint, upToken = credJWT credentials, upMinReconnectBackoff = minB,
             upMaxReconnectBackoff = maxB, upLogger = logger\<rparr>
            (credEndpointID credentials) targetAddr w)"

text \<open>\<open>AuthenticationFailure\<close> looks for a status in the text of the error; \<open>None\<close> is a nil error.\<close>

definition AuthenticationFailure :: "go_error option \<Rightarrow> bool" where
  "AuthenticationFailure err =
     (case err of None \<Rightarrow> False | Some e \<Rightarrow> containsStr (errorText e) ''401:'')"

lemma AuthenticationFailure_None [simp]: "\<not> AuthenticationFailure None"
  by (simp add: AuthenticationFailure_def)

text \<open>
  Wrapping an error puts a text, a colon and a space before its own: \<open>401:\<close> holds no space, so it is in
  one of the two parts.
\<close>

lemma AuthenticationFailure_wrap:
  "AuthenticationFailure (Some (Errorf msg e)) \<longleftrightarrow>
    containsStr (msg @ '': '') ''401:'' \<or> AuthenticationFailure (Some e)"
  using containsStr_space [of "CHR '' ''" "''401:''" "msg @ '':''" "errorText e"]
  by (simp add: AuthenticationFailure_def)

text \<open>A three-digit status in the text of an error.\<close>

lemma digitsNat_three:
  assumes "100 \<le> n" and "n \<le> 999"
  shows "digitsNat n = [char_of (48 + n div 100), char_of (48 + n div 10 mod 10), char_of (48 + n mod 10)]"
proof -
  have d: "n div 10 div 10 = n div 100" "\<not> n < 10" "\<not> n div 10 < 10" "n div 100 < 10"
    using assms by (simp_all add: div_mult2_eq [symmetric])
  have "digitsNat n = digitsNat (n div 10) @ [char_of (48 + n mod 10)]"
    using d(2) by (subst digitsNat.simps) simp
  also have "digitsNat (n div 10) = digitsNat (n div 100) @ [char_of (48 + n div 10 mod 10)]"
    using d(3) by (subst digitsNat.simps) (simp add: d(1))
  also have "digitsNat (n div 100) = [char_of (48 + n div 100)]"
    using d(4) by (subst digitsNat.simps) simp
  finally show ?thesis by simp
qed

lemma threeDigits_401:
  assumes "100 \<le> status" and "status \<le> 999"
  shows "containsStr (''connect: '' @ itoa status @ '': '' @ cause) ''401:'' \<longleftrightarrow>
    status = 401 \<or> containsStr cause ''401:''"
proof -
  define n where "n = nat status"
  define a b d where abd: "a = n div 100" "b = n div 10 mod 10" "d = n mod 10"
  have n: "status = int n" "100 \<le> n" "n \<le> 999" using assms by (simp_all add: n_def)
  have "n = 10 * (n div 10) + d" "n div 10 = 10 * (n div 10 div 10) + b" "n div 10 div 10 = a"
    unfolding abd by (simp, rule mult_div_mod_eq [symmetric], simp add: div_mult2_eq [symmetric])
  then have "n = 100 * a + 10 * b + d" by linarith
  moreover have bounds: "a < 10" "b < 10" "d < 10" using n by (simp_all add: abd)
  ultimately have sum: "n = 100 * a + 10 * b + d" "b < 10" "d < 10" by simp_all
  have "status = 401 \<longleftrightarrow> a = 4 \<and> b = 0 \<and> d = 1"
  proof
    assume "status = 401"
    with n(1) have "n = 401" by simp
    with sum have "a = 4" by linarith
    moreover from this sum \<open>n = 401\<close> have "b = 0" by linarith
    ultimately show "a = 4 \<and> b = 0 \<and> d = 1" using sum \<open>n = 401\<close> by linarith
  qed (use sum(1) n(1) in simp)
  moreover have "itoa status = [char_of (48 + a), char_of (48 + b), char_of (48 + d)]"
    using n digitsNat_three [of n] by (simp add: itoa_def abd)
  ultimately show ?thesis using bounds by (auto simp: char_of_eq)
qed

end
