(* ===== verification/SelfHealRecovery.thy ===== *)
theory SelfHealRecovery
  imports SelfHealRetry PikoClient
begin

text \<open>
  \<open>internal/selfheal/recovery.go\<close>, from line 165: keeping the tunnel open. \<open>run\<close> connects, waits for
  the tunnel to end, and on rejected credentials refreshes the JWT or registers the route again.
\<close>

definition credentialsFromRegistration :: "registration \<Rightarrow> go_error + credentials" where
  "credentialsFromRegistration registration =
     (case registration of
        None \<Rightarrow> Inl (ErrString ''route registration response is missing tunnel credentials'')
      | Some r \<Rightarrow>
          (case (tnURL (rpTunnel r), tnJWT (rpTunnel r), tnEndpoint (rpTunnel r)) of
             (Some url, Some jwt, Some endpoint) \<Rightarrow>
               if url = [] \<or> jwt = [] \<or> endpoint = []
               then Inl (ErrString ''route registration response contains empty tunnel credentials'')
               else Inr \<lparr>credURL = url, credJWT = jwt, credEndpointID = endpoint\<rparr>
           | _ \<Rightarrow> Inl (ErrString ''route registration response is missing tunnel credentials'')))"

section \<open>Waiting for the tunnel\<close>

text \<open>
  What the \<open>select\<close> of \<open>waitForForwarder\<close> sees: \<open>Wait\<close> returned, or the context is done. Which one,
  when both are ready, is the scheduler's choice, part of the world.
\<close>

datatype wait_event = WaitReturned "go_error option" | ContextDone

record ('w, 'f) forwarder_ops =
  foSelect :: "'w ctx \<Rightarrow> 'f \<Rightarrow> 'w \<Rightarrow> wait_event \<times> 'w"
  foClose :: "'f \<Rightarrow> 'w \<Rightarrow> 'w"

definition waitForForwarder ::
  "('w, 'f) forwarder_ops \<Rightarrow> 'w ctx \<Rightarrow> 'f \<Rightarrow> 'w \<Rightarrow> go_error option \<times> 'w" where
  "waitForForwarder ops ctx forwarder w =
     (case foSelect ops ctx forwarder w of
        (WaitReturned err, w1) \<Rightarrow>
          (case ctx w1 of
             Some ctxErr \<Rightarrow> (Some ctxErr, w1)
           | None \<Rightarrow>
               (case err of
                  None \<Rightarrow> (Some (ErrString ''piko forwarder stopped unexpectedly''), w1)
                | Some e \<Rightarrow> (Some e, w1)))
      | (ContextDone, w1) \<Rightarrow> (let w2 = foClose ops forwarder w1 in (ctx w2, w2)))"

section \<open>Rejected credentials\<close>

text \<open>\<open>registration.Tunnel.JWT = &jwt\<close>; a nil \<open>registration\<close> would be dereferenced.\<close>

definition setTunnelJWT :: "registration \<Rightarrow> string \<Rightarrow> go_error + registration" where
  "setTunnelJWT registration jwt =
     (case registration of
        None \<Rightarrow> Inl (GoPanic ''nil pointer dereference'')
      | Some r \<Rightarrow> Inr (Some (r\<lparr>rpTunnel := (rpTunnel r)\<lparr>tnJWT := Some jwt\<rparr>\<rparr>)))"

text \<open>
  The result carries the new registration and whether its JWT was refreshed. \<open>register\<close> is the
  caller's function, itself a retry loop, so it may not return.
\<close>

definition recoverRejectedCredentials ::
  "'w ctx \<Rightarrow> registration \<Rightarrow> credentials \<Rightarrow>
   ('w ctx \<Rightarrow> 'w \<Rightarrow> ((go_error + registration) \<times> 'w) option) \<Rightarrow>
   ('w ctx \<Rightarrow> string \<Rightarrow> 'w \<Rightarrow> (go_error + string) \<times> 'w) \<Rightarrow> bool \<Rightarrow>
   selfheal_config \<Rightarrow> 'w logger \<Rightarrow> 'w retry_runtime \<Rightarrow> 'w \<Rightarrow>
   ((go_error + registration \<times> bool) \<times> 'w) option" where
  "recoverRejectedCredentials ctx registration credentials register refresh reRegistered config logger runtime w =
     (let w = logger RejectedWarning w in
      case refreshJWTWithRetry ctx refresh (credJWT credentials) config logger runtime w of
        None \<Rightarrow> None
      | Some (Inr jwt, w1) \<Rightarrow> Some (mapE (\<lambda>r. (r, True)) (setTunnelJWT registration jwt), w1)
      | Some (Inl err, w1) \<Rightarrow>
          if asHttpResponseError err \<noteq> Some 401 then Some (Inl err, w1)
          else if reRegistered
          then Some (Inl (Errorf ''refresh Piko JWT after route re-registration'' err), w1)
          else
            (let w2 = logger UnauthorizedWarning w1 in
             case register ctx w2 of
               None \<Rightarrow> None
             | Some (Inl err', w3) \<Rightarrow> Some (Inl err', w3)
             | Some (Inr registration', w3) \<Rightarrow> Some (Inr (registration', False), w3)))"

section \<open>The connection loop\<close>

text \<open>The parameters of \<open>run\<close>, and the variables of its loop with the world.\<close>

record ('w, 'f) run_env =
  reCtx :: "'w ctx"
  reRegister :: "'w ctx \<Rightarrow> 'w \<Rightarrow> ((go_error + registration) \<times> 'w) option"
  reRefresh :: "'w ctx \<Rightarrow> string \<Rightarrow> 'w \<Rightarrow> (go_error + string) \<times> 'w"
  reListen :: "'w ctx \<Rightarrow> credentials \<Rightarrow> string \<Rightarrow> duration \<Rightarrow> duration \<Rightarrow> 'w \<Rightarrow> (go_error + 'f) \<times> 'w"
  reForwarder :: "('w, 'f) forwarder_ops"
  reTargetAddr :: string
  reConfig :: selfheal_config
  reLogger :: "'w logger"
  reOnFirstConnect :: "string \<Rightarrow> 'w \<Rightarrow> 'w"
  reRuntime :: "'w retry_runtime"

record 'w run_state =
  rsRegistration :: registration
  rsRotated :: bool
  rsReRegistered :: bool
  rsFirstConnection :: bool
  rsWorld :: 'w

text \<open>
  \<open>registration.URL\<close>; a nil \<open>registration\<close> would be dereferenced (\<open>run\<close> never gets there with one,
  since the credentials of the attempt came from it: lemma \<open>connect_no_panic\<close>).
\<close>

definition registrationURL :: "registration \<Rightarrow> go_error + string" where
  "registrationURL registration =
     (case registration of None \<Rightarrow> Inl (GoPanic ''nil pointer dereference'') | Some r \<Rightarrow> Inr (rpURL r))"

text \<open>
  \<open>connect env credentials s\<close> is lines 292 to 303: the attempt, the callback on the first success, and
  the wait for the tunnel's end. It returns the error in \<open>err\<close>, the state with its flags, and
  whether the attempt succeeded; or it panics.
\<close>

definition connect ::
  "('w, 'f) run_env \<Rightarrow> credentials \<Rightarrow> 'w run_state \<Rightarrow>
   (go_error \<times> 'w) + (go_error option \<times> 'w run_state \<times> bool)" where
  "connect env credentials s =
     (case reListen env (reCtx env) credentials (reTargetAddr env)
             (MinRetryBackoff (reConfig env)) (MaxRetryBackoff (reConfig env)) (rsWorld s) of
        (Inl err, w1) \<Rightarrow> Inr (Some err, s\<lparr>rsWorld := w1\<rparr>, False)
      | (Inr forwarder, w1) \<Rightarrow>
          (case (if rsFirstConnection s
                 then mapE (\<lambda>url. reOnFirstConnect env url w1) (registrationURL (rsRegistration s))
                 else Inr w1) of
             Inl panic \<Rightarrow> Inl (panic, w1)
           | Inr w2 \<Rightarrow>
               (let (err, w3) = waitForForwarder (reForwarder env) (reCtx env) forwarder w2
                in Inr (err,
                  s\<lparr>rsFirstConnection := False, rsRotated := False, rsReRegistered := False, rsWorld := w3\<rparr>,
                  True))))"

definition wrapPiko :: "string \<Rightarrow> go_error option \<Rightarrow> go_error" where
  "wrapPiko msg err =
     (case err of None \<Rightarrow> ErrString (msg @ '': %!w(<nil>)'') | Some e \<Rightarrow> Errorf msg e)"

text \<open>
  One round of the loop. \<open>Inl (Some (err, w))\<close> returns \<open>err\<close> (\<open>None\<close> for a nil error), \<open>Inl None\<close> is
  a round that never ends because a retry inside it never does.
\<close>

definition runRound ::
  "('w, 'f) run_env \<Rightarrow> 'w run_state \<Rightarrow> (go_error option \<times> 'w) option + 'w run_state" where
  "runRound env s =
     (case credentialsFromRegistration (rsRegistration s) of
        Inl err \<Rightarrow> Inl (Some (Some err, rsWorld s))
      | Inr credentials \<Rightarrow>
          (case connect env credentials s of
             Inl (panic, w1) \<Rightarrow> Inl (Some (Some panic, w1))
           | Inr (err, s1, didConnect) \<Rightarrow>
               (case reCtx env (rsWorld s1) of
                  Some ctxErr \<Rightarrow> Inl (Some (Some ctxErr, rsWorld s1))
                | None \<Rightarrow>
                    if \<not> AuthenticationFailure err
                    then Inl (Some (Some (wrapPiko ''connect to Piko'' err), rsWorld s1))
                    else if rsRotated s1
                    then Inl (Some (Some (wrapPiko ''connect to Piko with refreshed JWT'' err), rsWorld s1))
                    else
                      (case recoverRejectedCredentials (reCtx env) (rsRegistration s1) credentials
                              (reRegister env) (reRefresh env) (rsReRegistered s1) (reConfig env)
                              (reLogger env) (reRuntime env) (rsWorld s1) of
                         None \<Rightarrow> Inl None
                       | Some (Inl err', w2) \<Rightarrow> Inl (Some (Some err', w2))
                       | Some (Inr (registration, rotated), w2) \<Rightarrow>
                           Inr (s1\<lparr>rsRegistration := registration, rsRotated := rotated,
                                   rsReRegistered := \<not> rotated, rsWorld := w2\<rparr>)))))"

definition initRun :: "registration \<Rightarrow> 'w \<Rightarrow> 'w run_state" where
  "initRun initial w = \<lparr>rsRegistration = initial, rsRotated = False, rsReRegistered = False,
     rsFirstConnection = True, rsWorld = w\<rparr>"

definition run :: "('w, 'f) run_env \<Rightarrow> registration \<Rightarrow> 'w \<Rightarrow> (go_error option \<times> 'w) option" where
  "run env initial w =
     (case loop (runRound env) (initRun initial w) of None \<Rightarrow> None | Some r \<Rightarrow> r)"

text \<open>\<open>Run\<close> is \<open>run\<close> with the default runtime.\<close>

definition Run ::
  "('w ctx \<Rightarrow> duration \<Rightarrow> 'w \<Rightarrow> bool \<times> 'w) \<Rightarrow> ('w \<Rightarrow> f64 \<times> 'w) \<Rightarrow> ('w, 'f) run_env \<Rightarrow> registration \<Rightarrow>
   'w \<Rightarrow> (go_error option \<times> 'w) option" where
  "Run timerFirst randFloat64 env initial w =
     run (env\<lparr>reRuntime := defaultRetryRuntime timerFirst randFloat64\<rparr>) initial w"

end
