(* ===== verification/SelfHealProperties.thy ===== *)
theory SelfHealProperties
  imports SelfHealRecovery
begin

text \<open>
  What the retry loop and the connection loop of \<open>internal/selfheal\<close> guarantee: the backoff follows
  its schedule and never overflows, only transient failures are retried, and credential recovery
  follows an abstract protocol of three phases that allows at most three attempts in a row without
  a connection.
\<close>

section \<open>The retry loop\<close>

lemma retry_unfold:
  "retryRouteRegistry ctx operation config logger runtime w = Some r \<longleftrightarrow>
    (\<exists>n previous v. steps (retryRound ctx operation config logger runtime) n (0, w) = Some (previous, v) \<and>
       retryRound ctx operation config logger runtime (previous, v) = Inl r)"
  unfolding retryRouteRegistry_def
  using loop_Some_steps [of "retryRound ctx operation config logger runtime" "(0, w)" r]
  by (auto intro: loop_steps_return)

text \<open>The world after a round: after the request, or after request, jitter, log and sleep.\<close>

fun roundWorld :: "('r \<times> 'w) + ('s \<times> 'w) \<Rightarrow> 'w" where
  "roundWorld (Inl q) = snd q"
| "roundWorld (Inr s) = snd s"

lemma snd_nextRetryDelay: "snd (nextRetryDelay previous lo hi jitter w) = snd (jitter w)"
  by (simp add: nextRetryDelay_def Let_def split: prod.splits)

lemma retry_round_world:
  "roundWorld (retryRound ctx operation config logger runtime (previous, w)) = snd (operation ctx w) \<or>
   (\<exists>delay ev. roundWorld (retryRound ctx operation config logger runtime (previous, w))
      = snd (rrSleep runtime ctx delay (logger ev (snd (rrJitter runtime (snd (operation ctx w)))))))"
proof -
  obtain r w1 where op: "operation ctx w = (r, w1)" by (cases "operation ctx w")
  obtain backoff delay w2 where nd: "nextRetryDelay previous (MinRetryBackoff config)
      (MaxRetryBackoff config) (rrJitter runtime) w1 = ((backoff, delay), w2)"
    by (metis surj_pair)
  then have w2: "w2 = snd (rrJitter runtime w1)"
    using snd_nextRetryDelay by (metis snd_conv)
  show ?thesis
  proof (cases r)
    case (Inr a)
    with op show ?thesis by (simp add: retryRound_def)
  next
    case (Inl err)
    obtain e w4 where sl: "rrSleep runtime ctx delay (logger (RetryWarning delay err) w2) = (e, w4)"
      by (metis surj_pair)
    from op nd sl Inl have "retryRound ctx operation config logger runtime (previous, w) =
        (case ctx w1 of Some c \<Rightarrow> Inl (Inl c, w1)
         | None \<Rightarrow> if \<not> registrationRetryable err then Inl (Inl err, w1)
                   else case e of Some s \<Rightarrow> Inl (Inl s, w4) | None \<Rightarrow> Inr (backoff, w4))"
      by (simp add: retryRound_def split: option.splits)
    then have "roundWorld (retryRound ctx operation config logger runtime (previous, w)) = w1 \<or>
        roundWorld (retryRound ctx operation config logger runtime (previous, w)) = w4"
      by (simp split: option.splits)
    moreover have "w4 = snd (rrSleep runtime ctx delay (logger (RetryWarning delay err)
        (snd (rrJitter runtime w1))))" using sl w2 by simp
    ultimately show ?thesis using op by auto
  qed
qed

text \<open>Whatever every call keeps of the world, a retried request keeps.\<close>

lemma retry_invariant:
  assumes ret: "retryRouteRegistry ctx operation config logger runtime w = Some (r, w')" and "I w"
    and op: "\<And>w. I w \<Longrightarrow> I (snd (operation ctx w))"
    and ji: "\<And>w. I w \<Longrightarrow> I (snd (rrJitter runtime w))"
    and lo: "\<And>ev w. I w \<Longrightarrow> I (logger ev w)"
    and sl: "\<And>d w. I w \<Longrightarrow> I (snd (rrSleep runtime ctx d w))"
  shows "I w'"
proof -
  have round: "I (roundWorld (retryRound ctx operation config logger runtime s))" if "I (snd s)" for s
  proof -
    have "I (snd (operation ctx (snd s)))" using that by (rule op)
    moreover from this have
      "I (snd (rrSleep runtime ctx d (logger ev (snd (rrJitter runtime (snd (operation ctx (snd s))))))))"
      for d ev by (intro sl lo ji)
    ultimately show ?thesis
      using retry_round_world [of ctx operation config logger runtime "fst s" "snd s"] by auto
  qed
  have "I (snd (r, w'))"
  proof (rule loop_invariant [where I = "\<lambda>s. I (snd s)" and Q = "\<lambda>r. I (snd r)"])
    show "loop (retryRound ctx operation config logger runtime) (0, w) = Some (r, w')"
      using ret by (simp add: retryRouteRegistry_def)
    show "I (snd (0, w))" using \<open>I w\<close> by simp
  qed (metis round roundWorld.simps)+
  then show ?thesis by simp
qed

text \<open>A result is a result of the request; an error is permanent, the context's, or the sleep's.\<close>

lemma retry_result:
  assumes "retryRouteRegistry ctx operation config logger runtime w = Some (Inr a, w')"
  shows "\<exists>v. operation ctx v = (Inr a, w')"
proof -
  obtain previous v where "retryRound ctx operation config logger runtime (previous, v) = Inl (Inr a, w')"
    using assms unfolding retry_unfold by blast
  from retryRound_Inl [OF this] show ?thesis by auto
qed

lemma retry_error:
  assumes "retryRouteRegistry ctx operation config logger runtime w = Some (Inl e, w')"
  shows "(\<exists>v. operation ctx v = (Inl e, w') \<and> ctx w' = None \<and> \<not> registrationRetryable e) \<or>
    ctx w' = Some e \<or> (\<exists>d v. rrSleep runtime ctx d v = (Some e, w'))"
proof -
  obtain previous v where "retryRound ctx operation config logger runtime (previous, v) = Inl (Inl e, w')"
    using assms unfolding retry_unfold by blast
  from retryRound_Inl [OF this] show ?thesis by auto
qed

text \<open>The first attempt decides, unless it fails in a way worth retrying.\<close>

lemma retry_first_ok:
  "operation ctx w = (Inr a, w1) \<Longrightarrow>
    retryRouteRegistry ctx operation config logger runtime w = Some (Inr a, w1)"
  unfolding retryRouteRegistry_def by (rule loop_return) (simp add: retryRound_def)

lemma retry_first_permanent:
  "operation ctx w = (Inl err, w1) \<Longrightarrow> ctx w1 = None \<Longrightarrow> \<not> registrationRetryable err \<Longrightarrow>
    retryRouteRegistry ctx operation config logger runtime w = Some (Inl err, w1)"
  unfolding retryRouteRegistry_def by (rule loop_return) (simp add: retryRound_def)

lemma retry_first_cancelled:
  "operation ctx w = (Inl err, w1) \<Longrightarrow> ctx w1 = Some e \<Longrightarrow>
    retryRouteRegistry ctx operation config logger runtime w = Some (Inl e, w1)"
  unfolding retryRouteRegistry_def by (rule loop_return) (simp add: retryRound_def)

section \<open>Does it return?\<close>

text \<open>
  A request that keeps failing in a retryable way, under a context that is never done, is retried
  for ever. If sleeping uses up a finite budget (a deadline, a bounded number of failures), it
  returns.
\<close>

lemma retry_forever:
  assumes "I w"
    and "\<And>w. I w \<Longrightarrow> \<exists>err w1. operation ctx w = (Inl err, w1) \<and> ctx w1 = None \<and>
      registrationRetryable err \<and> I w1"
    and "\<And>w. I w \<Longrightarrow> I (snd (rrJitter runtime w))"
    and "\<And>ev w. I w \<Longrightarrow> I (logger ev w)"
    and "\<And>d w. I w \<Longrightarrow> fst (rrSleep runtime ctx d w) = None \<and> I (snd (rrSleep runtime ctx d w))"
  shows "retryRouteRegistry ctx operation config logger runtime w = None"
  unfolding retryRouteRegistry_def
proof (rule loop_diverges [where I = "\<lambda>s. I (snd s)"])
  fix s :: "duration \<times> 'a"
  assume "I (snd s)"
  then obtain err w1 where op: "operation ctx (snd s) = (Inl err, w1)" "ctx w1 = None"
      "registrationRetryable err" "I w1"
    using assms(2) by blast
  obtain backoff delay w2 where nd: "nextRetryDelay (fst s) (MinRetryBackoff config)
      (MaxRetryBackoff config) (rrJitter runtime) w1 = ((backoff, delay), w2)"
    by (metis surj_pair)
  have "I w2" using nd snd_nextRetryDelay assms(3) \<open>I w1\<close> by (metis snd_conv)
  then have "I (logger (RetryWarning delay err) w2)" by (rule assms(4))
  with assms(5) obtain w4 where "rrSleep runtime ctx delay (logger (RetryWarning delay err) w2) = (None, w4)"
      "I w4" by (metis prod.collapse)
  with op nd show "\<exists>s'. retryRound ctx operation config logger runtime s = Inr s' \<and> I (snd s')"
    by (cases s) (simp add: retryRound_def)
qed (use assms(1) in simp)

lemma retry_returns:
  fixes m :: "'w \<Rightarrow> nat"
  assumes "\<And>w. m (snd (operation ctx w)) \<le> m w"
    and "\<And>w. m (snd (rrJitter runtime w)) \<le> m w"
    and "\<And>ev w. m (logger ev w) \<le> m w"
    and "\<And>d w w'. rrSleep runtime ctx d w = (None, w') \<Longrightarrow> m w' < m w"
  shows "\<exists>r. retryRouteRegistry ctx operation config logger runtime w = Some r"
  unfolding retryRouteRegistry_def
proof (rule loop_terminates [where I = "\<lambda>_. True" and m = "\<lambda>s. m (snd s)"])
  fix s s' :: "duration \<times> 'w"
  assume "retryRound ctx operation config logger runtime s = Inr s'"
  then obtain err w1 delay w2 where op: "operation ctx (snd s) = (Inl err, w1)"
    and nd: "nextRetryDelay (fst s) (MinRetryBackoff config) (MaxRetryBackoff config)
      (rrJitter runtime) w1 = ((fst s', delay), w2)"
    and sl: "rrSleep runtime ctx delay (logger (RetryWarning delay err) w2) = (None, snd s')"
    using retryRound_Inr by (metis prod.collapse)
  have "m (snd s') < m (logger (RetryWarning delay err) w2)" using sl by (rule assms(4))
  also have "\<dots> \<le> m w2" by (rule assms(3))
  also have "\<dots> \<le> m w1" using assms(2) [of w1] nd snd_nextRetryDelay by (metis snd_conv)
  also have "\<dots> \<le> m (snd s)" using assms(1) [of "snd s"] op by simp
  finally show "True \<and> m (snd s') < m (snd s)" by simp
qed simp

section \<open>The protocol of credential recovery\<close>

text \<open>
  The two flags of \<open>run\<close> encode a phase: fresh credentials, a JWT that was just refreshed, a route
  that was just registered again. A round that goes on either refreshes (unless the last thing it
  did was to refresh) or registers again (only from fresh); a connection makes the phase fresh.
\<close>

datatype phase = Fresh | Rotated | ReRegistered

definition phaseOf :: "'w run_state \<Rightarrow> phase" where
  "phaseOf s = (if rsRotated s then Rotated else if rsReRegistered s then ReRegistered else Fresh)"

definition flagsOk :: "'w run_state \<Rightarrow> bool" where
  "flagsOk s \<longleftrightarrow> \<not> (rsRotated s \<and> rsReRegistered s)"

inductive credStep :: "bool \<Rightarrow> phase \<Rightarrow> phase \<Rightarrow> bool" where
  refreshed: "didConnect \<or> p \<noteq> Rotated \<Longrightarrow> credStep didConnect p Rotated"
| registered: "didConnect \<or> p = Fresh \<Longrightarrow> credStep didConnect p ReRegistered"

inductive_cases credStep_refreshedE: "credStep didConnect p Rotated"
inductive_cases credStep_registeredE: "credStep didConnect p ReRegistered"
inductive_simps credStep_Fresh [simp]: "credStep didConnect p Fresh"

fun phaseRank :: "phase \<Rightarrow> nat" where
  "phaseRank Fresh = 2"
| "phaseRank ReRegistered = 1"
| "phaseRank Rotated = 0"

lemma credStep_rank: "credStep didConnect p q \<Longrightarrow> \<not> didConnect \<Longrightarrow> phaseRank q < phaseRank p"
  by (induction rule: credStep.induct) (auto, (case_tac p; simp))

lemma credentials_registration:
  "credentialsFromRegistration registration = Inr c \<Longrightarrow> \<exists>r. registration = Some r"
  by (cases registration) (simp_all add: credentialsFromRegistration_def)

text \<open>The attempt of a round never panics.\<close>

lemma connect_no_panic:
  assumes "credentialsFromRegistration (rsRegistration s) = Inr c"
  obtains err s1 didConnect where "connect env credentials s = Inr (err, s1, didConnect)"
proof -
  obtain r where "rsRegistration s = Some r" using credentials_registration [OF assms] by blast
  then have "\<exists>x. connect env credentials s = Inr x"
    by (auto simp: connect_def registrationURL_def Let_def split: prod.splits sum.splits)
  then show thesis using that by (metis surj_pair)
qed

lemma connect_flags:
  "connect env credentials s = Inr (err, s1, didConnect) \<Longrightarrow>
    rsRegistration s1 = rsRegistration s \<and>
    (if didConnect then \<not> rsRotated s1 \<and> \<not> rsReRegistered s1 \<and> \<not> rsFirstConnection s1
     else rsRotated s1 = rsRotated s \<and> rsReRegistered s1 = rsReRegistered s \<and>
       rsFirstConnection s1 = rsFirstConnection s)"
  by (auto simp: connect_def Let_def split: prod.splits sum.splits if_splits)

lemma recover_Inr:
  assumes "recoverRejectedCredentials ctx registration credentials register refresh reRegistered
      config logger runtime w = Some (Inr (registration', rotated), w')"
  shows "(rotated \<and> (\<exists>jwt. refreshJWTWithRetry ctx refresh (credJWT credentials) config logger runtime
            (logger RejectedWarning w) = Some (Inr jwt, w') \<and> setTunnelJWT registration jwt = Inr registration'))
    \<or> (\<not> rotated \<and> \<not> reRegistered \<and> (\<exists>err w1.
          refreshJWTWithRetry ctx refresh (credJWT credentials) config logger runtime
            (logger RejectedWarning w) = Some (Inl err, w1) \<and> asHttpResponseError err = Some 401 \<and>
          register ctx (logger UnauthorizedWarning w1) = Some (Inr registration', w')))"
  using assms
  by (auto simp: recoverRejectedCredentials_def Let_def split: option.splits prod.splits sum.splits if_splits)

lemma runRound_credentials:
  "runRound env s = Inr s' \<Longrightarrow>
    \<exists>credentials. credentialsFromRegistration (rsRegistration s) = Inr credentials"
  by (cases "credentialsFromRegistration (rsRegistration s)") (simp_all add: runRound_def)

lemma runRound_Inr:
  assumes "runRound env s = Inr s'"
    and c: "credentialsFromRegistration (rsRegistration s) = Inr credentials"
    and co: "connect env credentials s = Inr (err, s1, didConnect)"
  shows "reCtx env (rsWorld s1) = None \<and> AuthenticationFailure err \<and> \<not> rsRotated s1 \<and>
    (\<exists>registration rotated w2.
      recoverRejectedCredentials (reCtx env) (rsRegistration s1) credentials (reRegister env)
        (reRefresh env) (rsReRegistered s1) (reConfig env) (reLogger env) (reRuntime env) (rsWorld s1)
        = Some (Inr (registration, rotated), w2) \<and>
      s' = s1\<lparr>rsRegistration := registration, rsRotated := rotated, rsReRegistered := \<not> rotated,
              rsWorld := w2\<rparr>)"
proof -
  have none: "reCtx env (rsWorld s1) = None"
    using assms by (simp add: runRound_def split: option.splits)
  have auth: "AuthenticationFailure err" and nrot: "\<not> rsRotated s1"
    using assms none by (simp_all add: runRound_def split: if_splits)
  let ?rec = "recoverRejectedCredentials (reCtx env) (rsRegistration s1) credentials (reRegister env)
     (reRefresh env) (rsReRegistered s1) (reConfig env) (reLogger env) (reRuntime env) (rsWorld s1)"
  have rnd: "(case ?rec of None \<Rightarrow> Inl None
      | Some (Inl err', w2) \<Rightarrow> Inl (Some (Some err', w2))
      | Some (Inr (registration, rotated), w2) \<Rightarrow>
          Inr (s1\<lparr>rsRegistration := registration, rsRotated := rotated,
                  rsReRegistered := \<not> rotated, rsWorld := w2\<rparr>)) = Inr s'"
    using assms none auth nrot by (simp add: runRound_def)
  then obtain x where x: "?rec = Some x" by (cases ?rec) simp_all
  obtain r w2 where rw: "x = (r, w2)" by (cases x)
  obtain q where q: "r = Inr q" using rnd x rw by (cases r) simp_all
  obtain registration rotated where "q = (registration, rotated)" by (cases q)
  with x rw q have "?rec = Some (Inr (registration, rotated), w2)" by simp
  with rnd none auth nrot show ?thesis by auto
qed

text \<open>Each round simulates a step of the protocol.\<close>

lemma runRound_simulates:
  assumes "runRound env s = Inr s'"
    and "credentialsFromRegistration (rsRegistration s) = Inr credentials"
    and "connect env credentials s = Inr (err, s1, didConnect)"
  shows "credStep didConnect (phaseOf s) (phaseOf s') \<and> flagsOk s'"
proof -
  obtain registration rotated w2 where nrot: "\<not> rsRotated s1"
    and rec: "recoverRejectedCredentials (reCtx env) (rsRegistration s1) credentials (reRegister env)
       (reRefresh env) (rsReRegistered s1) (reConfig env) (reLogger env) (reRuntime env) (rsWorld s1)
     = Some (Inr (registration, rotated), w2)"
    and s': "s' = s1\<lparr>rsRegistration := registration, rsRotated := rotated,
        rsReRegistered := \<not> rotated, rsWorld := w2\<rparr>"
    using runRound_Inr [OF assms] by blast
  have phase: "phaseOf s' = (if rotated then Rotated else ReRegistered)" "flagsOk s'"
    by (simp_all add: s' phaseOf_def flagsOk_def)
  note flags = connect_flags [OF assms(3)]
  show ?thesis
  proof (cases rotated)
    case True
    with flags nrot phase show ?thesis
      by (auto simp: phaseOf_def intro!: credStep.refreshed split: if_splits)
  next
    case False
    then have "\<not> rsReRegistered s1" using recover_Inr [OF rec] by blast
    with flags nrot phase False show ?thesis
      by (auto simp: phaseOf_def intro!: credStep.registered split: if_splits)
  qed
qed

section \<open>Whole runs\<close>

text \<open>A path of the protocol, with the connections it was given.\<close>

fun credPath :: "bool list \<Rightarrow> phase \<Rightarrow> phase \<Rightarrow> bool" where
  "credPath [] p q = (p = q)"
| "credPath (c # cs) p q = (\<exists>m. credStep c p m \<and> credPath cs m q)"

lemma credPath_snoc: "credPath (cs @ [c]) p q \<longleftrightarrow> (\<exists>m. credPath cs p m \<and> credStep c m q)"
  by (induction cs arbitrary: p) auto

lemma credPath_append: "credPath (xs @ ys) p q \<longleftrightarrow> (\<exists>m. credPath xs p m \<and> credPath ys m q)"
  by (induction xs arbitrary: p) auto

lemma credPath_unconnected: "credPath cs p q \<Longrightarrow> \<forall>c \<in> set cs. \<not> c \<Longrightarrow> length cs + phaseRank q \<le> phaseRank p"
proof (induction cs arbitrary: p)
  case (Cons c cs)
  then obtain m where "credStep c p m" "credPath cs m q" by auto
  with Cons credStep_rank [of c p m] show ?case by fastforce
qed simp

lemma phaseRank_le: "phaseRank p \<le> 2"
  by (cases p) auto

text \<open>Two rounds in a row can go on without a connection, not three.\<close>

lemma credPath_attempts: "credPath (xs @ replicate n False @ ys) p q \<Longrightarrow> n \<le> 2"
proof -
  assume "credPath (xs @ replicate n False @ ys) p q"
  then obtain a b where "credPath (replicate n False) a b" by (auto simp: credPath_append)
  then have "length (replicate n False) + phaseRank b \<le> phaseRank a"
    by (rule credPath_unconnected) simp
  with phaseRank_le [of a] show ?thesis by simp
qed

lemma phaseOf_initRun [simp]: "phaseOf (initRun initial w) = Fresh"
  by (simp add: phaseOf_def initRun_def)

lemma steps_Suc_snoc:
  "steps body (Suc n) s = Some s'' \<Longrightarrow> \<exists>s'. steps body n s = Some s' \<and> body s' = Inr s''"
proof (induction n arbitrary: s)
  case 0
  then show ?case by (auto split: sum.splits)
next
  case (Suc n)
  then obtain t where "body s = Inr t" "steps body (Suc n) t = Some s''"
    by (auto split: sum.splits simp del: steps.simps simp add: steps.simps(2) [of body "Suc n"])
  with Suc.IH [of t] show ?case by auto
qed

text \<open>Whether the attempt of a round connects, and the list of this for \<open>n\<close> rounds.\<close>

definition roundConnects :: "('w, 'f) run_env \<Rightarrow> 'w run_state \<Rightarrow> bool" where
  "roundConnects env s =
     (case credentialsFromRegistration (rsRegistration s) of
        Inl _ \<Rightarrow> False | Inr credentials \<Rightarrow>
          (case connect env credentials s of Inl _ \<Rightarrow> False | Inr (_, _, didConnect) \<Rightarrow> didConnect))"

fun roundsConnected :: "('w, 'f) run_env \<Rightarrow> nat \<Rightarrow> 'w run_state \<Rightarrow> bool list" where
  "roundsConnected env 0 s = []"
| "roundsConnected env (Suc n) s =
     roundConnects env s # (case runRound env s of Inl _ \<Rightarrow> [] | Inr s' \<Rightarrow> roundsConnected env n s')"

lemma runRound_credStep:
  assumes "runRound env s = Inr s'"
  shows "credStep (roundConnects env s) (phaseOf s) (phaseOf s') \<and> flagsOk s'"
proof -
  obtain credentials where c: "credentialsFromRegistration (rsRegistration s) = Inr credentials"
    using runRound_credentials [OF assms] by blast
  obtain err s1 didConnect where co: "connect env credentials s = Inr (err, s1, didConnect)"
    using connect_no_panic [OF c] by blast
  from runRound_simulates [OF assms c co] c co show ?thesis by (simp add: roundConnects_def)
qed

lemma steps_protocol:
  "steps (runRound env) n s = Some s' \<Longrightarrow>
    length (roundsConnected env n s) = n \<and> credPath (roundsConnected env n s) (phaseOf s) (phaseOf s')"
proof (induction n arbitrary: s)
  case (Suc n)
  then obtain t where rnd: "runRound env s = Inr t" and t: "steps (runRound env) n t = Some s'"
    by (auto split: sum.splits)
  with Suc.IH [OF t] runRound_credStep [OF rnd] show ?case by auto
qed simp

lemma steps_flagsOk: "steps (runRound env) n s = Some s' \<Longrightarrow> flagsOk s \<Longrightarrow> flagsOk s'"
  by (rule steps_invariant [where I = flagsOk]) (auto dest: runRound_credStep)

lemma flagsOk_initRun [simp]: "flagsOk (initRun initial w)"
  by (simp add: flagsOk_def initRun_def)

lemma run_Some:
  assumes "run env initial w = Some r"
  shows "\<exists>n s. steps (runRound env) n (initRun initial w) = Some s \<and> runRound env s = Inl (Some r)"
proof -
  have "loop (runRound env) (initRun initial w) = Some (Some r)"
    using assms by (simp add: run_def split: option.splits)
  then show ?thesis by (rule loop_Some_steps)
qed

text \<open>
  The possible causes of the error of a run, in the state of its last round. Recovery fails with the
  error of a refresh, marked when it was refused right after a registration, or with the error of a
  registration; the nil registration that \<open>setTunnelJWT\<close> guards against does not get there.
\<close>

definition recoveryFails :: "('w, 'f) run_env \<Rightarrow> go_error \<Rightarrow> 'w \<Rightarrow> bool" where
  "recoveryFails env e w' \<longleftrightarrow>
     (\<exists>jwt v. refreshJWTWithRetry (reCtx env) (reRefresh env) jwt (reConfig env) (reLogger env)
        (reRuntime env) v = Some (Inl e, w') \<and> asHttpResponseError e \<noteq> Some 401) \<or>
     (\<exists>jwt v err. refreshJWTWithRetry (reCtx env) (reRefresh env) jwt (reConfig env) (reLogger env)
        (reRuntime env) v = Some (Inl err, w') \<and> asHttpResponseError err = Some 401 \<and>
        e = Errorf ''refresh Piko JWT after route re-registration'' err) \<or>
     (\<exists>v. reRegister env (reCtx env) v = Some (Inl e, w'))"

lemma recover_Inl:
  assumes "recoverRejectedCredentials (reCtx env) registration credentials (reRegister env) (reRefresh env)
      reRegistered (reConfig env) (reLogger env) (reRuntime env) w = Some (Inl e, w')"
    and "registration \<noteq> None"
  shows "recoveryFails env e w'"
proof -
  let ?refresh = "refreshJWTWithRetry (reCtx env) (reRefresh env) (credJWT credentials) (reConfig env)
    (reLogger env) (reRuntime env) (reLogger env RejectedWarning w)"
  obtain r w1 where refresh: "?refresh = Some (r, w1)"
    using assms(1) by (cases ?refresh) (auto simp: recoverRejectedCredentials_def)
  show ?thesis
  proof (cases r)
    case (Inr jwt)
    with refresh assms show ?thesis
      by (auto simp: recoverRejectedCredentials_def setTunnelJWT_def split: option.splits)
  next
    case (Inl err)
    with refresh assms(1) have
      "(asHttpResponseError err \<noteq> Some 401 \<and> e = err \<and> w' = w1) \<or>
       (asHttpResponseError err = Some 401 \<and> w' = w1 \<and>
         e = Errorf ''refresh Piko JWT after route re-registration'' err) \<or>
       (\<exists>v. reRegister env (reCtx env) v = Some (Inl e, w'))"
      by (auto simp: recoverRejectedCredentials_def split: if_splits option.splits prod.splits sum.splits)
    with refresh Inl show ?thesis unfolding recoveryFails_def by blast
  qed
qed

definition roundFails :: "('w, 'f) run_env \<Rightarrow> 'w run_state \<Rightarrow> go_error \<Rightarrow> 'w \<Rightarrow> bool" where
  "roundFails env s e w' \<longleftrightarrow>
     credentialsFromRegistration (rsRegistration s) = Inl e \<or>
     reCtx env w' = Some e \<or>
     (\<exists>cause. \<not> AuthenticationFailure cause \<and> e = wrapPiko ''connect to Piko'' cause) \<or>
     (\<exists>cause. AuthenticationFailure cause \<and> rsRotated s \<and>
        e = wrapPiko ''connect to Piko with refreshed JWT'' cause) \<or>
     recoveryFails env e w'"

lemma runRound_fails:
  assumes "runRound env s = Inl (Some (r, w'))"
  shows "\<exists>e. r = Some e \<and> roundFails env s e w'"
proof (cases "credentialsFromRegistration (rsRegistration s)")
  case (Inl e)
  with assms show ?thesis by (auto simp: runRound_def roundFails_def)
next
  case (Inr credentials)
  obtain err s1 didConnect where co: "connect env credentials s = Inr (err, s1, didConnect)"
    using connect_no_panic [OF Inr] by blast
  show ?thesis
  proof (cases "reCtx env (rsWorld s1)")
    case (Some e)
    with assms Inr co have "r = Some e" "w' = rsWorld s1" by (simp_all add: runRound_def)
    with Some show ?thesis by (simp add: roundFails_def)
  next
    case None
    show ?thesis
    proof (cases "AuthenticationFailure err")
      case False
      with None assms Inr co show ?thesis by (auto simp: runRound_def roundFails_def)
    next
      case auth: True
      show ?thesis
      proof (cases "rsRotated s1")
        case True
        then have "rsRotated s" using connect_flags [OF co] by (auto split: if_splits)
        with True auth None assms Inr co show ?thesis by (auto simp: runRound_def roundFails_def)
      next
        case False
        let ?rec = "recoverRejectedCredentials (reCtx env) (rsRegistration s1) credentials
          (reRegister env) (reRefresh env) (rsReRegistered s1) (reConfig env) (reLogger env)
          (reRuntime env) (rsWorld s1)"
        obtain e where rec: "?rec = Some (Inl e, w')" and "r = Some e"
          using False auth None assms Inr co
          by (simp add: runRound_def split: option.splits prod.splits sum.splits)
        moreover have "rsRegistration s1 \<noteq> None"
          using connect_flags [OF co] Inr
          by (cases "rsRegistration s") (auto simp: credentialsFromRegistration_def)
        with rec have "recoveryFails env e w'" by (rule recover_Inl)
        ultimately show ?thesis unfolding roundFails_def by blast
      qed
    qed
  qed
qed

text \<open>A round only hangs inside a refresh or a registration.\<close>

lemma recover_returns:
  assumes "refreshJWTWithRetry ctx refresh (credJWT credentials) config logger runtime
      (logger RejectedWarning w) \<noteq> None"
    and "\<And>w. register ctx w \<noteq> None"
  shows "recoverRejectedCredentials ctx registration credentials register refresh reRegistered
    config logger runtime w \<noteq> None"
  using assms(1)
  by (auto simp: recoverRejectedCredentials_def Let_def assms(2) simp del: not_None_eq
      split: option.splits prod.splits sum.splits)

lemma runRound_returns:
  assumes "runRound env s = Inl r"
    and "\<And>jwt w. refreshJWTWithRetry (reCtx env) (reRefresh env) jwt (reConfig env) (reLogger env)
        (reRuntime env) w \<noteq> None"
    and "\<And>w. reRegister env (reCtx env) w \<noteq> None"
  shows "\<exists>q. r = Some q"
proof -
  have rec: "recoverRejectedCredentials (reCtx env) registration credentials (reRegister env)
      (reRefresh env) reRegistered (reConfig env) (reLogger env) (reRuntime env) w \<noteq> None"
    for registration credentials reRegistered w
    using assms(2,3) by (rule recover_returns)
  show ?thesis
    using assms(1)
    by (auto simp: runRound_def Let_def rec split: option.splits prod.splits sum.splits if_splits)
qed

section \<open>Where credentials come from\<close>

lemma credentialsFromRegistration_Inr:
  "credentialsFromRegistration registration = Inr c \<longleftrightarrow>
    (\<exists>r. registration = Some r \<and> tnURL (rpTunnel r) = Some (credURL c) \<and>
      tnJWT (rpTunnel r) = Some (credJWT c) \<and> tnEndpoint (rpTunnel r) = Some (credEndpointID c) \<and>
      credURL c \<noteq> [] \<and> credJWT c \<noteq> [] \<and> credEndpointID c \<noteq> [])"
  by (cases c) (auto simp: credentialsFromRegistration_def split: option.splits)

text \<open>A refreshed registration carries the old credentials with the new JWT.\<close>

lemma credentials_setTunnelJWT:
  assumes "credentialsFromRegistration registration = Inr c"
    and "setTunnelJWT registration jwt = Inr registration'" and "jwt \<noteq> []"
  shows "credentialsFromRegistration registration' = Inr (c\<lparr>credJWT := jwt\<rparr>)"
  using assms by (auto simp: credentialsFromRegistration_Inr setTunnelJWT_def)

lemma runRound_recovers:
  assumes "runRound env s = Inr s'"
    and "credentialsFromRegistration (rsRegistration s) = Inr c"
  shows "rsReRegistered s' \<longleftrightarrow> \<not> rsRotated s'"
    and "rsRotated s' \<Longrightarrow> \<exists>jwt v. setTunnelJWT (rsRegistration s) jwt = Inr (rsRegistration s') \<and>
      refreshJWTWithRetry (reCtx env) (reRefresh env) (credJWT c) (reConfig env) (reLogger env)
        (reRuntime env) v = Some (Inr jwt, rsWorld s')"
    and "rsReRegistered s' \<Longrightarrow> \<exists>v err u u'.
      refreshJWTWithRetry (reCtx env) (reRefresh env) (credJWT c) (reConfig env) (reLogger env)
        (reRuntime env) v = Some (Inl err, u) \<and> asHttpResponseError err = Some 401 \<and>
      reRegister env (reCtx env) u' = Some (Inr (rsRegistration s'), rsWorld s')"
proof -
  obtain err s1 didConnect where co: "connect env c s = Inr (err, s1, didConnect)"
    using connect_no_panic [OF assms(2)] by blast
  obtain registration rotated w2 where
    rec: "recoverRejectedCredentials (reCtx env) (rsRegistration s1) c (reRegister env)
       (reRefresh env) (rsReRegistered s1) (reConfig env) (reLogger env) (reRuntime env) (rsWorld s1)
     = Some (Inr (registration, rotated), w2)"
    and s': "s' = s1\<lparr>rsRegistration := registration, rsRotated := rotated,
        rsReRegistered := \<not> rotated, rsWorld := w2\<rparr>"
    using runRound_Inr [OF assms co] by blast
  have reg: "rsRegistration s1 = rsRegistration s" using connect_flags [OF co] by simp
  show "rsReRegistered s' \<longleftrightarrow> \<not> rsRotated s'" by (simp add: s')
  show "rsRotated s' \<Longrightarrow> \<exists>jwt v. setTunnelJWT (rsRegistration s) jwt = Inr (rsRegistration s') \<and>
      refreshJWTWithRetry (reCtx env) (reRefresh env) (credJWT c) (reConfig env) (reLogger env)
        (reRuntime env) v = Some (Inr jwt, rsWorld s')"
    using recover_Inr [OF rec] reg by (auto simp: s')
  show "rsReRegistered s' \<Longrightarrow> \<exists>v err u u'.
      refreshJWTWithRetry (reCtx env) (reRefresh env) (credJWT c) (reConfig env) (reLogger env)
        (reRuntime env) v = Some (Inl err, u) \<and> asHttpResponseError err = Some 401 \<and>
      reRegister env (reCtx env) u' = Some (Inr (rsRegistration s'), rsWorld s')"
    using recover_Inr [OF rec] by (auto simp: s')
qed

lemma refreshJWT_value:
  assumes "refreshJWTWithRetry ctx refresh jwt config logger runtime w = Some (Inr jwt', w')"
  shows "\<exists>v. refresh ctx jwt v = (Inr jwt', w')"
  using assms retry_result [of ctx "\<lambda>ctx. refresh ctx jwt" config logger runtime w jwt' w']
  by (auto simp: refreshJWTWithRetry_def)

section \<open>The first connection\<close>

text \<open>
  \<open>callsKeep env f\<close>: no call of the run but the first-connection callback changes the observation \<open>f\<close>
  of the world.
\<close>

definition callsKeep :: "('w, 'f) run_env \<Rightarrow> ('w \<Rightarrow> nat) \<Rightarrow> bool" where
  "callsKeep env f \<longleftrightarrow>
     (\<forall>c cr t a b w. f (snd (reListen env c cr t a b w)) = f w) \<and>
     (\<forall>c fw w. f (snd (foSelect (reForwarder env) c fw w)) = f w) \<and>
     (\<forall>fw w. f (foClose (reForwarder env) fw w) = f w) \<and>
     (\<forall>ev w. f (reLogger env ev w) = f w) \<and>
     (\<forall>w. f (snd (rrJitter (reRuntime env) w)) = f w) \<and>
     (\<forall>c d w. f (snd (rrSleep (reRuntime env) c d w)) = f w) \<and>
     (\<forall>c j w. f (snd (reRefresh env c j w)) = f w) \<and>
     (\<forall>c w r w'. reRegister env c w = Some (r, w') \<longrightarrow> f w' = f w)"

text \<open>Under it, the observation tells whether the callback has run.\<close>

lemma refreshJWT_keeps:
  assumes "callsKeep env f"
    and "refreshJWTWithRetry (reCtx env) (reRefresh env) jwt (reConfig env) (reLogger env)
      (reRuntime env) w = Some (r, w')"
  shows "f w' = f w"
proof -
  obtain r0 where "retryRouteRegistry (reCtx env) (\<lambda>ctx. reRefresh env ctx jwt) (reConfig env)
      (reLogger env) (reRuntime env) w = Some (r0, w')"
    using assms(2) by (auto simp: refreshJWTWithRetry_def elim!: wrapError.elims)
  then show ?thesis
    by (rule retry_invariant [where I = "\<lambda>v. f v = f w"]) (use assms(1) in \<open>simp_all add: callsKeep_def\<close>)
qed

lemma recover_keeps:
  assumes keep: "callsKeep env f"
    and "recoverRejectedCredentials (reCtx env) registration credentials (reRegister env) (reRefresh env)
      reRegistered (reConfig env) (reLogger env) (reRuntime env) w = Some (r, w')"
  shows "f w' = f w"
proof -
  let ?w = "reLogger env RejectedWarning w"
  have log: "f (reLogger env ev v) = f v" for ev v using keep by (simp add: callsKeep_def)
  obtain q w1 where refresh: "refreshJWTWithRetry (reCtx env) (reRefresh env) (credJWT credentials)
      (reConfig env) (reLogger env) (reRuntime env) ?w = Some (q, w1)"
    using assms(2) by (auto simp: recoverRejectedCredentials_def Let_def split: option.splits)
  have w1: "f w1 = f w" using refreshJWT_keeps [OF keep refresh] log by simp
  show ?thesis
  proof (cases "w' = w1")
    case False
    with assms(2) refresh obtain r' where "reRegister env (reCtx env) (reLogger env UnauthorizedWarning w1)
        = Some (r', w')"
      by (auto simp: recoverRejectedCredentials_def Let_def split: option.splits prod.splits
          sum.splits if_splits)
    with keep have "f w' = f (reLogger env UnauthorizedWarning w1)"
      unfolding callsKeep_def by blast
    with log w1 show ?thesis by simp
  qed (simp add: w1)
qed

lemma connect_counts:
  assumes keep: "callsKeep env f" and cb: "\<And>url w. f (reOnFirstConnect env url w) = Suc (f w)"
    and "connect env credentials s = Inr (err, s1, didConnect)"
  shows "f (rsWorld s1) = f (rsWorld s) + (if didConnect \<and> rsFirstConnection s then 1 else 0)"
proof -
  obtain r w1 where listen: "reListen env (reCtx env) credentials (reTargetAddr env)
      (MinRetryBackoff (reConfig env)) (MaxRetryBackoff (reConfig env)) (rsWorld s) = (r, w1)"
    by (metis surj_pair)
  have w1: "f w1 = f (rsWorld s)" using keep listen unfolding callsKeep_def by (metis snd_conv)
  have wait: "f (snd (waitForForwarder (reForwarder env) (reCtx env) fw v)) = f v" for fw v
  proof -
    obtain e v1 where sel: "foSelect (reForwarder env) (reCtx env) fw v = (e, v1)" by (metis surj_pair)
    then have "f v1 = f v" using keep unfolding callsKeep_def by (metis snd_conv)
    moreover have "f (foClose (reForwarder env) fw v1) = f v1" using keep by (simp add: callsKeep_def)
    ultimately show ?thesis
      using sel by (auto simp: waitForForwarder_def Let_def split: wait_event.splits option.splits)
  qed
  show ?thesis
  proof (cases r)
    case (Inl e)
    with listen assms(3) w1 show ?thesis by (auto simp: connect_def)
  next
    case (Inr fw)
    obtain w2 where w2: "(if rsFirstConnection s
        then mapE (\<lambda>url. reOnFirstConnect env url w1) (registrationURL (rsRegistration s)) else Inr w1) = Inr w2"
      and s1: "rsWorld s1 = snd (waitForForwarder (reForwarder env) (reCtx env) fw w2)" "didConnect"
      using listen Inr assms(3)
      by (auto simp: connect_def Let_def split: prod.splits sum.splits)
    have "f w2 = f w1 + (if rsFirstConnection s then 1 else 0)"
      using w2 cb by (cases "registrationURL (rsRegistration s)") (auto split: if_splits)
    with s1 wait [of fw w2] w1 show ?thesis by simp
  qed
qed

lemma runRound_counts:
  assumes keep: "callsKeep env f" and cb: "\<And>url w. f (reOnFirstConnect env url w) = Suc (f w)"
    and round: "runRound env s = Inr s'"
  shows "f (rsWorld s') = f (rsWorld s) + (if roundConnects env s \<and> rsFirstConnection s then 1 else 0) \<and>
    rsFirstConnection s' = (rsFirstConnection s \<and> \<not> roundConnects env s)"
proof -
  obtain c where c: "credentialsFromRegistration (rsRegistration s) = Inr c"
    using runRound_credentials [OF round] by blast
  obtain err s1 didConnect where co: "connect env c s = Inr (err, s1, didConnect)"
    using connect_no_panic [OF c] by blast
  obtain registration rotated w2 where
    rec: "recoverRejectedCredentials (reCtx env) (rsRegistration s1) c (reRegister env)
       (reRefresh env) (rsReRegistered s1) (reConfig env) (reLogger env) (reRuntime env) (rsWorld s1)
     = Some (Inr (registration, rotated), w2)"
    and s': "s' = s1\<lparr>rsRegistration := registration, rsRotated := rotated,
        rsReRegistered := \<not> rotated, rsWorld := w2\<rparr>"
    using runRound_Inr [OF round c co] by blast
  have "roundConnects env s = didConnect" by (simp add: roundConnects_def c co)
  with connect_counts [OF keep cb co] recover_keeps [OF keep rec] connect_flags [OF co] s'
  show ?thesis by (auto split: if_splits)
qed

lemma steps_count:
  assumes keep: "callsKeep env f" and cb: "\<And>url w. f (reOnFirstConnect env url w) = Suc (f w)"
    and "steps (runRound env) n s = Some s'"
  shows "f (rsWorld s') = f (rsWorld s) + (if True \<in> set (roundsConnected env n s) \<and> rsFirstConnection s
      then 1 else 0) \<and>
    rsFirstConnection s' = (rsFirstConnection s \<and> True \<notin> set (roundsConnected env n s))"
  using assms(3)
proof (induction n arbitrary: s)
  case (Suc n)
  then obtain t where "runRound env s = Inr t" "steps (runRound env) n t = Some s'"
    by (auto split: sum.splits)
  with Suc.IH [of t] runRound_counts [OF keep cb, of s t] show ?case by auto
qed simp

lemma runRound_return_counts:
  assumes keep: "callsKeep env f" and cb: "\<And>url w. f (reOnFirstConnect env url w) = Suc (f w)"
    and round: "runRound env s = Inl (Some (r, w'))"
  shows "f w' = f (rsWorld s) + (if roundConnects env s \<and> rsFirstConnection s then 1 else 0)"
proof (cases "credentialsFromRegistration (rsRegistration s)")
  case (Inl e)
  with round show ?thesis by (simp add: runRound_def roundConnects_def)
next
  case (Inr c)
  obtain err s1 didConnect where co: "connect env c s = Inr (err, s1, didConnect)"
    using connect_no_panic [OF Inr] by blast
  have connects: "roundConnects env s = didConnect" by (simp add: roundConnects_def Inr co)
  have "w' = rsWorld s1 \<or> (\<exists>q. recoverRejectedCredentials (reCtx env) (rsRegistration s1) c
      (reRegister env) (reRefresh env) (rsReRegistered s1) (reConfig env) (reLogger env)
      (reRuntime env) (rsWorld s1) = Some (q, w'))"
    using round Inr co
    by (auto simp: runRound_def split: option.splits if_splits prod.splits sum.splits)
  then have "f w' = f (rsWorld s1)" using recover_keeps [OF keep] by blast
  with connect_counts [OF keep cb co] connects show ?thesis by simp
qed

lemma roundsConnected_snoc:
  "steps (runRound env) n s = Some s' \<Longrightarrow>
    roundsConnected env (Suc n) s = roundsConnected env n s @ [roundConnects env s']"
proof (induction n arbitrary: s)
  case 0
  then show ?case by (cases "runRound env s") auto
next
  case (Suc n)
  then obtain t where t: "runRound env s = Inr t" "steps (runRound env) n t = Some s'"
    by (auto split: sum.splits)
  with Suc.IH have "roundsConnected env (Suc n) t = roundsConnected env n t @ [roundConnects env s']"
    by blast
  with t show ?case by (simp del: roundsConnected.simps add: roundsConnected.simps(2))
qed

end
