(* ===== verification/SelfHealTheorems.thy ===== *)
theory SelfHealTheorems
  imports SelfHealProperties
begin

text \<open>
  The properties of \<open>internal/selfheal\<close>, each with a run of the model on a small concrete world. In
  these worlds the world itself is a number (of calls made, say), the context is never done, the
  jitter is 0 and sleeping succeeds.
\<close>

section \<open>Concrete worlds\<close>

definition sampleConfig :: selfheal_config where
  "sampleConfig = \<lparr>MinRetryBackoff = second, MaxRetryBackoff = 4 * second\<rparr>"

definition sampleRuntime :: "'w retry_runtime" where
  "sampleRuntime = \<lparr>rrSleep = (\<lambda>ctx d w. (None, w)), rrJitter = (\<lambda>w. (f64zero, w))\<rparr>"

definition sampleRegistration :: registration where
  "sampleRegistration = Some \<lparr>rpURL = ''https://route'', rpAirlock = zeroAirlock,
     rpTunnel = \<lparr>tnURL = Some ''https://piko'', tnJWT = Some ''old'', tnEndpoint = Some ''one''\<rparr>,
     rpEndpoint = None, rpJWT = None\<rparr>"

text \<open>Every connection attempt is rejected and counted; a refresh succeeds.\<close>

definition rejectingEnv :: "(nat, unit) run_env" where
  "rejectingEnv =
     \<lparr>reCtx = (\<lambda>_. None),
      reRegister = (\<lambda>ctx w. Some (Inr sampleRegistration, w)),
      reRefresh = (\<lambda>ctx jwt w. (Inr ''new'', w)),
      reListen = (\<lambda>ctx c t a b w. (Inl (ErrString ''401: unauthorized''), Suc w)),
      reForwarder = \<lparr>foSelect = (\<lambda>ctx f w. (ContextDone, w)), foClose = (\<lambda>f w. w)\<rparr>,
      reTargetAddr = ''localhost:1'',
      reConfig = sampleConfig,
      reLogger = (\<lambda>ev w. w),
      reOnFirstConnect = (\<lambda>url w. w),
      reRuntime = sampleRuntime\<rparr>"

text \<open>The first connection succeeds and then ends; the number counts the first-connect callbacks.\<close>

definition connectingEnv :: "(nat, unit) run_env" where
  "connectingEnv = rejectingEnv
     \<lparr>reListen := (\<lambda>ctx c t a b w. (Inr (), w)),
      reForwarder := \<lparr>foSelect = (\<lambda>ctx f w. (WaitReturned None, w)), foClose = (\<lambda>f w. w)\<rparr>,
      reOnFirstConnect := (\<lambda>url w. Suc w)\<rparr>"

text \<open>A request that fails twice with status 503 and then succeeds; the world counts the attempts.\<close>

definition failTwice :: "nat ctx \<Rightarrow> nat \<Rightarrow> (go_error + string) \<times> nat" where
  "failTwice ctx w = (if w < 2 then Inl (HttpResponseError 503) else Inr ''ok'', Suc w)"

section \<open>Retrying requests\<close>

text \<open>
  C1. Backoff schedule. With a configuration that \<open>Validate\<close> accepts, take any retried request after \<open>n\<close>
  rounds whose next attempt fails in a retryable way under a live context. The round then sleeps
  exactly once, for the delay that \<open>nextRetryDelay\<close> draws in the world after the attempt, and goes on
  only if that sleep completes. The delay is drawn from the backoff \<open>min (max, min * 2 ^ n)\<close>, computed
  without overflow at any \<open>n\<close>, and the next round starts from this backoff, so that jitter does not
  compound. The delay lies between the configured minimum and the backoff, and the jitter takes off at
  most a tenth of the backoff up to the rounding of 64-bit floating point: at most \<open>1 / 10 + 1 / (10 * 2 ^ 50)\<close>
  of it.
\<close>

theorem retry_backoff_schedule:
  assumes "Validate config = None"
    and "steps (retryRound ctx operation config logger runtime) n (0, w) = Some (previous, w0)"
    and "operation ctx w0 = (Inl err, w1)" and "ctx w1 = None" and "registrationRetryable err"
  shows "\<exists>backoff delay w2.
    nextRetryDelay previous (MinRetryBackoff config) (MaxRetryBackoff config) (rrJitter runtime) w1
      = ((backoff, delay), w2) \<and>
    retryRound ctx operation config logger runtime (previous, w0) =
      (case rrSleep runtime ctx delay (logger (RetryWarning delay err) w2) of
         (Some sleepErr, w3) \<Rightarrow> Inl (Inl sleepErr, w3)
       | (None, w3) \<Rightarrow> Inr (backoff, w3)) \<and>
    sint backoff = min (sint (MaxRetryBackoff config)) (sint (MinRetryBackoff config) * 2 ^ n) \<and>
    sint (MinRetryBackoff config) \<le> sint delay \<and> sint delay \<le> sint backoff \<and>
    10 * 2 ^ 50 * (sint backoff - sint delay) \<le> (2 ^ 50 + 1) * sint backoff"
proof -
  have valid: "validBackoff config" using assms(1) by (rule Validate_validBackoff)
  have prev: "sint previous = schedule config n" using valid assms(2) by (rule retry_steps_schedule)
  obtain backoff delay w2 where nd: "nextRetryDelay previous (MinRetryBackoff config) (MaxRetryBackoff config)
      (rrJitter runtime) w1 = ((backoff, delay), w2)"
    by (metis surj_pair)
  have "sint backoff = schedule config (Suc n)"
    using sint_nextBackoff_schedule [OF valid prev] nextRetryDelay_backoff [OF nd] by simp
  then have "sint backoff = min (sint (MaxRetryBackoff config)) (sint (MinRetryBackoff config) * 2 ^ n)"
    by (simp add: schedule_def)
  with nextRetryDelay_bounds [OF _ _ _ _ nd] schedule_range [OF valid, of n] prev valid nd assms(3-5)
  show ?thesis by (simp add: validBackoff_def retryRound_def)
qed

text \<open>A request that always fails, in a world that records the sleeps: the third one of a run.\<close>

definition recordingRuntime :: "duration list retry_runtime" where
  "recordingRuntime = \<lparr>rrSleep = (\<lambda>ctx d w. (None, w @ [d])), rrJitter = (\<lambda>w. (f64zero, w))\<rparr>"

definition alwaysFails :: "'w ctx \<Rightarrow> 'w \<Rightarrow> (go_error + unit) \<times> 'w" where
  "alwaysFails ctx w = (Inl (HttpResponseError 503), w)"

theorem retry_backoff_schedule_witness:
  "\<exists>delay. retryRound (\<lambda>_. None) alwaysFails sampleConfig (\<lambda>ev w. w) recordingRuntime
      (2 * second, [1000000000, 1800000000]) = Inr (4 * second, [1000000000, 1800000000, delay]) \<and>
    sint second \<le> sint delay \<and> sint delay \<le> 4000000000 \<and>
    10 * 2 ^ 50 * (4000000000 - sint delay) \<le> (2 ^ 50 + 1) * 4000000000"
proof -
  let ?round = "retryRound (\<lambda>_. None) alwaysFails sampleConfig (\<lambda>ev w. w) recordingRuntime"
  have 1: "Validate sampleConfig = None" by code_simp
  have 2: "steps ?round 2 (0, []) = Some (2 * second, [1000000000, 1800000000])" by code_simp
  have 3: "alwaysFails (\<lambda>_. None) w = (Inl (HttpResponseError 503), w)" for w :: "duration list"
    by (simp add: alwaysFails_def)
  have 4: "registrationRetryable (HttpResponseError 503)" by code_simp
  have min: "MinRetryBackoff sampleConfig = second" "sint second = 1000000000"
    "sint (MaxRetryBackoff sampleConfig) = 4000000000"
    by code_simp+
  show ?thesis using retry_backoff_schedule [OF 1 2 3 refl 4]
  proof (elim exE conjE)
    fix backoff delay w2
    assume nd: "nextRetryDelay (2 * second) (MinRetryBackoff sampleConfig) (MaxRetryBackoff sampleConfig)
        (rrJitter recordingRuntime) [1000000000, 1800000000] = ((backoff, delay), w2)"
      and r: "?round (2 * second, [1000000000, 1800000000]) =
        (case rrSleep recordingRuntime (\<lambda>_. None) delay w2 of
           (Some sleepErr, w3) \<Rightarrow> Inl (Inl sleepErr, w3) | (None, w3) \<Rightarrow> Inr (backoff, w3))"
      and b: "sint backoff = min (sint (MaxRetryBackoff sampleConfig)) (sint (MinRetryBackoff sampleConfig) * 2 ^ 2)"
        "sint (MinRetryBackoff sampleConfig) \<le> sint delay" "sint delay \<le> sint backoff"
        "10 * 2 ^ 50 * (sint backoff - sint delay) \<le> (2 ^ 50 + 1) * sint backoff"
    have "w2 = [1000000000, 1800000000]"
      using snd_nextRetryDelay nd by (metis recordingRuntime_def retry_runtime.select_convs(2) snd_conv)
    moreover have backoff: "sint backoff = 4000000000" using b(1) by (simp add: min)
    moreover have "sint (4 * second) = 4000000000" by code_simp
    then have "backoff = 4 * second" using backoff by (metis signed_word_eqI)
    ultimately show ?thesis using r b(2-4) min(1)
      by (intro exI [of _ delay]) (simp add: recordingRuntime_def)
  qed
qed

text \<open>
  C2. Outcome of a retried request. A value it returns is the value of one of its attempts; an error
  it returns is a permanent failure of an attempt under a live context, the context's error, or the
  error of an interrupted sleep. A transient failure is never returned.
\<close>

theorem retry_outcome:
  assumes "retryRouteRegistry ctx operation config logger runtime w = Some (r, w')"
  shows "case r of
      Inr a \<Rightarrow> (\<exists>v. operation ctx v = (Inr a, w'))
    | Inl e \<Rightarrow> (\<exists>v. operation ctx v = (Inl e, w') \<and> ctx w' = None \<and> \<not> registrationRetryable e) \<or>
        ctx w' = Some e \<or> (\<exists>d v. rrSleep runtime ctx d v = (Some e, w'))"
  using assms retry_result [of ctx operation config logger runtime w _ w']
    retry_error [of ctx operation config logger runtime w _ w']
  by (cases r) auto

theorem retry_outcome_witness:
  "\<exists>v. failTwice (\<lambda>_. None) v = (Inr ''ok'', 3)"
proof -
  have "retryRouteRegistry (\<lambda>_. None) failTwice sampleConfig (\<lambda>ev w. w) sampleRuntime 0
      = Some (Inr ''ok'', 3)"
    by code_simp
  from retry_outcome [OF this] show ?thesis by simp
qed

text \<open>
  C3. Retrying ends. If no call raises a bound on the world and every completed sleep lowers it (a
  deadline that comes nearer, a number of failures left), a retried request returns.
\<close>

theorem retry_terminates:
  fixes m :: "'w \<Rightarrow> nat"
  assumes "\<And>w. m (snd (operation ctx w)) \<le> m w"
    and "\<And>w. m (snd (rrJitter runtime w)) \<le> m w"
    and "\<And>ev w. m (logger ev w) \<le> m w"
    and "\<And>d w w'. rrSleep runtime ctx d w = (None, w') \<Longrightarrow> m w' < m w"
  shows "\<exists>r. retryRouteRegistry ctx operation config logger runtime w = Some r"
  using assms by (rule retry_returns)

text \<open>A world whose context is cancelled when its budget of sleeps is used up.\<close>

definition budgetRuntime :: "nat retry_runtime" where
  "budgetRuntime = \<lparr>rrSleep = (\<lambda>ctx d w. if w = 0 then (Some ErrCanceled, w) else (None, w - 1)),
     rrJitter = (\<lambda>w. (f64zero, w))\<rparr>"

theorem retry_terminates_witness:
  "\<exists>r. retryRouteRegistry (\<lambda>_. None) (\<lambda>ctx w. (Inl (HttpResponseError 503) :: go_error + unit, w))
     sampleConfig (\<lambda>ev w. w) budgetRuntime 7 = Some r"
  by (rule retry_terminates [where m = id]) (auto simp: budgetRuntime_def split: if_splits)

section \<open>Keeping the tunnel\<close>

text \<open>
  C4. The connection loop follows the recovery protocol. After any number of rounds the two flags of
  \<open>run\<close> are not both set, the phases they encode form a path of the protocol whose steps carry
  whether the round connected, and no three rounds in a row went on without a connection.
\<close>

theorem run_follows_protocol:
  assumes "steps (runRound env) n (initRun initial w) = Some s"
  shows "\<not> (rsRotated s \<and> rsReRegistered s) \<and>
    credPath (roundsConnected env n (initRun initial w)) Fresh (phaseOf s) \<and>
    length (roundsConnected env n (initRun initial w)) = n \<and>
    (\<forall>xs ys. roundsConnected env n (initRun initial w) \<noteq> xs @ [False, False, False] @ ys)"
proof -
  let ?cs = "roundsConnected env n (initRun initial w)"
  have path: "length ?cs = n" "credPath ?cs Fresh (phaseOf s)"
    using steps_protocol [OF assms] by simp_all
  have "flagsOk s" using assms by (rule steps_flagsOk) simp
  moreover have "?cs \<noteq> xs @ [False, False, False] @ ys" for xs ys
  proof
    assume "?cs = xs @ [False, False, False] @ ys"
    with path have "credPath (xs @ replicate 3 False @ ys) Fresh (phaseOf s)"
      by (simp add: eval_nat_numeral)
    from credPath_attempts [OF this] show False by simp
  qed
  ultimately show ?thesis using path by (simp add: flagsOk_def)
qed

theorem run_follows_protocol_witness:
  "roundsConnected rejectingEnv 1 (initRun sampleRegistration 0) = [False] \<and>
   credPath [False] Fresh Rotated"
proof -
  define s where "s = initRun sampleRegistration (0::nat)"
  have "map_option phaseOf (steps (runRound rejectingEnv) 1 s) = Some Rotated"
    unfolding s_def by code_simp
  then obtain s1 where s1: "steps (runRound rejectingEnv) 1 s = Some s1" and ph: "phaseOf s1 = Rotated"
    by (cases "steps (runRound rejectingEnv) 1 s") simp_all
  have cs: "roundsConnected rejectingEnv 1 s = [False]" unfolding s_def by code_simp
  have "credPath (roundsConnected rejectingEnv 1 s) Fresh (phaseOf s1)"
    using run_follows_protocol [OF s1 [unfolded s_def]] unfolding s_def by (elim conjE)
  with cs ph show ?thesis unfolding s_def by (simp only: simp_thms)
qed

text \<open>
  C5. Credential recovery gives up. If no attempt ever connects, and every refresh and every
  registration returns, then \<open>run\<close> returns, after at most three attempts.
\<close>

theorem run_gives_up:
  assumes "\<And>ctx credentials t a b w. \<exists>e w'. reListen env ctx credentials t a b w = (Inl e, w')"
    and "\<And>jwt w. refreshJWTWithRetry (reCtx env) (reRefresh env) jwt (reConfig env) (reLogger env)
        (reRuntime env) w \<noteq> None"
    and "\<And>w. reRegister env (reCtx env) w \<noteq> None"
  shows "\<exists>r n. run env initial w = Some r \<and> n \<le> 2 \<and>
    (\<exists>s. steps (runRound env) n (initRun initial w) = Some s \<and> runRound env s = Inl (Some r))"
proof -
  have noconn: "\<not> roundConnects env s" for s
  proof (cases "credentialsFromRegistration (rsRegistration s)")
    case (Inr credentials)
    with assms(1) [of "reCtx env" credentials "reTargetAddr env" "MinRetryBackoff (reConfig env)"
        "MaxRetryBackoff (reConfig env)" "rsWorld s"]
    show ?thesis by (auto simp: roundConnects_def connect_def)
  qed (simp add: roundConnects_def)
  have "\<exists>r. loop (runRound env) (initRun initial w) = Some r"
  proof (rule loop_terminates [where I = "\<lambda>_. True" and m = "\<lambda>s. phaseRank (phaseOf s)"])
    fix s s' assume "runRound env s = Inr s'"
    with runRound_credStep noconn credStep_rank
    show "True \<and> phaseRank (phaseOf s') < phaseRank (phaseOf s)" by blast
  qed simp
  then obtain r where "loop (runRound env) (initRun initial w) = Some r" by (elim exE)
  from loop_Some_steps [OF this] obtain n s
    where st: "steps (runRound env) n (initRun initial w) = Some s" and ret: "runRound env s = Inl r"
    by (elim exE conjE)
  have "set (roundsConnected env k v) \<subseteq> {False}" for k v
    using noconn by (induction k arbitrary: v) (auto split: sum.splits)
  then have "n + phaseRank (phaseOf s) \<le> 2"
    using steps_protocol [OF st] credPath_unconnected by fastforce
  then have "n \<le> 2" by simp
  moreover obtain q where "r = Some q"
    using runRound_returns [OF ret] assms(2,3) by blast
  moreover from this have "run env initial w = Some q"
    using loop_steps_return [OF st] ret by (simp add: run_def)
  ultimately show ?thesis using st ret by blast
qed

theorem run_gives_up_witness:
  "\<exists>r n. run rejectingEnv sampleRegistration 0 = Some r \<and> n \<le> 2 \<and>
    (\<exists>s. steps (runRound rejectingEnv) n (initRun sampleRegistration 0) = Some s \<and>
       runRound rejectingEnv s = Inl (Some r))"
  by (rule run_gives_up)
    (simp_all add: rejectingEnv_def refreshJWTWithRetry_def retry_first_ok)

text \<open>
  C6. How a run ends. \<open>run\<close> never returns a nil error. Its error is the error of unusable credentials,
  the context's, a tunnel failure other than a rejection, a rejection of a JWT refreshed just before,
  or the error of a failed refresh or registration; it is never a panic of \<open>run\<close> itself.
\<close>

theorem run_error_causes:
  assumes "run env initial w = Some (r, w')"
  shows "\<exists>e n s. r = Some e \<and> steps (runRound env) n (initRun initial w) = Some s \<and>
    (credentialsFromRegistration (rsRegistration s) = Inl e \<or>
     reCtx env w' = Some e \<or>
     (\<exists>cause. \<not> AuthenticationFailure cause \<and> e = wrapPiko ''connect to Piko'' cause) \<or>
     (\<exists>cause. AuthenticationFailure cause \<and> rsRotated s \<and>
        e = wrapPiko ''connect to Piko with refreshed JWT'' cause) \<or>
     recoveryFails env e w')"
proof -
  obtain n s where st: "steps (runRound env) n (initRun initial w) = Some s"
    and ret: "runRound env s = Inl (Some (r, w'))"
    using run_Some [OF assms] by blast
  from runRound_fails [OF ret] st show ?thesis unfolding roundFails_def by blast
qed

theorem run_error_causes_witness:
  "\<exists>n s. steps (runRound rejectingEnv) n (initRun sampleRegistration 0) = Some s"
proof -
  have "map_option fst (run rejectingEnv sampleRegistration 0)
      = Some (Some (Errorf ''connect to Piko with refreshed JWT'' (ErrString ''401: unauthorized'')))"
    by code_simp
  then obtain w' where "run rejectingEnv sampleRegistration 0
      = Some (Some (Errorf ''connect to Piko with refreshed JWT'' (ErrString ''401: unauthorized'')), w')"
    by (cases "run rejectingEnv sampleRegistration 0") auto
  from run_error_causes [OF this] show ?thesis by (elim exE conjE) (intro exI)
qed

text \<open>
  C7. Where new credentials come from. A round that goes on with a refreshed JWT got it by presenting
  the rejected JWT, and changes nothing else of the registration: URL and endpoint stay, and the next
  attempt uses them with the new JWT. A round that goes on with a new registration first had the
  refresh refused with status 401.
\<close>

theorem run_credential_provenance:
  assumes "runRound env s = Inr s'"
    and "credentialsFromRegistration (rsRegistration s) = Inr c"
  shows "if rsRotated s'
    then \<exists>jwt v. reRefresh env (reCtx env) (credJWT c) v = (Inr jwt, rsWorld s') \<and>
      setTunnelJWT (rsRegistration s) jwt = Inr (rsRegistration s') \<and>
      (jwt \<noteq> [] \<longrightarrow> credentialsFromRegistration (rsRegistration s') = Inr (c\<lparr>credJWT := jwt\<rparr>))
    else \<exists>v err u u'. refreshJWTWithRetry (reCtx env) (reRefresh env) (credJWT c) (reConfig env)
        (reLogger env) (reRuntime env) v = Some (Inl err, u) \<and> asHttpResponseError err = Some 401 \<and>
      reRegister env (reCtx env) u' = Some (Inr (rsRegistration s'), rsWorld s')"
proof (cases "rsRotated s'")
  case True
  then obtain jwt v where jwt: "setTunnelJWT (rsRegistration s) jwt = Inr (rsRegistration s')"
    and refresh: "refreshJWTWithRetry (reCtx env) (reRefresh env) (credJWT c) (reConfig env) (reLogger env)
        (reRuntime env) v = Some (Inr jwt, rsWorld s')"
    using runRound_recovers(2) [OF assms] by blast
  from jwt refreshJWT_value [OF refresh] credentials_setTunnelJWT [OF assms(2) jwt] True
  show ?thesis by auto
next
  case False
  with runRound_recovers(1,3) [OF assms] show ?thesis by simp
qed

theorem run_credential_provenance_witness:
  "\<exists>s' c. runRound rejectingEnv (initRun sampleRegistration 0) = Inr s' \<and> rsRotated s' \<and>
    credentialsFromRegistration (rsRegistration s') = Inr (c\<lparr>credJWT := ''new''\<rparr>)"
proof -
  have "map_option rsRotated (steps (runRound rejectingEnv) 1 (initRun sampleRegistration 0)) = Some True"
    by code_simp
  then obtain s' where s': "runRound rejectingEnv (initRun sampleRegistration 0) = Inr s'" "rsRotated s'"
    by (cases "runRound rejectingEnv (initRun sampleRegistration 0)") auto
  have c: "credentialsFromRegistration (rsRegistration (initRun sampleRegistration (0::nat)))
      = Inr \<lparr>credURL = ''https://piko'', credJWT = ''old'', credEndpointID = ''one''\<rparr>"
    by code_simp
  from run_credential_provenance [OF s'(1) c] s'(2) obtain jwt v where
    "reRefresh rejectingEnv (reCtx rejectingEnv) ''old'' v = (Inr jwt, rsWorld s')"
    and *: "jwt \<noteq> [] \<longrightarrow> credentialsFromRegistration (rsRegistration s')
      = Inr (\<lparr>credURL = ''https://piko'', credJWT = ''old'', credEndpointID = ''one''\<rparr>\<lparr>credJWT := jwt\<rparr>)"
    by auto
  then have "jwt = ''new''" by (simp add: rejectingEnv_def)
  with * s' show ?thesis by blast
qed

text \<open>
  C21. The first-connection callback runs once. If \<open>f\<close> counts the calls of the callback, a run that
  returns has counted one if any of its attempts connected and none otherwise.
\<close>

theorem run_first_connection_once:
  assumes "callsKeep env f" and "\<And>url w. f (reOnFirstConnect env url w) = Suc (f w)"
    and "run env initial w = Some (r, w')"
  shows "\<exists>n. (\<exists>s. steps (runRound env) n (initRun initial w) = Some s \<and> runRound env s = Inl (Some (r, w'))) \<and>
    f w' = f w + (if True \<in> set (roundsConnected env (Suc n) (initRun initial w)) then 1 else 0)"
proof -
  obtain n s where st: "steps (runRound env) n (initRun initial w) = Some s"
    and ret: "runRound env s = Inl (Some (r, w'))"
    using run_Some [OF assms(3)] by blast
  have first: "rsFirstConnection (initRun initial w)" "rsWorld (initRun initial w) = w"
    by (simp_all add: initRun_def)
  have "f w' = f w + (if True \<in> set (roundsConnected env (Suc n) (initRun initial w)) then 1 else 0)"
    using steps_count [OF assms(1,2) st] runRound_return_counts [OF assms(1,2) ret] first
    unfolding roundsConnected_snoc [OF st] by auto
  with st ret show ?thesis by blast
qed

theorem run_first_connection_once_witness:
  "\<exists>n. (1::nat) = (if True \<in> set (roundsConnected connectingEnv (Suc n) (initRun sampleRegistration 0))
    then 1 else 0)"
proof -
  have keep: "callsKeep connectingEnv id"
    by (simp add: callsKeep_def connectingEnv_def rejectingEnv_def sampleRuntime_def)
  have cb: "\<And>url w. id (reOnFirstConnect connectingEnv url w) = Suc (id w)"
    by (simp add: connectingEnv_def)
  have "run connectingEnv sampleRegistration 0
      = Some (Some (Errorf ''connect to Piko'' (ErrString ''piko forwarder stopped unexpectedly'')), 1)"
    by code_simp
  from run_first_connection_once [OF keep cb this] show ?thesis by (elim exE conjE) (intro exI, simp)
qed

section \<open>Rejected credentials\<close>

text \<open>
  C22. Rejections are recognised. Piko reports a refused connection as the error \<open>connect: <status>: <cause>\<close>.
  \<open>AuthenticationFailure\<close> accepts it exactly when the status is 401, or when the cause itself holds
  the text \<open>401:\<close>. An error wrapped again is accepted exactly when the error itself is or the text put
  before it, with the colon and the space that follow, holds \<open>401:\<close>; so a text without it changes nothing.
\<close>

theorem rejection_recognised:
  assumes "100 \<le> status" and "status \<le> 999"
  shows "(AuthenticationFailure (Some (Errorf ''connect'' (Errorf (itoa status) (ErrString cause)))) \<longleftrightarrow>
      status = 401 \<or> containsStr cause ''401:'') \<and>
    (AuthenticationFailure (Some (Errorf msg e)) \<longleftrightarrow>
      containsStr (msg @ '': '') ''401:'' \<or> AuthenticationFailure (Some e))"
  using threeDigits_401 [OF assms, of cause] AuthenticationFailure_wrap [of msg e]
  by (simp add: AuthenticationFailure_def)

theorem rejection_recognised_witness:
  "AuthenticationFailure (Some (Errorf ''connect'' (Errorf (itoa 401) (ErrString ''bad token'')))) \<and>
   \<not> AuthenticationFailure (Some (Errorf ''connect'' (Errorf (itoa 403) (ErrString ''bad token'')))) \<and>
   \<not> AuthenticationFailure (Some (Errorf ''connect to Piko'' ErrEOF)) \<and>
   AuthenticationFailure (Some (Errorf ''after 401'' ErrEOF))"
proof -
  have eof: "\<not> AuthenticationFailure (Some ErrEOF)" by code_simp
  show ?thesis
    using rejection_recognised [of 401 "''bad token''" "''after 401''" ErrEOF]
      rejection_recognised [of 403 "''bad token''" "''connect to Piko''" ErrEOF] eof
    by simp
qed

end
