(* ===== verification/GoURL.thy ===== *)
theory GoURL
  imports GoError GoUtf8
begin

text \<open>
  Go's \<open>path\<close> and \<open>net/url\<close>, as far as the program builds URLs with them: \<open>url.PathEscape\<close>,
  \<open>path.Clean\<close>, \<open>path.Join\<close>, \<open>url.Parse\<close> and \<open>url.JoinPath\<close>. The authority of a URL (user, host
  and port) is checked and kept as written (Go escapes it afresh when it prints a URL, which changes
  only bytes beyond ASCII and needless escapes). What is inside the brackets of an IPv6 literal is not
  checked: there the model accepts more than \<open>url.Parse\<close>.
\<close>

section \<open>Splitting at a character\<close>

fun splitChar :: "char \<Rightarrow> string \<Rightarrow> string list" where
  "splitChar d [] = [[]]"
| "splitChar d (c # s) =
     (if c = d then [] # splitChar d s
      else case splitChar d s of [] \<Rightarrow> [[c]] | x # xs \<Rightarrow> (c # x) # xs)"

text \<open>\<open>strings.Cut\<close>: the text before and after the first separator, and whether there is one.\<close>

fun cutChar :: "char \<Rightarrow> string \<Rightarrow> string \<times> string \<times> bool" where
  "cutChar d [] = ([], [], False)"
| "cutChar d (c # s) =
     (if c = d then ([], s, True) else (let (a, b, f) = cutChar d s in (c # a, b, f)))"

lemma splitChar_nonempty [simp]: "splitChar d s \<noteq> []"
  by (cases s) (auto split: list.splits)

lemma splitChar_no_sep: "d \<notin> set s \<Longrightarrow> splitChar d s = [s]"
  by (induction s) auto

lemma splitChar_append:
  "d \<notin> set a \<Longrightarrow> splitChar d (a @ d # b) = a # splitChar d b"
  by (induction a) auto

section \<open>Escaping\<close>

definition isAlnum :: "char \<Rightarrow> bool" where
  "isAlnum c \<longleftrightarrow> isDigit c \<or> (65 \<le> byte c \<and> byte c \<le> 90) \<or> (97 \<le> byte c \<and> byte c \<le> 122)"

definition unreserved :: "char \<Rightarrow> bool" where
  "unreserved c \<longleftrightarrow> isAlnum c \<or> c \<in> set ''-_.~''"

definition hexUpper :: "nat \<Rightarrow> char" where
  "hexUpper n = (if n < 10 then char_of (48 + n) else char_of (55 + n))"

definition escapeWith :: "(char \<Rightarrow> bool) \<Rightarrow> string \<Rightarrow> string" where
  "escapeWith keep s =
     concat (map (\<lambda>c. if keep c then [c]
                       else [CHR ''%'', hexUpper (byte c div 16), hexUpper (byte c mod 16)]) s)"

definition keepSegment :: "char \<Rightarrow> bool" where
  "keepSegment c \<longleftrightarrow> unreserved c \<or> c \<in> set ''$&+:=@''"

definition keepPath :: "char \<Rightarrow> bool" where
  "keepPath c \<longleftrightarrow> unreserved c \<or> c \<in> set ''$&+,/:;=@''"

definition PathEscape :: "string \<Rightarrow> string" where
  "PathEscape s = escapeWith keepSegment s"

definition hexVal :: "char \<Rightarrow> nat option" where
  "hexVal c =
     (if isDigit c then Some (byte c - 48)
      else if 65 \<le> byte c \<and> byte c \<le> 70 then Some (byte c - 55)
      else if 97 \<le> byte c \<and> byte c \<le> 102 then Some (byte c - 87)
      else None)"

fun unescape :: "string \<Rightarrow> string option" where
  "unescape [] = Some []"
| "unescape (c # s) =
     (if c = CHR ''%'' then
        case s of h # l # r \<Rightarrow>
          (case (hexVal h, hexVal l) of
             (Some a, Some b) \<Rightarrow> map_option ((#) (char_of (16 * a + b))) (unescape r)
           | _ \<Rightarrow> None)
        | _ \<Rightarrow> None
      else map_option ((#) c) (unescape s))"

text \<open>\<open>validEncoded\<close> and \<open>(*URL).EscapedPath\<close> of a path that was set from the text \<open>p\<close>.\<close>

definition validEncoded :: "string \<Rightarrow> bool" where
  "validEncoded p \<longleftrightarrow> list_all (\<lambda>c. keepPath c \<or> c \<in> set ''!()*[]%'' \<or> byte c = 39) p"

definition escapedPath :: "string \<Rightarrow> string" where
  "escapedPath p =
     (if validEncoded p then p
      else case unescape p of None \<Rightarrow> p | Some q \<Rightarrow> escapeWith keepPath q)"

section \<open>Paths\<close>

text \<open>\<open>path.Clean\<close> on the segments, with the segments kept so far in reverse.\<close>

fun cleanSegs :: "bool \<Rightarrow> string list \<Rightarrow> string list \<Rightarrow> string list" where
  "cleanSegs rooted acc [] = rev acc"
| "cleanSegs rooted acc (x # xs) =
     (if x = [] \<or> x = ''.'' then cleanSegs rooted acc xs
      else if x = ''..'' then
        (case acc of
           [] \<Rightarrow> cleanSegs rooted (if rooted then [] else [''..'']) xs
         | y # ys \<Rightarrow> cleanSegs rooted (if y = ''..'' then ''..'' # acc else ys) xs)
      else cleanSegs rooted (x # acc) xs)"

definition pathClean :: "string \<Rightarrow> string" where
  "pathClean p =
     (let rooted = hasPrefix p ''/'';
          body = joinStr ''/'' (cleanSegs rooted [] (splitChar CHR ''/'' p))
      in if rooted then CHR ''/'' # body else if body = [] then ''.'' else body)"

definition pathJoin :: "string list \<Rightarrow> string" where
  "pathJoin elems =
     (let es = dropWhile (\<lambda>e. e = []) elems
      in if es = [] then [] else pathClean (joinStr ''/'' es))"

section \<open>URLs\<close>

record url =
  uScheme :: string
  uOpaque :: string
  uAuthority :: string
  uOmitHost :: bool
  uPath :: string
  uForceQuery :: bool
  uRawQuery :: string
  uFragment :: string

text \<open>
  \<open>uPath\<close> is the path in escaped form (what \<open>EscapedPath\<close> returns); an empty \<open>uAuthority\<close> is a URL
  with neither user nor host.
\<close>

definition parseError :: "string \<Rightarrow> string \<Rightarrow> go_error" where
  "parseError u msg = UrlError ''parse'' (''\"'' @ u @ ''\"'') (ErrString msg)"

text \<open>\<open>getScheme\<close>: \<open>None\<close> is a missing protocol scheme.\<close>

fun getScheme_aux :: "string \<Rightarrow> string \<Rightarrow> string \<Rightarrow> (string \<times> string) option" where
  "getScheme_aux orig seen [] = Some ([], orig)"
| "getScheme_aux orig seen (c # s) =
     (if isAlnum c \<and> \<not> isDigit c then getScheme_aux orig (seen @ [c]) s
      else if isDigit c \<or> c \<in> set ''+-.'' then
        (if seen = [] then Some ([], orig) else getScheme_aux orig (seen @ [c]) s)
      else if c = CHR '':'' then (if seen = [] then None else Some (seen, s))
      else Some ([], orig))"

definition toLowerChar :: "char \<Rightarrow> char" where
  "toLowerChar c = (if 65 \<le> byte c \<and> byte c \<le> 90 then char_of (byte c + 32) else c)"

text \<open>
  \<open>parseAuthority\<close>. The user's part may hold only certain characters and valid escapes. A host in
  brackets may be followed by a port; in another one there is at most one colon, what follows it
  is a port, and an escape may not stand for an ASCII character other than the percent sign.
\<close>

definition userinfoOk :: "string \<Rightarrow> bool" where
  "userinfoOk s \<longleftrightarrow>
     list_all (\<lambda>c. isAlnum c \<or> c \<in> set ''-._:~!$&()*+,;=%@'' \<or> byte c = 39) s \<and> unescape s \<noteq> None"

definition hostChar :: "char \<Rightarrow> bool" where
  "hostChar c \<longleftrightarrow> 0x80 \<le> byte c \<or> unreserved c \<or> c \<in> set ''!$&()*+,;=:[]<>'' \<or> byte c = 39 \<or> byte c = 34"

fun hostText :: "string \<Rightarrow> bool" where
  "hostText [] = True"
| "hostText (c # s) =
     (if c = CHR ''%'' then
        case s of h # l # r \<Rightarrow>
          (case (hexVal h, hexVal l) of
             (Some a, Some b) \<Rightarrow> (8 \<le> a \<or> a = 2 \<and> b = 5) \<and> hostText r
           | _ \<Rightarrow> False)
        | _ \<Rightarrow> False
      else hostChar c \<and> hostText s)"

definition portOk :: "string \<Rightarrow> bool" where
  "portOk host =
     (if hasPrefix host ''['' then
        (let after = last (splitChar CHR '']'' host)
         in after = [] \<or> (hd after = CHR '':'' \<and> list_all isDigit (tl after)))
      else case splitChar CHR '':'' host of
        [_] \<Rightarrow> True
      | [_, port] \<Rightarrow> list_all isDigit port
      | _ \<Rightarrow> False)"

definition authorityError :: "string \<Rightarrow> string option" where
  "authorityError authority =
     (let parts = splitChar CHR ''@'' authority;
          host = last parts
      in if \<not> portOk host then Some ''invalid port after host''
         else if \<not> hasPrefix host ''['' \<and> \<not> hostText host then Some ''invalid character in host name''
         else if \<not> userinfoOk (joinStr ''@'' (butlast parts)) then Some ''net/url: invalid userinfo''
         else None)"

text \<open>\<open>EscapedFragment\<close> of a fragment that was set from the text \<open>f\<close>.\<close>

definition keepFragment :: "char \<Rightarrow> bool" where
  "keepFragment c \<longleftrightarrow> unreserved c \<or> c \<in> set ''$&+,/:;=?@!()*''"

definition escapedFragment :: "string \<Rightarrow> string" where
  "escapedFragment f =
     (if list_all (\<lambda>c. keepFragment c \<or> c \<in> set ''[]%'' \<or> byte c = 39) f then f
      else case unescape f of None \<Rightarrow> f | Some g \<Rightarrow> escapeWith keepFragment g)"

text \<open>\<open>parse\<close>, on the text before the fragment.\<close>

definition parseNoFragment :: "string \<Rightarrow> go_error + url" where
  "parseNoFragment u =
     (if list_ex (\<lambda>c. byte c < 32 \<or> byte c = 127) u
      then Inl (parseError u ''net/url: invalid control character in URL'')
      else case getScheme_aux u [] u of
        None \<Rightarrow> Inl (parseError u ''missing protocol scheme'')
      | Some (scheme0, rest0) \<Rightarrow>
        let scheme = map toLowerChar scheme0;
            (rest, query, force) =
              (if rest0 \<noteq> [] \<and> last rest0 = CHR ''?'' \<and> CHR ''?'' \<notin> set (butlast rest0)
               then (butlast rest0, [], True)
               else (let (a, b, _) = cutChar CHR ''?'' rest0 in (a, b, False)))
        in if \<not> hasPrefix rest ''/'' \<and> scheme \<noteq> [] then
             Inr \<lparr>uScheme = scheme, uOpaque = rest, uAuthority = [], uOmitHost = False, uPath = [],
                  uForceQuery = force, uRawQuery = query, uFragment = []\<rparr>
           else if \<not> hasPrefix rest ''/'' \<and> CHR '':'' \<in> set (fst (cutChar CHR ''/'' rest)) then
             Inl (parseError u ''first path segment in URL cannot contain colon'')
           else
             let hier = hasPrefix rest ''//'' \<and> (scheme \<noteq> [] \<or> \<not> hasPrefix rest ''///'');
                 authority = (if hier then fst (cutChar CHR ''/'' (drop 2 rest)) else []);
                 path = (if hier then drop (length authority) (drop 2 rest) else rest)
             in case authorityError authority of
                  Some msg \<Rightarrow> Inl (parseError u msg)
                | None \<Rightarrow>
                  (case unescape path of
                     None \<Rightarrow> Inl (parseError u ''invalid URL escape'')
                   | Some _ \<Rightarrow>
                     Inr \<lparr>uScheme = scheme, uOpaque = [], uAuthority = authority,
                          uOmitHost = (\<not> hier \<and> scheme \<noteq> [] \<and> hasPrefix rest ''/''),
                          uPath = escapedPath path, uForceQuery = force, uRawQuery = query,
                          uFragment = []\<rparr>))"

definition urlParse :: "string \<Rightarrow> go_error + url" where
  "urlParse raw =
     (let (u, frag, _) = cutChar CHR ''#'' raw
      in case parseNoFragment u of
           Inl err \<Rightarrow> Inl err
         | Inr url \<Rightarrow>
             if frag = [] then Inr url
             else case unescape frag of
               None \<Rightarrow> Inl (parseError raw ''invalid URL escape'')
             | Some _ \<Rightarrow> Inr (url\<lparr>uFragment := escapedFragment frag\<rparr>))"

definition urlString :: "url \<Rightarrow> string" where
  "urlString u =
     (let scheme = (if uScheme u \<noteq> [] then uScheme u @ '':'' else []);
          body =
            (if uOpaque u \<noteq> [] then uOpaque u
             else
               (let auth =
                      (if (uScheme u \<noteq> [] \<or> uAuthority u \<noteq> []) \<and> \<not> (uOmitHost u \<and> uAuthority u = [])
                       then (if uAuthority u \<noteq> [] \<or> uPath u \<noteq> [] then ''//'' else []) @ uAuthority u
                       else []);
                    slash = (if uPath u \<noteq> [] \<and> hd (uPath u) \<noteq> CHR ''/'' \<and> uAuthority u \<noteq> []
                             then ''/'' else []);
                    dot = (if scheme = [] \<and> auth = [] \<and> slash = [] \<and>
                              CHR '':'' \<in> set (fst (cutChar CHR ''/'' (uPath u)))
                           then ''./'' else [])
                in auth @ slash @ dot @ uPath u));
          query = (if uForceQuery u \<or> uRawQuery u \<noteq> [] then CHR ''?'' # uRawQuery u else []);
          frag = (if uFragment u \<noteq> [] then CHR ''#'' # uFragment u else [])
      in scheme @ body @ query @ frag)"

text \<open>\<open>(*URL).JoinPath\<close> with one element, and \<open>url.JoinPath\<close>.\<close>

definition joinPathOf :: "string \<Rightarrow> string \<Rightarrow> string" where
  "joinPathOf p elem =
     (let q = (if hasPrefix p ''/'' then pathJoin [p, elem] else drop 1 (pathJoin [''/'' @ p, elem]))
      in if elem \<noteq> [] \<and> last elem = CHR ''/'' \<and> (q = [] \<or> last q \<noteq> CHR ''/'') then q @ ''/'' else q)"

definition JoinPath :: "string \<Rightarrow> string \<Rightarrow> go_error + string" where
  "JoinPath base elem =
     (case urlParse base of
        Inl err \<Rightarrow> Inl err
      | Inr u \<Rightarrow>
          let p = joinPathOf (uPath u) elem
          in case unescape p of
               None \<Rightarrow> Inl (ErrString ''invalid URL escape'')
             | Some _ \<Rightarrow> Inr (urlString (u\<lparr>uPath := escapedPath p\<rparr>)))"

lemma JoinPath_ex1:
  "JoinPath ''https://h:8080/base/'' ''api/v1/x%2Fy'' = Inr ''https://h:8080/base/api/v1/x%2Fy''"
  "JoinPath ''http://h'' ''api/v1/jwt'' = Inr ''http://h/api/v1/jwt''"
  "JoinPath ''http://h'' ''api/v1/community/..'' = Inr ''http://h/api/v1''"
  "JoinPath ''localhost:8080'' ''api/v2/route'' = Inr ''localhost:8080''"
  by code_simp+

text \<open>Authorities and fragments that are refused.\<close>

lemma urlParse_ex1:
  "map_sum id uAuthority (urlParse ''https://me:pw@h:80/a#b c'') = Inr ''me:pw@h:80''"
  "map_sum id uFragment (urlParse ''https://h/a#b c'') = Inr ''b%20c''"
  "urlParse ''https://h:80b/'' = Inl (parseError ''https://h:80b/'' ''invalid port after host'')"
  "urlParse ''http://h:1:2/'' = Inl (parseError ''http://h:1:2/'' ''invalid port after host'')"
  "urlParse ''http://a b/'' = Inl (parseError ''http://a b/'' ''invalid character in host name'')"
  "urlParse ''http://h/#%zz'' = Inl (parseError ''http://h/#%zz'' ''invalid URL escape'')"
  by code_simp+

end
