(* ===== verification/Requester.thy ===== *)
theory Requester
  imports GoURL GoJson GoTime
begin

text \<open>
  \<open>internal/requester\<close>: a JSON request with a token and its response. The transport (\<open>http.Client.Do\<close>)
  is a field of the client, a parameter of the model; the context and the world are passed to it.
\<close>

section \<open>HTTP\<close>

record http_request =
  hqMethod :: string
  hqURL :: string
  hqHeader :: "(string \<times> string) list"
  hqBody :: "json option"

text \<open>
  What the JSON decoder finds in a body: a value (text after it is not read), the end of the body
  before any value, the end of the body inside one, a syntax error, or an error of the connection.
\<close>

datatype body =
    BodyJson json
  | BodyEmpty
  | BodyTruncated
  | BodyMalformed string
  | BodyBroken go_error

fun decodeBody :: "'a decoder \<Rightarrow> 'a \<Rightarrow> body \<Rightarrow> go_error + 'a" where
  "decodeBody dec old (BodyJson v) = dec old v"
| "decodeBody dec old BodyEmpty = Inl ErrEOF"
| "decodeBody dec old BodyTruncated = Inl ErrUnexpectedEOF"
| "decodeBody dec old (BodyMalformed msg) = Inl (ErrString msg)"
| "decodeBody dec old (BodyBroken err) = Inl err"

record http_response =
  hrStatusCode :: int
  hrBody :: "body option"

record 'w http_client =
  hcTimeout :: duration
  hcDo :: "'w ctx \<Rightarrow> http_request \<Rightarrow> 'w \<Rightarrow> (go_error + http_response) \<times> 'w"

text \<open>
  \<open>http.NewRequestWithContext\<close> parses the URL. \<open>defaultClient\<close> is \<open>\&http.Client{Timeout: 5 * time.Second}\<close>;
  what such a client does is the parameter \<open>transport\<close>.
\<close>

definition newRequest :: "string \<Rightarrow> string \<Rightarrow> json option \<Rightarrow> go_error + http_request" where
  "newRequest meth u body =
     mapE (\<lambda>_. \<lparr>hqMethod = meth, hqURL = u, hqHeader = [], hqBody = body\<rparr>) (urlParse u)"

definition headerSet :: "string \<Rightarrow> string \<Rightarrow> http_request \<Rightarrow> http_request" where
  "headerSet key v req = req\<lparr>hqHeader := filter (\<lambda>(k, _). k \<noteq> key) (hqHeader req) @ [(key, v)]\<rparr>"

definition headerGet :: "string \<Rightarrow> http_request \<Rightarrow> string option" where
  "headerGet key req = map_of (hqHeader req) key"

type_synonym 'w transport =
  "duration \<Rightarrow> 'w ctx \<Rightarrow> http_request \<Rightarrow> 'w \<Rightarrow> (go_error + http_response) \<times> 'w"

definition defaultClient :: "'w transport \<Rightarrow> 'w http_client option \<Rightarrow> 'w http_client" where
  "defaultClient transport client =
     (case client of
        None \<Rightarrow> \<lparr>hcTimeout = 5 * second, hcDo = transport (5 * second)\<rparr>
      | Some c \<Rightarrow> c)"

section \<open>The requester\<close>

datatype request_log = RequestCompleted string string int

record 'w token_auth_requester =
  taClient :: "'w http_client"
  taToken :: string
  taEndpoint :: string
  taLogger :: "(request_log \<Rightarrow> 'w \<Rightarrow> 'w) option"

definition NewTokenAuthRequester ::
  "'w transport \<Rightarrow> string \<Rightarrow> string \<Rightarrow> 'w http_client option \<Rightarrow> (request_log \<Rightarrow> 'w \<Rightarrow> 'w) option \<Rightarrow>
   'w token_auth_requester" where
  "NewTokenAuthRequester transport token endpoint client logger =
     \<lparr>taClient = defaultClient transport client, taToken = token, taEndpoint = endpoint,
      taLogger = logger\<rparr>"

definition newHttpError :: "int \<Rightarrow> go_error" where
  "newHttpError code = HttpResponseError code"

text \<open>\<open>marshal\<close> is \<open>json.Marshal\<close> on the request type; a nil request and a nil reader are \<open>None\<close>.\<close>

definition marshalRequest ::
  "('q \<Rightarrow> go_error + json) \<Rightarrow> string \<Rightarrow> 'q option \<Rightarrow> go_error + json option" where
  "marshalRequest marshal meth request =
     (if meth = ''GET'' \<or> meth = ''DELETE'' then Inr None
      else case request of
        None \<Rightarrow> Inr None
      | Some q \<Rightarrow> mapE Some (marshal q))"

definition setHeaders :: "'w token_auth_requester \<Rightarrow> http_request \<Rightarrow> http_request" where
  "setHeaders r req =
     headerSet ''Accept'' ''application/json''
       (headerSet ''X-Token'' (taToken r)
         (headerSet ''Content-Type'' ''application/json'' req))"

text \<open>The request that \<open>do\<close> sends, or the error it returns before sending one.\<close>

definition buildRequest ::
  "('q \<Rightarrow> go_error + json) \<Rightarrow> 'w token_auth_requester \<Rightarrow> string \<Rightarrow> string \<Rightarrow> 'q option \<Rightarrow>
   go_error + http_request" where
  "buildRequest marshal r meth path request =
     (case marshalRequest marshal meth request of
        Inl err \<Rightarrow> Inl (Errorf ''marshal request'' err)
      | Inr body \<Rightarrow>
          (case (if path \<noteq> [] then JoinPath (taEndpoint r) path else Inr (taEndpoint r)) of
             Inl err \<Rightarrow> Inl err
           | Inr fullPath \<Rightarrow>
               (case newRequest meth fullPath body of
                  Inl err \<Rightarrow> Inl (Errorf ''create request'' err)
                | Inr req \<Rightarrow> Inr (setHeaders r req))))"

text \<open>
  What \<open>do\<close> makes of a response. The deferred \<open>resp.Body.Close()\<close> panics on a nil body, whatever the
  function was about to return (the check for a nil body comes too late).
\<close>

definition readResponse :: "'a decoder \<Rightarrow> 'a \<Rightarrow> http_response \<Rightarrow> go_error + 'a" where
  "readResponse dec zero resp =
     (case hrBody resp of
        None \<Rightarrow> Inl (GoPanic ''nil pointer dereference'')
      | Some b \<Rightarrow>
          if hrStatusCode resp < 200 \<or> 300 \<le> hrStatusCode resp
          then Inl (newHttpError (hrStatusCode resp))
          else case decodeBody dec zero b of
            Inl err \<Rightarrow> if err = ErrEOF then Inr zero else Inl (Errorf ''decode response'' err)
          | Inr v \<Rightarrow> Inr v)"

definition requester_do ::
  "('q \<Rightarrow> go_error + json) \<Rightarrow> 'a decoder \<Rightarrow> 'a \<Rightarrow> 'w token_auth_requester \<Rightarrow> 'w ctx \<Rightarrow> string \<Rightarrow> string \<Rightarrow>
   'q option \<Rightarrow> 'w \<Rightarrow> (go_error + 'a) \<times> 'w" where
  "requester_do marshal dec zero r ctx meth path request w =
     (case buildRequest marshal r meth path request of
        Inl err \<Rightarrow> (Inl err, w)
      | Inr req \<Rightarrow>
          (case hcDo (taClient r) ctx req w of
             (Inl err, w1) \<Rightarrow> (Inl (Errorf ''execute request'' err), w1)
           | (Inr resp, w1) \<Rightarrow>
               (let w2 = (case taLogger r of
                            None \<Rightarrow> w1
                          | Some logInfo \<Rightarrow> logInfo (RequestCompleted meth (hqURL req) (hrStatusCode resp)) w1)
                in (readResponse dec zero resp, w2))))"

definition requester_Get where
  "requester_Get marshal dec zero r ctx path = requester_do marshal dec zero r ctx ''GET'' path None"

definition requester_Put where
  "requester_Put marshal dec zero r ctx path request = requester_do marshal dec zero r ctx ''PUT'' path request"

definition requester_Post where
  "requester_Post marshal dec zero r ctx path request = requester_do marshal dec zero r ctx ''POST'' path request"

definition requester_Delete where
  "requester_Delete marshal dec zero r ctx path = requester_do marshal dec zero r ctx ''DELETE'' path None"

lemmas requester_methods = requester_Get_def requester_Put_def requester_Post_def requester_Delete_def

section \<open>Headers\<close>

lemma headerGet_headerSet [simp]:
  "headerGet k (headerSet key v req) = (if k = key then Some v else headerGet k req)"
proof -
  have "map_of (filter (\<lambda>(k, _). k \<noteq> key) h) k = (if k = key then None else map_of h k)" for h :: "(string \<times> string) list"
    by (induction h) auto
  then show ?thesis by (simp add: headerGet_def headerSet_def map_add_def split: option.split)
qed

lemma headerGet_new [simp]: "headerGet k \<lparr>hqMethod = m, hqURL = u, hqHeader = [], hqBody = b\<rparr> = None"
  by (simp add: headerGet_def)

lemma headerSet_simps [simp]:
  "hqMethod (headerSet k v req) = hqMethod req" "hqURL (headerSet k v req) = hqURL req"
  "hqBody (headerSet k v req) = hqBody req"
  by (simp_all add: headerSet_def)

lemma newRequest_Inr:
  "newRequest meth u body = Inr req \<longleftrightarrow>
    (\<exists>v. urlParse u = Inr v) \<and> req = \<lparr>hqMethod = meth, hqURL = u, hqHeader = [], hqBody = body\<rparr>"
  by (auto simp: newRequest_def)

lemma buildRequest_Inr:
  assumes "buildRequest marshal r meth path request = Inr req"
  shows "\<exists>fullPath body. marshalRequest marshal meth request = Inr body \<and>
    (if path \<noteq> [] then JoinPath (taEndpoint r) path else Inr (taEndpoint r)) = Inr fullPath \<and>
    (\<exists>u. urlParse fullPath = Inr u) \<and>
    hqMethod req = meth \<and> hqURL req = fullPath \<and> hqBody req = body \<and>
    headerGet ''X-Token'' req = Some (taToken r) \<and>
    headerGet ''Content-Type'' req = Some ''application/json'' \<and>
    headerGet ''Accept'' req = Some ''application/json'' \<and> headerGet ''X-Jwt'' req = None"
proof -
  obtain body where body: "marshalRequest marshal meth request = Inr body"
    using assms by (auto simp: buildRequest_def split: sum.splits)
  obtain fullPath where path: "(if path \<noteq> [] then JoinPath (taEndpoint r) path else Inr (taEndpoint r)) = Inr fullPath"
    using assms body by (auto simp: buildRequest_def split: sum.splits)
  obtain req0 where new: "newRequest meth fullPath body = Inr req0" and req: "req = setHeaders r req0"
    using assms unfolding buildRequest_def body path by (auto split: sum.splits)
  from new obtain u where "urlParse fullPath = Inr u"
    and "req0 = \<lparr>hqMethod = meth, hqURL = fullPath, hqHeader = [], hqBody = body\<rparr>"
    unfolding newRequest_Inr by blast
  with body path req show ?thesis by (auto simp: setHeaders_def)
qed

section \<open>Outcome of a request\<close>

lemma requester_do_Inr:
  assumes "requester_do marshal dec zero r ctx meth path request w = (Inr a, w')"
  shows "\<exists>req resp w1. buildRequest marshal r meth path request = Inr req \<and>
    hcDo (taClient r) ctx req w = (Inr resp, w1) \<and> readResponse dec zero resp = Inr a"
  using assms by (auto simp: requester_do_def Let_def split: sum.splits prod.splits)

lemma readResponse_Inr:
  "readResponse dec zero resp = Inr a \<Longrightarrow>
    200 \<le> hrStatusCode resp \<and> hrStatusCode resp < 300 \<and>
    (\<exists>b. hrBody resp = Some b \<and> (decodeBody dec zero b = Inr a \<or> decodeBody dec zero b = Inl ErrEOF \<and> a = zero))"
  by (auto simp: readResponse_def split: option.splits if_splits sum.splits)

lemma readResponse_status:
  "hrBody resp = Some b \<Longrightarrow> hrStatusCode resp < 200 \<or> 300 \<le> hrStatusCode resp \<Longrightarrow>
    readResponse dec zero resp = Inl (HttpResponseError (hrStatusCode resp))"
  by (simp add: readResponse_def newHttpError_def)

end
