(* ===== verification/RegistryService.thy ===== *)
theory RegistryService
  imports Requester RegistryTypes
begin

text \<open>
  \<open>internal/routeregistry/service.go\<close>: the Route Registry client. A failed call returns its error
  alone; the value that Go returns beside it is never used. \<open>registry_service\<close> is the interface
  \<open>RegistryService\<close> that the commands call, and \<open>clientService\<close> its implementation here.
\<close>

section \<open>The client\<close>

text \<open>\<open>client\<close> is never nil in a client made by \<open>NewRegistryClient\<close>.\<close>

record 'w registry_client =
  rcClient :: "'w http_client"
  rcToken :: string
  rcEndpoint :: string
  rcLogger :: "(request_log \<Rightarrow> 'w \<Rightarrow> 'w) option"

definition NewRegistryClient ::
  "'w transport \<Rightarrow> string \<Rightarrow> string \<Rightarrow> 'w http_client option \<Rightarrow> (request_log \<Rightarrow> 'w \<Rightarrow> 'w) option \<Rightarrow>
   'w registry_client" where
  "NewRegistryClient transport token endpoint client logger =
     \<lparr>rcClient = defaultClient transport client, rcToken = token, rcEndpoint = endpoint,
      rcLogger = logger\<rparr>"

text \<open>The requester of a call; as the client is not nil, it does not fall back on a default one.\<close>

definition clientRequester :: "'w registry_client \<Rightarrow> 'w token_auth_requester" where
  "clientRequester c =
     NewTokenAuthRequester (\<lambda>_. hcDo (rcClient c)) (rcToken c) (rcEndpoint c) (Some (rcClient c)) (rcLogger c)"

definition client_do ::
  "('q \<Rightarrow> go_error + json) \<Rightarrow> 'a decoder \<Rightarrow> 'a \<Rightarrow> 'w registry_client \<Rightarrow> 'w ctx \<Rightarrow> string \<Rightarrow> string \<Rightarrow>
   'q option \<Rightarrow> 'w \<Rightarrow> (go_error + 'a) \<times> 'w" where
  "client_do marshal dec zero c ctx meth path req w =
     (let r = clientRequester c in
      if meth = ''GET'' then requester_Get marshal dec zero r ctx path w
      else if meth = ''PUT'' then requester_Put marshal dec zero r ctx path req w
      else if meth = ''POST'' then requester_Post marshal dec zero r ctx path req w
      else if meth = ''DELETE'' then requester_Delete marshal dec zero r ctx path w
      else (Inl (ErrString (''unsupported method: '' @ meth)), w))"

text \<open>The type \<open>None\<close> of requests and responses without content.\<close>

definition encNone :: "unit \<Rightarrow> go_error + json" where
  "encNone _ = Inr (JObj [])"

definition decNone :: "unit decoder" where
  "decNone = decStruct []"

section \<open>Communities\<close>

definition AddCommunity ::
  "'w registry_client \<Rightarrow> 'w ctx \<Rightarrow> string \<Rightarrow> 'w \<Rightarrow> (go_error + community option) \<times> 'w" where
  "AddCommunity c ctx name w =
     client_do (\<lambda>q. Inr (encCommunity q)) (decPtr zeroCommunity decCommunity) None c ctx ''POST''
       ''api/v1/community'' (Some (zeroCommunity\<lparr>cmName := name\<rparr>)) w"

definition RemoveCommunity ::
  "'w registry_client \<Rightarrow> 'w ctx \<Rightarrow> string \<Rightarrow> 'w \<Rightarrow> (go_error + unit) \<times> 'w" where
  "RemoveCommunity c ctx identifier w =
     (let path = ''api/v1/community/'' @ PathEscape identifier
      in client_do encNone decNone () c ctx ''DELETE'' path None w)"

definition fetchCommunities ::
  "'w registry_client \<Rightarrow> 'w ctx \<Rightarrow> 'w \<Rightarrow> (go_error + community list) \<times> 'w" where
  "fetchCommunities c ctx w =
     client_do encNone (decSlice zeroCommunity decCommunity) [] c ctx ''GET'' ''api/v1/community'' None w"

definition ListCommunities ::
  "'w registry_client \<Rightarrow> 'w ctx \<Rightarrow> string \<Rightarrow> 'w \<Rightarrow> (go_error + community list) \<times> 'w" where
  "ListCommunities c ctx identifier w =
     (case fetchCommunities c ctx w of
        (Inl err, w1) \<Rightarrow> (Inl err, w1)
      | (Inr cl, w1) \<Rightarrow>
          if identifier = [] then (Inr cl, w1)
          else
            (let filtered = filter (\<lambda>x. Community_Matches x identifier) cl in
             if length filtered = 0
             then (Inl (ErrString (''community not found: '' @ identifier)), w1)
             else (Inr filtered, w1)))"

text \<open>\<open>cl[0]\<close> of an empty list panics.\<close>

definition indexFirst :: "'a list \<Rightarrow> go_error + 'a" where
  "indexFirst xs =
     (case xs of
        [] \<Rightarrow> Inl (GoPanic ''index out of range [0] with length 0'')
      | x # _ \<Rightarrow> Inr x)"

definition ResolveCommunity ::
  "'w registry_client \<Rightarrow> 'w ctx \<Rightarrow> string \<Rightarrow> 'w \<Rightarrow> (go_error + community) \<times> 'w" where
  "ResolveCommunity c ctx identifier w =
     (case ListCommunities c ctx identifier w of
        (Inl err, w1) \<Rightarrow> (Inl err, w1)
      | (Inr cl, w1) \<Rightarrow>
          if 1 < length cl
          then (Inl (ErrString (''community identifier not unique, found '' @ itoa (int (length cl)) @
                  '' matches: '' @ identifier)), w1)
          else (indexFirst cl, w1))"

definition communityRoutePath :: "string \<Rightarrow> string \<Rightarrow> string" where
  "communityRoutePath communityID routeID =
     ''api/v1/community/'' @ PathEscape communityID @ ''/route/'' @ PathEscape routeID"

definition AddCommunityRoute ::
  "'w registry_client \<Rightarrow> 'w ctx \<Rightarrow> string \<Rightarrow> string \<Rightarrow> 'w \<Rightarrow> (go_error + unit) \<times> 'w" where
  "AddCommunityRoute c ctx communityID routeID w =
     (case client_do encNone decMembershipResponse zeroMembershipResponse c ctx ''PUT''
             (communityRoutePath communityID routeID) None w of
        (Inl err, w1) \<Rightarrow> (Inl err, w1)
      | (Inr _, w1) \<Rightarrow> (Inr (), w1))"

definition RemoveCommunityRoute ::
  "'w registry_client \<Rightarrow> 'w ctx \<Rightarrow> string \<Rightarrow> string \<Rightarrow> 'w \<Rightarrow> (go_error + unit) \<times> 'w" where
  "RemoveCommunityRoute c ctx communityID routeID w =
     client_do encNone decNone () c ctx ''DELETE'' (communityRoutePath communityID routeID) None w"

section \<open>Routes\<close>

definition client_RegisterRoute ::
  "'w registry_client \<Rightarrow> 'w ctx \<Rightarrow> string \<Rightarrow> string \<Rightarrow> 'w \<Rightarrow> (go_error + registration) \<times> 'w" where
  "client_RegisterRoute c ctx communityName routeName w =
     client_do (\<lambda>q. Inr (encRegistrationRequest q))
       (decPtr zeroRegistrationResponse decRegistrationResponse) None c ctx ''POST'' ''api/v2/route''
       (Some \<lparr>rqName = routeName, rqDomainName = None, rqCommunityName = Some communityName\<rparr>) w"

definition refreshJWTPath :: string where "refreshJWTPath = ''api/v1/jwt''"

text \<open>The request of \<open>RefreshJWT\<close>, or the error before one is sent.\<close>

definition refreshRequest :: "'w registry_client \<Rightarrow> string \<Rightarrow> go_error + http_request" where
  "refreshRequest c jwt =
     (case JoinPath (rcEndpoint c) refreshJWTPath of
        Inl err \<Rightarrow> Inl err
      | Inr endpoint \<Rightarrow>
          (case newRequest ''POST'' endpoint None of
             Inl err \<Rightarrow> Inl (Errorf ''create JWT refresh request'' err)
           | Inr req \<Rightarrow> Inr (headerSet ''Accept'' ''application/json'' (headerSet ''X-Jwt'' jwt req))))"

text \<open>The anonymous struct with the one field \<open>JWT\<close> is its field.\<close>

definition decJWT :: "string decoder" where
  "decJWT = decStruct [(''jwt'', decString)]"

definition readRefreshResponse :: "http_response \<Rightarrow> go_error + string" where
  "readRefreshResponse resp =
     (case hrBody resp of
        None \<Rightarrow> Inl (GoPanic ''nil pointer dereference'')
      | Some b \<Rightarrow>
          if hrStatusCode resp < 200 \<or> 300 \<le> hrStatusCode resp
          then Inl (HttpResponseError (hrStatusCode resp))
          else case decodeBody decJWT [] b of
            Inl err \<Rightarrow> Inl (Errorf ''decode JWT refresh response'' err)
          | Inr jwt \<Rightarrow>
              if jwt = [] then Inl (ErrString ''JWT refresh response contains an empty JWT'')
              else Inr jwt)"

definition RefreshJWT ::
  "'w registry_client \<Rightarrow> 'w ctx \<Rightarrow> string \<Rightarrow> 'w \<Rightarrow> (go_error + string) \<times> 'w" where
  "RefreshJWT c ctx jwt w =
     (case refreshRequest c jwt of
        Inl err \<Rightarrow> (Inl err, w)
      | Inr req \<Rightarrow>
          (case hcDo (rcClient c) ctx req w of
             (Inl err, w1) \<Rightarrow> (Inl (Errorf ''execute JWT refresh request'' err), w1)
           | (Inr resp, w1) \<Rightarrow> (readRefreshResponse resp, w1)))"

definition fetchRoutes :: "'w registry_client \<Rightarrow> 'w ctx \<Rightarrow> 'w \<Rightarrow> (go_error + route list) \<times> 'w" where
  "fetchRoutes c ctx w =
     client_do encNone (decSlice zeroRoute decRoute) [] c ctx ''GET'' ''api/v1/route'' None w"

definition ListRoutes ::
  "'w registry_client \<Rightarrow> 'w ctx \<Rightarrow> string \<Rightarrow> 'w \<Rightarrow> (go_error + route list) \<times> 'w" where
  "ListRoutes c ctx identifier w =
     (case fetchRoutes c ctx w of
        (Inl err, w1) \<Rightarrow> (Inl err, w1)
      | (Inr rl, w1) \<Rightarrow>
          if identifier = [] then (Inr rl, w1)
          else
            (let filtered = filter (\<lambda>x. Route_Matches x identifier) rl in
             if length filtered = 0
             then (Inl (ErrString (''route not found: '' @ identifier)), w1)
             else (Inr filtered, w1)))"

definition ResolveRoute ::
  "'w registry_client \<Rightarrow> 'w ctx \<Rightarrow> string \<Rightarrow> 'w \<Rightarrow> (go_error + route) \<times> 'w" where
  "ResolveRoute c ctx identifier w =
     (case ListRoutes c ctx identifier w of
        (Inl err, w1) \<Rightarrow> (Inl err, w1)
      | (Inr rl, w1) \<Rightarrow>
          if 1 < length rl
          then (Inl (ErrString (''route identifier not unique, found '' @ itoa (int (length rl)) @
                  '' matches: '' @ identifier)), w1)
          else (indexFirst rl, w1))"

section \<open>The interface\<close>

record 'w registry_service =
  svRegisterRoute :: "'w ctx \<Rightarrow> string \<Rightarrow> string \<Rightarrow> 'w \<Rightarrow> (go_error + registration) \<times> 'w"
  svRefreshJWT :: "'w ctx \<Rightarrow> string \<Rightarrow> 'w \<Rightarrow> (go_error + string) \<times> 'w"
  svAddCommunity :: "'w ctx \<Rightarrow> string \<Rightarrow> 'w \<Rightarrow> (go_error + community option) \<times> 'w"
  svRemoveCommunity :: "'w ctx \<Rightarrow> string \<Rightarrow> 'w \<Rightarrow> (go_error + unit) \<times> 'w"
  svResolveCommunity :: "'w ctx \<Rightarrow> string \<Rightarrow> 'w \<Rightarrow> (go_error + community) \<times> 'w"
  svListCommunities :: "'w ctx \<Rightarrow> string \<Rightarrow> 'w \<Rightarrow> (go_error + community list) \<times> 'w"
  svAddCommunityRoute :: "'w ctx \<Rightarrow> string \<Rightarrow> string \<Rightarrow> 'w \<Rightarrow> (go_error + unit) \<times> 'w"
  svRemoveCommunityRoute :: "'w ctx \<Rightarrow> string \<Rightarrow> string \<Rightarrow> 'w \<Rightarrow> (go_error + unit) \<times> 'w"
  svResolveRoute :: "'w ctx \<Rightarrow> string \<Rightarrow> 'w \<Rightarrow> (go_error + route) \<times> 'w"
  svListRoutes :: "'w ctx \<Rightarrow> string \<Rightarrow> 'w \<Rightarrow> (go_error + route list) \<times> 'w"

definition clientService :: "'w registry_client \<Rightarrow> 'w registry_service" where
  "clientService c =
     \<lparr>svRegisterRoute = client_RegisterRoute c, svRefreshJWT = RefreshJWT c,
      svAddCommunity = AddCommunity c, svRemoveCommunity = RemoveCommunity c,
      svResolveCommunity = ResolveCommunity c, svListCommunities = ListCommunities c,
      svAddCommunityRoute = AddCommunityRoute c, svRemoveCommunityRoute = RemoveCommunityRoute c,
      svResolveRoute = ResolveRoute c, svListRoutes = ListRoutes c\<rparr>"

end
