(* ===== verification/RegistryProperties.thy ===== *)
theory RegistryProperties
  imports RegistryService
begin

text \<open>
  What holds of the registry client: matching, listing and resolving (proved once, in two locales,
  for communities and routes, whose code is the same but for names), the requests that are sent, and
  what becomes of their responses.
\<close>

section \<open>Matching: the interface \<open>Identifiable\<close>\<close>

locale identifiable =
  fixes matches :: "'e \<Rightarrow> string \<Rightarrow> bool"
    and idOf :: "'e \<Rightarrow> string option"
    and nameOf :: "'e \<Rightarrow> string option"
  assumes matches_iff: "matches x p \<longleftrightarrow>
    nameOf x = Some p \<or> (\<exists>i. idOf x = Some i \<and> MinIDLength \<le> length p \<and> prefix p i)"
begin

lemma matches_own_id: "idOf x = Some i \<Longrightarrow> MinIDLength \<le> length i \<Longrightarrow> matches x i"
  by (simp add: matches_iff)

text \<open>A partial ID may be shortened to the minimal length.\<close>

lemma matches_shorter:
  "idOf x = Some i \<Longrightarrow> prefix p i \<Longrightarrow> prefix q p \<Longrightarrow> MinIDLength \<le> length q \<Longrightarrow> matches x q"
  using prefix_order.trans [of q p i] by (auto simp: matches_iff)

text \<open>Too short for an ID: only the name counts.\<close>

lemma matches_short: "length p < MinIDLength \<Longrightarrow> matches x p \<longleftrightarrow> nameOf x = Some p"
  by (auto simp: matches_iff)

text \<open>Two entities with IDs and neither named \<open>p\<close> that both match \<open>p\<close> agree on the first eight bytes.\<close>

lemma matches_both:
  assumes "matches x p" and "matches y p" and "nameOf x \<noteq> Some p" and "nameOf y \<noteq> Some p"
  shows "\<exists>i j. idOf x = Some i \<and> idOf y = Some j \<and> take MinIDLength i = take MinIDLength j"
proof -
  obtain i j where ij: "idOf x = Some i" "idOf y = Some j" "MinIDLength \<le> length p"
      and "prefix p i" "prefix p j"
    using assms by (auto simp: matches_iff)
  then obtain u v where "i = p @ u" "j = p @ v" by (auto simp: prefix_def)
  with ij show ?thesis by simp
qed

end

lemma Community_Matches_iff:
  "Community_Matches c p \<longleftrightarrow> Some (cmName c) = Some p \<or>
    (\<exists>i. cmID c = Some i \<and> MinIDLength \<le> length p \<and> prefix p i)"
  by (auto simp: Community_Matches_def hasPrefix_iff split: option.splits)

definition routeFullName :: "route \<Rightarrow> string option" where
  "routeFullName r = map_option (\<lambda>d. d @ ''/'' @ rtName r) (rtDomainName r)"

lemma Route_Matches_iff:
  "Route_Matches r p \<longleftrightarrow> routeFullName r = Some p \<or>
    (\<exists>i. rtID r = Some i \<and> MinIDLength \<le> length p \<and> prefix p i)"
  by (auto simp: Route_Matches_def routeFullName_def hasPrefix_iff split: option.splits)

interpretation cm: identifiable Community_Matches cmID "\<lambda>c. Some (cmName c)"
  by unfold_locales (rule Community_Matches_iff)

interpretation rt: identifiable Route_Matches rtID routeFullName
  by unfold_locales (rule Route_Matches_iff)

section \<open>Listing and resolving\<close>

locale listing =
  fixes fetch :: "'w \<Rightarrow> (go_error + 'e list) \<times> 'w"
    and matches :: "'e \<Rightarrow> string \<Rightarrow> bool"
    and list_op :: "string \<Rightarrow> 'w \<Rightarrow> (go_error + 'e list) \<times> 'w"
    and resolve_op :: "string \<Rightarrow> 'w \<Rightarrow> (go_error + 'e) \<times> 'w"
    and missing :: "string \<Rightarrow> go_error"
    and ambiguous :: "nat \<Rightarrow> string \<Rightarrow> go_error"
  assumes list_fetch_error: "fetch w = (Inl err, w') \<Longrightarrow> list_op p w = (Inl err, w')"
    and list_all: "fetch w = (Inr xs, w') \<Longrightarrow> list_op [] w = (Inr xs, w')"
    and list_match: "fetch w = (Inr xs, w') \<Longrightarrow> p \<noteq> [] \<Longrightarrow> list_op p w =
      (let ys = filter (\<lambda>x. matches x p) xs in if ys = [] then (Inl (missing p), w') else (Inr ys, w'))"
    and resolve_error: "list_op p w = (Inl err, w') \<Longrightarrow> resolve_op p w = (Inl err, w')"
    and resolve_many: "list_op p w = (Inr xs, w') \<Longrightarrow> 1 < length xs \<Longrightarrow>
      resolve_op p w = (Inl (ambiguous (length xs) p), w')"
    and resolve_few: "list_op p w = (Inr xs, w') \<Longrightarrow> length xs \<le> 1 \<Longrightarrow>
      resolve_op p w = (indexFirst xs, w')"
    and plain: "missing p \<noteq> GoPanic t" "ambiguous n p \<noteq> GoPanic t"
begin

lemma list_Inr:
  assumes "p \<noteq> []"
  shows "list_op p w = (Inr ys, w') \<longleftrightarrow>
    (\<exists>xs. fetch w = (Inr xs, w') \<and> ys = filter (\<lambda>x. matches x p) xs \<and> ys \<noteq> [])"
proof (cases "fetch w")
  case (Pair r v)
  with list_fetch_error list_match assms show ?thesis
    by (cases r) (auto simp: Let_def split: if_splits)
qed

lemma list_Inl:
  assumes "p \<noteq> []"
  shows "list_op p w = (Inl err, w') \<longleftrightarrow> fetch w = (Inl err, w') \<or>
    (\<exists>xs. fetch w = (Inr xs, w') \<and> (\<forall>x \<in> set xs. \<not> matches x p) \<and> err = missing p)"
proof (cases "fetch w")
  case (Pair r v)
  with list_fetch_error list_match assms show ?thesis
    by (cases r) (auto simp: Let_def filter_empty_conv split: if_splits)
qed

text \<open>Resolving succeeds exactly on a unique match.\<close>

lemma resolve_unique:
  assumes "p \<noteq> []"
  shows "resolve_op p w = (Inr x, w') \<longleftrightarrow>
    (\<exists>xs. fetch w = (Inr xs, w') \<and> filter (\<lambda>x. matches x p) xs = [x])"
proof (cases "list_op p w")
  case (Pair r v)
  show ?thesis
  proof (cases r)
    case (Inl err)
    with Pair resolve_error list_Inl [OF assms, of w err v] show ?thesis
      by (auto simp: filter_empty_conv)
  next
    case (Inr ys)
    with Pair list_Inr [OF assms, of w ys v] obtain xs
      where xs: "fetch w = (Inr xs, v)" "ys = filter (\<lambda>x. matches x p) xs" "ys \<noteq> []" by auto
    show ?thesis
    proof (cases "length ys \<le> 1")
      case True
      then obtain y where y: "ys = [y]" using xs(3) by (cases ys) auto
      with True Pair Inr resolve_few [of p w ys v] have "resolve_op p w = (Inr y, v)"
        by (simp add: indexFirst_def)
      with xs(1,2) y show ?thesis by (metis Pair_inject list.inject sum.inject(2))
    next
      case False
      with Pair Inr resolve_many [of p w ys v] xs show ?thesis by auto
    qed
  qed
qed

text \<open>It panics only if fetching did, except on an empty identifier and an empty list.\<close>

lemma resolve_panic:
  assumes "p \<noteq> []" and "resolve_op p w = (Inl (GoPanic t), w')"
  shows "fetch w = (Inl (GoPanic t), w')"
proof (cases "list_op p w")
  case (Pair r v)
  show ?thesis
  proof (cases r)
    case (Inl err)
    with Pair resolve_error [of p w err v] assms(2) have "err = GoPanic t" "v = w'" by simp_all
    with Pair Inl list_Inl [OF assms(1), of w err v] plain(1) show ?thesis by metis
  next
    case (Inr ys)
    with Pair list_Inr [OF assms(1), of w ys v] have "ys \<noteq> []" by auto
    with Pair Inr assms plain resolve_many [of p w ys v] resolve_few [of p w ys v] show ?thesis
      by (cases "length ys \<le> 1") (auto simp: indexFirst_def split: list.splits)
  qed
qed

lemma resolve_nothing:
  "fetch w = (Inr [], w') \<Longrightarrow>
    resolve_op [] w = (Inl (GoPanic ''index out of range [0] with length 0''), w')"
  using list_all [of w "[]" w'] resolve_few [of "[]" w "[]" w'] by (simp add: indexFirst_def)

end

interpretation cl: listing "fetchCommunities c ctx" Community_Matches "ListCommunities c ctx"
  "ResolveCommunity c ctx" "\<lambda>p. ErrString (''community not found: '' @ p)"
  "\<lambda>n p. ErrString (''community identifier not unique, found '' @ itoa (int n) @ '' matches: '' @ p)"
  for c ctx
  by unfold_locales (simp_all add: ListCommunities_def ResolveCommunity_def Let_def)

interpretation rl: listing "fetchRoutes c ctx" Route_Matches "ListRoutes c ctx"
  "ResolveRoute c ctx" "\<lambda>p. ErrString (''route not found: '' @ p)"
  "\<lambda>n p. ErrString (''route identifier not unique, found '' @ itoa (int n) @ '' matches: '' @ p)"
  for c ctx
  by unfold_locales (simp_all add: ListRoutes_def ResolveRoute_def Let_def)

section \<open>Requests\<close>

text \<open>\<open>do\<close> sends one request or none.\<close>

lemma requester_do_sends:
  "(\<exists>err. buildRequest marshal r meth path request = Inl err \<and>
      requester_do marshal dec zero r ctx meth path request w = (Inl err, w)) \<or>
   (\<exists>req. buildRequest marshal r meth path request = Inr req \<and>
      fst (requester_do marshal dec zero r ctx meth path request w) =
        (case hcDo (taClient r) ctx req w of
           (Inl err, _) \<Rightarrow> Inl (Errorf ''execute request'' err)
         | (Inr resp, _) \<Rightarrow> readResponse dec zero resp))"
  by (cases "buildRequest marshal r meth path request")
    (auto simp: requester_do_def Let_def split: prod.splits sum.splits)

lemma buildRequest_cong:
  assumes "taEndpoint r = taEndpoint r'" and "taToken r = taToken r'"
  shows "buildRequest marshal r = buildRequest marshal r'"
  using assms by (simp add: fun_eq_iff buildRequest_def setHeaders_def cong: sum.case_cong)

lemma clientRequester_simps [simp]:
  "taClient (clientRequester c) = rcClient c" "taToken (clientRequester c) = rcToken c"
  "taEndpoint (clientRequester c) = rcEndpoint c" "taLogger (clientRequester c) = rcLogger c"
  by (simp_all add: clientRequester_def NewTokenAuthRequester_def defaultClient_def)

definition supportedMethod :: "string \<Rightarrow> bool" where
  "supportedMethod meth \<longleftrightarrow> meth \<in> {''GET'', ''PUT'', ''POST'', ''DELETE''}"

text \<open>\<open>Get\<close> and \<open>Delete\<close> have no request body.\<close>

lemma client_do_requester:
  "supportedMethod meth \<Longrightarrow> client_do marshal dec zero c ctx meth path req w =
    requester_do marshal dec zero (clientRequester c) ctx meth path
      (if meth = ''GET'' \<or> meth = ''DELETE'' then None else req) w"
  by (auto simp: client_do_def supportedMethod_def requester_methods)

text \<open>The error of a status outside 2xx is found again by \<open>errors.As\<close>.\<close>

lemma client_do_status:
  assumes "supportedMethod meth"
    and "buildRequest marshal (clientRequester c) meth path
      (if meth = ''GET'' \<or> meth = ''DELETE'' then None else req) = Inr q"
    and "hcDo (rcClient c) ctx q w = (Inr resp, w1)" and "hrBody resp = Some b"
    and "hrStatusCode resp < 200 \<or> 300 \<le> hrStatusCode resp"
  shows "fst (client_do marshal dec zero c ctx meth path req w) = Inl (HttpResponseError (hrStatusCode resp))"
  using assms readResponse_status [OF assms(4,5), of dec zero]
  by (simp add: client_do_requester requester_do_def Let_def)

text \<open>A call depends on the transport only through requests with the token.\<close>

lemma client_do_token:
  assumes "\<And>ctx req w. headerGet ''X-Token'' req = Some (rcToken c) \<Longrightarrow> headerGet ''X-Jwt'' req = None \<Longrightarrow>
      d ctx req w = hcDo (rcClient c) ctx req w"
  shows "client_do marshal dec zero (c\<lparr>rcClient := (rcClient c)\<lparr>hcDo := d\<rparr>\<rparr>) ctx meth path req w
    = client_do marshal dec zero c ctx meth path req w"
proof -
  let ?c = "c\<lparr>rcClient := (rcClient c)\<lparr>hcDo := d\<rparr>\<rparr>"
  have same: "buildRequest marshal (clientRequester ?c) = buildRequest marshal (clientRequester c)"
    by (rule buildRequest_cong) simp_all
  have do: "requester_do marshal dec zero (clientRequester ?c) ctx meth path q w
      = requester_do marshal dec zero (clientRequester c) ctx meth path q w" for q
  proof (cases "buildRequest marshal (clientRequester c) meth path q")
    case (Inl err)
    with same show ?thesis by (simp add: requester_do_def)
  next
    case (Inr r)
    moreover have "d ctx r w = hcDo (rcClient c) ctx r w"
      using buildRequest_Inr [OF Inr] by (intro assms) auto
    ultimately show ?thesis using same
      by (simp add: requester_do_def cong: sum.case_cong prod.case_cong)
  qed
  show ?thesis
  proof (cases "supportedMethod meth")
    case True
    then show ?thesis by (simp add: client_do_requester do)
  next
    case False
    then show ?thesis by (simp add: client_do_def supportedMethod_def)
  qed
qed

text \<open>A \<open>do\<close> never sends under an endpoint that does not parse; the error is a \<open>*url.Error\<close>.\<close>

definition urlErrorOnly :: "go_error + 'a \<Rightarrow> bool" where
  "urlErrorOnly r \<longleftrightarrow> (\<forall>err. r = Inl err \<longrightarrow> (\<exists>op v e. err = UrlError op v (ErrString e)))"

lemma urlErrorOnly_intros:
  "urlErrorOnly (Inr a)"
  "urlErrorOnly (Inl (parseError v msg))"
  "urlErrorOnly x \<Longrightarrow> urlErrorOnly y \<Longrightarrow> urlErrorOnly (if b then x else y)"
  "urlErrorOnly x \<Longrightarrow> (\<And>a. urlErrorOnly (f a)) \<Longrightarrow> urlErrorOnly (case q of None \<Rightarrow> x | Some a \<Rightarrow> f a)"
  "(\<And>a b. urlErrorOnly (g a b)) \<Longrightarrow> urlErrorOnly (case p of (a, b) \<Rightarrow> g a b)"
  "(\<And>a. urlErrorOnly (f a)) \<Longrightarrow> urlErrorOnly (Let a f)"
  by (auto simp: urlErrorOnly_def parseError_def split: option.split prod.split)

lemma urlParse_error:
  assumes "urlParse u = Inl err"
  shows "\<exists>op v e. err = UrlError op v (ErrString e)"
proof -
  have "urlErrorOnly (parseNoFragment t)" for t
    unfolding parseNoFragment_def by (intro urlErrorOnly_intros)
  then have "urlErrorOnly (urlParse u)"
    by (auto simp: urlErrorOnly_def urlParse_def parseError_def split: prod.splits sum.splits option.splits if_splits)
  with assms show ?thesis by (simp add: urlErrorOnly_def)
qed

lemma marshalRequest_total:
  assumes "\<And>q. \<exists>j. marshal q = Inr j"
  shows "\<exists>body. marshalRequest marshal meth req = Inr body"
proof (cases req)
  case (Some q)
  obtain j where "marshal q = Inr j" using assms by blast
  with Some show ?thesis by (simp add: marshalRequest_def)
qed (simp add: marshalRequest_def)

lemma client_do_bad_endpoint:
  assumes "supportedMethod meth" and "path \<noteq> []" and "urlParse (rcEndpoint c) = Inl err"
    and "\<And>q. \<exists>j. marshal q = Inr j"
  shows "client_do marshal dec zero c ctx meth path req w = (Inl err, w)"
proof -
  obtain body where "marshalRequest marshal meth (if meth = ''GET'' \<or> meth = ''DELETE'' then None else req)
      = Inr body"
    using marshalRequest_total [where marshal = marshal, OF assms(4)] by blast
  moreover have "JoinPath (rcEndpoint c) path = Inl err" using assms(3) by (simp add: JoinPath_def)
  ultimately have "buildRequest marshal (clientRequester c) meth path
      (if meth = ''GET'' \<or> meth = ''DELETE'' then None else req) = Inl err"
    using assms(2) by (simp add: buildRequest_def)
  with assms(1) show ?thesis by (simp add: client_do_requester requester_do_def)
qed

section \<open>Refreshing a JWT\<close>

lemma refreshRequest_Inr:
  assumes "refreshRequest c jwt = Inr req"
  shows "hqMethod req = ''POST'' \<and> hqBody req = None \<and> headerGet ''X-Jwt'' req = Some jwt \<and>
    headerGet ''X-Token'' req = None \<and> JoinPath (rcEndpoint c) refreshJWTPath = Inr (hqURL req)"
  using assms
  by (auto simp: refreshRequest_def newRequest_def split: sum.splits)

lemma readRefreshResponse_Inr: "readRefreshResponse resp = Inr jwt \<Longrightarrow>
    jwt \<noteq> [] \<and> 200 \<le> hrStatusCode resp \<and> hrStatusCode resp < 300"
  by (auto simp: readRefreshResponse_def split: option.splits if_splits sum.splits)

end
