(* ===== verification/GoURLProperties.thy ===== *)
theory GoURLProperties
  imports GoURL
begin

text \<open>
  Escaped path segments and joined URLs: escaping is undone by unescaping and keeps separators out,
  so that a segment joined to a URL stays one segment, unless it is empty, \<open>.\<close> or \<open>..\<close>.
\<close>

section \<open>Escaping a segment\<close>

lemma hexVal_hexUpper: "n < 16 \<Longrightarrow> hexVal (hexUpper n) = Some n"
  by (auto simp: hexVal_def hexUpper_def isDigit_def)

lemma keepPath_hexUpper: "n < 16 \<Longrightarrow> keepPath (hexUpper n)"
  by (auto simp: keepPath_def unreserved_def isAlnum_def isDigit_def hexUpper_def)

lemma hexVal_slash: "hexVal CHR ''/'' = None"
  by code_simp

lemma hexUpper_not_slash: "n < 16 \<Longrightarrow> hexUpper n \<noteq> CHR ''/''"
  by (metis hexVal_hexUpper hexVal_slash option.distinct(1))

lemma keep_special [simp]:
  "\<not> keepSegment CHR ''%''" "\<not> keepSegment CHR ''/''" "\<not> keepSegment CHR ''?''"
  "\<not> keepPath CHR ''%''" "keepSegment CHR ''.''"
  by code_simp+

lemma keepPath_keepSegment: "keepSegment c \<Longrightarrow> keepPath c"
  by (auto simp: keepSegment_def keepPath_def)

lemma byte_split: "char_of (16 * (byte c div 16) + byte c mod 16) = c"
  by simp

lemma byte_nibbles: "byte c div 16 < 16" "byte c mod 16 < 16"
  using nat_of_char_less_256 [of c] by linarith simp

lemma unescape_escapeWith:
  assumes "\<not> keep CHR ''%''"
  shows "unescape (escapeWith keep s) = Some s"
proof (induction s)
  case Nil
  then show ?case by (simp add: escapeWith_def)
next
  case (Cons c s)
  have step: "escapeWith keep (c # s) = (if keep c then [c]
      else [CHR ''%'', hexUpper (byte c div 16), hexUpper (byte c mod 16)]) @ escapeWith keep s"
    by (simp add: escapeWith_def)
  show ?case
  proof (cases "keep c")
    case True
    with assms have "c \<noteq> CHR ''%''" by auto
    with True Cons step show ?thesis by simp
  next
    case False
    with Cons step byte_split [of c] byte_nibbles [of c] show ?thesis by (simp add: hexVal_hexUpper)
  qed
qed

lemma unescape_PathEscape: "unescape (PathEscape s) = Some s"
  by (simp add: PathEscape_def unescape_escapeWith)

lemma escapeWith_chars:
  "c \<in> set (escapeWith keep s) \<Longrightarrow> keep c \<or> c = CHR ''%'' \<or> (\<exists>n < 16. c = hexUpper n)"
proof -
  assume "c \<in> set (escapeWith keep s)"
  then obtain x where "c \<in> set (if keep x then [x]
      else [CHR ''%'', hexUpper (byte x div 16), hexUpper (byte x mod 16)])"
    unfolding escapeWith_def by (simp only: set_concat set_map) blast
  then consider "keep c" | "c = CHR ''%''" | "c = hexUpper (byte x div 16)" | "c = hexUpper (byte x mod 16)"
    by (auto split: if_splits)
  then show ?thesis using byte_nibbles [of x] by cases blast+
qed

lemma PathEscape_no_slash: "CHR ''/'' \<notin> set (PathEscape s)"
proof
  assume "CHR ''/'' \<in> set (PathEscape s)"
  then have "keepSegment CHR ''/'' \<or> CHR ''/'' = CHR ''%'' \<or> (\<exists>n < 16. CHR ''/'' = hexUpper n)"
    unfolding PathEscape_def by (rule escapeWith_chars)
  then show False using hexUpper_not_slash by (auto dest: sym)
qed

text \<open>The segments that path cleaning does not touch.\<close>

definition plainSeg :: "string \<Rightarrow> bool" where
  "plainSeg s \<longleftrightarrow> s \<noteq> [] \<and> s \<noteq> ''.'' \<and> s \<noteq> ''..''"

lemma plainSeg_PathEscape [simp]: "plainSeg (PathEscape s) = plainSeg s"
proof -
  have "PathEscape s = t \<longleftrightarrow> s = t" if "PathEscape t = t" for t
    using that unescape_PathEscape by (metis option.inject)
  moreover have "PathEscape [] = []" "PathEscape ''.'' = ''.''" "PathEscape ''..'' = ''..''"
    by code_simp+
  ultimately show ?thesis by (simp add: plainSeg_def)
qed

section \<open>Valid encodings\<close>

lemma validEncoded_append [simp]: "validEncoded (a @ b) \<longleftrightarrow> validEncoded a \<and> validEncoded b"
  by (simp add: validEncoded_def)

lemma validEncoded_Cons: "validEncoded (c # s) \<longleftrightarrow>
    (keepPath c \<or> c \<in> set ''!()*[]%'' \<or> byte c = 39) \<and> validEncoded s"
  by (simp add: validEncoded_def)

lemma validEncoded_slash [simp]: "validEncoded (CHR ''/'' # s) = validEncoded s"
  by (simp add: validEncoded_Cons keepPath_def)

lemma validEncoded_escapeWith:
  assumes "\<And>c. keep c \<Longrightarrow> keepPath c"
  shows "validEncoded (escapeWith keep s)"
  unfolding validEncoded_def list_all_iff using assms escapeWith_chars [of _ keep s] keepPath_hexUpper by fastforce

lemma validEncoded_PathEscape [simp]: "validEncoded (PathEscape s)"
  unfolding PathEscape_def by (rule validEncoded_escapeWith) (rule keepPath_keepSegment)

lemma escapedPath_spec:
  assumes "unescape p = Some q"
  shows "validEncoded (escapedPath p) \<and> unescape (escapedPath p) = Some q"
proof (cases "validEncoded p")
  case False
  with assms show ?thesis
    by (simp add: escapedPath_def unescape_escapeWith validEncoded_escapeWith [of keepPath])
qed (use assms in \<open>simp add: escapedPath_def\<close>)

lemma unescape_append:
  "unescape a = Some x \<Longrightarrow> unescape b = Some y \<Longrightarrow> unescape (a @ b) = Some (x @ y)"
proof (induction a arbitrary: x rule: unescape.induct)
  case (2 c s)
  show ?case
  proof (cases "c = CHR ''%''")
    case True
    with 2 show ?thesis by (auto split: list.splits option.splits)
  next
    case False
    with 2 show ?thesis by auto
  qed
qed simp

section \<open>Cleaning a path\<close>

lemma splitChar_app: "splitChar d (a @ d # b) = splitChar d a @ splitChar d b"
proof (induction a)
  case (Cons c a)
  then show ?case by (cases "splitChar d a") auto
qed simp

lemma splitChar_joinStr:
  "xs \<noteq> [] \<Longrightarrow> \<forall>x \<in> set xs. d \<notin> set x \<Longrightarrow> splitChar d (joinStr [d] xs) = xs"
proof (induction xs rule: induct_list012)
  case (3 x y zs)
  then show ?case by (simp add: splitChar_append)
qed (auto simp: splitChar_no_sep)

lemma splitChar_no_slash: "x \<in> set (splitChar d s) \<Longrightarrow> d \<notin> set x"
  by (induction s arbitrary: x) (auto split: if_splits list.splits)

lemma splitChar_parts: "x \<in> set (splitChar d s) \<Longrightarrow> set x \<subseteq> set s"
  by (induction s arbitrary: x) (fastforce split: if_splits list.splits)+

lemma cleanSegs_append:
  "cleanSegs r acc (xs @ ys) = cleanSegs r (rev (cleanSegs r acc xs)) ys"
  by (induction xs arbitrary: acc) (auto split: list.splits)

lemma cleanSegs_plain: "list_all plainSeg ys \<Longrightarrow> cleanSegs r acc ys = rev acc @ ys"
  by (induction ys arbitrary: acc) (auto simp: plainSeg_def)

lemma cleanSegs_subset: "x \<in> set (cleanSegs True acc xs) \<Longrightarrow> x \<in> set acc \<or> x \<in> set xs \<or> x = ''..''"
  by (induction xs arbitrary: acc) (auto split: list.splits if_splits, fastforce+)

section \<open>Joining\<close>

lemma pathClean_rooted:
  "pathClean (CHR ''/'' # s) = CHR ''/'' # joinStr ''/'' (cleanSegs True [] (splitChar CHR ''/'' s))"
  by (simp add: pathClean_def Let_def)

lemma joinStr_append:
  "xs \<noteq> [] \<Longrightarrow> ys \<noteq> [] \<Longrightarrow> joinStr d (xs @ ys) = joinStr d xs @ d @ joinStr d ys"
proof (induction xs rule: induct_list012)
  case (2 x)
  then show ?case by (cases ys) auto
qed auto

lemma joinStr_last:
  assumes "ys \<noteq> []" and "\<forall>y \<in> set ys. y \<noteq> []"
  shows "joinStr d ys \<noteq> [] \<and> last (joinStr d ys) = last (last ys)"
  using assms by (induction ys rule: induct_list012) auto

text \<open>The segments of a base path after cleaning; they do not depend on what is joined to it.\<close>

definition baseSegs :: "string \<Rightarrow> string list" where
  "baseSegs p = cleanSegs True [] (splitChar CHR ''/'' p)"

definition goodPath :: "string \<Rightarrow> bool" where
  "goodPath p \<longleftrightarrow> validEncoded p \<and> unescape p \<noteq> None"

text \<open>\<open>cleansTo e ys\<close>: whatever precedes it, the element \<open>e\<close> cleans to the segments \<open>ys\<close>.\<close>

definition cleansTo :: "string \<Rightarrow> string list \<Rightarrow> bool" where
  "cleansTo e ys \<longleftrightarrow> e \<noteq> [] \<and> last e \<noteq> CHR ''/'' \<and> (\<forall>y \<in> set ys. goodPath y) \<and>
     (\<forall>acc. cleanSegs True acc (splitChar CHR ''/'' e) = rev acc @ ys)"

lemma cleansTo_plain:
  assumes "ys \<noteq> []" and "\<forall>y \<in> set ys. plainSeg y \<and> CHR ''/'' \<notin> set y \<and> goodPath y"
  shows "cleansTo (joinStr ''/'' ys) ys"
proof -
  have split: "splitChar CHR ''/'' (joinStr ''/'' ys) = ys"
    using assms by (intro splitChar_joinStr) auto
  have "\<forall>y \<in> set ys. y \<noteq> []" "CHR ''/'' \<notin> set (last ys)" "last ys \<noteq> []"
    using assms by (auto simp: plainSeg_def)
  then have "joinStr ''/'' ys \<noteq> []" "last (joinStr ''/'' ys) \<noteq> CHR ''/''"
    using joinStr_last [of ys "''/''"] assms(1) by (simp, metis last_in_set)
  with assms(2) split show ?thesis
    by (simp add: cleansTo_def cleanSegs_plain list_all_iff)
qed

definition joinedPath :: "string \<Rightarrow> string list \<Rightarrow> string" where
  "joinedPath p ys = (if hasPrefix p ''/'' then ''/'' else []) @ joinStr ''/'' (baseSegs p @ ys)"

lemma joinPathOf_clean:
  assumes "cleansTo e ys"
  shows "joinPathOf p e = joinedPath p ys"
proof -
  have "last e \<noteq> CHR ''/''" using assms by (simp add: cleansTo_def)
  then have trail: "(if e \<noteq> [] \<and> last e = CHR ''/'' \<and> b then x else y) = y" for b and x y :: string
    by simp
  have base: "baseSegs (q @ CHR ''/'' # e) = baseSegs q @ ys" for q
    using assms unfolding baseSegs_def splitChar_app cleanSegs_append by (simp add: cleansTo_def)
  show ?thesis
  proof (cases "hasPrefix p ''/''")
    case True
    then obtain p' where p: "p = CHR ''/'' # p'" by (cases p) auto
    have "pathJoin [p, e] = CHR ''/'' # joinStr ''/'' (baseSegs (p' @ CHR ''/'' # e))"
      using pathClean_rooted [of "p' @ CHR ''/'' # e"] by (simp add: pathJoin_def p baseSegs_def)
    moreover have "baseSegs p = baseSegs p'" by (simp add: baseSegs_def p)
    ultimately show ?thesis using True by (simp add: joinPathOf_def trail base joinedPath_def)
  next
    case False
    have "pathJoin [''/'' @ p, e] = CHR ''/'' # joinStr ''/'' (baseSegs (p @ CHR ''/'' # e))"
      using pathClean_rooted [of "p @ CHR ''/'' # e"] by (simp add: pathJoin_def baseSegs_def)
    with False show ?thesis by (simp add: joinPathOf_def trail base joinedPath_def)
  qed
qed

section \<open>Parsed URLs have a well-formed path\<close>

definition urlAll :: "(url \<Rightarrow> bool) \<Rightarrow> go_error + url \<Rightarrow> bool" where
  "urlAll P r \<longleftrightarrow> (\<forall>u. r = Inr u \<longrightarrow> P u)"

lemma urlAll_intros:
  "urlAll P (Inl e)"
  "P u \<Longrightarrow> urlAll P (Inr u)"
  "urlAll P x \<Longrightarrow> urlAll P y \<Longrightarrow> urlAll P (if b then x else y)"
  "urlAll P x \<Longrightarrow> (\<And>a. q = Some a \<Longrightarrow> urlAll P (f a)) \<Longrightarrow> urlAll P (case q of None \<Rightarrow> x | Some a \<Rightarrow> f a)"
  "(\<And>a b. urlAll P (g a b)) \<Longrightarrow> urlAll P (case p of (a, b) \<Rightarrow> g a b)"
  "(\<And>a. a = c \<Longrightarrow> urlAll P (k a)) \<Longrightarrow> urlAll P (Let c k)"
  by (auto simp: urlAll_def split: option.split prod.split)

text \<open>What holds without the fragment holds with it, if it is not about the fragment.\<close>

lemma urlAll_fragment:
  assumes "\<And>t. urlAll P (parseNoFragment t)" and "\<And>u f. P u \<Longrightarrow> P (u\<lparr>uFragment := f\<rparr>)"
  shows "urlAll P (urlParse s)"
  using assms unfolding urlAll_def urlParse_def
  by (auto split: prod.splits sum.splits option.splits if_splits)

lemma goodPath_Nil [simp]: "goodPath []"
  by (simp add: goodPath_def validEncoded_def)

lemma goodPath_escapedPath: "unescape p = Some q \<Longrightarrow> goodPath (escapedPath p)"
  using escapedPath_spec by (simp add: goodPath_def)

lemma urlParse_goodPath: "urlParse s = Inr u \<Longrightarrow> goodPath (uPath u)"
proof -
  have "urlAll (\<lambda>u. goodPath (uPath u)) (parseNoFragment t)" for t
    unfolding parseNoFragment_def
    by (intro urlAll_intros) (auto intro: goodPath_escapedPath)
  then have "urlAll (\<lambda>u. goodPath (uPath u)) (urlParse s)" by (intro urlAll_fragment) simp_all
  then show "urlParse s = Inr u \<Longrightarrow> goodPath (uPath u)" by (simp add: urlAll_def)
qed

text \<open>After an authority the path is empty or starts with a slash.\<close>

lemma cutChar_rest: "drop (length (fst (cutChar d s))) s = [] \<or> hd (drop (length (fst (cutChar d s))) s) = d"
  by (induction s) (auto simp: case_prod_beta)

lemma unescape_slash: "unescape (CHR ''/'' # s) = map_option ((#) CHR ''/'') (unescape s)"
  by (simp add: map_option_case)

lemma escapedPath_slash: "hasPrefix (escapedPath (CHR ''/'' # s)) ''/''"
  by (auto simp: escapedPath_def escapeWith_def map_option_case keepPath_def split: option.split)

lemma escapedPath_Nil [simp]: "escapedPath [] = []"
  by (simp add: escapedPath_def validEncoded_def)

lemma escapedPath_rooted:
  assumes "p = [] \<or> hd p = CHR ''/''"
  shows "escapedPath p = [] \<or> hasPrefix (escapedPath p) ''/''"
proof (cases p)
  case (Cons c s)
  with assms have "p = CHR ''/'' # s" by simp
  then show ?thesis using escapedPath_slash by blast
qed simp

lemma hier_path:
  assumes "authority = (if hier then fst (cutChar CHR ''/'' (drop 2 rest)) else [])"
    and "path = (if hier then drop (length authority) (drop 2 rest) else rest)" and "authority \<noteq> []"
  shows "escapedPath path = [] \<or> hasPrefix (escapedPath path) ''/''"
proof -
  have "hier" using assms(1,3) by (cases hier) simp_all
  with assms(1,2) have "path = drop (length (fst (cutChar CHR ''/'' (drop 2 rest)))) (drop 2 rest)"
    by (simp only: if_True)
  then show ?thesis using cutChar_rest by (intro escapedPath_rooted) (simp only:)
qed

lemma urlParse_rooted:
  assumes "urlParse s = Inr u" and "uAuthority u \<noteq> []"
  shows "uPath u = [] \<or> hasPrefix (uPath u) ''/''"
proof -
  have "urlAll (\<lambda>u. uAuthority u \<noteq> [] \<longrightarrow> uPath u = [] \<or> hasPrefix (uPath u) ''/'') (parseNoFragment t)" for t
    unfolding parseNoFragment_def
    by (intro urlAll_intros; simp (no_asm) only: url.simps simp_thms; (intro impI)?; (rule hier_path; assumption)?)
  then have "urlAll (\<lambda>u. uAuthority u \<noteq> [] \<longrightarrow> uPath u = [] \<or> hasPrefix (uPath u) ''/'') (urlParse s)"
    by (intro urlAll_fragment) simp_all
  with assms show ?thesis by (simp add: urlAll_def)
qed

text \<open>Good paths are made of good segments: an escape never reaches over a separator.\<close>

lemma unescape_split:
  "unescape (a @ CHR ''/'' # b) \<noteq> None \<Longrightarrow> unescape a \<noteq> None \<and> unescape b \<noteq> None"
proof (induction a rule: unescape.induct)
  case (2 c s)
  show ?case
  proof (cases "c = CHR ''%''")
    case True
    show ?thesis
    proof (cases "\<exists>h l r. s = h # l # r")
      case True
      with 2 \<open>c = CHR ''%''\<close> show ?thesis by (auto split: option.splits)
    next
      case False
      then consider "s = []" | h where "s = [h]" by (metis list.exhaust)
      then show ?thesis
      proof cases
        case 1
        with 2 True show ?thesis by (cases b) (auto simp: hexVal_slash split: option.splits)
      next
        case 2
        with \<open>unescape ((c # s) @ CHR ''/'' # b) \<noteq> None\<close> True show ?thesis
          by (auto simp: hexVal_slash split: option.splits)
      qed
    qed
  next
    case False
    with 2 show ?thesis by auto
  qed
qed simp

lemma goodPath_split:
  "goodPath (a @ CHR ''/'' # b) \<Longrightarrow> goodPath a \<and> goodPath b"
  using unescape_split [of a b] by (simp add: goodPath_def)

lemma splitChar_first: "CHR ''/'' \<in> set p \<Longrightarrow> \<exists>a b. p = a @ CHR ''/'' # b \<and> CHR ''/'' \<notin> set a"
  by (meson split_list_first)

lemma goodPath_segs: "goodPath p \<Longrightarrow> x \<in> set (splitChar CHR ''/'' p) \<Longrightarrow> goodPath x"
proof (induction "length p" arbitrary: p rule: less_induct)
  case less
  show ?case
  proof (cases "CHR ''/'' \<in> set p")
    case True
    then obtain a b where p: "p = a @ CHR ''/'' # b" "CHR ''/'' \<notin> set a" using splitChar_first by blast
    have good: "goodPath a" "goodPath b" using goodPath_split [of a b] less.prems(1) p(1) by simp_all
    have "x = a \<or> x \<in> set (splitChar CHR ''/'' b)" using less.prems(2) p by (simp add: splitChar_append)
    moreover have "length b < length p" using p(1) by simp
    ultimately show ?thesis using good less.hyps by blast
  next
    case False
    with less show ?thesis by (simp add: splitChar_no_sep)
  qed
qed

lemma goodPath_append: "goodPath a \<Longrightarrow> goodPath b \<Longrightarrow> goodPath (a @ b)"
  using unescape_append by (fastforce simp: goodPath_def)

lemma goodPath_slash: "goodPath ''/''" "goodPath ''..''"
  unfolding goodPath_def by code_simp+

lemma goodPath_joinStr: "\<forall>x \<in> set xs. goodPath x \<Longrightarrow> goodPath (joinStr ''/'' xs)"
  using goodPath_slash goodPath_append
  by (induction xs rule: induct_list012) (simp_all, metis append_Cons append_Nil)

lemma goodPath_joinedPath:
  assumes "goodPath p" and "\<forall>y \<in> set ys. goodPath y"
  shows "goodPath (joinedPath p ys)"
proof -
  have "goodPath x" if "x \<in> set (baseSegs p)" for x
    using cleanSegs_subset [OF that [unfolded baseSegs_def]] goodPath_segs [OF assms(1)] goodPath_slash
    by auto
  then have "goodPath (joinStr ''/'' (baseSegs p @ ys))"
    using assms(2) by (intro goodPath_joinStr) auto
  then show ?thesis using goodPath_slash goodPath_append [of "''/''"] by (simp add: joinedPath_def)
qed

text \<open>\<open>url.JoinPath\<close> appends the cleaned element to the cleaned base.\<close>

lemma JoinPath_clean:
  assumes "urlParse base = Inr u" and "cleansTo e ys"
  shows "JoinPath base e = Inr (urlString (u\<lparr>uPath := joinedPath (uPath u) ys\<rparr>))"
proof -
  have "\<forall>y \<in> set ys. goodPath y" using assms(2) by (simp add: cleansTo_def)
  with urlParse_goodPath [OF assms(1)] have "goodPath (joinedPath (uPath u) ys)"
    by (rule goodPath_joinedPath)
  then have "unescape (joinedPath (uPath u) ys) \<noteq> None"
    "escapedPath (joinedPath (uPath u) ys) = joinedPath (uPath u) ys"
    by (simp_all add: goodPath_def escapedPath_def)
  with assms show ?thesis by (auto simp: JoinPath_def joinPathOf_clean)
qed

lemma goodPath_PathEscape [simp]: "goodPath (PathEscape s)"
  by (simp add: goodPath_def unescape_PathEscape)

end
