(* ===== verification/RegistryTheorems.thy ===== *)
theory RegistryTheorems
  imports RegistryProperties GoURLProperties SelfHealProperties
begin

text \<open>
  The properties of the Route Registry client, with concrete clients: a server that answers every
  request with the same response, and one that records what it is sent.
\<close>

section \<open>Concrete clients\<close>

definition answerClient :: "int \<Rightarrow> body \<Rightarrow> unit registry_client" where
  "answerClient code b =
     \<lparr>rcClient = \<lparr>hcTimeout = 5 * second,
        hcDo = (\<lambda>ctx req w. (Inr \<lparr>hrStatusCode = code, hrBody = Some b\<rparr>, w))\<rparr>,
      rcToken = ''secret'', rcEndpoint = ''https://registry:8443/base'', rcLogger = None\<rparr>"

definition twoCommunities :: json where
  "twoCommunities = JArr
     [JObj [(''name'', JStr ''physics''), (''id'', JStr ''0123456789'')],
      JObj [(''name'', JStr ''biology''), (''id'', JStr ''01234567ab'')]]"

definition oneRoute :: json where
  "oneRoute = JArr
     [JObj [(''name'', JStr ''app''), (''domain_name'', JStr ''alice''), (''id'', JStr ''abcdefghij'')]]"

definition noCtx :: "'w ctx" where "noCtx w = None"

section \<open>Listing and resolving\<close>

text \<open>
  C10. Resolving is exact. For an identifier that is not empty, \<open>ResolveCommunity\<close> returns a community
  exactly when the registry's list has one match for it, and that is the match; the same holds of
  \<open>ResolveRoute\<close> and routes.
\<close>

theorem resolve_exact:
  assumes "identifier \<noteq> []"
  shows "(ResolveCommunity c ctx identifier w = (Inr x, w') \<longleftrightarrow>
      (\<exists>xs. fetchCommunities c ctx w = (Inr xs, w') \<and> filter (\<lambda>y. Community_Matches y identifier) xs = [x])) \<and>
    (ResolveRoute c ctx identifier w = (Inr r, w') \<longleftrightarrow>
      (\<exists>rs. fetchRoutes c ctx w = (Inr rs, w') \<and> filter (\<lambda>y. Route_Matches y identifier) rs = [r]))"
  using cl.resolve_unique [OF assms, of c ctx w x w'] rl.resolve_unique [OF assms, of c ctx w r w'] by blast

theorem resolve_exact_witness:
  "\<exists>xs. fetchCommunities (answerClient 200 (BodyJson twoCommunities)) noCtx () = (Inr xs, ()) \<and>
    filter (\<lambda>y. Community_Matches y ''012345678'') xs
      = [\<lparr>cmName = ''physics'', cmID = Some ''0123456789'', cmRoutes = []\<rparr>]"
proof -
  have "ResolveCommunity (answerClient 200 (BodyJson twoCommunities)) noCtx ''012345678'' ()
      = (Inr \<lparr>cmName = ''physics'', cmID = Some ''0123456789'', cmRoutes = []\<rparr>, ())"
    by code_simp
  moreover have "''012345678'' \<noteq> []" by simp
  ultimately show ?thesis
    using resolve_exact [of "''012345678''" "answerClient 200 (BodyJson twoCommunities)" noCtx "()"
        "\<lparr>cmName = ''physics'', cmID = Some ''0123456789'', cmRoutes = []\<rparr>" "()" undefined] by blast
qed

text \<open>
  C36. Matching by identifier. An entity is found by its own ID and by any prefix of it of eight bytes
  or more; an identifier shorter than that matches by name only; and two communities that match the
  same identifier, neither by name, agree on the first eight bytes of their IDs.
\<close>

theorem identifier_matching:
  "(cmID x = Some i \<longrightarrow> prefix p i \<longrightarrow> 8 \<le> length p \<longrightarrow> Community_Matches x p) \<and>
   (length p < 8 \<longrightarrow> Community_Matches x p = (cmName x = p)) \<and>
   (rtID r = Some i \<longrightarrow> prefix p i \<longrightarrow> 8 \<le> length p \<longrightarrow> Route_Matches r p) \<and>
   (length p < 8 \<longrightarrow> Route_Matches r p = (\<exists>d. rtDomainName r = Some d \<and> d @ ''/'' @ rtName r = p)) \<and>
   (Community_Matches x p \<longrightarrow> Community_Matches y p \<longrightarrow> cmName x \<noteq> p \<longrightarrow> cmName y \<noteq> p \<longrightarrow>
     (\<exists>i j. cmID x = Some i \<and> cmID y = Some j \<and> take 8 i = take 8 j))"
  using cm.matches_short [of p x] rt.matches_short [of p r] cm.matches_both [of x p y]
    cm.matches_iff [of x p] rt.matches_iff [of r p]
  by (auto simp: MinIDLength_def routeFullName_def)

theorem identifier_matching_witness:
  "Community_Matches \<lparr>cmName = ''physics'', cmID = Some ''0123456789'', cmRoutes = []\<rparr> ''01234567'' \<and>
   \<not> Community_Matches \<lparr>cmName = ''physics'', cmID = Some ''0123456789'', cmRoutes = []\<rparr> ''0123''"
  using identifier_matching [of "\<lparr>cmName = ''physics'', cmID = Some ''0123456789'', cmRoutes = []\<rparr>"
      "''0123456789''" "''01234567''" undefined undefined]
    identifier_matching [of "\<lparr>cmName = ''physics'', cmID = Some ''0123456789'', cmRoutes = []\<rparr>"
      "''0123456789''" "''0123''" undefined undefined]
  by simp

text \<open>
  C35. The empty identifier. Resolving the empty identifier filters nothing: on an empty list it
  panics, and with a single entry it resolves to that entry, whatever it is.
\<close>

theorem resolve_empty_identifier:
  assumes "fetchCommunities c ctx w = (Inr xs, w')"
  shows "(xs = [] \<longrightarrow> ResolveCommunity c ctx [] w = (Inl (GoPanic ''index out of range [0] with length 0''), w')) \<and>
    (\<forall>x. xs = [x] \<longrightarrow> ResolveCommunity c ctx [] w = (Inr x, w'))"
  using assms cl.list_all [OF assms] cl.resolve_nothing [of c ctx w w'] cl.resolve_few [of c ctx "[]" w xs w']
  by (auto simp: indexFirst_def)

theorem resolve_empty_identifier_witness:
  "ResolveCommunity (answerClient 200 (BodyJson (JArr []))) noCtx [] ()
    = (Inl (GoPanic ''index out of range [0] with length 0''), ())"
proof -
  have "fetchCommunities (answerClient 200 (BodyJson (JArr []))) noCtx () = (Inr [], ())" by code_simp
  from resolve_empty_identifier [OF this] show ?thesis by simp
qed

section \<open>Credentials on the wire\<close>

text \<open>
  C11. Registry requests carry the user's token. A call depends on the transport only through requests
  with the token in \<open>X-Token\<close> and without \<open>X-Jwt\<close>: replacing the transport on all others changes nothing.
\<close>

theorem requests_carry_token:
  assumes "\<And>ctx req w. headerGet ''X-Token'' req = Some (rcToken c) \<Longrightarrow> headerGet ''X-Jwt'' req = None \<Longrightarrow>
      d ctx req w = hcDo (rcClient c) ctx req w"
  shows "client_do marshal dec zero (c\<lparr>rcClient := (rcClient c)\<lparr>hcDo := d\<rparr>\<rparr>) ctx meth path req w
    = client_do marshal dec zero c ctx meth path req w"
  using assms by (rule client_do_token)

text \<open>A server that answers only with the token, and is broken otherwise.\<close>

definition tokenServer :: "unit ctx \<Rightarrow> http_request \<Rightarrow> unit \<Rightarrow> (go_error + http_response) \<times> unit" where
  "tokenServer ctx req w =
     (if headerGet ''X-Token'' req = Some ''secret'' \<and> headerGet ''X-Jwt'' req = None
      then (Inr \<lparr>hrStatusCode = 200, hrBody = Some (BodyJson twoCommunities)\<rparr>, w)
      else (Inl ErrUnexpectedEOF, w))"

theorem requests_carry_token_witness:
  "fetchCommunities ((answerClient 200 (BodyJson twoCommunities))
      \<lparr>rcClient := \<lparr>hcTimeout = 5 * second, hcDo = tokenServer\<rparr>\<rparr>) noCtx ()
    = fetchCommunities (answerClient 200 (BodyJson twoCommunities)) noCtx ()"
  using requests_carry_token [of "answerClient 200 (BodyJson twoCommunities)" tokenServer encNone
      "decSlice zeroCommunity decCommunity" "[]" noCtx "''GET''" "''api/v1/community''" None "()"]
  by (simp add: fetchCommunities_def answerClient_def tokenServer_def)

text \<open>
  C12. Refreshing a JWT never shows the user's token. \<open>RefreshJWT\<close> depends on the transport only
  through \<open>POST\<close> requests without \<open>X-Token\<close> that carry the JWT in \<open>X-Jwt\<close> and have no body.
\<close>

theorem refresh_hides_token:
  assumes "\<And>ctx req w. headerGet ''X-Token'' req = None \<Longrightarrow> headerGet ''X-Jwt'' req = Some jwt \<Longrightarrow>
      hqMethod req = ''POST'' \<Longrightarrow> hqBody req = None \<Longrightarrow> d ctx req w = hcDo (rcClient c) ctx req w"
  shows "RefreshJWT (c\<lparr>rcClient := (rcClient c)\<lparr>hcDo := d\<rparr>\<rparr>) ctx jwt w = RefreshJWT c ctx jwt w"
proof (cases "refreshRequest c jwt")
  case (Inl err)
  then show ?thesis by (simp add: RefreshJWT_def refreshRequest_def)
next
  case (Inr req)
  then have "d ctx req w = hcDo (rcClient c) ctx req w"
    using refreshRequest_Inr [OF Inr] by (intro assms) auto
  moreover have "refreshRequest (c\<lparr>rcClient := (rcClient c)\<lparr>hcDo := d\<rparr>\<rparr>) jwt = Inr req"
    using Inr by (simp add: refreshRequest_def)
  ultimately show ?thesis using Inr by (simp add: RefreshJWT_def)
qed

definition jwtServer :: "unit ctx \<Rightarrow> http_request \<Rightarrow> unit \<Rightarrow> (go_error + http_response) \<times> unit" where
  "jwtServer ctx req w =
     (if headerGet ''X-Token'' req = None \<and> headerGet ''X-Jwt'' req = Some ''old''
      then (Inr \<lparr>hrStatusCode = 200, hrBody = Some (BodyJson (JObj [(''jwt'', JStr ''new'')]))\<rparr>, w)
      else (Inl ErrUnexpectedEOF, w))"

theorem refresh_hides_token_witness:
  "RefreshJWT ((answerClient 200 (BodyJson (JObj [(''jwt'', JStr ''new'')])))
      \<lparr>rcClient := \<lparr>hcTimeout = 5 * second, hcDo = jwtServer\<rparr>\<rparr>) noCtx ''old'' ()
    = RefreshJWT (answerClient 200 (BodyJson (JObj [(''jwt'', JStr ''new'')]))) noCtx ''old'' ()"
  using refresh_hides_token [of "''old''" jwtServer "answerClient 200 (BodyJson (JObj [(''jwt'', JStr ''new'')]))"
      noCtx "()"]
  by (simp add: answerClient_def jwtServer_def)

text \<open>
  C23. What a JWT refresh returns. It succeeds only with a JWT that is not empty, from a response of
  status 2xx to the request with the old JWT; every other status is the error \<open>HttpResponseError\<close>,
  which is retried exactly for 408, 429 and 5xx; a response that breaks off inside its JSON is
  retried, one with an empty body or an empty JWT is not.
\<close>

theorem refresh_outcome:
  assumes "refreshRequest c jwt = Inr req" and "hcDo (rcClient c) ctx req w = (Inr resp, w1)"
    and "hrBody resp = Some b"
  shows "RefreshJWT c ctx jwt w = (readRefreshResponse resp, w1) \<and>
    (\<forall>jwt'. readRefreshResponse resp = Inr jwt' \<longrightarrow>
      jwt' \<noteq> [] \<and> 200 \<le> hrStatusCode resp \<and> hrStatusCode resp < 300 \<and> decodeBody decJWT [] b = Inr jwt') \<and>
    (hrStatusCode resp < 200 \<or> 300 \<le> hrStatusCode resp \<longrightarrow> (\<exists>e. readRefreshResponse resp = Inl e \<and>
      asHttpResponseError e = Some (hrStatusCode resp) \<and>
      registrationRetryable e = (hrStatusCode resp \<in> {408, 429} \<or> 500 \<le> hrStatusCode resp \<and> hrStatusCode resp \<le> 599))) \<and>
    (200 \<le> hrStatusCode resp \<and> hrStatusCode resp < 300 \<longrightarrow>
      (b = BodyTruncated \<longrightarrow> (\<exists>e. readRefreshResponse resp = Inl e \<and> registrationRetryable e)) \<and>
      (b = BodyEmpty \<or> decodeBody decJWT [] b = Inr [] \<longrightarrow>
        (\<exists>e. readRefreshResponse resp = Inl e \<and> \<not> registrationRetryable e)))"
proof -
  have "RefreshJWT c ctx jwt w = (readRefreshResponse resp, w1)"
    using assms by (simp add: RefreshJWT_def)
  moreover have "jwt' \<noteq> [] \<and> 200 \<le> hrStatusCode resp \<and> hrStatusCode resp < 300 \<and>
      decodeBody decJWT [] b = Inr jwt'" if "readRefreshResponse resp = Inr jwt'" for jwt'
    using that assms(3) by (auto simp: readRefreshResponse_def split: if_splits sum.splits)
  moreover have "readRefreshResponse resp = Inl (HttpResponseError (hrStatusCode resp))"
    if "hrStatusCode resp < 200 \<or> 300 \<le> hrStatusCode resp"
    using that assms(3) by (simp add: readRefreshResponse_def)
  moreover have "registrationRetryable (HttpResponseError k) = (k \<in> {408, 429} \<or> 500 \<le> k \<and> k \<le> 599)" for k
    by (simp add: registrationRetryable_def)
  moreover have "registrationRetryable (Errorf t ErrUnexpectedEOF)"
    "\<not> registrationRetryable (Errorf t ErrEOF)" "\<not> registrationRetryable (ErrString t)" for t
    by (simp_all add: registrationRetryable_def asNetError_def errorsIs_def)
  moreover have "readRefreshResponse resp = Inl (Errorf ''decode JWT refresh response'' ErrUnexpectedEOF)"
    if "200 \<le> hrStatusCode resp \<and> hrStatusCode resp < 300" "b = BodyTruncated"
    using that assms(3) by (simp add: readRefreshResponse_def)
  moreover have "readRefreshResponse resp = Inl (Errorf ''decode JWT refresh response'' ErrEOF)"
    if "200 \<le> hrStatusCode resp \<and> hrStatusCode resp < 300" "b = BodyEmpty"
    using that assms(3) by (simp add: readRefreshResponse_def)
  moreover have "readRefreshResponse resp = Inl (ErrString ''JWT refresh response contains an empty JWT'')"
    if "200 \<le> hrStatusCode resp \<and> hrStatusCode resp < 300" "decodeBody decJWT [] b = Inr []"
    using that assms(3) by (simp add: readRefreshResponse_def)
  ultimately show ?thesis by (metis asHttp_simps(1))
qed

theorem refresh_outcome_witness:
  "fst (RefreshJWT (answerClient 401 BodyEmpty) noCtx ''old'' ()) = Inl (HttpResponseError 401) \<and>
   (\<exists>e. readRefreshResponse \<lparr>hrStatusCode = 401, hrBody = Some BodyEmpty\<rparr> = Inl e \<and> \<not> registrationRetryable e)"
proof -
  let ?resp = "\<lparr>hrStatusCode = 401, hrBody = Some BodyEmpty\<rparr>"
  have "(case refreshRequest (answerClient 401 BodyEmpty) ''old'' of Inl _ \<Rightarrow> False | Inr _ \<Rightarrow> True)"
    by code_simp
  then obtain req where req: "refreshRequest (answerClient 401 BodyEmpty) ''old'' = Inr req"
    by (auto split: sum.splits)
  have "hcDo (rcClient (answerClient 401 BodyEmpty)) noCtx req () = (Inr ?resp, ())"
    by (simp add: answerClient_def)
  from refresh_outcome [OF req this] have
    "RefreshJWT (answerClient 401 BodyEmpty) noCtx ''old'' () = (readRefreshResponse ?resp, ())"
    "\<exists>e. readRefreshResponse ?resp = Inl e \<and> \<not> registrationRetryable e"
    by auto
  then show ?thesis by (simp add: readRefreshResponse_def)
qed

section \<open>The target of a request\<close>

lemma client_do_success:
  assumes "client_do marshal dec zero c ctx meth path req w = (Inr a, w')" and "supportedMethod meth"
    and "path \<noteq> []"
  shows "\<exists>q resp w1. hcDo (rcClient c) ctx q w = (Inr resp, w1) \<and> hqMethod q = meth \<and>
    JoinPath (rcEndpoint c) path = Inr (hqURL q) \<and> marshalRequest marshal meth req = Inr (hqBody q) \<and>
    readResponse dec zero resp = Inr a \<and> 200 \<le> hrStatusCode resp \<and> hrStatusCode resp < 300"
proof -
  let ?req = "if meth = ''GET'' \<or> meth = ''DELETE'' then None else req"
  have "requester_do marshal dec zero (clientRequester c) ctx meth path ?req w = (Inr a, w')"
    using assms(1,2) by (simp add: client_do_requester)
  from requester_do_Inr [OF this] obtain q resp w1
    where b: "buildRequest marshal (clientRequester c) meth path ?req = Inr q"
      and "hcDo (rcClient c) ctx q w = (Inr resp, w1)" "readResponse dec zero resp = Inr a"
    by auto
  moreover have "marshalRequest marshal meth ?req = marshalRequest marshal meth req"
    by (simp add: marshalRequest_def)
  ultimately show ?thesis
    using buildRequest_Inr [OF b] readResponse_Inr [of dec zero resp a] assms(3) by auto
qed

lemma supported_DELETE: "supportedMethod ''DELETE''"
  by (simp add: supportedMethod_def)

text \<open>A call that succeeded with a JSON document in the body gives what the document decodes to.\<close>

lemma readResponse_json:
  assumes "readResponse dec zero resp = Inr a" and "hrBody resp = Some (BodyJson v)" and "dec zero v = Inr b"
  shows "a = b"
  using readResponse_Inr [OF assms(1)] assms(2,3) by auto

definition communitySegs :: "string list" where
  "communitySegs = [''api'', ''v1'', ''community'']"

lemma cleansTo_community:
  "plainSeg s \<Longrightarrow> CHR ''/'' \<notin> set s \<Longrightarrow> goodPath s \<Longrightarrow>
    cleansTo (''api/v1/community/'' @ s) (communitySegs @ [s])"
proof -
  assume s: "plainSeg s" "CHR ''/'' \<notin> set s" "goodPath s"
  have "\<forall>y \<in> set communitySegs. plainSeg y \<and> CHR ''/'' \<notin> set y \<and> goodPath y"
    unfolding goodPath_def by code_simp
  with s have "cleansTo (joinStr ''/'' (communitySegs @ [s])) (communitySegs @ [s])"
    by (intro cleansTo_plain) auto
  then show ?thesis by (simp add: communitySegs_def)
qed

text \<open>
  C24. Removing a community removes what it names. When \<open>RemoveCommunity\<close> succeeds for an identifier that
  is not empty, \<open>.\<close> or \<open>..\<close>, the registry
  answered with status 2xx to a \<open>DELETE\<close> for the endpoint's path followed by \<open>api/v1/community\<close> and
  one more segment, which holds no separator and decodes to the identifier, whatever its characters.
\<close>

theorem remove_community_target:
  assumes "urlParse (rcEndpoint c) = Inr u"
    and "RemoveCommunity c ctx identifier w = (Inr (), w')"
    and "identifier \<notin> {[], ''.'', ''..''}"
  shows "\<exists>req resp w1. hcDo (rcClient c) ctx req w = (Inr resp, w1) \<and> hqMethod req = ''DELETE'' \<and>
    200 \<le> hrStatusCode resp \<and> hrStatusCode resp < 300 \<and>
    hqURL req = urlString (u\<lparr>uPath := joinedPath (uPath u) (communitySegs @ [PathEscape identifier])\<rparr>) \<and>
    CHR ''/'' \<notin> set (PathEscape identifier) \<and> unescape (PathEscape identifier) = Some identifier"
proof -
  have "plainSeg identifier" using assms(3) by (simp add: plainSeg_def)
  then have "plainSeg (PathEscape identifier)" by simp
  then have "cleansTo (''api/v1/community/'' @ PathEscape identifier) (communitySegs @ [PathEscape identifier])"
    using PathEscape_no_slash by (intro cleansTo_community) auto
  then have url: "JoinPath (rcEndpoint c) (''api/v1/community/'' @ PathEscape identifier)
      = Inr (urlString (u\<lparr>uPath := joinedPath (uPath u) (communitySegs @ [PathEscape identifier])\<rparr>))"
    using assms(1) by (intro JoinPath_clean)
  have "client_do encNone decNone () c ctx ''DELETE'' (''api/v1/community/'' @ PathEscape identifier) None w
      = (Inr (), w')"
    using assms(2) by (simp add: RemoveCommunity_def)
  then obtain req resp w1 where "hcDo (rcClient c) ctx req w = (Inr resp, w1)" "hqMethod req = ''DELETE''"
      "JoinPath (rcEndpoint c) (''api/v1/community/'' @ PathEscape identifier) = Inr (hqURL req)"
      "200 \<le> hrStatusCode resp" "hrStatusCode resp < 300"
    using client_do_success [of encNone decNone "()" c ctx "''DELETE''"
        "''api/v1/community/'' @ PathEscape identifier" None w "()" w'] supported_DELETE by auto
  with url show ?thesis
    by (intro exI [of _ req] exI [of _ resp] exI [of _ w1]) (simp add: PathEscape_no_slash unescape_PathEscape)
qed

theorem remove_community_target_witness:
  "\<exists>req resp u. urlParse ''https://registry:8443/base'' = Inr u \<and>
    hcDo (rcClient (answerClient 204 BodyEmpty)) noCtx req () = (Inr resp, ()) \<and>
    hqURL req = urlString (u\<lparr>uPath := joinedPath (uPath u) (communitySegs @ [PathEscape ''a/../b''])\<rparr>)"
proof -
  have "(case urlParse (rcEndpoint (answerClient 204 BodyEmpty)) of Inl _ \<Rightarrow> False | Inr _ \<Rightarrow> True)"
    by code_simp
  then obtain u where u: "urlParse (rcEndpoint (answerClient 204 BodyEmpty)) = Inr u"
    by (auto split: sum.splits)
  have ok: "RemoveCommunity (answerClient 204 BodyEmpty) noCtx ''a/../b'' () = (Inr (), ())"
    by code_simp
  have id: "''a/../b'' \<notin> {[], ''.'', ''..''}" by simp
  from remove_community_target [OF u ok id] u show ?thesis by (auto simp: answerClient_def)
qed

text \<open>
  C34. Dot segments leave the community. With the identifier \<open>..\<close> or \<open>.\<close> the escaped path is cleaned when
  it is joined to the endpoint, and \<open>RemoveCommunity\<close> sends its \<open>DELETE\<close> to \<open>api/v1\<close> or to the whole
  collection \<open>api/v1/community\<close>.
\<close>

theorem remove_community_dots:
  assumes "urlParse (rcEndpoint c) = Inr u"
    and "RemoveCommunity c ctx identifier w = (Inr (), w')"
    and "identifier = ''.'' \<or> identifier = ''..''"
  shows "\<exists>req resp w1. hcDo (rcClient c) ctx req w = (Inr resp, w1) \<and> hqMethod req = ''DELETE'' \<and>
    hqURL req = urlString (u\<lparr>uPath := joinedPath (uPath u)
      (if identifier = ''.'' then [''api'', ''v1'', ''community''] else [''api'', ''v1''])\<rparr>)"
proof -
  let ?segs = "if identifier = ''.'' then [''api'', ''v1'', ''community''] else [''api'', ''v1'']"
  have esc: "PathEscape ''.'' = ''.''" "PathEscape ''..'' = ''..''" by code_simp+
  have "goodPath ''api''" "goodPath ''v1''" "goodPath ''community''"
    unfolding goodPath_def by code_simp+
  moreover have "splitChar CHR ''/'' ''api/v1/community/.'' = [''api'', ''v1'', ''community'', ''.'']"
    "splitChar CHR ''/'' ''api/v1/community/..'' = [''api'', ''v1'', ''community'', ''..'']"
    by code_simp+
  ultimately have "cleansTo (''api/v1/community/'' @ PathEscape identifier) ?segs"
    using assms(3) esc by (auto simp: cleansTo_def)
  then have url: "JoinPath (rcEndpoint c) (''api/v1/community/'' @ PathEscape identifier)
      = Inr (urlString (u\<lparr>uPath := joinedPath (uPath u) ?segs\<rparr>))"
    using assms(1) by (intro JoinPath_clean)
  have "client_do encNone decNone () c ctx ''DELETE'' (''api/v1/community/'' @ PathEscape identifier) None w
      = (Inr (), w')"
    using assms(2) by (simp add: RemoveCommunity_def)
  then obtain req resp w1 where "hcDo (rcClient c) ctx req w = (Inr resp, w1)" "hqMethod req = ''DELETE''"
      "JoinPath (rcEndpoint c) (''api/v1/community/'' @ PathEscape identifier) = Inr (hqURL req)"
    using client_do_success [of encNone decNone "()" c ctx "''DELETE''"
        "''api/v1/community/'' @ PathEscape identifier" None w "()" w'] supported_DELETE by auto
  with url show ?thesis by (intro exI [of _ req] exI [of _ resp] exI [of _ w1]) simp
qed

theorem remove_community_dots_witness:
  "\<exists>(req :: http_request) u. urlParse ''https://registry:8443/base'' = Inr u \<and> hqMethod req = ''DELETE'' \<and>
    hqURL req = urlString (u\<lparr>uPath := joinedPath (uPath u) [''api'', ''v1'']\<rparr>)"
proof -
  have "(case urlParse (rcEndpoint (answerClient 204 BodyEmpty)) of Inl _ \<Rightarrow> False | Inr _ \<Rightarrow> True)"
    by code_simp
  then obtain u where u: "urlParse (rcEndpoint (answerClient 204 BodyEmpty)) = Inr u"
    by (auto split: sum.splits)
  have ok: "RemoveCommunity (answerClient 204 BodyEmpty) noCtx ''..'' () = (Inr (), ())"
    by code_simp
  have id: "''..'' = ''.'' \<or> ''..'' = ''..''" by simp
  have e: "rcEndpoint (answerClient 204 BodyEmpty) = ''https://registry:8443/base''"
    by (simp add: answerClient_def)
  from remove_community_dots [OF u ok id] obtain req :: http_request where "hqMethod req = ''DELETE''"
      "hqURL req = urlString (u\<lparr>uPath := joinedPath (uPath u) [''api'', ''v1'']\<rparr>)"
    by auto
  with u [unfolded e] show ?thesis by blast
qed

section \<open>Permanent failures that are retried\<close>

text \<open>
  C33. A bad endpoint is retried for ever. If the configured endpoint does not parse as a URL, no
  request is ever sent, yet the error is a \<open>*url.Error\<close>, which has the methods of \<open>net.Error\<close>:
  registering a route never returns unless the context is cancelled.
\<close>

theorem bad_endpoint_retries_forever:
  assumes "urlParse (rcEndpoint c) = Inl err"
    and "\<And>v. ctx v = None" and "\<And>delay v. fst (timerFirst ctx delay v)"
  shows "RegisterRoute timerFirst randFloat64 ctx (client_RegisterRoute c) community name config logger w = None"
proof -
  have fail: "client_RegisterRoute c ctx community name v = (Inl err, v)" for v
    unfolding client_RegisterRoute_def
    by (rule client_do_bad_endpoint) (use assms(1) in \<open>simp_all add: supportedMethod_def\<close>)
  have retry: "registrationRetryable err"
    using urlParse_error [OF assms(1)] by (auto simp: registrationRetryable_def)
  have "fst (rrSleep (defaultRetryRuntime timerFirst randFloat64) ctx d v) = None" for d v
    using assms(3) [of d v] by (auto simp: defaultRetryRuntime_def split: prod.splits bool.splits)
  then have "retryRouteRegistry ctx (\<lambda>ctx. client_RegisterRoute c ctx community name) config logger
      (defaultRetryRuntime timerFirst randFloat64) w = None"
    using fail retry assms(2) by (intro retry_forever [where I = "\<lambda>_. True"]) auto
  then show ?thesis by (simp add: RegisterRoute_def registerRouteWithRetry_def)
qed

theorem bad_endpoint_retries_forever_witness:
  "RegisterRoute (\<lambda>ctx d w. (True, w)) (\<lambda>w. (f64zero, w)) (\<lambda>_. None)
     (client_RegisterRoute ((answerClient 200 BodyEmpty)\<lparr>rcEndpoint := ''https://registry:80b''\<rparr>))
     ''physics'' ''app'' DefaultConfig (\<lambda>ev w. w) () = None"
proof -
  have "(case urlParse ''https://registry:80b'' of Inl _ \<Rightarrow> True | Inr _ \<Rightarrow> False)" by code_simp
  then obtain err where "urlParse (rcEndpoint ((answerClient 200 BodyEmpty)\<lparr>rcEndpoint := ''https://registry:80b''\<rparr>)) = Inl err"
    by (auto split: sum.splits)
  then show ?thesis by (rule bad_endpoint_retries_forever) simp_all
qed

section \<open>The documents of the API\<close>

text \<open>
  The answers of the Route Registry, written out: to a registration, and the elements of the two lists
  (a community with its ID and the IDs of its routes; a route with its owner, community, ID, URL and
  rules).
\<close>

definition registrationDocument :: "string \<Rightarrow> string \<Rightarrow> string \<Rightarrow> string \<Rightarrow> string \<Rightarrow> json" where
  "registrationDocument url issuer tunnelURL jwt endpointID =
     JObj [(''url'', JStr url),
           (''airlock'', JObj [(''jwt_issuer_url'', JStr issuer)]),
           (''tunnel'', JObj [(''url'', JStr tunnelURL), (''jwt'', JStr jwt), (''endpoint'', JStr endpointID)])]"

fun communityDocument :: "string \<times> string \<times> (string \<times> string) list \<Rightarrow> json" where
  "communityDocument (name, i, routes) =
     JObj [(''name'', JStr name), (''id'', JStr i),
           (''routes'', JArr (map (\<lambda>(n, j). JObj [(''name'', JStr n), (''id'', JStr j)]) routes))]"

fun communityValue :: "string \<times> string \<times> (string \<times> string) list \<Rightarrow> community" where
  "communityValue (name, i, routes) = \<lparr>cmName = name, cmID = Some i,
     cmRoutes = map (\<lambda>(n, j). zeroRoute\<lparr>rtName := n, rtID := Some j\<rparr>) routes\<rparr>"

type_synonym access = "string list \<times> string list"

fun routeDocument :: "string \<times> string \<times> string \<times> string \<times> string \<times> access \<times> access \<Rightarrow> json" where
  "routeDocument (i, owner, name, community, url, (users, groups), (noUsers, noGroups)) =
     JObj [(''id'', JStr i), (''domain_name'', JStr owner), (''name'', JStr name),
           (''community_name'', JStr community), (''url'', JStr url),
           (''rules'', JObj
             [(''version'', JStr ''1.0''),
              (''allowed'', JObj [(''users'', JArr (map JStr users)), (''groups'', JArr (map JStr groups))]),
              (''disallowed'', JObj [(''users'', JArr (map JStr noUsers)), (''groups'', JArr (map JStr noGroups))])])]"

fun routeValue :: "string \<times> string \<times> string \<times> string \<times> string \<times> access \<times> access \<Rightarrow> route" where
  "routeValue (i, owner, name, community, url, (users, groups), (noUsers, noGroups)) =
     zeroRoute\<lparr>rtID := Some i, rtDomainName := Some owner, rtName := name, rtCommunityName := Some community,
       rtURL := Some url, rtRules := Some \<lparr>ruVersion = Some ''1.0'',
         ruAllowed = Some \<lparr>esUsers = users, esGroups = groups\<rparr>,
         ruDisallowed = Some \<lparr>esUsers = noUsers, esGroups = noGroups\<rparr>\<rparr>\<rparr>"

lemmas decode_defs = decStruct_def lookupField_def setter_def decStringPtr_def decPtr_def

lemma decRegistration_document:
  "decRegistrationResponse zeroRegistrationResponse (registrationDocument url issuer tunnelURL jwt endpointID)
    = Inr \<lparr>rpURL = url, rpAirlock = \<lparr>alJwtIssuerURL = Some issuer\<rparr>,
        rpTunnel = \<lparr>tnURL = Some tunnelURL, tnJWT = Some jwt, tnEndpoint = Some endpointID\<rparr>,
        rpEndpoint = None, rpJWT = None\<rparr>"
  by (simp add: registrationDocument_def decRegistrationResponse_def decAirlock_def decTunnel_def decode_defs zero_defs)

lemma decRoute_reference:
  "decRoute zeroRoute (JObj [(''name'', JStr n), (''id'', JStr j)]) = Inr (zeroRoute\<lparr>rtName := n, rtID := Some j\<rparr>)"
  by (simp add: decRoute_def decode_defs zero_defs)

lemma decCommunity_document: "decCommunity zeroCommunity (communityDocument x) = Inr (communityValue x)"
proof (cases x)
  case (fields name i routes)
  have "decSlice zeroRoute decRoute old
      (JArr (map (\<lambda>(n, j). JObj [(''name'', JStr n), (''id'', JStr j)]) routes))
    = Inr (map (\<lambda>(n, j). zeroRoute\<lparr>rtName := n, rtID := Some j\<rparr>) routes)" for old
    by (rule decSlice_map) (auto simp: decRoute_reference)
  then show ?thesis by (simp add: fields decCommunity_def decode_defs zeroCommunity_def)
qed

lemma decEntitySet_document:
  "decEntitySet zeroEntitySet (JObj [(''users'', JArr (map JStr users)), (''groups'', JArr (map JStr groups))])
    = Inr \<lparr>esUsers = users, esGroups = groups\<rparr>"
  by (simp add: decEntitySet_def decStruct_def lookupField_def setter_def decSlice_strings zeroEntitySet_def)

lemma decRules_document:
  "decRules zeroRules (JObj [(''version'', JStr v),
      (''allowed'', JObj [(''users'', JArr (map JStr users)), (''groups'', JArr (map JStr groups))]),
      (''disallowed'', JObj [(''users'', JArr (map JStr noUsers)), (''groups'', JArr (map JStr noGroups))])])
    = Inr \<lparr>ruVersion = Some v, ruAllowed = Some \<lparr>esUsers = users, esGroups = groups\<rparr>,
        ruDisallowed = Some \<lparr>esUsers = noUsers, esGroups = noGroups\<rparr>\<rparr>"
  by (simp add: decRules_def decode_defs zeroRules_def decEntitySet_document)

lemma decRoute_document: "decRoute zeroRoute (routeDocument x) = Inr (routeValue x)"
  by (cases x rule: routeDocument.cases)
    (simp add: decRoute_def decode_defs zeroRoute_def decRules_document)

text \<open>The request and the answer of the four calls.\<close>

lemma supported_POST_GET: "supportedMethod ''POST''" "supportedMethod ''GET''"
  by (simp_all add: supportedMethod_def)

lemma register_wire:
  assumes "client_RegisterRoute c ctx communityName routeName w = (Inr r, w')"
  shows "\<exists>req resp w1. hcDo (rcClient c) ctx req w = (Inr resp, w1) \<and> hqMethod req = ''POST'' \<and>
    hqBody req = Some (JObj [(''name'', JStr (coerceUtf8 routeName)),
      (''community_name'', JStr (coerceUtf8 communityName))]) \<and>
    (\<forall>url issuer tunnelURL jwt endpointID.
      hrBody resp = Some (BodyJson (registrationDocument url issuer tunnelURL jwt endpointID)) \<longrightarrow>
      r = Some \<lparr>rpURL = url, rpAirlock = \<lparr>alJwtIssuerURL = Some issuer\<rparr>,
        rpTunnel = \<lparr>tnURL = Some tunnelURL, tnJWT = Some jwt, tnEndpoint = Some endpointID\<rparr>,
        rpEndpoint = None, rpJWT = None\<rparr>)"
proof -
  from client_do_success [OF assms [unfolded client_RegisterRoute_def] supported_POST_GET(1)]
  obtain req resp w1 where "hcDo (rcClient c) ctx req w = (Inr resp, w1)" "hqMethod req = ''POST''"
    and body: "marshalRequest (\<lambda>q. Inr (encRegistrationRequest q)) ''POST''
      (Some \<lparr>rqName = routeName, rqDomainName = None, rqCommunityName = Some communityName\<rparr>) = Inr (hqBody req)"
    and read: "readResponse (decPtr zeroRegistrationResponse decRegistrationResponse) None resp = Inr r"
    by auto
  moreover have "hqBody req = Some (JObj [(''name'', JStr (coerceUtf8 routeName)),
      (''community_name'', JStr (coerceUtf8 communityName))])"
    using body by (simp add: marshalRequest_def encRegistrationRequest_def encString_def optField_def)
  moreover have "decPtr zeroRegistrationResponse decRegistrationResponse None
      (registrationDocument url issuer tunnelURL jwt endpointID) = Inr (Some
        \<lparr>rpURL = url, rpAirlock = \<lparr>alJwtIssuerURL = Some issuer\<rparr>,
         rpTunnel = \<lparr>tnURL = Some tunnelURL, tnJWT = Some jwt, tnEndpoint = Some endpointID\<rparr>,
         rpEndpoint = None, rpJWT = None\<rparr>)" for url issuer tunnelURL jwt endpointID
    using decRegistration_document [of url issuer tunnelURL jwt endpointID]
    by (simp add: decPtr_def registrationDocument_def)
  ultimately show ?thesis using readResponse_json [OF read] by blast
qed

lemma addCommunity_wire:
  assumes "AddCommunity c ctx name w = (Inr r, w')"
  shows "\<exists>req resp w1. hcDo (rcClient c) ctx req w = (Inr resp, w1) \<and> hqMethod req = ''POST'' \<and>
    hqBody req = Some (JObj [(''name'', JStr (coerceUtf8 name)), (''id'', JNull)])"
proof -
  from client_do_success [OF assms [unfolded AddCommunity_def] supported_POST_GET(1)]
  obtain req resp w1 where "hcDo (rcClient c) ctx req w = (Inr resp, w1)" "hqMethod req = ''POST''"
    and "marshalRequest (\<lambda>q. Inr (encCommunity q)) ''POST'' (Some (zeroCommunity\<lparr>cmName := name\<rparr>)) = Inr (hqBody req)"
    by auto
  moreover from this(3) have "hqBody req = Some (JObj [(''name'', JStr (coerceUtf8 name)), (''id'', JNull)])"
    by (simp add: marshalRequest_def encCommunity_def encString_def sliceField_def zeroCommunity_def)
  ultimately show ?thesis by blast
qed

lemma listCommunities_wire:
  assumes "ListCommunities c ctx [] w = (Inr cs, w')"
  shows "\<exists>req resp w1. hcDo (rcClient c) ctx req w = (Inr resp, w1) \<and> hqMethod req = ''GET'' \<and> hqBody req = None \<and>
    (\<forall>xs. hrBody resp = Some (BodyJson (JArr (map communityDocument xs))) \<longrightarrow> cs = map communityValue xs)"
proof -
  have "fetchCommunities c ctx w = (Inr cs, w')"
    using assms by (auto simp: ListCommunities_def split: prod.splits sum.splits)
  from client_do_success [OF this [unfolded fetchCommunities_def] supported_POST_GET(2)]
  obtain req resp w1 where "hcDo (rcClient c) ctx req w = (Inr resp, w1)" "hqMethod req = ''GET''" "hqBody req = None"
    and read: "readResponse (decSlice zeroCommunity decCommunity) [] resp = Inr cs"
    by (auto simp: marshalRequest_def)
  moreover have "decSlice zeroCommunity decCommunity [] (JArr (map communityDocument xs)) = Inr (map communityValue xs)" for xs
    by (rule decSlice_map) (rule decCommunity_document)
  ultimately show ?thesis using readResponse_json [OF read] by blast
qed

lemma listRoutes_wire:
  assumes "ListRoutes c ctx [] w = (Inr rs, w')"
  shows "\<exists>req resp w1. hcDo (rcClient c) ctx req w = (Inr resp, w1) \<and> hqMethod req = ''GET'' \<and> hqBody req = None \<and>
    (\<forall>xs. hrBody resp = Some (BodyJson (JArr (map routeDocument xs))) \<longrightarrow> rs = map routeValue xs)"
proof -
  have "fetchRoutes c ctx w = (Inr rs, w')"
    using assms by (auto simp: ListRoutes_def split: prod.splits sum.splits)
  from client_do_success [OF this [unfolded fetchRoutes_def] supported_POST_GET(2)]
  obtain req resp w1 where "hcDo (rcClient c) ctx req w = (Inr resp, w1)" "hqMethod req = ''GET''" "hqBody req = None"
    and read: "readResponse (decSlice zeroRoute decRoute) [] resp = Inr rs"
    by (auto simp: marshalRequest_def)
  moreover have "decSlice zeroRoute decRoute [] (JArr (map routeDocument xs)) = Inr (map routeValue xs)" for xs
    by (rule decSlice_map) (rule decRoute_document)
  ultimately show ?thesis using readResponse_json [OF read] by blast
qed

text \<open>
  C25. The wire format. What goes over the wire to the Route Registry and back, by the literal names of
  the fields. A registration sends the two fields \<open>name\<close> and \<open>community_name\<close>, a new community its \<open>name\<close>
  and a null \<open>id\<close>, and the two lists are asked for with no body. An answer to a registration gives
  \<open>url\<close>, \<open>airlock.jwt_issuer_url\<close> and the three fields of \<open>tunnel\<close>, each to its own place; a list gives
  for every document of the array, in order, the community with its routes, or the route with its rules,
  where \<open>allowed\<close> and \<open>disallowed\<close> and in each of them \<open>users\<close> and \<open>groups\<close> are kept apart.
\<close>

theorem registry_wire_format:
  "(\<forall>r w'. client_RegisterRoute c ctx communityName routeName w = (Inr r, w') \<longrightarrow>
     (\<exists>req resp w1. hcDo (rcClient c) ctx req w = (Inr resp, w1) \<and> hqMethod req = ''POST'' \<and>
       hqBody req = Some (JObj [(''name'', JStr (coerceUtf8 routeName)),
         (''community_name'', JStr (coerceUtf8 communityName))]) \<and>
       (\<forall>url issuer tunnelURL jwt endpointID.
         hrBody resp = Some (BodyJson (registrationDocument url issuer tunnelURL jwt endpointID)) \<longrightarrow>
         r = Some \<lparr>rpURL = url, rpAirlock = \<lparr>alJwtIssuerURL = Some issuer\<rparr>,
           rpTunnel = \<lparr>tnURL = Some tunnelURL, tnJWT = Some jwt, tnEndpoint = Some endpointID\<rparr>,
           rpEndpoint = None, rpJWT = None\<rparr>))) \<and>
   (\<forall>r w'. AddCommunity c ctx communityName w = (Inr r, w') \<longrightarrow>
     (\<exists>req resp w1. hcDo (rcClient c) ctx req w = (Inr resp, w1) \<and> hqMethod req = ''POST'' \<and>
       hqBody req = Some (JObj [(''name'', JStr (coerceUtf8 communityName)), (''id'', JNull)]))) \<and>
   (\<forall>cs w'. ListCommunities c ctx [] w = (Inr cs, w') \<longrightarrow>
     (\<exists>req resp w1. hcDo (rcClient c) ctx req w = (Inr resp, w1) \<and> hqMethod req = ''GET'' \<and> hqBody req = None \<and>
       (\<forall>xs. hrBody resp = Some (BodyJson (JArr (map communityDocument xs))) \<longrightarrow> cs = map communityValue xs))) \<and>
   (\<forall>rs w'. ListRoutes c ctx [] w = (Inr rs, w') \<longrightarrow>
     (\<exists>req resp w1. hcDo (rcClient c) ctx req w = (Inr resp, w1) \<and> hqMethod req = ''GET'' \<and> hqBody req = None \<and>
       (\<forall>xs. hrBody resp = Some (BodyJson (JArr (map routeDocument xs))) \<longrightarrow> rs = map routeValue xs)))"
  using register_wire [of c ctx communityName routeName w] addCommunity_wire [of c ctx communityName w]
    listCommunities_wire [of c ctx w] listRoutes_wire [of c ctx w]
  by blast

definition sampleAnswer :: json where
  "sampleAnswer = registrationDocument ''https://wh/alice/app'' ''https://issuer'' ''https://piko'' ''jwt'' ''e1''"

theorem registry_wire_format_witness:
  "\<exists>(req :: http_request) w'. hqBody req = Some (JObj [(''name'', JStr ''app''), (''community_name'', JStr ''physics'')]) \<and>
    client_RegisterRoute (answerClient 201 (BodyJson sampleAnswer)) noCtx ''physics'' ''app'' () =
      (Inr (Some \<lparr>rpURL = ''https://wh/alice/app'', rpAirlock = \<lparr>alJwtIssuerURL = Some ''https://issuer''\<rparr>,
        rpTunnel = \<lparr>tnURL = Some ''https://piko'', tnJWT = Some ''jwt'', tnEndpoint = Some ''e1''\<rparr>,
        rpEndpoint = None, rpJWT = None\<rparr>), w')"
proof -
  let ?c = "answerClient 201 (BodyJson sampleAnswer)"
  have "(case client_RegisterRoute ?c noCtx ''physics'' ''app'' () of (Inr r, w) \<Rightarrow> True | _ \<Rightarrow> False)"
    by code_simp
  then obtain r w' where r: "client_RegisterRoute ?c noCtx ''physics'' ''app'' () = (Inr r, w')"
    by (auto split: prod.splits sum.splits)
  have utf8: "coerceUtf8 ''app'' = ''app''" "coerceUtf8 ''physics'' = ''physics''" by code_simp+
  from registry_wire_format [of ?c noCtx "''physics''" "''app''" "()"] r obtain req resp w1
    where "hcDo (rcClient ?c) noCtx req () = (Inr resp, w1)"
      and "hqBody req = Some (JObj [(''name'', JStr ''app''), (''community_name'', JStr ''physics'')])"
      and "\<forall>url issuer tunnelURL jwt endpointID.
        hrBody resp = Some (BodyJson (registrationDocument url issuer tunnelURL jwt endpointID)) \<longrightarrow>
         r = Some \<lparr>rpURL = url, rpAirlock = \<lparr>alJwtIssuerURL = Some issuer\<rparr>,
           rpTunnel = \<lparr>tnURL = Some tunnelURL, tnJWT = Some jwt, tnEndpoint = Some endpointID\<rparr>,
           rpEndpoint = None, rpJWT = None\<rparr>"
    unfolding utf8 by blast
  moreover from this(1) have "hrBody resp = Some (BodyJson sampleAnswer)" by (auto simp: answerClient_def)
  ultimately show ?thesis using r unfolding sampleAnswer_def by blast
qed

end
