(* ===== verification/CliArgs.thy ===== *)
theory CliArgs
  imports GoURL SelfHealConfig
begin

text \<open>
  \<open>internal/cmd/wh/args\<close> and \<open>internal/cmd/bootstrap\<close>: the configuration of the program. A flag is a
  record with the fields that the source sets, and a destination in the record \<open>cli_args\<close>; how the
  library \<open>urfave/cli\<close> gives a flag its value (\<open>Set\<close>, \<open>PostParse\<close>, the chain of sources) follows its
  vendored source. Reading files, parsing TOML, parsing durations and splitting the command line into
  flag values are parameters.
\<close>

section \<open>The configuration\<close>

record global_args =
  gaEndpoint :: string
  gaToken :: string
  gaVerbose :: bool

record open_args =
  oaName :: string
  oaCommunity :: string
  oaAppPort :: string
  oaPodmanCompat :: bool
  oaAllowedUsers :: string
  oaAllowedGroups :: string
  oaForbiddenUsers :: string
  oaForbiddenGroups :: string
  oaForwardedHeaderUser :: string
  oaForwardedHeaderGroups :: string
  oaAuthBearerHeader :: bool

record cli_args =
  caGlobal :: global_args
  caOpen :: open_args
  caSelfHeal :: selfheal_config

definition DefaultAppPort :: string where "DefaultAppPort = ''8080''"
definition DefaultForwardedHeaderUser :: string where "DefaultForwardedHeaderUser = ''X-Forwarded-User''"
definition DefaultForwardedHeaderGroups :: string where "DefaultForwardedHeaderGroups = ''X-Forwarded-Groups''"

definition zeroArgs :: cli_args where
  "zeroArgs = \<lparr>caGlobal = \<lparr>gaEndpoint = [], gaToken = [], gaVerbose = False\<rparr>,
     caOpen = \<lparr>oaName = [], oaCommunity = [], oaAppPort = [], oaPodmanCompat = False, oaAllowedUsers = [],
       oaAllowedGroups = [], oaForbiddenUsers = [], oaForbiddenGroups = [], oaForwardedHeaderUser = [],
       oaForwardedHeaderGroups = [], oaAuthBearerHeader = False\<rparr>,
     caSelfHeal = \<lparr>MinRetryBackoff = 0, MaxRetryBackoff = 0\<rparr>\<rparr>"

section \<open>Sources of values\<close>

text \<open>A TOML value; \<open>TomlOther\<close> is a float or a date, as \<open>fmt\<close> prints it.\<close>

datatype toml =
    TomlString string
  | TomlInt int
  | TomlBool bool
  | TomlOther string
  | TomlArray "toml list"
  | TomlTable "(string \<times> toml) list"

text \<open>The verb \<open>%+v\<close>; the keys of a table are printed in the order of the list, which is sorted.\<close>

fun tomlText :: "toml \<Rightarrow> string" where
  "tomlText (TomlString s) = s"
| "tomlText (TomlInt n) = itoa n"
| "tomlText (TomlBool b) = (if b then ''true'' else ''false'')"
| "tomlText (TomlOther t) = t"
| "tomlText (TomlArray vs) = ''['' @ joinStr '' '' (map tomlText vs) @ '']''"
| "tomlText (TomlTable kvs) =
     ''map['' @ joinStr '' '' (map (\<lambda>(k, v). k @ '':'' @ tomlText v) kvs) @ '']''"

record map_source =
  msName :: string
  msMap :: "(string \<times> toml) list"

text \<open>\<open>MapSource.Lookup\<close> of a dotted name: every section but the last must name a table.\<close>

fun tomlLookup :: "(string \<times> toml) list \<Rightarrow> string list \<Rightarrow> toml option" where
  "tomlLookup node [] = None"
| "tomlLookup node [key] = map_of node key"
| "tomlLookup node (section # rest) =
     (case map_of node section of
        Some (TomlTable child) \<Rightarrow> tomlLookup child rest
      | _ \<Rightarrow> None)"

definition mapSourceLookup :: "map_source \<Rightarrow> string \<Rightarrow> toml option" where
  "mapSourceLookup ms name = (if name = [] then None else tomlLookup (msMap ms) (splitChar CHR ''.'' name))"

datatype value_source =
    EnvVar string
  | MapValue string map_source

type_synonym environment = "string \<Rightarrow> string option"

definition sourceLookup :: "environment \<Rightarrow> value_source \<Rightarrow> string option" where
  "sourceLookup env src =
     (case src of
        EnvVar key \<Rightarrow> env (TrimSpace key)
      | MapValue key ms \<Rightarrow> map_option tomlText (mapSourceLookup ms key))"

fun chainLookup :: "environment \<Rightarrow> value_source list \<Rightarrow> (string \<times> value_source) option" where
  "chainLookup env [] = None"
| "chainLookup env (src # chain) =
     (case sourceLookup env src of
        Some value \<Rightarrow> Some (value, src)
      | None \<Rightarrow> chainLookup env chain)"

definition sourceText :: "value_source \<Rightarrow> string" where
  "sourceText src =
     (case src of
        EnvVar key \<Rightarrow> ''environment variable '' @ quote key
      | MapValue key ms \<Rightarrow> ''key '' @ quote key @ '' from map source '' @ quote (msName ms))"

definition envPrefix :: string where "envPrefix = ''WORMHOLE_''"
definition ConfigTableName :: string where "ConfigTableName = ''defaults''"

definition upperChar :: "char \<Rightarrow> char" where
  "upperChar c = (if 97 \<le> byte c \<and> byte c \<le> 122 then char_of (byte c - 32) else c)"

definition envNameOf :: "string \<Rightarrow> string" where
  "envNameOf flagName = map (\<lambda>c. if c = CHR ''-'' then CHR ''_'' else c) (map upperChar flagName)"

definition flagSources :: "string \<Rightarrow> map_source list \<Rightarrow> value_source list" where
  "flagSources flagName srcs =
     EnvVar (envPrefix @ envNameOf flagName) #
     map (\<lambda>ms. MapValue (ConfigTableName @ ''.'' @ flagName) ms) srcs"

section \<open>Flags\<close>

datatype flag_val = StringVal string | BoolVal bool | DurationVal duration | SliceVal "string list"

datatype flag_kind = StringKind bool | BoolKind | DurationKind | SliceKind

text \<open>\<open>StringKind\<close> holds \<open>TrimSpace\<close>. The destination stores the value in the configuration.\<close>

record 'a flag =
  flName :: string
  flCategory :: string
  flKind :: flag_kind
  flValue :: flag_val
  flRequired :: bool
  flHidden :: bool
  flSources :: "value_source list"
  flValidator :: "flag_val \<Rightarrow> go_error option"
  flDestination :: "flag_val \<Rightarrow> 'a \<Rightarrow> 'a"

definition noValidator :: "flag_val \<Rightarrow> go_error option" where
  "noValidator v = None"

definition onString :: "(string \<Rightarrow> 'a \<Rightarrow> 'a) \<Rightarrow> flag_val \<Rightarrow> 'a \<Rightarrow> 'a" where
  "onString f v = (case v of StringVal s \<Rightarrow> f s | _ \<Rightarrow> id)"

definition onBool :: "(bool \<Rightarrow> 'a \<Rightarrow> 'a) \<Rightarrow> flag_val \<Rightarrow> 'a \<Rightarrow> 'a" where
  "onBool f v = (case v of BoolVal b \<Rightarrow> f b | _ \<Rightarrow> id)"

definition onDuration :: "(duration \<Rightarrow> 'a \<Rightarrow> 'a) \<Rightarrow> flag_val \<Rightarrow> 'a \<Rightarrow> 'a" where
  "onDuration f v = (case v of DurationVal d \<Rightarrow> f d | _ \<Rightarrow> id)"

definition onSlice :: "(string list \<Rightarrow> 'a \<Rightarrow> 'a) \<Rightarrow> flag_val \<Rightarrow> 'a \<Rightarrow> 'a" where
  "onSlice f v = (case v of SliceVal xs \<Rightarrow> f xs | _ \<Rightarrow> id)"

text \<open>A string flag of the program: it trims space and its sources are those of its name.\<close>

definition stringFlag ::
  "string \<Rightarrow> string \<Rightarrow> string \<Rightarrow> bool \<Rightarrow> map_source list \<Rightarrow> (string \<Rightarrow> 'a \<Rightarrow> 'a) \<Rightarrow> 'a flag" where
  "stringFlag category name value required srcs dest =
     \<lparr>flName = name, flCategory = category, flKind = StringKind True, flValue = StringVal value,
      flRequired = required, flHidden = False, flSources = flagSources name srcs,
      flValidator = noValidator, flDestination = onString dest\<rparr>"

definition boolFlag ::
  "string \<Rightarrow> string \<Rightarrow> bool \<Rightarrow> map_source list \<Rightarrow> (bool \<Rightarrow> 'a \<Rightarrow> 'a) \<Rightarrow> 'a flag" where
  "boolFlag category name hidden srcs dest =
     \<lparr>flName = name, flCategory = category, flKind = BoolKind, flValue = BoolVal False,
      flRequired = False, flHidden = hidden, flSources = flagSources name srcs,
      flValidator = noValidator, flDestination = onBool dest\<rparr>"

definition durationFlag ::
  "string \<Rightarrow> string \<Rightarrow> duration \<Rightarrow> map_source list \<Rightarrow> (duration \<Rightarrow> 'a \<Rightarrow> 'a) \<Rightarrow> 'a flag" where
  "durationFlag category name value srcs dest =
     \<lparr>flName = name, flCategory = category, flKind = DurationKind, flValue = DurationVal value,
      flRequired = False, flHidden = False, flSources = flagSources name srcs,
      flValidator = noValidator, flDestination = onDuration dest\<rparr>"

definition GlobalFlags :: "map_source list \<Rightarrow> cli_args flag list" where
  "GlobalFlags srcs =
     [stringFlag ''General'' ''endpoint'' [] True srcs
        (\<lambda>v a. a\<lparr>caGlobal := (caGlobal a)\<lparr>gaEndpoint := v\<rparr>\<rparr>),
      stringFlag ''General'' ''token'' [] True srcs
        (\<lambda>v a. a\<lparr>caGlobal := (caGlobal a)\<lparr>gaToken := v\<rparr>\<rparr>),
      boolFlag ''General'' ''verbose'' False srcs
        (\<lambda>v a. a\<lparr>caGlobal := (caGlobal a)\<lparr>gaVerbose := v\<rparr>\<rparr>)]"

text \<open>The validator of the name.\<close>

definition nameValidator :: "flag_val \<Rightarrow> go_error option" where
  "nameValidator v =
     (case v of
        StringVal n \<Rightarrow>
          if CHR ''_'' \<in> set n then Some (ErrString ''name may not contain any underscores _'') else None
      | _ \<Rightarrow> None)"

definition OpenFlags :: "map_source list \<Rightarrow> cli_args flag list" where
  "OpenFlags srcs =
     (let t = ''Tunnel'';
          o' = (\<lambda>f a. a\<lparr>caOpen := f (caOpen a)\<rparr>)
      in
     [(stringFlag t ''name'' [] True srcs (\<lambda>v. o' (oaName_update (\<lambda>_. v))))
        \<lparr>flValidator := nameValidator\<rparr>,
      stringFlag t ''community'' [] False srcs (\<lambda>v. o' (oaCommunity_update (\<lambda>_. v))),
      stringFlag t ''app-port'' DefaultAppPort False srcs (\<lambda>v. o' (oaAppPort_update (\<lambda>_. v))),
      boolFlag t ''podman-compat'' True srcs (\<lambda>v. o' (oaPodmanCompat_update (\<lambda>_. v))),
      stringFlag t ''allowed-users'' [] False srcs (\<lambda>v. o' (oaAllowedUsers_update (\<lambda>_. v))),
      stringFlag t ''allowed-groups'' [] False srcs (\<lambda>v. o' (oaAllowedGroups_update (\<lambda>_. v))),
      stringFlag t ''forbidden-users'' [] False srcs (\<lambda>v. o' (oaForbiddenUsers_update (\<lambda>_. v))),
      stringFlag t ''forbidden-groups'' [] False srcs (\<lambda>v. o' (oaForbiddenGroups_update (\<lambda>_. v))),
      stringFlag t ''forwarded-header-user'' DefaultForwardedHeaderUser False srcs
        (\<lambda>v. o' (oaForwardedHeaderUser_update (\<lambda>_. v))),
      stringFlag t ''forwarded-header-groups'' DefaultForwardedHeaderGroups False srcs
        (\<lambda>v. o' (oaForwardedHeaderGroups_update (\<lambda>_. v))),
      boolFlag t ''auth-bearer-header'' True srcs (\<lambda>v. o' (oaAuthBearerHeader_update (\<lambda>_. v))),
      durationFlag t ''min-retry-backoff'' DefaultMinRetryBackoff srcs
        (\<lambda>v a. a\<lparr>caSelfHeal := (caSelfHeal a)\<lparr>MinRetryBackoff := v\<rparr>\<rparr>),
      durationFlag t ''max-retry-backoff'' DefaultMaxRetryBackoff srcs
        (\<lambda>v a. a\<lparr>caSelfHeal := (caSelfHeal a)\<lparr>MaxRetryBackoff := v\<rparr>\<rparr>)])"

text \<open>The two bootstrap flags store in a pair: the configuration files and \<open>nodefaults\<close>.\<close>

definition BootstrapFlags :: "(string list \<times> bool) flag list" where
  "BootstrapFlags =
     [\<lparr>flName = ''config'', flCategory = [], flKind = SliceKind, flValue = SliceVal [],
       flRequired = False, flHidden = False, flSources = [EnvVar (envPrefix @ ''CONFIG'')],
       flValidator = noValidator, flDestination = onSlice (\<lambda>v (_, n). (v, n))\<rparr>,
      \<lparr>flName = ''nodefaults'', flCategory = [], flKind = BoolKind, flValue = BoolVal False,
       flRequired = False, flHidden = False, flSources = [EnvVar (envPrefix @ ''NODEFAULTS'')],
       flValidator = noValidator, flDestination = onBool (\<lambda>v (c, _). (c, v))\<rparr>]"

section \<open>Giving flags their values\<close>

definition parseBool :: "string \<Rightarrow> bool option" where
  "parseBool s =
     (if s \<in> set [''1'', ''t'', ''T'', ''TRUE'', ''true'', ''True''] then Some True
      else if s \<in> set [''0'', ''f'', ''F'', ''FALSE'', ''false'', ''False''] then Some False
      else None)"

text \<open>
  The value after one \<open>Set\<close>, from the value before it and whether the flag was set already; a slice is
  split at commas and starts empty at the first \<open>Set\<close>.
\<close>

definition parseValue ::
  "(string \<Rightarrow> go_error + duration) \<Rightarrow> flag_kind \<Rightarrow> bool \<Rightarrow> flag_val \<Rightarrow> string \<Rightarrow> go_error + flag_val" where
  "parseValue parseDuration kind wasSet old s =
     (case kind of
        StringKind trim \<Rightarrow> Inr (StringVal (if trim then TrimSpace s else s))
      | BoolKind \<Rightarrow>
          (case parseBool s of None \<Rightarrow> Inl (ErrString ''parse error'') | Some b \<Rightarrow> Inr (BoolVal b))
      | DurationKind \<Rightarrow> mapE DurationVal (parseDuration s)
      | SliceKind \<Rightarrow>
          Inr (SliceVal ((if wasSet then (case old of SliceVal xs \<Rightarrow> xs | _ \<Rightarrow> []) else []) @
                         splitChar CHR '','' s)))"

text \<open>The state of a flag: its value, whether it was set, and the configuration.\<close>

definition setFlag ::
  "(string \<Rightarrow> go_error + duration) \<Rightarrow> 'a flag \<Rightarrow> string \<Rightarrow> flag_val \<times> bool \<times> 'a \<Rightarrow>
   go_error + flag_val \<times> bool \<times> 'a" where
  "setFlag parseDuration f s st =
     (let (old, wasSet, a) = st in
      case parseValue parseDuration (flKind f) wasSet old s of
        Inl err \<Rightarrow> Inl err
      | Inr v \<Rightarrow>
          (case flValidator f v of
             Some err \<Rightarrow> Inl err
           | None \<Rightarrow> Inr (v, True, flDestination f v a)))"

fun setAll ::
  "(string \<Rightarrow> go_error + duration) \<Rightarrow> 'a flag \<Rightarrow> string list \<Rightarrow> flag_val \<times> bool \<times> 'a \<Rightarrow>
   go_error + flag_val \<times> bool \<times> 'a" where
  "setAll parseDuration f [] st = Inr st"
| "setAll parseDuration f (s # ss) st =
     bindE (setFlag parseDuration f s st) (setAll parseDuration f ss)"

definition kindText :: "flag_kind \<Rightarrow> string" where
  "kindText kind =
     (case kind of StringKind _ \<Rightarrow> ''string'' | BoolKind \<Rightarrow> ''bool'' | DurationKind \<Rightarrow> ''time.Duration''
      | SliceKind \<Rightarrow> ''[]string'')"

definition postParse ::
  "(string \<Rightarrow> go_error + duration) \<Rightarrow> environment \<Rightarrow> 'a flag \<Rightarrow> flag_val \<times> bool \<times> 'a \<Rightarrow>
   go_error + flag_val \<times> bool \<times> 'a" where
  "postParse parseDuration env f st =
     (let (v, wasSet, a) = st in
      if wasSet then Inr st
      else case chainLookup env (flSources f) of
        None \<Rightarrow> Inr st
      | Some (s, src) \<Rightarrow>
          if s \<noteq> [] \<or> (case flKind f of StringKind _ \<Rightarrow> True | _ \<Rightarrow> False) then
            (case setFlag parseDuration f s st of
               Inl err \<Rightarrow> Inl (ErrString (''could not parse '' @ quote s @ '' as '' @ kindText (flKind f) @
                 '' value from '' @ sourceText src @ '' for flag '' @ flName f @ '': '' @ errorText err))
             | Inr st' \<Rightarrow> Inr st')
          else if flKind f = BoolKind then
            (case setFlag parseDuration f ''false'' st of Inl _ \<Rightarrow> Inr (v, True, a) | Inr st' \<Rightarrow> Inr st')
          else Inr (v, True, a))"

text \<open>One flag: the default, what the command line gives it, then its sources.\<close>

definition loadFlag ::
  "(string \<Rightarrow> go_error + duration) \<Rightarrow> environment \<Rightarrow> 'a flag \<Rightarrow> string list \<Rightarrow> 'a \<Rightarrow>
   go_error + flag_val \<times> bool \<times> 'a" where
  "loadFlag parseDuration env f given a =
     bindE (setAll parseDuration f given (flValue f, False, flDestination f (flValue f) a))
       (postParse parseDuration env f)"

text \<open>All flags of a command, with the names of those that are required and were not set.\<close>

fun loadFlags ::
  "(string \<Rightarrow> go_error + duration) \<Rightarrow> environment \<Rightarrow> (string \<Rightarrow> string list) \<Rightarrow> 'a flag list \<Rightarrow> 'a \<Rightarrow>
   go_error + 'a \<times> string list" where
  "loadFlags parseDuration env given [] a = Inr (a, [])"
| "loadFlags parseDuration env given (f # fs) a =
     bindE (loadFlag parseDuration env f (given (flName f)) a) (\<lambda>(_, wasSet, a').
       mapE (\<lambda>(a'', missing). (a'', if flRequired f \<and> \<not> wasSet then flName f # missing else missing))
         (loadFlags parseDuration env given fs a'))"

section \<open>Configuration files\<close>

definition convertTopLevel :: "(string \<times> toml) list \<Rightarrow> (string \<times> toml) list" where
  "convertTopLevel m = map (\<lambda>(k, v). (k, v)) m"

definition ParseTOML ::
  "(string \<Rightarrow> go_error + (string \<times> toml) list) \<Rightarrow> string \<Rightarrow> string \<Rightarrow> go_error + map_source" where
  "ParseTOML unmarshal data name =
     (case unmarshal data of
        Inl err \<Rightarrow> Inl (Errorf (''parsing '' @ name) err)
      | Inr raw \<Rightarrow> Inr \<lparr>msName = name, msMap = convertTopLevel raw\<rparr>)"

definition TOMLMapSource ::
  "(string \<Rightarrow> go_error + string) \<Rightarrow> (string \<Rightarrow> go_error + (string \<times> toml) list) \<Rightarrow> string \<Rightarrow>
   go_error + map_source" where
  "TOMLMapSource readFile unmarshal path =
     (case readFile path of Inl err \<Rightarrow> Inl err | Inr data \<Rightarrow> ParseTOML unmarshal data path)"

definition systemConfigPath :: string where "systemConfigPath = ''/etc/wormhole/cli.toml''"

text \<open>\<open>os.IsNotExist\<close> looks through a \<open>*PathError\<close>, not through \<open>fmt.Errorf\<close>.\<close>

definition isNotExist :: "go_error \<Rightarrow> bool" where
  "isNotExist err = (case err of PathError _ _ e \<Rightarrow> e = ENOENT | e \<Rightarrow> e = ENOENT)"

fun loadConfigs ::
  "(string \<Rightarrow> go_error + map_source) \<Rightarrow> string list \<Rightarrow> map_source list \<Rightarrow> go_error + map_source list" where
  "loadConfigs load [] acc = Inr acc"
| "loadConfigs load (path # paths) acc =
     (case load path of
        Inl err \<Rightarrow> Inl (Errorf (''config '' @ path) err)
      | Inr ms \<Rightarrow> loadConfigs load paths (acc @ [ms]))"

text \<open>
  \<open>bootstrap.Run\<close>: \<open>parsed\<close> is what the first pass over the arguments gives, the error of
  \<open>bootstrap.Run\<close> or the two bootstrap values.
\<close>

definition bootstrapRun ::
  "(string \<Rightarrow> go_error + map_source) \<Rightarrow> go_error + string list \<times> bool \<Rightarrow> go_error + map_source list" where
  "bootstrapRun load parsed =
     (case parsed of
        Inl err \<Rightarrow> Inl err
      | Inr (configs, noDefaults) \<Rightarrow>
          bindE
            (if \<not> noDefaults then
               (case load systemConfigPath of
                  Inl err \<Rightarrow>
                    if isNotExist err then Inr []
                    else Inl (Errorf (''system config '' @ systemConfigPath) err)
                | Inr ms \<Rightarrow> Inr [ms])
             else Inr [])
            (\<lambda>mapSrcs. mapE rev (loadConfigs load configs mapSrcs)))"

section \<open>The chain of sources\<close>

lemma chainLookup_append:
  "chainLookup env (xs @ ys) = (case chainLookup env xs of None \<Rightarrow> chainLookup env ys | Some r \<Rightarrow> Some r)"
  by (induction xs) (auto split: option.splits)

lemma loadConfigs_acc:
  "loadConfigs load paths acc = mapE (\<lambda>ms. acc @ ms) (loadConfigs load paths [])"
proof (induction paths arbitrary: acc)
  case (Cons path paths)
  show ?case
  proof (cases "load path")
    case (Inr ms)
    have "loadConfigs load (path # paths) acc = mapE (\<lambda>xs. (acc @ [ms]) @ xs) (loadConfigs load paths [])"
      using Inr Cons.IH [of "acc @ [ms]"] by simp
    also have "\<dots> = mapE (\<lambda>xs. acc @ xs) (loadConfigs load (path # paths) [])"
      using Inr Cons.IH [of "[ms]"] by (cases "loadConfigs load paths []") auto
    finally show ?thesis .
  qed simp
qed simp

lemma loadConfigs_Inr:
  "loadConfigs load paths [] = Inr ms \<longleftrightarrow> list_all2 (\<lambda>path m. load path = Inr m) paths ms"
proof (induction paths arbitrary: ms)
  case (Cons path paths)
  show ?case
  proof (cases "load path")
    case (Inr m)
    then show ?thesis using loadConfigs_acc [of load paths "[m]"] Cons.IH
      by (auto simp: list_all2_Cons1)
  qed (auto simp: list_all2_Cons1)
qed auto

text \<open>
  The last of the sources in loading order that has a value wins, as their list is reversed.
\<close>

definition lastDefining :: "string \<Rightarrow> map_source list \<Rightarrow> (string \<times> value_source) option" where
  "lastDefining key ms =
     (case rev (filter (\<lambda>m. mapSourceLookup m key \<noteq> None) ms) of
        [] \<Rightarrow> None
      | m # _ \<Rightarrow> map_option (\<lambda>v. (tomlText v, MapValue key m)) (mapSourceLookup m key))"

lemma chainLookup_rev: "chainLookup env (map (MapValue key) (rev ms)) = lastDefining key ms"
proof (induction ms rule: rev_induct)
  case (snoc m ms)
  then show ?case by (cases "mapSourceLookup m key") (auto simp: lastDefining_def sourceLookup_def)
qed (simp add: lastDefining_def)

lemma flagSources_lookup:
  "chainLookup env (flagSources name (rev ms)) =
    (case sourceLookup env (EnvVar (envPrefix @ envNameOf name)) of
       Some v \<Rightarrow> Some (v, EnvVar (envPrefix @ envNameOf name))
     | None \<Rightarrow> lastDefining (ConfigTableName @ ''.'' @ name) ms)"
  using chainLookup_rev [of env "ConfigTableName @ ''.'' @ name" ms]
  by (simp add: flagSources_def rev_map split: option.split)

section \<open>String flags\<close>

lemma setAll_string:
  assumes "flKind f = StringKind trim" and "flValidator f = noValidator" and "given \<noteq> []"
    and "\<And>x v a. flDestination f (StringVal x) (flDestination f v a) = flDestination f (StringVal x) a"
  shows "setAll parseDuration f given (v0, b, flDestination f v0 a)
    = (let v = StringVal (if trim then TrimSpace (last given) else last given)
       in Inr (v, True, flDestination f v a))"
  using assms(3)
proof (induction given arbitrary: v0 b)
  case (Cons s given)
  let ?v = "StringVal (if trim then TrimSpace s else s)"
  have "setFlag parseDuration f s (v0, b, flDestination f v0 a) = Inr (?v, True, flDestination f ?v a)"
    using assms by (simp add: setFlag_def parseValue_def noValidator_def)
  with Cons show ?case by (cases "given = []") (simp_all add: Let_def)
qed simp

text \<open>The effective value of a string flag without validator, by precedence.\<close>

lemma loadFlag_string:
  assumes "flKind f = StringKind True" and "flValidator f = noValidator"
    and "\<And>x v a. flDestination f (StringVal x) (flDestination f v a) = flDestination f (StringVal x) a"
  shows "loadFlag parseDuration env f given a =
    (let (v, isSet) = (if given \<noteq> [] then (StringVal (TrimSpace (last given)), True)
        else case chainLookup env (flSources f) of
          Some (s, _) \<Rightarrow> (StringVal (TrimSpace s), True)
        | None \<Rightarrow> (flValue f, False))
     in Inr (v, isSet, flDestination f v a))"
proof (cases "given = []")
  case True
  then show ?thesis using assms
    by (auto simp: loadFlag_def postParse_def setFlag_def parseValue_def noValidator_def
        split: option.split)
next
  case False
  then show ?thesis using setAll_string [OF assms(1,2) False assms(3)]
    by (simp add: loadFlag_def postParse_def Let_def)
qed

section \<open>The flags of the program\<close>

lemma flag_fields [simp]:
  "flName (stringFlag c n v r srcs d) = n" "flName (boolFlag c n h srcs e) = n"
  "flName (durationFlag c n u srcs g) = n"
  "flKind (stringFlag c n v r srcs d) = StringKind True" "flKind (boolFlag c n h srcs e) = BoolKind"
  "flKind (durationFlag c n u srcs g) = DurationKind"
  "flValidator (stringFlag c n v r srcs d) = noValidator"
  "flSources (stringFlag c n v r srcs d) = flagSources n srcs"
  "flValue (stringFlag c n v r srcs d) = StringVal v"
  "flRequired (stringFlag c n v r srcs d) = r"
  "flDestination (stringFlag c n v r srcs d) = onString d"
  by (simp_all add: stringFlag_def boolFlag_def durationFlag_def)

text \<open>What the proofs need of a string flag other than \<open>name\<close>.\<close>

definition plainString :: "map_source list \<Rightarrow> 'a flag \<Rightarrow> bool" where
  "plainString srcs f \<longleftrightarrow>
     (flName f \<noteq> ''name'' \<longrightarrow> (\<forall>trim. flKind f = StringKind trim \<longrightarrow>
        trim \<and> flValidator f = noValidator \<and> flSources f = flagSources (flName f) srcs \<and>
        (\<forall>x v a. flDestination f (StringVal x) (flDestination f v a) = flDestination f (StringVal x) a)))"

lemma plainString_string:
  assumes "\<And>x y a. d x (d y a) = d x a"
  shows "plainString srcs (stringFlag c n v r srcs d)"
  using assms by (simp add: plainString_def onString_def split: flag_val.split)

lemma plainString_other:
  "plainString srcs (boolFlag c n h srcs e)" "plainString srcs (durationFlag c n u srcs g)"
  "flName f = ''name'' \<Longrightarrow> plainString srcs f"
  by (simp_all add: plainString_def)

lemma plainString_flags: "f \<in> set (GlobalFlags srcs @ OpenFlags srcs) \<Longrightarrow> plainString srcs f"
proof -
  have "list_all (plainString srcs) (GlobalFlags srcs)"
    by (simp add: GlobalFlags_def plainString_string plainString_other)
  moreover have "list_all (plainString srcs) (OpenFlags srcs)"
    by (simp add: OpenFlags_def Let_def plainString_string plainString_other)
  ultimately show "f \<in> set (GlobalFlags srcs @ OpenFlags srcs) \<Longrightarrow> plainString srcs f"
    by (auto simp: list_all_iff)
qed

text \<open>The only flag called \<open>name\<close>.\<close>

definition nameFlag :: "map_source list \<Rightarrow> cli_args flag" where
  "nameFlag srcs =
     (stringFlag ''Tunnel'' ''name'' [] True srcs (\<lambda>v a. a\<lparr>caOpen := (caOpen a)\<lparr>oaName := v\<rparr>\<rparr>))
       \<lparr>flValidator := nameValidator\<rparr>"

lemma nameFlag_unique: "f \<in> set (OpenFlags srcs) \<Longrightarrow> flName f = ''name'' \<Longrightarrow> f = nameFlag srcs"
  by (auto simp: OpenFlags_def Let_def nameFlag_def)

lemma nameFlag_fields [simp]:
  "flKind (nameFlag srcs) = StringKind True" "flValidator (nameFlag srcs) = nameValidator"
  "flDestination (nameFlag srcs) (StringVal n) a = a\<lparr>caOpen := (caOpen a)\<lparr>oaName := n\<rparr>\<rparr>"
  by (simp_all add: nameFlag_def onString_def)

end
