(* ===== verification/CliTheorems.thy ===== *)
theory CliTheorems
  imports CliArgs
begin

text \<open>The properties of the configuration: precedence of the sources, and the validated name.\<close>

definition noDuration :: "string \<Rightarrow> go_error + duration" where
  "noDuration s = Inl (ErrString ''time: invalid duration'')"

definition sampleLoad :: "string \<Rightarrow> go_error + map_source" where
  "sampleLoad path =
     (if path = systemConfigPath
      then Inr \<lparr>msName = path, msMap = [(''defaults'', TomlTable
        [(''endpoint'', TomlString ''https://sys''), (''app-port'', TomlInt 81)])]\<rparr>
      else if path = ''a.toml'' \<or> path = ''b.toml''
      then Inr \<lparr>msName = path, msMap = [(''defaults'', TomlTable [(''endpoint'', TomlString path)])]\<rparr>
      else Inl (PathError ''open'' path ENOENT))"

text \<open>
  C30. Layers of configuration. When the bootstrap pass succeeds, every \<open>--config\<close> file was loaded, the
  system file too unless it was skipped or does not exist, and a flag without a value on the command
  line finds its value first in its environment variable, then in the last of the files, in the
  order system file, first to last \<open>--config\<close>, that defines its key under \<open>defaults\<close>.
\<close>

theorem config_layers:
  assumes "bootstrapRun load (Inr (configs, noDefaults)) = Inr srcs"
  shows "\<exists>sys user. srcs = rev (sys @ user) \<and>
    list_all2 (\<lambda>path m. load path = Inr m) configs user \<and>
    (if noDefaults then sys = []
     else (\<exists>m. sys = [m] \<and> load systemConfigPath = Inr m) \<or>
          (\<exists>e. sys = [] \<and> load systemConfigPath = Inl e \<and> isNotExist e)) \<and>
    (\<forall>env name. chainLookup env (flagSources name srcs) =
      (case env (TrimSpace (envPrefix @ envNameOf name)) of
         Some v \<Rightarrow> Some (v, EnvVar (envPrefix @ envNameOf name))
       | None \<Rightarrow> lastDefining (ConfigTableName @ ''.'' @ name) (sys @ user)))"
proof -
  obtain sys where sys: "(if \<not> noDefaults then
        (case load systemConfigPath of
           Inl err \<Rightarrow> if isNotExist err then Inr []
             else Inl (Errorf (''system config '' @ systemConfigPath) err)
         | Inr ms \<Rightarrow> Inr [ms]) else Inr []) = Inr sys"
    and rest: "mapE rev (loadConfigs load configs sys) = Inr srcs"
    using assms by (auto simp: bootstrapRun_def bindE_Inr_iff)
  from rest obtain user where user: "loadConfigs load configs [] = Inr user" "srcs = rev (sys @ user)"
    using loadConfigs_acc [of load configs sys] by auto
  have "if noDefaults then sys = []
     else (\<exists>m. sys = [m] \<and> load systemConfigPath = Inr m) \<or>
          (\<exists>e. sys = [] \<and> load systemConfigPath = Inl e \<and> isNotExist e)"
    using sys by (auto split: sum.splits if_splits)
  moreover have "chainLookup env (flagSources name srcs) =
      (case env (TrimSpace (envPrefix @ envNameOf name)) of
         Some v \<Rightarrow> Some (v, EnvVar (envPrefix @ envNameOf name))
       | None \<Rightarrow> lastDefining (ConfigTableName @ ''.'' @ name) (sys @ user))" for env name
    unfolding user(2) using flagSources_lookup [of env name "sys @ user"]
    by (simp add: sourceLookup_def)
  ultimately show ?thesis using user loadConfigs_Inr [of load configs user] by blast
qed

theorem config_layers_witness:
  "\<exists>srcs. bootstrapRun sampleLoad (Inr ([''a.toml'', ''b.toml''], False)) = Inr srcs \<and>
    map_option fst (chainLookup (\<lambda>_. None) (flagSources ''endpoint'' srcs)) = Some ''b.toml'' \<and>
    map_option fst (chainLookup (\<lambda>_. None) (flagSources ''app-port'' srcs)) = Some ''81''"
proof -
  define load where "load p = (case sampleLoad p of Inr m \<Rightarrow> m | Inl _ \<Rightarrow> \<lparr>msName = [], msMap = []\<rparr>)" for p
  define all where "all = [load systemConfigPath, load ''a.toml'', load ''b.toml'']"
  have ok: "bootstrapRun sampleLoad (Inr ([''a.toml'', ''b.toml''], False)) = Inr (rev all)"
    unfolding all_def load_def by code_simp
  from config_layers [OF this] obtain sys user where lay: "rev all = rev (sys @ user)"
    and look: "\<forall>env name. chainLookup env (flagSources name (rev all)) =
      (case env (TrimSpace (envPrefix @ envNameOf name)) of
         Some v \<Rightarrow> Some (v, EnvVar (envPrefix @ envNameOf name))
       | None \<Rightarrow> lastDefining (ConfigTableName @ ''.'' @ name) (sys @ user))"
    by blast
  have "sys @ user = all" using lay by (metis rev_rev_ident)
  then have "chainLookup (\<lambda>_. None) (flagSources name (rev all))
      = lastDefining (ConfigTableName @ ''.'' @ name) all" for name
    using look [THEN spec, THEN spec, of "\<lambda>_. None" name] by (simp only: option.case)
  moreover have "map_option fst (lastDefining (ConfigTableName @ ''.'' @ ''endpoint'') all) = Some ''b.toml''"
    "map_option fst (lastDefining (ConfigTableName @ ''.'' @ ''app-port'') all) = Some ''81''"
    unfolding all_def load_def by code_simp+
  ultimately have "map_option fst (chainLookup (\<lambda>_. None) (flagSources ''endpoint'' (rev all))) = Some ''b.toml''"
    "map_option fst (chainLookup (\<lambda>_. None) (flagSources ''app-port'' (rev all))) = Some ''81''"
    by (simp_all only:)
  with ok show ?thesis by (intro exI [of _ "rev all"] conjI)
qed

text \<open>
  C31. Precedence of a string flag. The value stored for a string flag of the program other than \<open>name\<close>
  is the last one given on the command line, else the first its sources have, both without the
  spaces around them, else its default; it counts as set except in the last case.
\<close>

theorem string_flag_precedence:
  assumes "f \<in> set (GlobalFlags srcs @ OpenFlags srcs)" and "flKind f = StringKind trim" and "flName f \<noteq> ''name''"
  shows "loadFlag parseDuration env f given a =
    (let (v, isSet) = (if given \<noteq> [] then (StringVal (TrimSpace (last given)), True)
        else case chainLookup env (flagSources (flName f) srcs) of
          Some (s, _) \<Rightarrow> (StringVal (TrimSpace s), True)
        | None \<Rightarrow> (flValue f, False))
     in Inr (v, isSet, flDestination f v a))"
proof -
  have "plainString srcs f" using assms(1) by (rule plainString_flags)
  then have plain: "trim \<and> flValidator f = noValidator \<and> flSources f = flagSources (flName f) srcs \<and>
      (\<forall>x v a. flDestination f (StringVal x) (flDestination f v a) = flDestination f (StringVal x) a)"
    using assms(2,3) unfolding plainString_def by blast
  then have kind: "flKind f = StringKind True" and src: "flagSources (flName f) srcs = flSources f"
    using assms(2) by simp_all
  show ?thesis unfolding src using kind by (rule loadFlag_string) (use plain in blast)+
qed

theorem string_flag_precedence_witness:
  "\<exists>f a. flName f = ''app-port'' \<and> loadFlag noDuration (\<lambda>_. None) f [] zeroArgs
    = Inr (StringVal ''8080'', False, a) \<and> oaAppPort (caOpen a) = ''8080''"
proof -
  define f where "f = OpenFlags [] ! 2"
  have f: "f \<in> set (GlobalFlags [] @ OpenFlags [])" "flKind f = StringKind True" "flName f = ''app-port''"
    "flValue f = StringVal ''8080''" "oaAppPort (caOpen (flDestination f (StringVal ''8080'') zeroArgs)) = ''8080''"
    by (simp_all add: f_def OpenFlags_def Let_def onString_def DefaultAppPort_def)
  have "chainLookup (\<lambda>_. None) (flagSources ''app-port'' []) = None" by code_simp
  with string_flag_precedence [OF f(1,2), of noDuration "\<lambda>_. None" "[]" zeroArgs] f
  show ?thesis by (intro exI [of _ f] exI [of _ "flDestination f (StringVal ''8080'') zeroArgs"]) simp
qed

text \<open>
  C32. Names have no underscore. Whatever the sources say, if the flag \<open>name\<close> loads and counts as set,
  the stored name has no underscore; a name with one is an error.
\<close>

theorem name_validated:
  assumes "f \<in> set (OpenFlags srcs)" and "flName f = ''name''"
    and "loadFlag parseDuration env f given a = Inr (v, True, a')"
  shows "\<exists>n. v = StringVal n \<and> CHR ''_'' \<notin> set n \<and> oaName (caOpen a') = n"
proof -
  have f: "flKind f = StringKind True" "flValidator f = nameValidator"
    "\<And>n b. oaName (caOpen (flDestination f (StringVal n) b)) = n"
    using nameFlag_unique [OF assms(1,2)] by simp_all
  have set1: "\<exists>n. v' = StringVal n \<and> CHR ''_'' \<notin> set n \<and> oaName (caOpen b') = n"
    if "setFlag parseDuration f s st = Inr (v', isSet, b')" for s st v' isSet b'
    using that f by (auto simp: setFlag_def parseValue_def nameValidator_def split: prod.splits if_splits option.splits)
  have setn: "given' \<noteq> [] \<Longrightarrow> setAll parseDuration f given' st = Inr (v', isSet, b') \<Longrightarrow>
      \<exists>n. v' = StringVal n \<and> CHR ''_'' \<notin> set n \<and> oaName (caOpen b') = n" for given' st v' isSet b'
  proof (induction given' arbitrary: st)
    case (Cons s ss)
    then obtain st' where st': "setFlag parseDuration f s st = Inr st'" "setAll parseDuration f ss st' = Inr (v', isSet, b')"
      by (auto simp: bindE_Inr_iff)
    with Cons.IH [of st'] set1 [of s st] show ?case by (cases "ss = []") auto
  qed simp
  obtain w b c where st: "setAll parseDuration f given (flValue f, False, flDestination f (flValue f) a) = Inr (w, b, c)"
    and pp: "postParse parseDuration env f (w, b, c) = Inr (v, True, a')"
    using assms(3) by (auto simp: loadFlag_def bindE_Inr_iff)
  show ?thesis
  proof (cases b)
    case True
    with pp have "v = w" "a' = c" by (simp_all add: postParse_def)
    moreover have "given \<noteq> []" using st True by (cases given) auto
    ultimately show ?thesis using setn st by blast
  next
    case False
    with pp obtain s src where "chainLookup env (flSources f) = Some (s, src)"
        and "setFlag parseDuration f s (w, b, c) = Inr (v, True, a')"
      using f by (auto simp: postParse_def split: option.splits prod.splits sum.splits if_splits)
    then show ?thesis using set1 by blast
  qed
qed

theorem name_validated_witness:
  "\<exists>n a'. loadFlag noDuration (\<lambda>_. None) (nameFlag []) [''my-app''] zeroArgs = Inr (StringVal n, True, a') \<and>
    CHR ''_'' \<notin> set n \<and> oaName (caOpen a') = n"
proof -
  have f: "nameFlag [] \<in> set (OpenFlags [])" "flName (nameFlag []) = ''name''"
    by (simp_all add: OpenFlags_def Let_def nameFlag_def)
  have t: "TrimSpace ''my-app'' = ''my-app''" by code_simp
  have l: "loadFlag noDuration (\<lambda>_. None) (nameFlag []) [''my-app''] zeroArgs
      = Inr (StringVal ''my-app'', True, zeroArgs\<lparr>caOpen := (caOpen zeroArgs)\<lparr>oaName := ''my-app''\<rparr>\<rparr>)"
    using t by (simp add: loadFlag_def setFlag_def parseValue_def nameValidator_def postParse_def nameFlag_def onString_def)
  from name_validated [OF f l] l show ?thesis by auto
qed

end
