(* ===== verification/Format.thy ===== *)
theory Format
  imports RegistryTypes
begin

text \<open>
  \<open>internal/cmd/wh/format.go\<close>: the tables and details that the commands print. Column widths are
  taken in bytes, as \<open>len\<close> does, and obeyed in runes, as \<open>fmt\<close> does.
\<close>

section \<open>Common\<close>

definition ptrToString :: "string option \<Rightarrow> string" where
  "ptrToString s = (case s of None \<Rightarrow> [] | Some t \<Rightarrow> t)"

definition truncateID :: "string \<Rightarrow> string" where
  "truncateID i = (if MinIDLength < length i then take MinIDLength i else i)"

definition newline :: string where "newline = [CHR 0x0A]"

text \<open>One round of the loop of \<open>formatRow\<close>: the cell \<open>i\<close> of a row of \<open>n\<close>.\<close>

definition formatCell :: "nat list \<Rightarrow> nat \<Rightarrow> nat \<times> string \<Rightarrow> string" where
  "formatCell maxW n = (\<lambda>(i, val).
     (if i < length maxW then padRight (maxW ! i) val else val) @ (if i + 1 < n then ''  '' else []))"

definition formatRow :: "string list \<Rightarrow> nat list \<Rightarrow> string" where
  "formatRow row maxW =
     concat (map (formatCell maxW (length row)) (List.enumerate 0 row)) @ newline"

definition widenCell :: "nat list \<Rightarrow> nat \<times> string \<Rightarrow> nat list" where
  "widenCell maxW = (\<lambda>(j, val).
     if j < length maxW then maxW[j := max (maxW ! j) (length val)] else maxW)"

definition widenRow :: "nat list \<Rightarrow> string list \<Rightarrow> nat list" where
  "widenRow maxW row = foldl widenCell maxW (List.enumerate 0 row)"

definition columnWidths :: "string list \<Rightarrow> string list list \<Rightarrow> nat list" where
  "columnWidths headers data = foldl widenRow (map length headers) data"

definition formatTable :: "string list \<Rightarrow> string list list \<Rightarrow> string" where
  "formatTable headers data =
     (if data = [] then []
      else
        let maxW = columnWidths headers data
        in formatRow headers maxW @ concat (map (\<lambda>row. formatRow row maxW) data))"

section \<open>Communities and routes\<close>

definition getRoutesRow :: "route \<Rightarrow> string list" where
  "getRoutesRow r =
     (let routeName = rtName r;
          routeName = (if routeName \<noteq> []
                       then case rtDomainName r of
                              None \<Rightarrow> routeName | Some d \<Rightarrow> d @ ''/'' @ routeName
                       else routeName);
          listOf = (\<lambda>es. case es of
                      None \<Rightarrow> [] | Some e \<Rightarrow> joinStr '', '' (esUsers e @ esGroups e));
          (allowedList, disallowedList) =
            (case rtRules r of
               None \<Rightarrow> ([], [])
             | Some ru \<Rightarrow> (listOf (ruAllowed ru), listOf (ruDisallowed ru)))
      in [truncateID (ptrToString (rtID r)), routeName, ptrToString (rtCommunityName r),
          ptrToString (rtURL r), allowedList, disallowedList])"

definition getRoutesTable :: "route list \<Rightarrow> string list \<times> string list list" where
  "getRoutesTable routes =
     ([''Route ID'', ''Route Name'', ''Community Name'', ''URL'', ''Allowed'', ''Disallowed''],
      map getRoutesRow routes)"

definition formatRouteList :: "route list \<Rightarrow> string" where
  "formatRouteList routes =
     (if routes = [] then [] else let (headers, data) = getRoutesTable routes in formatTable headers data)"

definition getCommunitiesTable :: "community list \<Rightarrow> string list \<times> string list list" where
  "getCommunitiesTable communities =
     ([''ID'', ''Name'', ''Routes''],
      map (\<lambda>c. [truncateID (ptrToString (cmID c)), cmName c, itoa (int (length (cmRoutes c)))]) communities)"

definition formatCommunityList :: "community list \<Rightarrow> string" where
  "formatCommunityList communities =
     (if communities = [] then []
      else let (headers, data) = getCommunitiesTable communities in formatTable headers data)"

text \<open>A nil pointer is \<open>None\<close>.\<close>

definition formatCommunitySingle :: "community option \<Rightarrow> string" where
  "formatCommunitySingle p =
     (case p of
        None \<Rightarrow> []
      | Some c \<Rightarrow>
          ''Community:'' @ newline @
          ''ID:        '' @ ptrToString (cmID c) @ newline @
          ''name:      '' @ cmName c @ newline @
          (if 0 < length (cmRoutes c)
           then ''Routes:'' @ newline @ formatRouteList (cmRoutes c) else []))"

section \<open>Entity sets\<close>

definition entityRow :: "entity_set \<Rightarrow> nat \<Rightarrow> string list" where
  "entityRow e i =
     [if i < length (esUsers e) then esUsers e ! i else [],
      if i < length (esGroups e) then esGroups e ! i else []]"

definition entityData :: "entity_set \<Rightarrow> string list list" where
  "entityData e = map (entityRow e) [0..<max (length (esUsers e)) (length (esGroups e))]"

definition formatEntitySetTable :: "entity_set option \<Rightarrow> string" where
  "formatEntitySetTable p =
     (case p of
        None \<Rightarrow> []
      | Some e \<Rightarrow> formatTable [''Users'', ''Groups''] (entityData e))"

definition formatRouteSingle :: "route option \<Rightarrow> string" where
  "formatRouteSingle p =
     (case p of
        None \<Rightarrow> []
      | Some r \<Rightarrow>
          ''Route:'' @ newline @
          ''ID:        '' @ ptrToString (rtID r) @ newline @
          ''Name:      '' @ rtName r @ newline @
          ''Community: '' @ ptrToString (rtCommunityName r) @ newline @
          ''Domain:    '' @ ptrToString (rtDomainName r) @ newline @
          ''URL:       '' @ ptrToString (rtURL r) @ newline @
          (case rtRules r of
             None \<Rightarrow> []
           | Some ru \<Rightarrow>
               (case ruAllowed ru of
                  None \<Rightarrow> []
                | Some e \<Rightarrow> ''Allowed:'' @ newline @ formatEntitySetTable (Some e)) @
               (case ruDisallowed ru of
                  None \<Rightarrow> []
                | Some e \<Rightarrow> ''Disallowed:'' @ newline @ formatEntitySetTable (Some e))))"

section \<open>Widths\<close>

lemma length_widenCell [simp]: "length (widenCell maxW c) = length maxW"
  by (simp add: widenCell_def split: prod.split)

lemma widenCell_nth:
  "j < length maxW \<Longrightarrow> widenCell maxW (k, val) ! j = (if j = k then max (maxW ! j) (length val) else maxW ! j)"
  by (simp add: widenCell_def nth_list_update)

lemma widenCells_nth:
  "j < length maxW \<Longrightarrow> foldl widenCell maxW (List.enumerate k row) ! j =
    (if k \<le> j \<and> j < k + length row then max (maxW ! j) (length (row ! (j - k))) else maxW ! j)"
proof (induction row arbitrary: maxW k)
  case (Cons v row)
  then have "foldl widenCell (widenCell maxW (k, v)) (List.enumerate (Suc k) row) ! j =
    (if Suc k \<le> j \<and> j < Suc k + length row
     then max (widenCell maxW (k, v) ! j) (length (row ! (j - Suc k))) else widenCell maxW (k, v) ! j)"
    by simp
  with Cons.prems show ?case
    by (cases "j = k") (auto simp: widenCell_nth nth_Cons' Suc_le_eq)
qed simp

lemma length_widenRow [simp]: "length (widenRow maxW row) = length maxW"
proof -
  have "length (foldl widenCell maxW cs) = length maxW" for cs
    by (induction cs arbitrary: maxW) auto
  then show ?thesis by (simp add: widenRow_def)
qed

lemma widenRow_nth:
  "j < length maxW \<Longrightarrow> widenRow maxW row ! j =
    (if j < length row then max (maxW ! j) (length (row ! j)) else maxW ! j)"
  by (simp add: widenRow_def widenCells_nth)

lemma length_foldl_widenRow [simp]: "length (foldl widenRow maxW data) = length maxW"
  by (induction data arbitrary: maxW) auto

lemma foldl_widenRow_ge:
  assumes "j < length maxW"
  shows "maxW ! j \<le> foldl widenRow maxW data ! j"
    and "row \<in> set data \<Longrightarrow> j < length row \<Longrightarrow> length (row ! j) \<le> foldl widenRow maxW data ! j"
  using assms
proof (induction data arbitrary: maxW)
  case (Cons r data)
  { case 1
    with Cons.IH(1) [of "widenRow maxW r"] show ?case by (auto simp: widenRow_nth split: if_splits) }
  { case 2
    with Cons.IH [of "widenRow maxW r"] show ?case
      by (auto simp: widenRow_nth split: if_splits) }
qed auto

text \<open>A column is as wide as its widest cell, the header included, and no wider.\<close>

lemma columnWidths_ge:
  assumes "j < length headers"
  shows "length (headers ! j) \<le> columnWidths headers data ! j"
    and "row \<in> set data \<Longrightarrow> j < length row \<Longrightarrow> length (row ! j) \<le> columnWidths headers data ! j"
  using foldl_widenRow_ge [where j = j and maxW = "map length headers" and data = data] assms by (auto simp: columnWidths_def)

lemma length_columnWidths [simp]: "length (columnWidths headers data) = length headers"
  by (simp add: columnWidths_def)

section \<open>Rows\<close>

lemma ascii_start_spaces: "ascii_start (''  '' @ s)"
  by (simp add: ascii_start_def)

lemma runeCount_two_spaces: "runeCount (''  '' @ s) = 2 + runeCount s"
  by (simp add: runeCount_ascii_Cons)

text \<open>
  The cells of a row from position \<open>k\<close> on are the padded values, two spaces apart. A padded value is
  as wide as its column.
\<close>

lemma formatCells_join:
  assumes "k + length row = length maxW" and "row \<noteq> []"
  shows "concat (map (formatCell maxW (length maxW)) (List.enumerate k row))
    = joinStr ''  '' (map2 padRight (drop k maxW) row)"
  using assms
proof (induction row arbitrary: k)
  case (Cons v row)
  have drop: "drop k maxW = maxW ! k # drop (Suc k) maxW"
    using Cons.prems by (simp add: Cons_nth_drop_Suc)
  show ?case
  proof (cases row)
    case Nil
    with Cons.prems drop show ?thesis by (auto simp: formatCell_def)
  next
    case (Cons v' row')
    with Cons.prems have "drop (Suc k) maxW = maxW ! Suc k # drop (Suc (Suc k)) maxW"
      by (simp add: Cons_nth_drop_Suc)
    with Cons.IH [of "Suc k"] Cons.prems Cons drop show ?thesis by (auto simp: formatCell_def)
  qed
qed simp

lemma formatRow_join:
  assumes "length row = length maxW" and "row \<noteq> []"
  shows "formatRow row maxW = joinStr ''  '' (map2 padRight maxW row) @ newline"
  using formatCells_join [of 0 row maxW] assms by (simp add: formatRow_def)

lemma padRight_cell:
  "int w \<le> fmtMaxWidth \<Longrightarrow> padRight w v = v @ replicate (w - runeCount v) CHR '' ''"
  by (simp add: padRight_def)

lemma runeCount_cell: "length v \<le> w \<Longrightarrow> int w \<le> fmtMaxWidth \<Longrightarrow> runeCount (padRight w v) = w"
  using runeCount_le_length [of v] by (intro runeCount_padRight) simp_all

lemma runeCount_join:
  "runeCount (joinStr ''  '' cells) = sum_list (map runeCount cells) + 2 * (length cells - 1)"
  by (induction "''  ''" cells rule: joinStr.induct)
    (simp_all add: runeCount_append [OF ascii_start_spaces] runeCount_two_spaces
      del: append_Cons append_Nil add: append_assoc)

lemma set_join: "set (joinStr ''  '' cells) \<subseteq> (\<Union>c \<in> set cells. set c) \<union> {CHR '' ''}"
  by (induction "''  ''" cells rule: joinStr.induct) auto

section \<open>What the tables hold\<close>

lemma getRoutesTable_shape:
  "fst (getRoutesTable rs) \<noteq> []" "row \<in> set (snd (getRoutesTable rs)) \<Longrightarrow> length row = length (fst (getRoutesTable rs))"
  by (auto simp: getRoutesTable_def getRoutesRow_def Let_def split: option.splits)

lemma getCommunitiesTable_shape:
  "fst (getCommunitiesTable cs) \<noteq> []"
  "row \<in> set (snd (getCommunitiesTable cs)) \<Longrightarrow> length row = length (fst (getCommunitiesTable cs))"
  by (auto simp: getCommunitiesTable_def)

text \<open>Reading the columns of an entity table back, without the padding, gives the entity set.\<close>

lemma entityData_columns:
  "take (length (esUsers e)) (map (\<lambda>row. row ! 0) (entityData e)) = esUsers e"
  "take (length (esGroups e)) (map (\<lambda>row. row ! 1) (entityData e)) = esGroups e"
  by (auto simp: entityData_def entityRow_def intro!: nth_equalityI)

end
