(* ===== verification/FormatTheorems.thy ===== *)
theory FormatTheorems
  imports Format RegistryProperties
begin

text \<open>The properties of the printed tables.\<close>

section \<open>Alignment\<close>

text \<open>
  A text is an aligned table of some rows: it is one line per row, each ended by a newline; a line is
  the cells of its row two spaces apart, every cell the value of the row with spaces after it; and the
  cells of one column are equally wide in all lines, counted in characters. The lines are then equally
  wide, too.
\<close>

definition alignedTable :: "string list list \<Rightarrow> string \<Rightarrow> bool" where
  "alignedTable rows t \<longleftrightarrow>
     (\<exists>cells widths.
        splitChar CHR 0x0A t = map (joinStr ''  '') cells @ [[]] \<and>
        list_all2 (list_all2 (\<lambda>c v. \<exists>n. c = v @ replicate n CHR '' '')) cells rows \<and>
        (\<forall>cs \<in> set cells. map runeCount cs = widths))"

lemma splitChar_lines:
  "\<forall>l \<in> set ls. d \<notin> set l \<Longrightarrow> splitChar d (concat (map (\<lambda>l. l @ [d]) ls)) = ls @ [[]]"
  by (induction ls) (auto simp: splitChar_append)

lemma alignedTable_widths:
  assumes "alignedTable rows t"
  shows "\<exists>ls W. splitChar CHR 0x0A t = ls @ [[]] \<and> length ls = length rows \<and> (\<forall>l \<in> set ls. runeCount l = W)"
proof -
  obtain cells widths where t: "splitChar CHR 0x0A t = map (joinStr ''  '') cells @ [[]]"
    and rows: "list_all2 (list_all2 (\<lambda>c v. \<exists>n. c = v @ replicate n CHR '' '')) cells rows"
    and w: "\<forall>cs \<in> set cells. map runeCount cs = widths"
    using assms unfolding alignedTable_def by blast
  have "runeCount (joinStr ''  '' cs) = sum_list widths + 2 * (length widths - 1)" if "cs \<in> set cells" for cs
    using w that length_map [of runeCount cs] by (auto simp: runeCount_join)
  with t list_all2_lengthD [OF rows] show ?thesis
    by (intro exI [of _ "map (joinStr ''  '') cells"] exI [of _ "sum_list widths + 2 * (length widths - 1)"]) simp
qed

lemma formatTable_aligned:
  assumes "data \<noteq> []" and "headers \<noteq> []"
    and len: "\<And>row. row \<in> set data \<Longrightarrow> length row = length headers"
    and widths: "\<forall>w \<in> set (columnWidths headers data). int w \<le> fmtMaxWidth"
    and lines: "\<forall>row \<in> set (headers # data). \<forall>cell \<in> set row. CHR 0x0A \<notin> set cell"
  shows "alignedTable (headers # data) (formatTable headers data)"
proof -
  let ?w = "columnWidths headers data" and ?rows = "headers # data"
  define cells where "cells = map (map2 padRight ?w) ?rows"
  have rows: "length row = length ?w \<and> row \<noteq> []" if "row \<in> set ?rows" for row
    using that len assms(2) by fastforce
  have small: "int (?w ! j) \<le> fmtMaxWidth" if "j < length headers" for j
    using widths that by simp
  have wide: "length (row ! j) \<le> ?w ! j" if "row \<in> set ?rows" "j < length headers" for row j
    using columnWidths_ge [OF that(2)] that len by auto
  have table: "formatTable headers data = concat (map (\<lambda>row. formatRow row ?w) ?rows)"
    using assms(1) by (simp add: formatTable_def Let_def)
  have "formatRow row ?w = joinStr ''  '' (map2 padRight ?w row) @ [CHR 0x0A]" if "row \<in> set ?rows" for row
    using formatRow_join [of row ?w] rows [OF that] by (simp add: newline_def)
  then have eq: "map (\<lambda>row. formatRow row ?w) ?rows = map (\<lambda>l. l @ [CHR 0x0A]) (map (joinStr ''  '') cells)"
    unfolding cells_def map_map by (intro map_cong refl) (simp only: comp_def)
  have t: "formatTable headers data = concat (map (\<lambda>l. l @ [CHR 0x0A]) (map (joinStr ''  '') cells))"
    unfolding table eq ..
  have cell: "list_all2 (\<lambda>c v. \<exists>n. c = v @ replicate n CHR '' '') (map2 padRight ?w row) row"
    if "row \<in> set ?rows" for row
    using rows [OF that] small by (auto simp: list_all2_conv_all_nth padRight_cell)
  have "CHR 0x0A \<notin> set c" if row: "row \<in> set ?rows" and c: "c \<in> set (map2 padRight ?w row)" for row c
  proof -
    obtain j where "j < length headers" "c = padRight (?w ! j) (row ! j)"
      using c rows [OF row] by (auto simp: in_set_conv_nth)
    with small lines row rows [OF row] show ?thesis by (auto simp: padRight_cell)
  qed
  then have "CHR 0x0A \<notin> set (joinStr ''  '' (map2 padRight ?w row))" if "row \<in> set ?rows" for row
    using set_join [of "map2 padRight ?w row"] that by blast
  then have "\<forall>l \<in> set (map (joinStr ''  '') cells). CHR 0x0A \<notin> set l"
    unfolding cells_def set_map by blast
  then have "splitChar CHR 0x0A (formatTable headers data) = map (joinStr ''  '') cells @ [[]]"
    unfolding t by (rule splitChar_lines)
  moreover have "list_all2 (list_all2 (\<lambda>c v. \<exists>n. c = v @ replicate n CHR '' '')) cells ?rows"
    unfolding cells_def list.rel_map(1) using cell by (intro list.rel_refl_strong) (simp add: list.rel_map)
  moreover have "map runeCount cs = ?w" if cs: "cs \<in> set cells" for cs
  proof -
    obtain row where row: "row \<in> set ?rows" "cs = map2 padRight ?w row" using cs by (auto simp: cells_def)
    with rows [OF row(1)] wide [OF row(1)] small show ?thesis
      by (intro nth_equalityI) (simp_all add: runeCount_cell)
  qed
  ultimately show ?thesis unfolding alignedTable_def by blast
qed

text \<open>The cells and headers bound the columns.\<close>

lemma columnWidths_le:
  assumes "\<forall>row \<in> insert headers (set data). \<forall>cell \<in> set row. int (length cell) \<le> n"
    and "\<forall>row \<in> set data. length row = length headers"
  shows "\<forall>w \<in> set (columnWidths headers data). int w \<le> n"
proof -
  have le: "\<forall>w \<in> set (foldl widenRow maxW data). int w \<le> n"
    if "\<forall>w \<in> set maxW. int w \<le> n" "\<forall>row \<in> set data. \<forall>cell \<in> set row. int (length cell) \<le> n" for maxW
    using that
  proof (induction data arbitrary: maxW)
    case (Cons row data)
    have "int (widenRow maxW row ! j) \<le> n" if "j < length maxW" for j
    proof -
      have "int (maxW ! j) \<le> n" using Cons.prems(1) that by simp
      moreover have "j < length row \<Longrightarrow> int (length (row ! j)) \<le> n" using Cons.prems(2) by simp
      ultimately show ?thesis using that by (simp add: widenRow_nth max_def)
    qed
    then have "\<forall>w \<in> set (widenRow maxW row). int w \<le> n" by (subst all_set_conv_all_nth) simp
    moreover have "\<forall>row \<in> set data. \<forall>cell \<in> set row. int (length cell) \<le> n"
      using Cons.prems(2) by simp
    ultimately have "\<forall>w \<in> set (foldl widenRow (widenRow maxW row) data). int w \<le> n" by (rule Cons.IH)
    then show ?case by simp
  qed simp
  show ?thesis unfolding columnWidths_def by (rule le) (use assms(1) in auto)
qed

lemma communities_nonempty: "cs \<noteq> [] \<Longrightarrow> snd (getCommunitiesTable cs) \<noteq> []"
  by (simp add: getCommunitiesTable_def)

lemma routes_nonempty: "rs \<noteq> [] \<Longrightarrow> snd (getRoutesTable rs) \<noteq> []"
  by (simp add: getRoutesTable_def)

text \<open>Cells that fit: no more than a million bytes, the limit of \<open>fmt\<close> for a width, and no newline.\<close>

definition cellFits :: "string \<Rightarrow> bool" where
  "cellFits cell \<longleftrightarrow> int (length cell) \<le> fmtMaxWidth \<and> CHR 0x0A \<notin> set cell"

lemma aligned_table:
  assumes "\<forall>row \<in> set (headers # data). \<forall>cell \<in> set row. cellFits cell"
    and "\<And>row. row \<in> set data \<Longrightarrow> length row = length headers" and "data \<noteq> []" and "headers \<noteq> []"
  shows "alignedTable (headers # data) (formatTable headers data)"
  using assms by (intro formatTable_aligned columnWidths_le) (auto simp: cellFits_def)

text \<open>
  C40. Tables are aligned. If no cell of the two tables holds a newline or has more than a million bytes,
  a printed list of communities is one line for the header and one for each community, in order, and a
  printed list of routes likewise; a line is the cells of its row, two spaces apart and filled with
  spaces, and each column is equally wide in all lines when counted in characters, and so are the lines.
  Names beyond ASCII (for which the program measures the columns in bytes) do not break this.
\<close>

theorem tables_aligned:
  assumes "cs \<noteq> []" and "rs \<noteq> []"
    and "\<forall>row \<in> set (snd (getCommunitiesTable cs)) \<union> set (snd (getRoutesTable rs)). \<forall>cell \<in> set row.
      int (length cell) \<le> fmtMaxWidth \<and> CHR 0x0A \<notin> set cell"
  shows "alignedTable
      ([''ID'', ''Name'', ''Routes''] #
        map (\<lambda>c. [truncateID (ptrToString (cmID c)), cmName c, itoa (int (length (cmRoutes c)))]) cs)
      (formatCommunityList cs) \<and>
    alignedTable
      ([''Route ID'', ''Route Name'', ''Community Name'', ''URL'', ''Allowed'', ''Disallowed''] # map getRoutesRow rs)
      (formatRouteList rs) \<and>
    (\<exists>ls W. splitChar CHR 0x0A (formatCommunityList cs) = ls @ [[]] \<and> length ls = Suc (length cs) \<and>
      (\<forall>l \<in> set ls. runeCount l = W)) \<and>
    (\<exists>ls W. splitChar CHR 0x0A (formatRouteList rs) = ls @ [[]] \<and> length ls = Suc (length rs) \<and>
      (\<forall>l \<in> set ls. runeCount l = W))"
proof -
  have fits: "\<forall>row \<in> set (snd (getCommunitiesTable cs)) \<union> set (snd (getRoutesTable rs)). \<forall>cell \<in> set row. cellFits cell"
    using assms(3) by (simp only: cellFits_def)
  have headers: "\<forall>cell \<in> set (fst (getCommunitiesTable cs)) \<union> set (fst (getRoutesTable rs)). cellFits cell"
    by (simp add: getCommunitiesTable_def getRoutesTable_def fmtMaxWidth_def cellFits_def)
  have "alignedTable (fst (getCommunitiesTable cs) # snd (getCommunitiesTable cs))
      (formatTable (fst (getCommunitiesTable cs)) (snd (getCommunitiesTable cs)))"
    using fits headers getCommunitiesTable_shape(1) communities_nonempty [OF assms(1)]
    by (intro aligned_table getCommunitiesTable_shape(2)) auto
  then have c: "alignedTable ([''ID'', ''Name'', ''Routes''] #
      map (\<lambda>c. [truncateID (ptrToString (cmID c)), cmName c, itoa (int (length (cmRoutes c)))]) cs) (formatCommunityList cs)"
    using assms(1) by (simp add: getCommunitiesTable_def formatCommunityList_def)
  have "alignedTable (fst (getRoutesTable rs) # snd (getRoutesTable rs))
      (formatTable (fst (getRoutesTable rs)) (snd (getRoutesTable rs)))"
    using fits headers getRoutesTable_shape(1) routes_nonempty [OF assms(2)]
    by (intro aligned_table getRoutesTable_shape(2)) auto
  then have r: "alignedTable ([''Route ID'', ''Route Name'', ''Community Name'', ''URL'', ''Allowed'', ''Disallowed''] #
      map getRoutesRow rs) (formatRouteList rs)"
    using assms(2) by (simp add: getRoutesTable_def formatRouteList_def)
  from c r alignedTable_widths [OF c] alignedTable_widths [OF r] show ?thesis by simp
qed

theorem tables_aligned_witness:
  "\<exists>ls W. splitChar CHR 0x0A (formatCommunityList [\<lparr>cmName = ''physics'', cmID = Some ''0123456789'', cmRoutes = []\<rparr>,
      \<lparr>cmName = [], cmID = None, cmRoutes = [zeroRoute]\<rparr>]) = ls @ [[]] \<and> length ls = Suc (Suc (Suc 0)) \<and>
    (\<forall>l \<in> set ls. runeCount l = W)"
proof -
  let ?cs = "[\<lparr>cmName = ''physics'', cmID = Some ''0123456789'', cmRoutes = []\<rparr>,
      \<lparr>cmName = [], cmID = None, cmRoutes = [zeroRoute]\<rparr>]"
  have "\<forall>row \<in> set (snd (getCommunitiesTable ?cs)) \<union> set (snd (getRoutesTable [zeroRoute])). \<forall>cell \<in> set row.
      int (length cell) \<le> fmtMaxWidth \<and> CHR 0x0A \<notin> set cell"
    by (simp add: getCommunitiesTable_def getRoutesTable_def getRoutesRow_def zeroRoute_def fmtMaxWidth_def
      truncateID_def ptrToString_def MinIDLength_def itoa_def digitsNat.simps Let_def char_of_eq)
  then have "\<exists>ls W. splitChar CHR 0x0A (formatCommunityList ?cs) = ls @ [[]] \<and> length ls = Suc (length ?cs) \<and>
      (\<forall>l \<in> set ls. runeCount l = W)"
    using tables_aligned [of ?cs "[zeroRoute]"] by blast
  then show ?thesis by (simp only: list.size add_0 add_0_right add_Suc_right)
qed

section \<open>IDs and entity sets\<close>

text \<open>
  A displayed ID can be used. The shortened ID in a list (eight bytes) matches the community or
  route it stands for, so that the commands accept it as an identifier.
\<close>

lemma displayed_id_matches:
  assumes "8 \<le> length i"
  shows "(cmID c = Some i \<longrightarrow> Community_Matches c (truncateID (ptrToString (cmID c)))) \<and>
    (rtID r = Some i \<longrightarrow> Route_Matches r (truncateID (ptrToString (rtID r)))) \<and> length (truncateID i) = 8"
proof -
  have "prefix (truncateID i) i" "MinIDLength \<le> length (truncateID i)" "length (truncateID i) = 8"
    using assms by (auto simp: truncateID_def MinIDLength_def take_is_prefix)
  then show ?thesis by (auto simp: cm.matches_iff rt.matches_iff ptrToString_def)
qed

text \<open>
  Entity sets are shown in full. The table of an entity set has one row for each position up to
  the longer of its lists, users in the first column and groups in the second, in order; the shorter
  column is filled with empty cells.
\<close>

lemma entity_table_complete:
  "length (entityData e) = max (length (esUsers e)) (length (esGroups e)) \<and>
   map (\<lambda>row. row ! 0) (entityData e)
     = esUsers e @ replicate (length (esGroups e) - length (esUsers e)) [] \<and>
   map (\<lambda>row. row ! 1) (entityData e)
     = esGroups e @ replicate (length (esUsers e) - length (esGroups e)) [] \<and>
   formatEntitySetTable (Some e) = formatTable [''Users'', ''Groups''] (entityData e)"
  by (auto simp: entityData_def entityRow_def formatEntitySetTable_def nth_append intro!: nth_equalityI)

end
