(* ===== verification/Support.thy ===== *)
theory Support
  imports SelfHealRetry Requester
begin

text \<open>
  The small parts every command uses: \<open>internal/version\<close>, \<open>internal/logctx\<close>, the interface of
  \<open>internal/ns/ns.go\<close>, how a command ends, and the errors of \<open>strconv.Atoi\<close>.
\<close>

section \<open>The version\<close>

text \<open>The variables of package \<open>version\<close>, set when the program is linked.\<close>

record build_info =
  biVersion :: string
  biGitCommit :: string
  biGitBranch :: string
  biGoVersion :: string
  biBuildDate :: string

definition GetVersion :: "build_info \<Rightarrow> string" where
  "GetVersion info = biVersion info"

text \<open>What \<open>Printer\<close> prints for a command with the given version.\<close>

definition Printer :: "build_info \<Rightarrow> string \<Rightarrow> string" where
  "Printer info cmdVersion =
     (let nl = [CHR 0x0A];
          sb = ''Version: '' @ cmdVersion @ nl;
          sb = (if biGitCommit info \<noteq> [] then sb @ ''Git Commit: '' @ biGitCommit info @ nl else sb);
          sb = (if biGitBranch info \<noteq> [] then sb @ ''Git Branch: '' @ biGitBranch info @ nl else sb);
          sb = sb @ ''Go Version: '' @ biGoVersion info @ nl;
          sb = sb @ ''Built: '' @ biBuildDate info
      in sb @ nl)"

section \<open>The logger in the context\<close>

text \<open>
  A \<open>*slog.LevelVar\<close> is an address in a store of levels, shared by those who hold it. A context is
  its \<open>Err\<close> method and the value under \<open>logctxKey\<close>.
\<close>

type_synonym log_level = int
type_synonym level_store = "nat \<Rightarrow> log_level"

definition LevelInfo :: log_level where "LevelInfo = 0"
definition LevelWarn :: log_level where "LevelWarn = 4"

definition ErrNoLogger :: go_error where "ErrNoLogger = ErrString ''logger not in context''"

record 'l context_logger =
  clLogger :: 'l
  clLevelVar :: "nat option"

definition newContextLogger :: "'l \<Rightarrow> nat option \<Rightarrow> 'l context_logger" where
  "newContextLogger logger levelVar = \<lparr>clLogger = logger, clLevelVar = levelVar\<rparr>"

record ('w, 'l) go_context =
  gcErr :: "'w ctx"
  gcLogger :: "'l context_logger option"

definition WithLogger :: "('w, 'l) go_context \<Rightarrow> 'l context_logger option \<Rightarrow> ('w, 'l) go_context" where
  "WithLogger ctx cl = (case cl of None \<Rightarrow> ctx | Some c \<Rightarrow> ctx\<lparr>gcLogger := Some c\<rparr>)"

definition GetLogger :: "('w, 'l) go_context \<Rightarrow> 'l context_logger option" where
  "GetLogger ctx = (case gcLogger ctx of Some c \<Rightarrow> Some c | None \<Rightarrow> None)"

definition contextLogger :: "('w, 'l) go_context \<Rightarrow> 'l option" where
  "contextLogger ctx = (case GetLogger ctx of Some c \<Rightarrow> Some (clLogger c) | None \<Rightarrow> None)"

text \<open>A nil receiver is \<open>None\<close>.\<close>

definition SetLogLevel ::
  "'l context_logger option \<Rightarrow> log_level \<Rightarrow> level_store \<Rightarrow> go_error option \<times> level_store" where
  "SetLogLevel cl level st =
     (case cl of
        Some c \<Rightarrow>
          (case clLevelVar c of
             Some v \<Rightarrow> (None, st(v := level))
           | None \<Rightarrow> (Some ErrNoLogger, st))
      | None \<Rightarrow> (Some ErrNoLogger, st))"

definition GetLogLevel :: "'l context_logger option \<Rightarrow> level_store \<Rightarrow> go_error + log_level" where
  "GetLogLevel cl st =
     (case cl of
        Some c \<Rightarrow>
          (case clLevelVar c of Some v \<Rightarrow> Inr (st v) | None \<Rightarrow> Inl ErrNoLogger)
      | None \<Rightarrow> Inl ErrNoLogger)"

text \<open>The program's logger: what it does with a registry request and with an event of a recovery.\<close>

record 'w slog =
  slRequest :: "request_log \<Rightarrow> 'w \<Rightarrow> 'w"
  slEvent :: "'w logger"

section \<open>How a command ends\<close>

text \<open>It returns an error (\<open>None\<close> is nil), or \<open>log.Fatal\<close> ends the process at once.\<close>

datatype outcome = Returned "go_error option" | Fatal go_error

text \<open>
  \<open>internal/ns/ns.go\<close>. A sidecar, like every function that may wait for ever, gives an option: \<open>None\<close>
  is ``never returns''.
\<close>

type_synonym 'w sidecar_func = "'w ctx \<Rightarrow> 'w \<Rightarrow> (outcome \<times> 'w) option"

record 'w namespace_exec =
  nsExec :: "'w ctx \<Rightarrow> string list \<Rightarrow> bool \<Rightarrow> 'w sidecar_func \<Rightarrow> 'w \<Rightarrow> (outcome \<times> 'w) option"
  nsLaunchNS :: "'w ctx \<Rightarrow> string \<Rightarrow> string list \<Rightarrow> 'w \<Rightarrow> (go_error option \<times> 'w) option"

section \<open>Numbers with errors\<close>

text \<open>The \<open>*strconv.NumError\<close> of \<open>strconv.Atoi\<close>.\<close>

definition decimalSyntax :: "string \<Rightarrow> bool" where
  "decimalSyntax s =
     (let ds = (case s of [] \<Rightarrow> [] | c # cs \<Rightarrow> if c = CHR ''-'' \<or> c = CHR ''+'' then cs else s)
      in ds \<noteq> [] \<and> list_all isDigit ds)"

definition atoiE :: "string \<Rightarrow> go_error + int" where
  "atoiE s =
     (case atoi s of
        Some v \<Rightarrow> Inr v
      | None \<Rightarrow> Inl (ErrString (''strconv.Atoi: parsing '' @ quote s @ '': '' @
          (if decimalSyntax s then ''value out of range'' else ''invalid syntax''))))"

section \<open>Lemmas\<close>

text \<open>Two loggers that hold one level variable see each other's level; others do not.\<close>

lemma GetLogLevel_SetLogLevel:
  "GetLogLevel (Some d) (snd (SetLogLevel (Some c) level st)) =
    (if clLevelVar d = None then Inl ErrNoLogger
     else if clLevelVar d = clLevelVar c then Inr level else GetLogLevel (Some d) st)"
  by (auto simp: GetLogLevel_def SetLogLevel_def split: option.splits)

lemma contextLogger_WithLogger:
  "contextLogger (WithLogger ctx (Some c)) = Some (clLogger c)"
  by (simp add: contextLogger_def WithLogger_def GetLogger_def)

lemma atoiE_Inr_iff: "atoiE s = Inr v \<longleftrightarrow> atoi s = Some v"
  by (auto simp: atoiE_def split: option.splits)

end
