(* ===== verification/Airlock.thy ===== *)
theory Airlock
  imports Support CliArgs
begin

text \<open>
  \<open>internal/cmd/wh/wh.go\<close>, lines 31 to 204: the access rules of a wormhole, and the Airlock proxy that
  enforces them. The proxy itself (\<open>airlock.Options.StartProxy\<close>) is third-party and a parameter.
\<close>

section \<open>Access rules\<close>

record access_user_groups =
  augUsers :: "string list"
  augGroups :: "string list"

definition intersect :: "'a list \<Rightarrow> 'a list \<Rightarrow> 'a list" where
  "intersect allowed forbidden =
     foldl (\<lambda>acc x. if x \<in> set forbidden then acc @ [x] else acc) [] allowed"

definition splitList :: "string \<Rightarrow> string list" where
  "splitList s = fieldsFunc s (\<lambda>r. r = CHR '','')"

definition parseAccessRules :: "open_args \<Rightarrow> go_error + access_user_groups \<times> access_user_groups" where
  "parseAccessRules openArgs =
     (let allowed = \<lparr>augUsers = splitList (oaAllowedUsers openArgs),
                     augGroups = splitList (oaAllowedGroups openArgs)\<rparr>;
          forbidden = \<lparr>augUsers = splitList (oaForbiddenUsers openArgs),
                       augGroups = splitList (oaForbiddenGroups openArgs)\<rparr>;
          users = intersect (augUsers allowed) (augUsers forbidden);
          groups = intersect (augGroups allowed) (augGroups forbidden)
      in if length (augUsers allowed) + length (augGroups allowed) = 0
         then Inl (ErrString ''cannot create a wormhole with no allowed users and groups'')
         else if length users \<noteq> 0
         then Inl (ErrString (''cannot both allow and forbid access for '' @ quoteList users))
         else if length groups \<noteq> 0
         then Inl (ErrString (''cannot both allow and forbid access for '' @ quoteList groups))
         else Inr (allowed, forbidden))"

section \<open>The policy document\<close>

record airlock_auth =
  aaVersion :: string
  aaAllowed :: access_user_groups
  aaDisallowed :: access_user_groups
  aaToken :: string

text \<open>
  The lists come from \<open>strings.FieldsFunc\<close>, which never gives a nil slice, so an empty one is
  written as \<open>[]\<close>.
\<close>

definition encAccessUserGroups :: "access_user_groups \<Rightarrow> json" where
  "encAccessUserGroups a =
     JObj [(''users'', JArr (map encString (augUsers a))), (''groups'', JArr (map encString (augGroups a)))]"

definition encAirlockAuth :: "airlock_auth \<Rightarrow> json" where
  "encAirlockAuth a =
     JObj [(''version'', encString (aaVersion a)), (''allowed'', encAccessUserGroups (aaAllowed a)),
           (''disallowed'', encAccessUserGroups (aaDisallowed a)), (''token'', encString (aaToken a))]"

section \<open>Where Airlock finds its keys\<close>

definition airlockIssuerURL :: "registration \<Rightarrow> go_error + string" where
  "airlockIssuerURL registration =
     (case registration of
        None \<Rightarrow> Inl (ErrString ''route registration returned no response'')
      | Some r \<Rightarrow>
          (case alJwtIssuerURL (rpAirlock r) of
             None \<Rightarrow> Inl (ErrString ''route registration response is missing Airlock JWT issuer URL'')
           | Some u \<Rightarrow>
               if u = []
               then Inl (ErrString ''route registration response is missing Airlock JWT issuer URL'')
               else Inr u))"

definition jwksWellKnownSuffix :: string where
  "jwksWellKnownSuffix = ''.well-known/jwks.json''"

text \<open>
  The decoded path of a parsed URL, and a URL whose \<open>Path\<close> was assigned: its old escaped form no
  longer decodes to it (the new path has two segments more), so \<open>String\<close> escapes it afresh.
\<close>

definition decodedPath :: "url \<Rightarrow> string" where
  "decodedPath u = (case unescape (uPath u) of None \<Rightarrow> [] | Some p \<Rightarrow> p)"

definition setPath :: "string \<Rightarrow> url \<Rightarrow> url" where
  "setPath p u = u\<lparr>uPath := escapeWith keepPath p\<rparr>"

definition jwksURL :: "string \<Rightarrow> go_error + string" where
  "jwksURL issuer =
     (case urlParse issuer of
        Inl err \<Rightarrow> Inl err
      | Inr u \<Rightarrow> Inr (urlString (setPath (pathJoin [decodedPath u, jwksWellKnownSuffix]) u)))"

section \<open>Launching the proxy\<close>

record airlock_config =
  acAddr :: string
  acJwksEndpoint :: string
  acTargetPort :: int
  acAllowedUsers :: "string list"
  acAllowedGroups :: "string list"
  acForbiddenUsers :: "string list"
  acForbiddenGroups :: "string list"
  acForwardUserHeader :: string
  acForwardGroupsHeader :: string
  acAuthBearerHeader :: bool

text \<open>The fields of \<open>airlock.Options\<close> that the program sets; the policy is kept as its JSON value.\<close>

record airlock_options =
  aoAddress :: string
  aoAuthJSON :: json
  aoJWKSURL :: string
  aoHeaderGroups :: string
  aoHeaderUser :: string
  aoAuthBearerHeader :: bool
  aoLevel :: string

definition airlockAuthOf :: "string \<Rightarrow> airlock_config \<Rightarrow> airlock_auth" where
  "airlockAuthOf token config =
     \<lparr>aaVersion = ''1.0'',
      aaAllowed = \<lparr>augUsers = acAllowedUsers config, augGroups = acAllowedGroups config\<rparr>,
      aaDisallowed = \<lparr>augUsers = acForbiddenUsers config, augGroups = acForbiddenGroups config\<rparr>,
      aaToken = token\<rparr>"

definition airlockOptions :: "string \<Rightarrow> airlock_config \<Rightarrow> bool \<Rightarrow> go_error + airlock_options" where
  "airlockOptions token config verbose =
     (case jwksURL (acJwksEndpoint config) of
        Inl err \<Rightarrow> Inl err
      | Inr jwks \<Rightarrow>
          Inr \<lparr>aoAddress = acAddr config, aoAuthJSON = encAirlockAuth (airlockAuthOf token config),
               aoJWKSURL = jwks, aoHeaderGroups = acForwardGroupsHeader config,
               aoHeaderUser = acForwardUserHeader config,
               aoAuthBearerHeader = acAuthBearerHeader config,
               aoLevel = (if verbose then ''debug'' else ''warn'')\<rparr>)"

definition proxyTarget :: "airlock_config \<Rightarrow> string" where
  "proxyTarget config = ''http://localhost:'' @ itoa (acTargetPort config)"

text \<open>A group of goroutines is the list of the functions given to \<open>g.Go\<close>.\<close>

type_synonym 'w task = "'w \<Rightarrow> (go_error option \<times> 'w) option"

type_synonym 'w start_proxy = "'w ctx \<Rightarrow> airlock_options \<Rightarrow> string \<Rightarrow> 'w task"

definition launchAirlock ::
  "'w start_proxy \<Rightarrow> 'w task list \<Rightarrow> 'w ctx \<Rightarrow> string \<Rightarrow> airlock_config \<Rightarrow> bool \<Rightarrow> go_error + 'w task list" where
  "launchAirlock startProxy g ctx token config verbose =
     (case airlockOptions token config verbose of
        Inl err \<Rightarrow> Inl err
      | Inr opts \<Rightarrow> Inr (g @ [startProxy ctx opts (proxyTarget config)]))"

section \<open>Access rules: lemmas\<close>

lemma intersect_filter: "intersect allowed forbidden = filter (\<lambda>x. x \<in> set forbidden) allowed"
proof -
  have "foldl (\<lambda>acc x. if x \<in> set forbidden then acc @ [x] else acc) acc allowed
      = acc @ filter (\<lambda>x. x \<in> set forbidden) allowed" for acc
    by (induction allowed arbitrary: acc) auto
  then show ?thesis by (simp add: intersect_def)
qed

lemma intersect_Nil_iff: "intersect allowed forbidden = [] \<longleftrightarrow> set allowed \<inter> set forbidden = {}"
  by (auto simp: intersect_filter filter_empty_conv)

lemma splitList_sound: "x \<in> set (splitList s) \<Longrightarrow> x \<noteq> [] \<and> CHR '','' \<notin> set x"
  using fieldsFunc_sound by (force simp: splitList_def)

lemma splitList_join: "\<forall>x \<in> set xs. x \<noteq> [] \<and> CHR '','' \<notin> set x \<Longrightarrow> splitList (joinStr '','' xs) = xs"
  unfolding splitList_def by (rule fieldsFunc_join) auto

lemma splitList_Nil_iff: "splitList s = [] \<longleftrightarrow> set s \<subseteq> {CHR '',''}"
  by (auto simp: splitList_def fieldsFunc_Nil_iff)

lemma parseAccessRules_Inr_iff:
  "parseAccessRules a = Inr (allowed, forbidden) \<longleftrightarrow>
    allowed = \<lparr>augUsers = splitList (oaAllowedUsers a), augGroups = splitList (oaAllowedGroups a)\<rparr> \<and>
    forbidden = \<lparr>augUsers = splitList (oaForbiddenUsers a), augGroups = splitList (oaForbiddenGroups a)\<rparr> \<and>
    (augUsers allowed \<noteq> [] \<or> augGroups allowed \<noteq> []) \<and>
    set (augUsers allowed) \<inter> set (augUsers forbidden) = {} \<and>
    set (augGroups allowed) \<inter> set (augGroups forbidden) = {}"
  unfolding parseAccessRules_def Let_def by (auto simp: intersect_Nil_iff)

end
