(* ===== verification/OpenWormhole.thy ===== *)
theory OpenWormhole
  imports Airlock SelfHealRecovery RegistryService
begin

text \<open>
  \<open>internal/cmd/wh/wh.go\<close>, from line 135: opening a wormhole. The route is registered, an Airlock
  proxy in front of the application and the tunnel to the proxy are started as two goroutines of a
  group, and the command waits for the group. Standard output, the listener, the proxy, the Piko
  library and \<open>errgroup\<close> are parameters.
\<close>

section \<open>The parts the command is built on\<close>

text \<open>
  \<open>oeGroupCtx\<close> is \<open>errgroup.WithContext\<close> and \<open>oeWait\<close> runs the functions of a group and waits for
  them, the scheduling included. \<open>oeListen\<close> is \<open>net.Listen\<close> on TCP with the address of the listener.
\<close>

record ('w, 'z, 'u, 'f) open_env =
  oeInfo :: build_info
  oePrint :: "string \<Rightarrow> 'w \<Rightarrow> 'w"
  oeLogPrint :: "string \<Rightarrow> 'w \<Rightarrow> 'w"
  oeBuildLogger :: "zap_level \<Rightarrow> go_error + 'z"
  oeSync :: "'z piko_logger \<Rightarrow> 'w \<Rightarrow> 'w"
  oeTimerFirst :: "'w ctx \<Rightarrow> duration \<Rightarrow> 'w \<Rightarrow> bool \<times> 'w"
  oeRandFloat64 :: "'w \<Rightarrow> f64 \<times> 'w"
  oeListen :: "string \<Rightarrow> 'w \<Rightarrow> (go_error + string) \<times> 'w"
  oeCloseListener :: "string \<Rightarrow> 'w \<Rightarrow> 'w"
  oeStartProxy :: "'w start_proxy"
  oeParsePiko :: "string \<Rightarrow> go_error + 'u"
  oeUpstream :: "('u, 'z piko_logger) upstream \<Rightarrow> string \<Rightarrow> string \<Rightarrow> 'w \<Rightarrow> (go_error + 'f) \<times> 'w"
  oeForwarder :: "('w, 'f) forwarder_ops"
  oeGroupCtx :: "'w ctx \<Rightarrow> 'w ctx"
  oeWait :: "'w task list \<Rightarrow> 'w task"

section \<open>The command\<close>

definition effectiveConfig :: "selfheal_config \<Rightarrow> selfheal_config" where
  "effectiveConfig selfHeal =
     (if MinRetryBackoff selfHeal = 0 \<and> MaxRetryBackoff selfHeal = 0 then DefaultConfig else selfHeal)"

text \<open>The closure \<open>register\<close>.\<close>

definition registerClosure ::
  "('w, 'z, 'u, 'f) open_env \<Rightarrow> cli_args \<Rightarrow> 'w registry_service \<Rightarrow> selfheal_config \<Rightarrow> 'w logger \<Rightarrow>
   'w ctx \<Rightarrow> 'w \<Rightarrow> ((go_error + registration) \<times> 'w) option" where
  "registerClosure env a registry selfHeal logger registerCtx w =
     RegisterRoute (oeTimerFirst env) (oeRandFloat64 env) registerCtx (svRegisterRoute registry)
       (oaCommunity (caOpen a)) (oaName (caOpen a)) selfHeal logger w"

definition onConnected :: "('w, 'z, 'u, 'f) open_env \<Rightarrow> string \<Rightarrow> 'w \<Rightarrow> 'w" where
  "onConnected env publicURL w =
     oeLogPrint env (''URL: '' @ publicURL @ [CHR 0x0A])
       (oeLogPrint env (''Successfully Opened a Wormhole!'' @ [CHR 0x0A]) w)"

text \<open>
  The arguments of \<open>selfheal.Run\<close> in the second function of the group; \<open>Run\<close> itself adds the default
  runtime.
\<close>

definition tunnelEnv ::
  "('w, 'z, 'u, 'f) open_env \<Rightarrow> cli_args \<Rightarrow> 'w registry_service \<Rightarrow> selfheal_config \<Rightarrow> 'w logger \<Rightarrow>
   'z piko_logger \<Rightarrow> 'w ctx \<Rightarrow> string \<Rightarrow> ('w, 'f) run_env" where
  "tunnelEnv env a registry selfHeal logger pikoLogger gCtx addr =
     \<lparr>reCtx = gCtx,
      reRegister = registerClosure env a registry selfHeal logger,
      reRefresh = svRefreshJWT registry,
      reListen = (\<lambda>listenCtx credentials targetAddr minB maxB.
        ListenAndForward (oeParsePiko env) (oeUpstream env) credentials targetAddr minB maxB pikoLogger),
      reForwarder = oeForwarder env,
      reTargetAddr = addr,
      reConfig = selfHeal,
      reLogger = logger,
      reOnFirstConnect = onConnected env,
      reRuntime = defaultRetryRuntime (oeTimerFirst env) (oeRandFloat64 env)\<rparr>"

definition tunnelTask ::
  "('w, 'z, 'u, 'f) open_env \<Rightarrow> 'w ctx \<Rightarrow> ('w, 'f) run_env \<Rightarrow> registration \<Rightarrow> 'w task" where
  "tunnelTask env ctx renv routeData w =
     (case Run (oeTimerFirst env) (oeRandFloat64 env) renv routeData w of
        None \<Rightarrow> None
      | Some (err, w1) \<Rightarrow>
          Some (case err of
                  Some e \<Rightarrow> if errorsIs e ErrCanceled \<and> ctx w1 \<noteq> None then None else Some e
                | None \<Rightarrow> None, w1))"

text \<open>From the closing of the listener to the end: both functions are started and waited for.\<close>

definition serveWormhole ::
  "('w, 'z, 'u, 'f) open_env \<Rightarrow> 'w ctx \<Rightarrow> cli_args \<Rightarrow> 'w registry_service \<Rightarrow> 'w logger \<Rightarrow> bool \<Rightarrow>
   'z piko_logger \<Rightarrow> selfheal_config \<Rightarrow> airlock_config \<Rightarrow> registration \<Rightarrow> 'w \<Rightarrow> (outcome \<times> 'w) option" where
  "serveWormhole env ctx a registry logger verbose pikoLogger selfHeal config routeData w =
     (let gCtx = oeGroupCtx env ctx in
      case launchAirlock (oeStartProxy env) [] gCtx (gaToken (caGlobal a)) config verbose of
        Inl err \<Rightarrow> Some (Returned (Some (Errorf ''airlock error'' err)), w)
      | Inr g \<Rightarrow>
          (let g = g @ [tunnelTask env ctx
                 (tunnelEnv env a registry selfHeal logger pikoLogger gCtx (acAddr config)) routeData]
           in case oeWait env g w of
                None \<Rightarrow> None
              | Some (Some err, w1) \<Rightarrow> Some (Returned (Some (Errorf ''wormhole error'' err)), w1)
              | Some (None, w1) \<Rightarrow> Some (Returned None, w1)))"

definition airlockConfigOf ::
  "cli_args \<Rightarrow> string \<Rightarrow> int \<Rightarrow> string \<Rightarrow> access_user_groups \<Rightarrow> access_user_groups \<Rightarrow> airlock_config" where
  "airlockConfigOf a addr port issuerURL allowed forbidden =
     \<lparr>acAddr = addr, acJwksEndpoint = issuerURL, acTargetPort = port,
      acAllowedUsers = augUsers allowed, acAllowedGroups = augGroups allowed,
      acForbiddenUsers = augUsers forbidden, acForbiddenGroups = augGroups forbidden,
      acForwardUserHeader = oaForwardedHeaderUser (caOpen a),
      acForwardGroupsHeader = oaForwardedHeaderGroups (caOpen a),
      acAuthBearerHeader = oaAuthBearerHeader (caOpen a)\<rparr>"

text \<open>From the registration on, with the Piko logger at hand.\<close>

definition registerAndServe ::
  "('w, 'z, 'u, 'f) open_env \<Rightarrow> 'w ctx \<Rightarrow> cli_args \<Rightarrow> 'w registry_service \<Rightarrow> 'w logger \<Rightarrow> bool \<Rightarrow>
   'z piko_logger \<Rightarrow> selfheal_config \<Rightarrow> int \<Rightarrow> access_user_groups \<Rightarrow> access_user_groups \<Rightarrow> 'w \<Rightarrow>
   (outcome \<times> 'w) option" where
  "registerAndServe env ctx a registry logger verbose pikoLogger selfHeal port allowed forbidden w =
     (case registerClosure env a registry selfHeal logger ctx w of
        None \<Rightarrow> None
      | Some (Inl err, w1) \<Rightarrow> Some (Returned (Some err), w1)
      | Some (Inr routeData, w1) \<Rightarrow>
          (case airlockIssuerURL routeData of
             Inl err \<Rightarrow> Some (Returned (Some err), w1)
           | Inr issuerURL \<Rightarrow>
               (case oeListen env ''localhost:0'' w1 of
                  (Inl err, w2) \<Rightarrow> Some (Fatal err, w2)
                | (Inr addr, w2) \<Rightarrow>
                    serveWormhole env ctx a registry logger verbose pikoLogger selfHeal
                      (airlockConfigOf a addr port issuerURL allowed forbidden) routeData
                      (oeCloseListener env addr w2))))"

text \<open>The deferred \<open>pikoLogger.Sync()\<close> runs when the function returns, not on \<open>log.Fatal\<close>.\<close>

definition deferSync ::
  "('w, 'z, 'u, 'f) open_env \<Rightarrow> 'z piko_logger \<Rightarrow> (outcome \<times> 'w) option \<Rightarrow> (outcome \<times> 'w) option" where
  "deferSync env pikoLogger r =
     (case r of
        Some (Returned err, w) \<Rightarrow> Some (Returned err, oeSync env pikoLogger w)
      | r \<Rightarrow> r)"

definition openWormhole ::
  "('w, 'z, 'u, 'f) open_env \<Rightarrow> 'w ctx \<Rightarrow> cli_args \<Rightarrow> 'w registry_service \<Rightarrow> 'w logger \<Rightarrow> bool \<Rightarrow> 'w \<Rightarrow>
   (outcome \<times> 'w) option" where
  "openWormhole env ctx a registry logger verbose w =
     (let w = oePrint env (''Using wormhole-cli v'' @ GetVersion (oeInfo env) @ [CHR 0x0A]) w in
      case atoiE (oaAppPort (caOpen a)) of
        Inl err \<Rightarrow> Some (Fatal err, w)
      | Inr port \<Rightarrow>
          (case parseAccessRules (caOpen a) of
             Inl err \<Rightarrow> Some (Fatal err, w)
           | Inr (allowed, forbidden) \<Rightarrow>
               (let selfHeal = effectiveConfig (caSelfHeal a) in
                case Validate selfHeal of
                  Some err \<Rightarrow> Some (Returned (Some err), w)
                | None \<Rightarrow>
                    (case NewLogger (oeBuildLogger env) verbose of
                       Inl err \<Rightarrow> Some (Returned (Some (Errorf ''create Piko logger'' err)), w)
                     | Inr pikoLogger \<Rightarrow>
                         deferSync env pikoLogger
                           (registerAndServe env ctx a registry logger verbose pikoLogger selfHeal
                              port allowed forbidden w)))))"

section \<open>The subcommand \<open>open\<close>\<close>

text \<open>
  \<open>handleOpen\<close>: \<open>nargs\<close> are the arguments after the options, \<open>osArgs\<close> is \<open>os.Args\<close>, \<open>getenv\<close> is the
  environment, \<open>initialize\<close> is \<open>ns.Initialize\<close>. \<open>logError\<close> is \<open>logger.Error\<close>.
\<close>

definition handleOpen ::
  "('w, 'z, 'u, 'f) open_env \<Rightarrow> ('w \<Rightarrow> (go_error + 'w namespace_exec) \<times> 'w) \<Rightarrow> (string \<Rightarrow> string) \<Rightarrow>
   string list \<Rightarrow> (string \<Rightarrow> 'w \<Rightarrow> 'w) \<Rightarrow> 'w ctx \<Rightarrow> string list \<Rightarrow> cli_args \<Rightarrow> 'w registry_service \<Rightarrow>
   'w logger \<Rightarrow> 'w \<Rightarrow> (outcome \<times> 'w) option" where
  "handleOpen env initialize getenv osArgs logError ctx nargs a service logger w =
     (let verbose = gaVerbose (caGlobal a);
          sidecar = (\<lambda>cCtx. openWormhole env cCtx a service logger verbose)
      in if 0 < length nargs then
           (case initialize w of
              (Inl err, w1) \<Rightarrow>
                Some (Fatal err, logError ''Namespaces are not available on this system'' w1)
            | (Inr nsConfig, w1) \<Rightarrow>
                if getenv ''_CONTAINERS_USERNS_CONFIGURED'' = ''init''
                then nsExec nsConfig ctx nargs (oaPodmanCompat (caOpen a)) sidecar w1
                else
                  (let secondStageCmd = ''/proc/self/exe'' # drop 1 osArgs
                   in map_option (\<lambda>(err, w2). (Returned err, w2))
                        (nsLaunchNS nsConfig ctx ''slirp4netns'' secondStageCmd w1)))
         else sidecar ctx w)"

end
