(* ===== verification/OpenProperties.thy ===== *)
theory OpenProperties
  imports OpenWormhole GoURLProperties SelfHealProperties
begin

text \<open>What holds of opening a wormhole: the location of the keys, the policy, and the ways it ends.\<close>

section \<open>The location of the keys\<close>

lemma suffix_segs: "splitChar CHR ''/'' jwksWellKnownSuffix = [''.well-known'', ''jwks.json'']"
  by code_simp

lemma decodedPath_rooted:
  assumes "urlParse s = Inr u" and "uAuthority u \<noteq> []"
  shows "decodedPath u = [] \<or> (\<exists>q. decodedPath u = CHR ''/'' # q)"
proof (cases "uPath u")
  case (Cons c p)
  with urlParse_rooted [OF assms] have "uPath u = CHR ''/'' # p" by simp
  then show ?thesis by (auto simp: decodedPath_def unescape_slash simp del: unescape.simps split: option.split)
qed (simp add: decodedPath_def)

lemma baseSegs_suffix:
  "baseSegs (p @ CHR ''/'' # jwksWellKnownSuffix) = baseSegs p @ [''.well-known'', ''jwks.json'']"
  unfolding baseSegs_def splitChar_app cleanSegs_append suffix_segs by simp

lemma pathJoin_suffix:
  "pathJoin [CHR ''/'' # q, jwksWellKnownSuffix]
    = CHR ''/'' # joinStr ''/'' (baseSegs (CHR ''/'' # q) @ [''.well-known'', ''jwks.json''])"
proof -
  have "baseSegs (CHR ''/'' # q) = baseSegs q" by (simp add: baseSegs_def)
  then show ?thesis using pathClean_rooted [of "q @ CHR ''/'' # jwksWellKnownSuffix"] baseSegs_suffix [of q]
    by (simp add: pathJoin_def baseSegs_def jwksWellKnownSuffix_def)
qed

lemma pathJoin_suffix_Nil: "pathJoin [[], jwksWellKnownSuffix] = ''.well-known/jwks.json''"
  by code_simp

text \<open>Before a path without a leading slash, a URL with an authority gets one.\<close>

lemma urlString_slash:
  assumes "uAuthority u \<noteq> []" and "q \<noteq> []" and "hd q \<noteq> CHR ''/''"
  shows "urlString (u\<lparr>uPath := q\<rparr>) = urlString (u\<lparr>uPath := CHR ''/'' # q\<rparr>)"
  using assms by (simp add: urlString_def Let_def)

lemma jwksURL_location:
  assumes "urlParse issuer = Inr u" and "uAuthority u \<noteq> []"
  shows "jwksURL issuer = Inr (urlString (setPath (CHR ''/'' # joinStr ''/''
    (baseSegs (decodedPath u) @ [''.well-known'', ''jwks.json''])) u))"
  using decodedPath_rooted [OF assms]
proof
  assume "decodedPath u = []"
  then show ?thesis
    using assms urlString_slash [of u "escapeWith keepPath ''.well-known/jwks.json''"]
    by (simp add: jwksURL_def pathJoin_suffix_Nil setPath_def baseSegs_def escapeWith_def keepPath_def
        unreserved_def isAlnum_def isDigit_def)
next
  assume "\<exists>q. decodedPath u = CHR ''/'' # q"
  then show ?thesis using assms by (auto simp: jwksURL_def pathJoin_suffix)
qed

section \<open>The policy\<close>

text \<open>Names in UTF-8 are written as they are, so different names stay different.\<close>

lemma coerced_disjoint:
  "\<forall>x \<in> set (xs @ ys). validUtf8 x \<Longrightarrow> set xs \<inter> set ys = {} \<Longrightarrow>
    set (map coerceUtf8 xs) \<inter> set (map coerceUtf8 ys) = {}"
  by (auto simp: coerceUtf8_valid)

section \<open>How opening ends\<close>

definition greeting :: "('w, 'z, 'u, 'f) open_env \<Rightarrow> 'w \<Rightarrow> 'w" where
  "greeting env w = oePrint env (''Using wormhole-cli v'' @ GetVersion (oeInfo env) @ [CHR 0x0A]) w"

definition validOptions :: "cli_args \<Rightarrow> bool" where
  "validOptions a \<longleftrightarrow> atoi (oaAppPort (caOpen a)) \<noteq> None \<and> (\<exists>r. parseAccessRules (caOpen a) = Inr r) \<and>
     Validate (effectiveConfig (caSelfHeal a)) = None"

lemma open_invalid:
  assumes "\<not> validOptions a"
  obtains out where "out \<noteq> Returned None"
    and "\<And>registry logger. openWormhole env ctx a registry logger verbose w = Some (out, greeting env w)"
proof -
  consider e where "atoiE (oaAppPort (caOpen a)) = Inl e"
    | port e where "atoiE (oaAppPort (caOpen a)) = Inr port" "parseAccessRules (caOpen a) = Inl e"
    | port r e where "atoiE (oaAppPort (caOpen a)) = Inr port" "parseAccessRules (caOpen a) = Inr r"
        "Validate (effectiveConfig (caSelfHeal a)) = Some e"
    using assms unfolding validOptions_def
    by (cases "atoiE (oaAppPort (caOpen a))"; cases "parseAccessRules (caOpen a)";
        cases "Validate (effectiveConfig (caSelfHeal a))") (auto simp: atoiE_Inr_iff)
  then show thesis
  proof cases
    case 1
    then show ?thesis by (intro that [of "Fatal e"]) (simp_all add: openWormhole_def greeting_def)
  next
    case 2
    then show ?thesis by (intro that [of "Fatal e"]) (simp_all add: openWormhole_def greeting_def)
  next
    case (3 port r e)
    obtain al fo where "r = (al, fo)" by (cases r)
    with 3 show ?thesis by (intro that [of "Returned (Some e)"]) (simp_all add: openWormhole_def greeting_def)
  qed
qed

text \<open>What a nil error of the whole command means.\<close>

definition openedWith where
  "openedWith env ctx a registry logger verbose w w' port allowed forbidden pikoLogger routeData issuerURL addr opts \<longleftrightarrow>
     (let selfHeal = effectiveConfig (caSelfHeal a) in
      atoi (oaAppPort (caOpen a)) = Some port \<and> parseAccessRules (caOpen a) = Inr (allowed, forbidden) \<and>
      Validate selfHeal = None \<and>
      airlockIssuerURL routeData = Inr issuerURL \<and> jwksURL issuerURL = Inr (aoJWKSURL opts) \<and>
      aoAddress opts = addr \<and>
      aoAuthJSON opts = encAirlockAuth \<lparr>aaVersion = ''1.0'', aaAllowed = allowed, aaDisallowed = forbidden,
        aaToken = gaToken (caGlobal a)\<rparr> \<and>
      (\<exists>w1 w2 w3.
        registerClosure env a registry selfHeal logger ctx (greeting env w) = Some (Inr routeData, w1) \<and>
        oeListen env ''localhost:0'' w1 = (Inr addr, w2) \<and>
        oeWait env
          [oeStartProxy env (oeGroupCtx env ctx) opts (''http://localhost:'' @ itoa port),
           tunnelTask env ctx (tunnelEnv env a registry selfHeal logger pikoLogger (oeGroupCtx env ctx) addr) routeData]
          (oeCloseListener env addr w2) = Some (None, w3) \<and>
        w' = oeSync env pikoLogger w3))"

lemma deferSync_Returned:
  "deferSync env l r = Some (Returned err, w') \<longleftrightarrow> (\<exists>w. r = Some (Returned err, w) \<and> w' = oeSync env l w)"
  by (auto simp: deferSync_def split: option.splits outcome.splits prod.splits)

lemma registerAndServe_nil:
  assumes "registerAndServe env ctx a registry logger verbose l selfHeal port allowed forbidden w
    = Some (Returned None, w')"
  shows "\<exists>routeData w1 issuerURL addr w2. registerClosure env a registry selfHeal logger ctx w = Some (Inr routeData, w1) \<and>
    airlockIssuerURL routeData = Inr issuerURL \<and> oeListen env ''localhost:0'' w1 = (Inr addr, w2) \<and>
    serveWormhole env ctx a registry logger verbose l selfHeal
      (airlockConfigOf a addr port issuerURL allowed forbidden) routeData (oeCloseListener env addr w2)
      = Some (Returned None, w')"
  using assms by (auto simp: registerAndServe_def split: option.splits prod.splits sum.splits)

lemma serveWormhole_nil:
  assumes "serveWormhole env ctx a registry logger verbose l selfHeal config routeData w = Some (Returned None, w')"
  shows "\<exists>opts. airlockOptions (gaToken (caGlobal a)) config verbose = Inr opts \<and>
    oeWait env [oeStartProxy env (oeGroupCtx env ctx) opts (proxyTarget config),
      tunnelTask env ctx (tunnelEnv env a registry selfHeal logger l (oeGroupCtx env ctx) (acAddr config)) routeData] w
      = Some (None, w')"
  using assms
  by (auto simp: serveWormhole_def launchAirlock_def Let_def split: option.splits prod.splits sum.splits)

lemma airlockOptions_Inr:
  "airlockOptions token config verbose = Inr opts \<Longrightarrow>
    jwksURL (acJwksEndpoint config) = Inr (aoJWKSURL opts) \<and> aoAddress opts = acAddr config \<and>
    aoAuthJSON opts = encAirlockAuth (airlockAuthOf token config)"
  by (auto simp: airlockOptions_def split: sum.splits)

lemma open_nil:
  assumes "openWormhole env ctx a registry logger verbose w = Some (Returned None, w')"
  shows "\<exists>port allowed forbidden l routeData issuerURL addr opts.
    openedWith env ctx a registry logger verbose w w' port allowed forbidden l routeData issuerURL addr opts"
proof -
  let ?c = "effectiveConfig (caSelfHeal a)"
  obtain port where port: "atoiE (oaAppPort (caOpen a)) = Inr port"
    using assms by (cases "atoiE (oaAppPort (caOpen a))") (auto simp: openWormhole_def Let_def)
  obtain allowed forbidden where rules: "parseAccessRules (caOpen a) = Inr (allowed, forbidden)"
    using assms port by (cases "parseAccessRules (caOpen a)") (auto simp: openWormhole_def Let_def)
  have valid: "Validate ?c = None"
    using assms port rules by (cases "Validate ?c") (auto simp: openWormhole_def Let_def)
  obtain l where l: "NewLogger (oeBuildLogger env) verbose = Inr l"
    using assms port rules valid
    by (cases "NewLogger (oeBuildLogger env) verbose") (auto simp: openWormhole_def Let_def)
  obtain w3 where w3: "registerAndServe env ctx a registry logger verbose l ?c port allowed forbidden (greeting env w)
      = Some (Returned None, w3)" "w' = oeSync env l w3"
    using assms port rules valid l by (auto simp: openWormhole_def Let_def greeting_def deferSync_Returned)
  obtain routeData w1 issuerURL addr w2 where r: "registerClosure env a registry ?c logger ctx (greeting env w) = Some (Inr routeData, w1)"
    "airlockIssuerURL routeData = Inr issuerURL" "oeListen env ''localhost:0'' w1 = (Inr addr, w2)"
    and serve: "serveWormhole env ctx a registry logger verbose l ?c
      (airlockConfigOf a addr port issuerURL allowed forbidden) routeData (oeCloseListener env addr w2)
      = Some (Returned None, w3)"
    using registerAndServe_nil [OF w3(1)] by blast
  obtain opts where opts: "airlockOptions (gaToken (caGlobal a)) (airlockConfigOf a addr port issuerURL allowed forbidden) verbose = Inr opts"
    and wait: "oeWait env [oeStartProxy env (oeGroupCtx env ctx) opts (''http://localhost:'' @ itoa port),
      tunnelTask env ctx (tunnelEnv env a registry ?c logger l (oeGroupCtx env ctx) addr) routeData]
      (oeCloseListener env addr w2) = Some (None, w3)"
    using serveWormhole_nil [OF serve] by (auto simp: proxyTarget_def airlockConfigOf_def)
  have eta: "\<lparr>augUsers = augUsers x, augGroups = augGroups x\<rparr> = x" for x :: access_user_groups
    by (cases x) simp
  from airlockOptions_Inr [OF opts]
  have "openedWith env ctx a registry logger verbose w w' port allowed forbidden l routeData issuerURL addr opts"
    unfolding openedWith_def Let_def using port rules valid r wait w3(2)
    by (auto simp: atoiE_Inr_iff airlockConfigOf_def airlockAuthOf_def eta)
  then show ?thesis by blast
qed

text \<open>The tunnel's function gives a nil error only for a cancellation, with the context done.\<close>

lemma tunnelTask_nil:
  assumes "tunnelTask env ctx renv routeData v = Some (None, v')"
  shows "\<exists>e. Run (oeTimerFirst env) (oeRandFloat64 env) renv routeData v = Some (Some e, v') \<and>
    errorsIs e ErrCanceled \<and> ctx v' \<noteq> None"
proof -
  obtain err where run: "Run (oeTimerFirst env) (oeRandFloat64 env) renv routeData v = Some (err, v')"
    and err: "(case err of Some e \<Rightarrow> if errorsIs e ErrCanceled \<and> ctx v' \<noteq> None then None else Some e | None \<Rightarrow> None) = None"
    using assms by (auto simp: tunnelTask_def split: option.splits)
  let ?env = "renv\<lparr>reRuntime := defaultRetryRuntime (oeTimerFirst env) (oeRandFloat64 env)\<rparr>"
  from run have "run ?env routeData v = Some (err, v')" by (simp only: Run_def)
  from run_Some [OF this] obtain s where s: "runRound ?env s = Inl (Some (err, v'))" by metis
  then obtain e where e: "err = Some e" using runRound_fails [OF s] by metis
  with err have "errorsIs e ErrCanceled \<and> ctx v' \<noteq> None"
    by (simp split: if_split_asm)
  with run e show ?thesis by blast
qed

end
