(* ===== verification/OpenTheorems.thy ===== *)
theory OpenTheorems
  imports OpenProperties
begin

text \<open>The properties of opening a wormhole: access rules, policy, keys, and how the command ends.\<close>

section \<open>Access rules\<close>

text \<open>
  C15. Access rules. The rules of the options are accepted exactly when some user or group is allowed,
  no user is both allowed and forbidden, and no group is; the lists are then the items between the
  commas, none of them empty. Lists of names that are not empty and have no comma, joined by
  commas, are read back as they are.
\<close>

theorem access_rules:
  "((\<exists>r. parseAccessRules a = Inr r) \<longleftrightarrow>
     (splitList (oaAllowedUsers a) \<noteq> [] \<or> splitList (oaAllowedGroups a) \<noteq> []) \<and>
     set (splitList (oaAllowedUsers a)) \<inter> set (splitList (oaForbiddenUsers a)) = {} \<and>
     set (splitList (oaAllowedGroups a)) \<inter> set (splitList (oaForbiddenGroups a)) = {}) \<and>
   (\<forall>allowed forbidden. parseAccessRules a = Inr (allowed, forbidden) \<longrightarrow>
     (\<forall>x \<in> set (augUsers allowed @ augGroups allowed @ augUsers forbidden @ augGroups forbidden).
       x \<noteq> [] \<and> CHR '','' \<notin> set x)) \<and>
   ((\<forall>x \<in> set (au @ ag @ fu @ fg). x \<noteq> [] \<and> CHR '','' \<notin> set x) \<longrightarrow>
     (au \<noteq> [] \<or> ag \<noteq> []) \<longrightarrow> set au \<inter> set fu = {} \<longrightarrow> set ag \<inter> set fg = {} \<longrightarrow>
     parseAccessRules (a\<lparr>oaAllowedUsers := joinStr '','' au, oaAllowedGroups := joinStr '','' ag,
       oaForbiddenUsers := joinStr '','' fu, oaForbiddenGroups := joinStr '','' fg\<rparr>)
       = Inr (\<lparr>augUsers = au, augGroups = ag\<rparr>, \<lparr>augUsers = fu, augGroups = fg\<rparr>))"
proof (intro conjI allI impI)
  show "(\<exists>r. parseAccessRules a = Inr r) \<longleftrightarrow>
     (splitList (oaAllowedUsers a) \<noteq> [] \<or> splitList (oaAllowedGroups a) \<noteq> []) \<and>
     set (splitList (oaAllowedUsers a)) \<inter> set (splitList (oaForbiddenUsers a)) = {} \<and>
     set (splitList (oaAllowedGroups a)) \<inter> set (splitList (oaForbiddenGroups a)) = {}"
    by (auto simp: parseAccessRules_Inr_iff)
qed (auto simp: parseAccessRules_Inr_iff splitList_join dest: splitList_sound)

definition sampleOpenArgs :: open_args where
  "sampleOpenArgs = \<lparr>oaName = ''app'', oaCommunity = [], oaAppPort = ''81'', oaPodmanCompat = False,
     oaAllowedUsers = ''ann,bob'', oaAllowedGroups = [], oaForbiddenUsers = ''eve'',
     oaForbiddenGroups = [], oaForwardedHeaderUser = ''X-Forwarded-User'',
     oaForwardedHeaderGroups = ''X-Forwarded-Groups'', oaAuthBearerHeader = False\<rparr>"

theorem access_rules_witness:
  "parseAccessRules (sampleOpenArgs\<lparr>oaAllowedUsers := joinStr '','' [''ann'', ''bob''],
      oaAllowedGroups := joinStr '','' [], oaForbiddenUsers := joinStr '','' [''eve''],
      oaForbiddenGroups := joinStr '','' []\<rparr>)
    = Inr (\<lparr>augUsers = [''ann'', ''bob''], augGroups = []\<rparr>, \<lparr>augUsers = [''eve''], augGroups = []\<rparr>)"
  using access_rules [of sampleOpenArgs "[''ann'', ''bob'']" "[]" "[''eve'']" "[]"] by simp

text \<open>
  C38. Spaces count. The items of a list are not trimmed, so a space after a comma becomes part of the
  name: a user that follows a comma and a space in the allowed users, and is forbidden, passes the
  check for overlap.
\<close>

theorem access_rules_spaces:
  assumes "x \<noteq> []" and "u \<noteq> []" and "CHR '','' \<notin> set x \<union> set u" and "x \<noteq> u"
  shows "parseAccessRules (a\<lparr>oaAllowedUsers := x @ '', '' @ u, oaAllowedGroups := [],
      oaForbiddenUsers := u, oaForbiddenGroups := []\<rparr>)
    = Inr (\<lparr>augUsers = [x, '' '' @ u], augGroups = []\<rparr>, \<lparr>augUsers = [u], augGroups = []\<rparr>)"
proof -
  have "splitList (joinStr '','' [x, '' '' @ u]) = [x, '' '' @ u]" "splitList (joinStr '','' [u]) = [u]"
    "splitList (joinStr '','' []) = []"
    using assms by (intro splitList_join; auto)+
  then show ?thesis using assms(4) by (auto simp: parseAccessRules_Inr_iff)
qed

theorem access_rules_spaces_witness:
  "parseAccessRules (sampleOpenArgs\<lparr>oaAllowedUsers := ''ann'' @ '', '' @ ''eve'', oaAllowedGroups := [],
      oaForbiddenUsers := ''eve'', oaForbiddenGroups := []\<rparr>)
    = Inr (\<lparr>augUsers = [''ann'', '' '' @ ''eve''], augGroups = []\<rparr>, \<lparr>augUsers = [''eve''], augGroups = []\<rparr>)"
  by (rule access_rules_spaces) simp_all

section \<open>What Airlock is told\<close>

text \<open>
  C26. The policy document. For access rules that were accepted, Airlock is given the JSON object with
  the four fields \<open>version\<close>, \<open>allowed\<close>, \<open>disallowed\<close> and \<open>token\<close>: the version is 1.0, \<open>allowed\<close> holds under
  \<open>users\<close> and \<open>groups\<close> the names of the two options for allowed users and groups, in their order,
  \<open>disallowed\<close> those of the two options for forbidden ones, and \<open>token\<close> is the user's token (bytes that
  are not UTF-8 are replaced everywhere). If the names are UTF-8, no user and no group is listed under
  both.
\<close>

theorem policy_document:
  assumes "parseAccessRules (caOpen a) = Inr (allowed, forbidden)"
    and "airlockOptions token (airlockConfigOf a addr port issuer allowed forbidden) verbose = Inr opts"
  shows "\<exists>users groups noUsers noGroups.
    aoAuthJSON opts = JObj
      [(''version'', JStr ''1.0''),
       (''allowed'', JObj [(''users'', JArr (map JStr users)), (''groups'', JArr (map JStr groups))]),
       (''disallowed'', JObj [(''users'', JArr (map JStr noUsers)), (''groups'', JArr (map JStr noGroups))]),
       (''token'', JStr (coerceUtf8 token))] \<and>
    users = map coerceUtf8 (splitList (oaAllowedUsers (caOpen a))) \<and>
    groups = map coerceUtf8 (splitList (oaAllowedGroups (caOpen a))) \<and>
    noUsers = map coerceUtf8 (splitList (oaForbiddenUsers (caOpen a))) \<and>
    noGroups = map coerceUtf8 (splitList (oaForbiddenGroups (caOpen a))) \<and>
    ((\<forall>x \<in> set (splitList (oaAllowedUsers (caOpen a)) @ splitList (oaForbiddenUsers (caOpen a))). validUtf8 x) \<longrightarrow>
      set users \<inter> set noUsers = {}) \<and>
    ((\<forall>x \<in> set (splitList (oaAllowedGroups (caOpen a)) @ splitList (oaForbiddenGroups (caOpen a))). validUtf8 x) \<longrightarrow>
      set groups \<inter> set noGroups = {})"
proof (intro exI conjI impI)
  have version: "coerceUtf8 ''1.0'' = ''1.0''" by code_simp
  have rules: "allowed = \<lparr>augUsers = splitList (oaAllowedUsers (caOpen a)), augGroups = splitList (oaAllowedGroups (caOpen a))\<rparr>"
    "forbidden = \<lparr>augUsers = splitList (oaForbiddenUsers (caOpen a)), augGroups = splitList (oaForbiddenGroups (caOpen a))\<rparr>"
    "set (splitList (oaAllowedUsers (caOpen a))) \<inter> set (splitList (oaForbiddenUsers (caOpen a))) = {}"
    "set (splitList (oaAllowedGroups (caOpen a))) \<inter> set (splitList (oaForbiddenGroups (caOpen a))) = {}"
    using assms(1) unfolding parseAccessRules_Inr_iff by (elim conjE, simp)+
  have "aoAuthJSON opts = encAirlockAuth (airlockAuthOf token (airlockConfigOf a addr port issuer allowed forbidden))"
    using airlockOptions_Inr [OF assms(2)] by simp
  then show "aoAuthJSON opts = JObj
      [(''version'', JStr ''1.0''),
       (''allowed'', JObj [(''users'', JArr (map JStr (map coerceUtf8 (splitList (oaAllowedUsers (caOpen a)))))),
          (''groups'', JArr (map JStr (map coerceUtf8 (splitList (oaAllowedGroups (caOpen a))))))]),
       (''disallowed'', JObj [(''users'', JArr (map JStr (map coerceUtf8 (splitList (oaForbiddenUsers (caOpen a)))))),
          (''groups'', JArr (map JStr (map coerceUtf8 (splitList (oaForbiddenGroups (caOpen a))))))]),
       (''token'', JStr (coerceUtf8 token))]"
    unfolding encAirlockAuth_def airlockAuthOf_def airlockConfigOf_def encAccessUserGroups_def rules(1,2)
    by (simp add: encString_def version)
  show "set (map coerceUtf8 (splitList (oaAllowedUsers (caOpen a)))) \<inter>
      set (map coerceUtf8 (splitList (oaForbiddenUsers (caOpen a)))) = {}"
    if "\<forall>x \<in> set (splitList (oaAllowedUsers (caOpen a)) @ splitList (oaForbiddenUsers (caOpen a))). validUtf8 x"
    using that rules by (intro coerced_disjoint) simp_all
  show "set (map coerceUtf8 (splitList (oaAllowedGroups (caOpen a)))) \<inter>
      set (map coerceUtf8 (splitList (oaForbiddenGroups (caOpen a)))) = {}"
    if "\<forall>x \<in> set (splitList (oaAllowedGroups (caOpen a)) @ splitList (oaForbiddenGroups (caOpen a))). validUtf8 x"
    using that rules by (intro coerced_disjoint) simp_all
qed (rule refl)+

text \<open>Two users are allowed and a third is forbidden.\<close>

definition samplePolicyArgs :: cli_args where
  "samplePolicyArgs = zeroArgs\<lparr>caOpen := sampleOpenArgs\<rparr>"

theorem policy_document_witness:
  "\<exists>opts. airlockOptions ''t'' (airlockConfigOf samplePolicyArgs ''h:1'' 81 ''https://i/a/''
      \<lparr>augUsers = [''ann'', ''bob''], augGroups = []\<rparr> \<lparr>augUsers = [''eve''], augGroups = []\<rparr>) False = Inr opts \<and>
    aoAuthJSON opts = JObj
      [(''version'', JStr ''1.0''),
       (''allowed'', JObj [(''users'', JArr [JStr ''ann'', JStr ''bob'']), (''groups'', JArr [])]),
       (''disallowed'', JObj [(''users'', JArr [JStr ''eve'']), (''groups'', JArr [])]),
       (''token'', JStr ''t'')]"
proof -
  let ?config = "airlockConfigOf samplePolicyArgs ''h:1'' 81 ''https://i/a/''
      \<lparr>augUsers = [''ann'', ''bob''], augGroups = []\<rparr> \<lparr>augUsers = [''eve''], augGroups = []\<rparr>"
  have args: "caOpen samplePolicyArgs = sampleOpenArgs" by (simp add: samplePolicyArgs_def)
  have rules: "parseAccessRules (caOpen samplePolicyArgs)
      = Inr (\<lparr>augUsers = [''ann'', ''bob''], augGroups = []\<rparr>, \<lparr>augUsers = [''eve''], augGroups = []\<rparr>)"
    by code_simp
  have "jwksURL ''https://i/a/'' = Inr ''https://i/a/.well-known/jwks.json''" by code_simp
  then obtain opts where opts: "airlockOptions ''t'' ?config False = Inr opts"
    by (simp add: airlockOptions_def airlockConfigOf_def)
  have lists: "map coerceUtf8 (splitList (oaAllowedUsers sampleOpenArgs)) = [''ann'', ''bob'']"
    "map coerceUtf8 (splitList (oaAllowedGroups sampleOpenArgs)) = []"
    "map coerceUtf8 (splitList (oaForbiddenUsers sampleOpenArgs)) = [''eve'']"
    "map coerceUtf8 (splitList (oaForbiddenGroups sampleOpenArgs)) = []" "coerceUtf8 ''t'' = ''t''"
    by code_simp+
  from policy_document [OF rules opts] show ?thesis
    unfolding args lists by (intro exI [of _ opts] conjI opts) auto
qed

text \<open>
  C27. Where the keys are. For an issuer URL with a host, Airlock reads its keys from the URL with the
  same scheme, authority and query, whose path is the issuer's, cleaned of empty and dotted
  segments, followed by \<open>/.well-known/jwks.json\<close>, whether or not the issuer ends in a slash.
\<close>

theorem jwks_location:
  assumes "urlParse issuer = Inr u" and "uAuthority u \<noteq> []"
  shows "jwksURL issuer = Inr (urlString (u\<lparr>uPath := escapeWith keepPath (CHR ''/'' # joinStr ''/''
    (baseSegs (decodedPath u) @ [''.well-known'', ''jwks.json'']))\<rparr>))"
  using jwksURL_location [OF assms] by (simp add: setPath_def)

theorem jwks_location_witness:
  "jwksURL ''https://auth.example/team/?v=1'' = Inr ''https://auth.example/team/.well-known/jwks.json?v=1''"
proof -
  have u: "urlParse ''https://auth.example/team/?v=1'' = Inr \<lparr>uScheme = ''https'', uOpaque = [],
      uAuthority = ''auth.example'', uOmitHost = False, uPath = ''/team/'', uForceQuery = False,
      uRawQuery = ''v=1'', uFragment = []\<rparr>" by code_simp
  have "urlString (\<lparr>uScheme = ''https'', uOpaque = [], uAuthority = ''auth.example'', uOmitHost = False,
      uPath = escapeWith keepPath (CHR ''/'' # joinStr ''/'' (baseSegs (decodedPath \<lparr>uScheme = ''https'',
        uOpaque = [], uAuthority = ''auth.example'', uOmitHost = False, uPath = ''/team/'',
        uForceQuery = False, uRawQuery = ''v=1'', uFragment = []\<rparr>) @ [''.well-known'', ''jwks.json''])),
      uForceQuery = False, uRawQuery = ''v=1'', uFragment = []\<rparr>)
    = ''https://auth.example/team/.well-known/jwks.json?v=1''" by code_simp
  with jwks_location [OF u] show ?thesis by simp
qed

section \<open>How the command ends\<close>

text \<open>
  A complete environment. The world says whether the user has cancelled; the tunnel connects and waits
  until then. The functions of the group run one after the other.
\<close>

fun inTurn :: "'w task list \<Rightarrow> 'w task" where
  "inTurn [] w = Some (None, w)"
| "inTurn (t # ts) w =
     (case t w of
        None \<Rightarrow> None
      | Some (Some e, w1) \<Rightarrow> Some (Some e, w1)
      | Some (None, w1) \<Rightarrow> inTurn ts w1)"

definition userCtx :: "bool ctx" where
  "userCtx w = (if w then Some ErrCanceled else None)"

definition sampleOpenEnv :: "(bool, unit, unit, unit) open_env" where
  "sampleOpenEnv =
     \<lparr>oeInfo = \<lparr>biVersion = ''1.2.3'', biGitCommit = [], biGitBranch = [], biGoVersion = [], biBuildDate = []\<rparr>,
      oePrint = (\<lambda>t w. w), oeLogPrint = (\<lambda>t w. w), oeBuildLogger = (\<lambda>l. Inr ()), oeSync = (\<lambda>l w. w),
      oeTimerFirst = (\<lambda>ctx d w. (True, w)), oeRandFloat64 = (\<lambda>w. (f64zero, w)),
      oeListen = (\<lambda>a w. (Inr ''127.0.0.1:4000'', w)), oeCloseListener = (\<lambda>a w. w),
      oeStartProxy = (\<lambda>ctx opts target w. Some (None, w)),
      oeParsePiko = (\<lambda>u. Inr ()), oeUpstream = (\<lambda>u e t w. (Inr (), w)),
      oeForwarder = \<lparr>foSelect = (\<lambda>ctx f w. (ContextDone, True)), foClose = (\<lambda>f w. w)\<rparr>,
      oeGroupCtx = (\<lambda>ctx. ctx), oeWait = inTurn\<rparr>"

definition sampleIssued :: registration where
  "sampleIssued = Some \<lparr>rpURL = ''https://route'', rpAirlock = \<lparr>alJwtIssuerURL = Some ''https://i''\<rparr>,
     rpTunnel = \<lparr>tnURL = Some ''https://piko'', tnJWT = Some ''jwt'', tnEndpoint = Some ''one''\<rparr>,
     rpEndpoint = None, rpJWT = None\<rparr>"

definition sampleService :: "'w registry_service" where
  "sampleService =
     \<lparr>svRegisterRoute = (\<lambda>ctx c n w. (Inr sampleIssued, w)),
      svRefreshJWT = (\<lambda>ctx j w. (Inr ''new'', w)),
      svAddCommunity = (\<lambda>ctx n w. (Inr None, w)), svRemoveCommunity = (\<lambda>ctx n w. (Inr (), w)),
      svResolveCommunity = (\<lambda>ctx n w. (Inr zeroCommunity, w)), svListCommunities = (\<lambda>ctx n w. (Inr [], w)),
      svAddCommunityRoute = (\<lambda>ctx c r w. (Inr (), w)), svRemoveCommunityRoute = (\<lambda>ctx c r w. (Inr (), w)),
      svResolveRoute = (\<lambda>ctx n w. (Inr zeroRoute, w)), svListRoutes = (\<lambda>ctx n w. (Inr [], w))\<rparr>"

definition sampleOpen :: "(outcome \<times> bool) option" where
  "sampleOpen = openWormhole sampleOpenEnv userCtx (zeroArgs\<lparr>caOpen := sampleOpenArgs\<rparr>) sampleService
     (\<lambda>ev w. w) False False"

lemma sampleOpen_value: "sampleOpen = Some (Returned None, True)"
  by code_simp

text \<open>
  C16. Invalid options have no effect. If the port is no number, the access rules are not accepted or
  the backoff bounds are not valid, the command fails after its greeting: whatever the registry and
  the rest of the environment would do, nothing else happens.
\<close>

theorem open_fails_early:
  assumes "atoi (oaAppPort (caOpen a)) = None \<or> (\<forall>r. parseAccessRules (caOpen a) \<noteq> Inr r) \<or>
    Validate (effectiveConfig (caSelfHeal a)) \<noteq> None"
  shows "\<exists>out. out \<noteq> Returned None \<and>
    (\<forall>registry logger. openWormhole env ctx a registry logger verbose w = Some (out,
      oePrint env (''Using wormhole-cli v'' @ GetVersion (oeInfo env) @ [CHR 0x0A]) w))"
proof -
  have "\<not> validOptions a" using assms by (auto simp: validOptions_def)
  then show ?thesis by (rule open_invalid) (auto simp: greeting_def)
qed

theorem open_fails_early_witness:
  "\<exists>out. out \<noteq> Returned None \<and> openWormhole sampleOpenEnv userCtx zeroArgs sampleService (\<lambda>ev w. w) False False
    = Some (out, False)"
proof -
  have "atoi (oaAppPort (caOpen zeroArgs)) = None" by code_simp
  then have "\<exists>out. out \<noteq> Returned None \<and> (\<forall>registry logger. openWormhole sampleOpenEnv userCtx zeroArgs registry logger False False
      = Some (out, oePrint sampleOpenEnv (''Using wormhole-cli v'' @ GetVersion (oeInfo sampleOpenEnv) @ [CHR 0x0A]) False))"
    by (intro open_fails_early disjI1)
  then show ?thesis by (auto simp: sampleOpenEnv_def)
qed

text \<open>
  C8. How the parts are connected. When the command ends without an error, the options were valid, the
  route was registered, and the group ran two functions: Airlock, listening on the address of the
  listener, with the rules and the token of the user and the keys of the issuer that the registry
  named, in front of the application's port; and the tunnel to that same address with the
  credentials of the registration. The Piko logger was flushed last.
\<close>

theorem open_wiring:
  assumes "openWormhole env ctx a registry logger verbose w = Some (Returned None, w')"
  shows "\<exists>port allowed forbidden l routeData issuerURL addr opts w0 w1 w2 w3.
    atoi (oaAppPort (caOpen a)) = Some port \<and>
    parseAccessRules (caOpen a) = Inr (allowed, forbidden) \<and>
    Validate (effectiveConfig (caSelfHeal a)) = None \<and>
    registerClosure env a registry (effectiveConfig (caSelfHeal a)) logger ctx w0 = Some (Inr routeData, w1) \<and>
    airlockIssuerURL routeData = Inr issuerURL \<and>
    oeListen env ''localhost:0'' w1 = (Inr addr, w2) \<and>
    aoAddress opts = addr \<and> jwksURL issuerURL = Inr (aoJWKSURL opts) \<and>
    aoAuthJSON opts = encAirlockAuth \<lparr>aaVersion = ''1.0'', aaAllowed = allowed, aaDisallowed = forbidden,
      aaToken = gaToken (caGlobal a)\<rparr> \<and>
    oeWait env
      [oeStartProxy env (oeGroupCtx env ctx) opts (''http://localhost:'' @ itoa port),
       tunnelTask env ctx (tunnelEnv env a registry (effectiveConfig (caSelfHeal a)) logger l
         (oeGroupCtx env ctx) addr) routeData]
      (oeCloseListener env addr w2) = Some (None, w3) \<and>
    w' = oeSync env l w3"
  using open_nil [OF assms] unfolding openedWith_def Let_def by blast

theorem open_wiring_witness:
  "\<exists>port. atoi (oaAppPort sampleOpenArgs) = Some port \<and> sampleOpen = Some (Returned None, True)"
proof -
  have "openWormhole sampleOpenEnv userCtx (zeroArgs\<lparr>caOpen := sampleOpenArgs\<rparr>) sampleService (\<lambda>ev w. w) False False
      = Some (Returned None, True)" using sampleOpen_value by (simp only: sampleOpen_def)
  from open_wiring [OF this] show ?thesis using sampleOpen_value by auto
qed

text \<open>
  C9. No silent end. If a group whose wait gives a nil error ran each of its functions to a nil error,
  the command ends without an error only because the tunnel ended with a cancellation while the
  context of the user was done: a lost tunnel, a rejected credential or a failed registration is
  always an error.
\<close>

theorem open_nil_cancelled:
  assumes "\<And>ts v v' t. oeWait env ts v = Some (None, v') \<Longrightarrow> t \<in> set ts \<Longrightarrow> \<exists>u u'. t u = Some (None, u')"
    and "openWormhole env ctx a registry logger verbose w = Some (Returned None, w')"
  shows "\<exists>l routeData addr u u' e.
    Run (oeTimerFirst env) (oeRandFloat64 env)
      (tunnelEnv env a registry (effectiveConfig (caSelfHeal a)) logger l (oeGroupCtx env ctx) addr)
      routeData u = Some (Some e, u') \<and> errorsIs e ErrCanceled \<and> ctx u' \<noteq> None"
proof -
  obtain port allowed forbidden l routeData issuerURL addr opts where
    o: "openedWith env ctx a registry logger verbose w w' port allowed forbidden l routeData issuerURL addr opts"
    using open_nil [OF assms(2)] by blast
  let ?t = "tunnelTask env ctx (tunnelEnv env a registry (effectiveConfig (caSelfHeal a)) logger l
    (oeGroupCtx env ctx) addr) routeData"
  obtain ts v v' where "oeWait env ts v = Some (None, v')" "?t \<in> set ts"
    using o unfolding openedWith_def Let_def by (metis list.set_intros)
  then obtain u u' where "?t u = Some (None, u')" using assms(1) by blast
  from tunnelTask_nil [OF this] show ?thesis by blast
qed

theorem open_nil_cancelled_witness:
  "\<exists>u. userCtx u \<noteq> None \<and> sampleOpen = Some (Returned None, u)"
proof -
  have o: "openWormhole sampleOpenEnv userCtx (zeroArgs\<lparr>caOpen := sampleOpenArgs\<rparr>) sampleService (\<lambda>ev w. w) False False
      = Some (Returned None, True)" using sampleOpen_value by (simp only: sampleOpen_def)
  have turn: "inTurn ts v = Some (None, v') \<Longrightarrow> t \<in> set ts \<Longrightarrow> \<exists>u u'. t u = Some (None, u')" for ts and v v' :: bool and t
    by (induction ts v rule: inTurn.induct) (auto split: option.splits prod.splits)
  have "\<exists>u :: bool. userCtx u \<noteq> None"
    using open_nil_cancelled [OF _ o] turn by (simp add: sampleOpenEnv_def) blast
  then show ?thesis using sampleOpen_value by (auto simp: userCtx_def)
qed

end
