(* ===== verification/Commands.thy ===== *)
theory Commands
  imports OpenWormhole Format
begin

text \<open>
  \<open>internal/cmd/wh\<close>: the community and route commands (\<open>community.go\<close>, \<open>route.go\<close>), the wrapper that
  gives every command its registry client, and the command tree (\<open>cmds.go\<close>). A handler takes the
  context, the arguments after the options, the registry and the world; \<open>print\<close> is \<open>fmt.Print\<close>.
\<close>

section \<open>Arguments\<close>

text \<open>\<open>cCmd.Args().Get(n)\<close> is empty beyond the end.\<close>

definition argGet :: "string list \<Rightarrow> nat \<Rightarrow> string" where
  "argGet nargs n = (if n < length nargs then nargs ! n else [])"

type_synonym 'w printer = "string \<Rightarrow> 'w \<Rightarrow> 'w"

type_synonym 'w registry_handler =
  "'w printer \<Rightarrow> 'w ctx \<Rightarrow> string list \<Rightarrow> 'w registry_service \<Rightarrow> 'w \<Rightarrow> go_error option \<times> 'w"

section \<open>Routes\<close>

fun findRoute :: "route list \<Rightarrow> string \<Rightarrow> route option" where
  "findRoute [] identifier = None"
| "findRoute (r # rl) identifier = (if Route_Matches r identifier then Some r else findRoute rl identifier)"

definition listRoutes :: "'w registry_handler" where
  "listRoutes print ctx nargs registry w =
     (let identifier = argGet nargs 0 in
      case svListRoutes registry ctx identifier w of
        (Inl err, w1) \<Rightarrow> (Some err, w1)
      | (Inr rl, w1) \<Rightarrow>
          if length rl = 1 then (None, print (formatRouteSingle (Some (rl ! 0))) w1)
          else (None, print (formatRouteList rl) w1))"

section \<open>Communities\<close>

text \<open>The loop of \<open>listSingleCommunity\<close>, on the route at one index.\<close>

definition fillRoute :: "route list \<Rightarrow> route \<Rightarrow> route" where
  "fillRoute rl r =
     (case rtID r of
        None \<Rightarrow> r
      | Some i \<Rightarrow> (case findRoute rl i of None \<Rightarrow> r | Some nr \<Rightarrow> nr))"

definition listSingleCommunity ::
  "'w printer \<Rightarrow> 'w ctx \<Rightarrow> 'w registry_service \<Rightarrow> community \<Rightarrow> 'w \<Rightarrow> go_error option \<times> 'w" where
  "listSingleCommunity print ctx registry c w =
     (if 0 < length (cmRoutes c) then
        (case svListRoutes registry ctx [] w of
           (Inl err, w1) \<Rightarrow> (Some err, w1)
         | (Inr rl, w1) \<Rightarrow>
             (let c = c\<lparr>cmRoutes := map (fillRoute rl) (cmRoutes c)\<rparr>
              in (None, print (formatCommunitySingle (Some c)) w1)))
      else (None, print (formatCommunitySingle (Some c)) w))"

definition listCommunities :: "'w registry_handler" where
  "listCommunities print ctx nargs registry w =
     (let identifier = argGet nargs 0 in
      case svListCommunities registry ctx identifier w of
        (Inl err, w1) \<Rightarrow> (Some err, w1)
      | (Inr cl, w1) \<Rightarrow>
          if identifier \<noteq> [] then
            (case cl of
               [] \<Rightarrow> (Some (ErrString (''community not found: '' @ identifier)), w1)
             | c # _ \<Rightarrow> listSingleCommunity print ctx registry c w1)
          else (None, print (formatCommunityList cl) w1))"

definition addCommunity :: "'w registry_handler" where
  "addCommunity print ctx nargs registry w =
     (let name = argGet nargs 0 in
      if name = [] then (Some (ErrString ''community name is required''), w)
      else
        (case svAddCommunity registry ctx name w of
           (Inl err, w1) \<Rightarrow> (Some err, w1)
         | (Inr c, w1) \<Rightarrow> (None, print (formatCommunitySingle c) w1)))"

definition removeCommunity :: "'w registry_handler" where
  "removeCommunity print ctx nargs registry w =
     (let identifier = argGet nargs 0 in
      if identifier = [] then (Some (ErrString ''community name or id is required''), w)
      else
        (case svRemoveCommunity registry ctx identifier w of
           (Inl err, w1) \<Rightarrow> (Some err, w1)
         | (Inr _, w1) \<Rightarrow> (None, w1)))"

definition modRouteToCommunity ::
  "'w ctx \<Rightarrow> 'w registry_service \<Rightarrow> string \<Rightarrow> string \<Rightarrow> (string \<Rightarrow> string \<Rightarrow> 'w \<Rightarrow> go_error option \<times> 'w) \<Rightarrow> 'w \<Rightarrow>
   go_error option \<times> 'w" where
  "modRouteToCommunity ctx registry communityIdent routeIdent op w =
     (case svResolveCommunity registry ctx communityIdent w of
        (Inl err, w1) \<Rightarrow> (Some err, w1)
      | (Inr c, w1) \<Rightarrow>
          (case cmID c of
             None \<Rightarrow> (Some (ErrString (''community found but has no ID: '' @ communityIdent)), w1)
           | Some cID \<Rightarrow>
               (case svResolveRoute registry ctx routeIdent w1 of
                  (Inl err, w2) \<Rightarrow> (Some err, w2)
                | (Inr r, w2) \<Rightarrow>
                    (case rtID r of
                       None \<Rightarrow> (Some (ErrString (''route found but has no ID: '' @ routeIdent)), w2)
                     | Some rID \<Rightarrow> op cID rID w2))))"

definition membershipOp ::
  "('w ctx \<Rightarrow> string \<Rightarrow> string \<Rightarrow> 'w \<Rightarrow> (go_error + unit) \<times> 'w) \<Rightarrow> 'w ctx \<Rightarrow> string \<Rightarrow> string \<Rightarrow> 'w \<Rightarrow>
   go_error option \<times> 'w" where
  "membershipOp call ctx cID rID w =
     (case call ctx cID rID w of (Inl err, w1) \<Rightarrow> (Some err, w1) | (Inr _, w1) \<Rightarrow> (None, w1))"

definition addRouteToCommunity :: "'w registry_handler" where
  "addRouteToCommunity print ctx nargs registry w =
     (if length nargs \<noteq> 2
      then (Some (ErrString ''expected community name or id and route fully qualified name or id''), w)
      else modRouteToCommunity ctx registry (argGet nargs 0) (argGet nargs 1)
             (membershipOp (svAddCommunityRoute registry) ctx) w)"

definition removeRouteFromCommunity :: "'w registry_handler" where
  "removeRouteFromCommunity print ctx nargs registry w =
     (if length nargs \<noteq> 2
      then (Some (ErrString ''expected community name or id and route fully qualified name or id''), w)
      else modRouteToCommunity ctx registry (argGet nargs 0) (argGet nargs 1)
             (membershipOp (svRemoveCommunityRoute registry) ctx) w)"

section \<open>The command tree\<close>

text \<open>
  A handler of the tree (\<open>globalHandler\<close>) also has the configuration and the logger, and may end the
  process or never return. \<open>globalWrap\<close> raises the log level, makes the client and runs the handler;
  \<open>levels\<close> applies a change to the level variables of the world.
\<close>

type_synonym 'w global_handler =
  "'w ctx \<Rightarrow> string list \<Rightarrow> cli_args \<Rightarrow> 'w registry_service \<Rightarrow> 'w slog option \<Rightarrow> 'w \<Rightarrow> (outcome \<times> 'w) option"

type_synonym 'w action_func = "('w, 'w slog) go_context \<Rightarrow> string list \<Rightarrow> 'w \<Rightarrow> (outcome \<times> 'w) option"

definition globalWrap ::
  "'w transport \<Rightarrow> ((level_store \<Rightarrow> level_store) \<Rightarrow> 'w \<Rightarrow> 'w) \<Rightarrow> cli_args \<Rightarrow> 'w global_handler \<Rightarrow> 'w action_func" where
  "globalWrap transport levels a handler ctx nargs w =
     (let verbose = gaVerbose (caGlobal a);
          cl = GetLogger ctx;
          w = (if verbose then levels (\<lambda>st. snd (SetLogLevel cl LevelInfo st)) w else w);
          token = gaToken (caGlobal a);
          endpoint = gaEndpoint (caGlobal a);
          logger = contextLogger ctx;
          client = \<lparr>hcTimeout = 5 * second, hcDo = transport (5 * second)\<rparr>;
          registry = clientService
            (NewRegistryClient transport token endpoint (Some client) (map_option slRequest logger))
      in handler (gcErr ctx) nargs a registry logger w)"

text \<open>A registry command as a handler of the tree.\<close>

definition registryCommand :: "'w printer \<Rightarrow> 'w registry_handler \<Rightarrow> 'w global_handler" where
  "registryCommand print h ctx nargs a registry logger w =
     (case h print ctx nargs registry w of (err, w1) \<Rightarrow> Some (Returned err, w1))"

record 'w cli_env =
  ceTransport :: "'w transport"
  ceLevels :: "(level_store \<Rightarrow> level_store) \<Rightarrow> 'w \<Rightarrow> 'w"
  cePrint :: "'w printer"
  ceOpen :: "'w global_handler"
  ceNamespaces :: bool
  ceInfo :: build_info

text \<open>
  \<open>ceOpen\<close> is \<open>handleOpen\<close> with its environment, \<open>ceNamespaces\<close> whether \<open>ns.Initialize\<close> succeeds while
  the tree is built.
\<close>

datatype 'w command = Command
  (cdName: string) (cdUsage: string) (cdUsageText: string) (cdVersion: string)
  (cdFlags: "cli_args flag list") (cdCommands: "'w command list")
  (cdAction: "'w action_func option") (cdStopOnNthArg: "int option")

definition group :: "string \<Rightarrow> string \<Rightarrow> string \<Rightarrow> 'w command list \<Rightarrow> 'w command" where
  "group name usage usageText commands = Command name usage usageText [] [] commands None None"

definition leaf :: "string \<Rightarrow> string \<Rightarrow> string \<Rightarrow> 'w action_func \<Rightarrow> 'w command" where
  "leaf name usage usageText action = Command name usage usageText [] [] [] (Some action) None"

definition wrapRegistry :: "'w cli_env \<Rightarrow> cli_args \<Rightarrow> 'w registry_handler \<Rightarrow> 'w action_func" where
  "wrapRegistry env a h = globalWrap (ceTransport env) (ceLevels env) a (registryCommand (cePrint env) h)"

definition communityListCmd :: "'w cli_env \<Rightarrow> cli_args \<Rightarrow> 'w command" where
  "communityListCmd env a = leaf ''list'' ''List communities or show details for a specific community''
     ''wh community list [community]'' (wrapRegistry env a listCommunities)"

definition communityAddCmd :: "'w cli_env \<Rightarrow> cli_args \<Rightarrow> 'w command" where
  "communityAddCmd env a = leaf ''add'' ''Add a new community with the specified name''
     ''wh community add [name]'' (wrapRegistry env a addCommunity)"

definition communityRemoveCmd :: "'w cli_env \<Rightarrow> cli_args \<Rightarrow> 'w command" where
  "communityRemoveCmd env a = leaf ''remove'' ''Remove a community by its name or ID (min 8 chars for ID)''
     ''wh community remove [name or id]'' (wrapRegistry env a removeCommunity)"

definition communityAddRouteCmd :: "'w cli_env \<Rightarrow> cli_args \<Rightarrow> 'w command" where
  "communityAddRouteCmd env a = leaf ''add-route''
     (''Add a route to a community. Route can be identified by fqname (domain/name) or ID (min '' @
      itoa (int MinIDLength) @ '' chars)'')
     ''wh community add-route [community name or id] [route fqname or id]''
     (wrapRegistry env a addRouteToCommunity)"

definition communityRemoveRouteCmd :: "'w cli_env \<Rightarrow> cli_args \<Rightarrow> 'w command" where
  "communityRemoveRouteCmd env a = leaf ''remove-route''
     (''Remove a route from a community. Route can be identified by fqname (domain/name) or ID (min '' @
      itoa (int MinIDLength) @ '' chars)'')
     ''wh community remove-route [community name or id] [route fqname or id]''
     (wrapRegistry env a removeRouteFromCommunity)"

definition communityCmd :: "'w cli_env \<Rightarrow> cli_args \<Rightarrow> 'w command" where
  "communityCmd env a = group ''community'' ''Manage wormhole communities'' ''wh community [command]''
     [communityListCmd env a, communityAddCmd env a, communityRemoveCmd env a,
      communityAddRouteCmd env a, communityRemoveRouteCmd env a]"

definition routeListCmd :: "'w cli_env \<Rightarrow> cli_args \<Rightarrow> 'w command" where
  "routeListCmd env a = leaf ''list'' ''List routes or show details for a specific route''
     ''wh route list [route]'' (wrapRegistry env a listRoutes)"

definition routeCmd :: "'w cli_env \<Rightarrow> cli_args \<Rightarrow> 'w command" where
  "routeCmd env a = group ''route'' ''Manage wormhole routes'' ''wh route [command]'' [routeListCmd env a]"

definition openCmd :: "'w cli_env \<Rightarrow> cli_args \<Rightarrow> map_source list \<Rightarrow> 'w command" where
  "openCmd env a srcs =
     (let stopOnNthArg = 1;
          usage = ''Open a new wormhole to proxy from a local app.'' @ newline @
            ''If a command is specified, launches the provided command '' @
            ''in a new network namespace with wormhole forwarding.'';
          usage = (if \<not> ceNamespaces env
                   then usage @ newline @ ''Namespacing is not available on this system''
                   else usage @ newline @ ''Namespacing is available on this system'')
      in Command ''open'' usage ''wh open [options] [--] [command [options ...]]'' []
           (OpenFlags srcs) [] (Some (globalWrap (ceTransport env) (ceLevels env) a (ceOpen env)))
           (Some stopOnNthArg))"

definition Tasks :: "'w cli_env \<Rightarrow> cli_args \<Rightarrow> map_source list \<Rightarrow> 'w command" where
  "Tasks env a srcs = Command ''wh'' ''CLI app to create and forward connections through LC Wormhole'' []
     (GetVersion (ceInfo env)) [] [openCmd env a srcs, communityCmd env a, routeCmd env a] None None"

text \<open>Choosing the command by the names on the command line: the first child of that name.\<close>

fun commandAt :: "'w command \<Rightarrow> string list \<Rightarrow> 'w command option" where
  "commandAt c [] = Some c"
| "commandAt c (name # names) =
     (case find (\<lambda>d. cdName d = name) (cdCommands c) of
        None \<Rightarrow> None
      | Some d \<Rightarrow> commandAt d names)"

end
