(* ===== verification/CommandProperties.thy ===== *)
theory CommandProperties
  imports Commands RegistryProperties
begin

text \<open>
  What holds of the commands. A command needs little of the registry: the interface it relies on is the
  locale \<open>resolving_service\<close>, which the registry client provides.
\<close>

section \<open>Commands over a registry that resolves exactly\<close>

locale resolving_service =
  fixes service :: "'w registry_service"
    and communities :: "'w ctx \<Rightarrow> 'w \<Rightarrow> (go_error + community list) \<times> 'w"
    and routes :: "'w ctx \<Rightarrow> 'w \<Rightarrow> (go_error + route list) \<times> 'w"
  assumes resolve_community: "p \<noteq> [] \<Longrightarrow> svResolveCommunity service ctx p w = (Inr x, w') \<longleftrightarrow>
      (\<exists>xs. communities ctx w = (Inr xs, w') \<and> filter (\<lambda>x. Community_Matches x p) xs = [x])"
    and resolve_route: "p \<noteq> [] \<Longrightarrow> svResolveRoute service ctx p w = (Inr r, w') \<longleftrightarrow>
      (\<exists>rs. routes ctx w = (Inr rs, w') \<and> filter (\<lambda>r. Route_Matches r p) rs = [r])"
    and list_communities: "p \<noteq> [] \<Longrightarrow> svListCommunities service ctx p w = (Inr ys, w') \<longleftrightarrow>
      (\<exists>xs. communities ctx w = (Inr xs, w') \<and> ys = filter (\<lambda>x. Community_Matches x p) xs \<and> ys \<noteq> [])"
    and list_routes: "svListRoutes service ctx [] w = (Inr rs, w') \<longleftrightarrow> routes ctx w = (Inr rs, w')"
begin

text \<open>Both resolved, to entities with IDs.\<close>

definition resolved ::
  "'w ctx \<Rightarrow> string \<Rightarrow> string \<Rightarrow> 'w \<Rightarrow> string \<Rightarrow> string \<Rightarrow> 'w \<Rightarrow> bool" where
  "resolved ctx p q w cID rID w2 \<longleftrightarrow>
     (\<exists>cs x w1 rs r. communities ctx w = (Inr cs, w1) \<and> filter (\<lambda>x. Community_Matches x p) cs = [x] \<and>
        cmID x = Some cID \<and> routes ctx w1 = (Inr rs, w2) \<and> filter (\<lambda>r. Route_Matches r q) rs = [r] \<and>
        rtID r = Some rID)"

lemma mod_route_resolved:
  assumes "p \<noteq> []" and "q \<noteq> []" and "resolved ctx p q w cID rID w2"
  shows "modRouteToCommunity ctx service p q op w = op cID rID w2"
proof -
  obtain x w1 r where "svResolveCommunity service ctx p w = (Inr x, w1)" "cmID x = Some cID"
    "svResolveRoute service ctx q w1 = (Inr r, w2)" "rtID r = Some rID"
    using assms(3) resolve_community [OF assms(1)] resolve_route [OF assms(2)] unfolding resolved_def by blast
  then show ?thesis by (simp add: modRouteToCommunity_def)
qed

lemma mod_route_unresolved:
  assumes "p \<noteq> []" and "q \<noteq> []" and "\<And>cID rID w2. \<not> resolved ctx p q w cID rID w2"
  shows "\<exists>e w'. \<forall>op. modRouteToCommunity ctx service p q op w = (Some e, w')"
proof -
  obtain rc w1 where c: "svResolveCommunity service ctx p w = (rc, w1)" by (cases "svResolveCommunity service ctx p w")
  show ?thesis
  proof (cases "\<exists>x i. rc = Inr x \<and> cmID x = Some i")
    case False
    with c show ?thesis by (cases rc) (auto simp: modRouteToCommunity_def split: option.splits)
  next
    case True
    then obtain x i where x: "rc = Inr x" "cmID x = Some i" by blast
    obtain rr w2 where r: "svResolveRoute service ctx q w1 = (rr, w2)" by (cases "svResolveRoute service ctx q w1")
    have "\<not> (\<exists>y j. rr = Inr y \<and> rtID y = Some j)"
    proof (intro notI, elim exE conjE)
      fix y j
      assume y: "rr = Inr y" "rtID y = Some j"
      obtain cs where "communities ctx w = (Inr cs, w1)" "filter (\<lambda>x. Community_Matches x p) cs = [x]"
        using c x resolve_community [OF assms(1)] by auto
      moreover obtain rs where "routes ctx w1 = (Inr rs, w2)" "filter (\<lambda>r. Route_Matches r q) rs = [y]"
        using r y resolve_route [OF assms(2)] by auto
      ultimately have "resolved ctx p q w i j w2" using x y unfolding resolved_def by blast
      with assms(3) show False by blast
    qed
    with c x r show ?thesis by (cases rr) (auto simp: modRouteToCommunity_def split: option.splits)
  qed
qed

text \<open>A listing with an identifier shows the first match, whatever else matches.\<close>

lemma list_community_first:
  assumes "p \<noteq> []" and "communities ctx w = (Inr xs, w1)"
    and "filter (\<lambda>x. Community_Matches x p) xs = x # ys"
  shows "listCommunities print ctx [p] service w = listSingleCommunity print ctx service x w1"
proof -
  have "svListCommunities service ctx p w = (Inr (x # ys), w1)"
    using list_communities [OF assms(1), of ctx w "x # ys" w1] assms(2,3) by simp
  with assms(1) show ?thesis by (simp add: listCommunities_def argGet_def)
qed

end

interpretation svc: resolving_service "clientService c" "fetchCommunities c" "fetchRoutes c" for c
proof unfold_locales
  show "svListRoutes (clientService c) ctx [] w = (Inr rs, w') \<longleftrightarrow> fetchRoutes c ctx w = (Inr rs, w')" for ctx w rs w'
    by (auto simp: clientService_def ListRoutes_def split: prod.splits sum.splits)
qed (simp_all add: clientService_def cl.resolve_unique rl.resolve_unique cl.list_Inr)

section \<open>Filling in the routes of a community\<close>

lemma findRoute_Some: "findRoute rl i = Some r \<Longrightarrow> r \<in> set rl \<and> Route_Matches r i"
  by (induction rl) (auto split: if_splits)

lemma findRoute_None: "findRoute rl i = None \<longleftrightarrow> (\<forall>r \<in> set rl. \<not> Route_Matches r i)"
  by (induction rl) auto

lemma findRoute_first: "findRoute rl i = find (\<lambda>r. Route_Matches r i) rl"
  by (induction rl) auto

lemma findRoute_unique:
  assumes "r \<in> set rl" and "\<And>x. x \<in> set rl \<Longrightarrow> Route_Matches x i \<longleftrightarrow> x = r"
  shows "findRoute rl i = Some r"
  using assms findRoute_Some findRoute_None by (cases "findRoute rl i") blast+

section \<open>The token\<close>

text \<open>Two clients that differ in the transport on requests without the token only.\<close>

definition sameWithToken :: "'w registry_client \<Rightarrow> 'w registry_client \<Rightarrow> bool" where
  "sameWithToken c c' \<longleftrightarrow> (\<exists>d. c' = c\<lparr>rcClient := (rcClient c)\<lparr>hcDo := d\<rparr>\<rparr> \<and>
     (\<forall>ctx req w. headerGet ''X-Token'' req = Some (rcToken c) \<longrightarrow> headerGet ''X-Jwt'' req = None \<longrightarrow>
        d ctx req w = hcDo (rcClient c) ctx req w))"

lemma sameWithToken_do:
  "sameWithToken c c' \<Longrightarrow> client_do marshal dec zero c' = client_do marshal dec zero c"
  by (auto simp: sameWithToken_def fun_eq_iff intro!: client_do_token)

lemma sameWithToken_service:
  assumes "sameWithToken c c'"
  shows "clientService c' = (clientService c)\<lparr>svRefreshJWT := RefreshJWT c'\<rparr>"
  by (simp add: sameWithToken_do [OF assms] clientService_def fun_eq_iff client_RegisterRoute_def AddCommunity_def RemoveCommunity_def
      ResolveCommunity_def ListCommunities_def fetchCommunities_def AddCommunityRoute_def
      RemoveCommunityRoute_def ResolveRoute_def ListRoutes_def fetchRoutes_def)

lemmas handler_defs = listCommunities_def listSingleCommunity_def addCommunity_def removeCommunity_def
  modRouteToCommunity_def membershipOp_def addRouteToCommunity_def removeRouteFromCommunity_def listRoutes_def

definition registryHandler :: "'w registry_handler \<Rightarrow> bool" where
  "registryHandler h \<longleftrightarrow> h \<in> {listCommunities, addCommunity, removeCommunity, addRouteToCommunity,
     removeRouteFromCommunity, listRoutes}"

lemma registryHandler_refresh:
  assumes "registryHandler h"
  shows "h print ctx nargs (s\<lparr>svRefreshJWT := f\<rparr>) w = h print ctx nargs s w"
  using assms unfolding registryHandler_def
  by (auto simp: handler_defs Let_def cong: sum.case_cong prod.case_cong option.case_cong list.case_cong if_cong)

section \<open>The commands of the tree\<close>

text \<open>The action of every command but \<open>open\<close> is a registry handler, whatever the transport.\<close>

lemmas tree_defs = Tasks_def openCmd_def communityCmd_def routeCmd_def communityListCmd_def communityAddCmd_def
  communityRemoveCmd_def communityAddRouteCmd_def communityRemoveRouteCmd_def routeListCmd_def group_def leaf_def

definition registryPaths :: "(string list \<times> 'w registry_handler) list" where
  "registryPaths =
     [([''community'', ''list''], listCommunities), ([''community'', ''add''], addCommunity),
      ([''community'', ''remove''], removeCommunity), ([''community'', ''add-route''], addRouteToCommunity),
      ([''community'', ''remove-route''], removeRouteFromCommunity), ([''route'', ''list''], listRoutes)]"

lemma registryPaths_action:
  "(path, h) \<in> set registryPaths \<Longrightarrow> \<exists>d. commandAt (Tasks env a srcs) path = Some d \<and>
    cdAction d = Some (wrapRegistry env a h)"
  by (auto simp: registryPaths_def tree_defs Let_def)

lemma registryPaths_handler: "(path, h) \<in> set registryPaths \<Longrightarrow> registryHandler h"
  by (auto simp: registryPaths_def registryHandler_def)

lemma commandAt_leaf: "cdCommands c = [] \<Longrightarrow> commandAt c path = Some d \<Longrightarrow> d = c \<and> path = []"
  by (cases path) auto

lemma tree_path:
  assumes "commandAt (Tasks env a srcs) path = Some d" and "cdAction d = Some act" and "path \<noteq> [''open'']"
  shows "path \<in> fst ` set (registryPaths :: (string list \<times> 'w registry_handler) list)"
proof -
  obtain p ps where path: "path = p # ps" using assms(1,2) by (cases path) (auto simp: Tasks_def)
  consider "p = ''open''" | "p = ''community''" | "p = ''route''"
    using assms(1) path by (auto simp: tree_defs Let_def split: if_splits)
  then show ?thesis
  proof cases
    case 1
    with assms path show ?thesis by (cases ps) (auto simp: tree_defs Let_def)
  next
    case 2
    with assms path obtain q qs where q: "ps = q # qs" by (cases ps) (auto simp: tree_defs Let_def)
    with 2 assms path show ?thesis
      by (cases qs) (auto simp: tree_defs Let_def registryPaths_def split: if_splits)
  next
    case 3
    with assms path obtain q qs where q: "ps = q # qs" by (cases ps) (auto simp: tree_defs Let_def)
    with 3 assms path show ?thesis
      by (cases qs) (auto simp: tree_defs Let_def registryPaths_def split: if_splits)
  qed
qed

text \<open>A registry command depends on the transport only through requests with the user's token.\<close>

lemma wrapRegistry_token:
  assumes "registryHandler h"
    and "\<And>t ctx req w. headerGet ''X-Token'' req = Some (gaToken (caGlobal a)) \<Longrightarrow>
      headerGet ''X-Jwt'' req = None \<Longrightarrow> tr t ctx req w = ceTransport env t ctx req w"
  shows "wrapRegistry (env\<lparr>ceTransport := tr\<rparr>) a h ctx nargs w = wrapRegistry env a h ctx nargs w"
proof -
  let ?client = "\<lambda>tr. NewRegistryClient tr (gaToken (caGlobal a)) (gaEndpoint (caGlobal a))
    (Some \<lparr>hcTimeout = 5 * second, hcDo = tr (5 * second)\<rparr>) (map_option slRequest (contextLogger ctx))"
  have "sameWithToken (?client (ceTransport env)) (?client tr)"
    unfolding sameWithToken_def
    by (rule exI [of _ "tr (5 * second)"]) (use assms(2) in \<open>auto simp: NewRegistryClient_def defaultClient_def\<close>)
  then have "clientService (?client tr) = (clientService (?client (ceTransport env)))\<lparr>svRefreshJWT := RefreshJWT (?client tr)\<rparr>"
    by (rule sameWithToken_service)
  then have "h print c nargs (clientService (?client tr)) v = h print c nargs (clientService (?client (ceTransport env))) v"
    for print c v using registryHandler_refresh [OF assms(1)] by simp
  then show ?thesis
    by (simp add: wrapRegistry_def globalWrap_def registryCommand_def Let_def)
qed

end
