(* ===== verification/CommandTheorems.thy ===== *)
theory CommandTheorems
  imports CommandProperties RegistryTheorems
begin

text \<open>The properties of the community and route commands.\<close>

text \<open>A registry that lists two communities and one route and records the requests it gets.\<close>

definition sampleServer :: "(string \<times> string) list transport" where
  "sampleServer t ctx req w =
     (Inr \<lparr>hrStatusCode = 200, hrBody = Some (BodyJson
        (if hqMethod req \<noteq> ''GET'' then JObj []
         else if containsStr (hqURL req) ''route'' then oneRoute else twoCommunities))\<rparr>,
      w @ [(hqMethod req, hqURL req)])"

definition sampleClient :: "(string \<times> string) list registry_client" where
  "sampleClient = NewRegistryClient sampleServer ''secret'' ''https://registry''
     (Some \<lparr>hcTimeout = 5 * second, hcDo = sampleServer 0\<rparr>) None"

definition quiet :: "string \<Rightarrow> 'w \<Rightarrow> 'w" where "quiet t w = w"

text \<open>
  C14. Only unique matches change. For two identifiers that are not empty: when the registry lists one
  community and one route that match them, and both have IDs, \<open>community add-route\<close> and \<open>community remove-route\<close>
  end as the membership request for these two IDs does; in every other case they fail, and nothing is
  asked of the registry but the two lists, as the result is the same whatever the membership request
  does.
\<close>

theorem membership_exact:
  assumes "p \<noteq> []" and "q \<noteq> []"
  shows "(\<exists>cs x w1 rs r w2 cID rID. fetchCommunities c ctx w = (Inr cs, w1) \<and>
      filter (\<lambda>x. Community_Matches x p) cs = [x] \<and> cmID x = Some cID \<and>
      fetchRoutes c ctx w1 = (Inr rs, w2) \<and> filter (\<lambda>r. Route_Matches r q) rs = [r] \<and> rtID r = Some rID \<and>
      addRouteToCommunity print ctx [p, q] (clientService c) w = membershipOp (AddCommunityRoute c) ctx cID rID w2 \<and>
      removeRouteFromCommunity print ctx [p, q] (clientService c) w
        = membershipOp (RemoveCommunityRoute c) ctx cID rID w2) \<or>
    (\<exists>e w'. \<forall>f g. addRouteToCommunity print ctx [p, q] ((clientService c)\<lparr>svAddCommunityRoute := f\<rparr>) w = (Some e, w') \<and>
      removeRouteFromCommunity print ctx [p, q] ((clientService c)\<lparr>svRemoveCommunityRoute := g\<rparr>) w = (Some e, w'))"
proof (cases "\<exists>cID rID w2. svc.resolved c ctx p q w cID rID w2")
  case True
  then obtain cID rID w2 where r: "svc.resolved c ctx p q w cID rID w2" by blast
  have "addRouteToCommunity print ctx [p, q] (clientService c) w = membershipOp (AddCommunityRoute c) ctx cID rID w2 \<and>
      removeRouteFromCommunity print ctx [p, q] (clientService c) w = membershipOp (RemoveCommunityRoute c) ctx cID rID w2"
    using svc.mod_route_resolved [OF assms r]
    by (simp add: addRouteToCommunity_def removeRouteFromCommunity_def argGet_def clientService_def)
  with r show ?thesis unfolding svc.resolved_def by blast
next
  case False
  then obtain e w' where "\<And>op. modRouteToCommunity ctx (clientService c) p q op w = (Some e, w')"
    using svc.mod_route_unresolved [OF assms, of c ctx w] by metis
  moreover have "modRouteToCommunity ctx ((clientService c)\<lparr>svAddCommunityRoute := f\<rparr>) p q op w
      = modRouteToCommunity ctx (clientService c) p q op w"
    "modRouteToCommunity ctx ((clientService c)\<lparr>svRemoveCommunityRoute := f\<rparr>) p q op w
      = modRouteToCommunity ctx (clientService c) p q op w" for f op
    by (simp_all add: modRouteToCommunity_def cong: sum.case_cong prod.case_cong option.case_cong)
  ultimately show ?thesis
    by (simp add: addRouteToCommunity_def removeRouteFromCommunity_def argGet_def)
qed

theorem membership_exact_witness:
  "addRouteToCommunity quiet noCtx [''physics'', ''alice/app''] (clientService sampleClient) []
    = (None, [(''GET'', ''https://registry/api/v1/community''), (''GET'', ''https://registry/api/v1/route''),
        (''PUT'', ''https://registry/api/v1/community/0123456789/route/abcdefghij'')])"
proof -
  have "addRouteToCommunity quiet noCtx [''physics'', ''alice/app''] (clientService sampleClient) []
    = (None, [(''GET'', ''https://registry/api/v1/community''), (''GET'', ''https://registry/api/v1/route''),
        (''PUT'', ''https://registry/api/v1/community/0123456789/route/abcdefghij'')])"
    by code_simp
  with membership_exact [of "''physics''" "''alice/app''" sampleClient noCtx "[]" quiet] show ?thesis by simp
qed

text \<open>
  C37. An ambiguous community is shown as if it were unique. When several communities match the identifier,
  \<open>community list\<close> prints the details of the first in the registry's list and no error, while the
  other commands refuse the same identifier.
\<close>

theorem list_ambiguous_community:
  assumes "p \<noteq> []" and "fetchCommunities c ctx w = (Inr cs, w1)"
    and "filter (\<lambda>x. Community_Matches x p) cs = x # y # ys"
  shows "listCommunities print ctx [p] (clientService c) w = listSingleCommunity print ctx (clientService c) x w1 \<and>
    (\<forall>op. \<exists>e w'. modRouteToCommunity ctx (clientService c) p q op w = (Some e, w'))"
proof -
  have "svResolveCommunity (clientService c) ctx p w \<noteq> (Inr z, w2)" for z w2
    using svc.resolve_community [OF assms(1), of c ctx w z w2] assms(2,3) by auto
  then obtain e w2 where "svResolveCommunity (clientService c) ctx p w = (Inl e, w2)"
    by (cases "svResolveCommunity (clientService c) ctx p w"; cases "fst (svResolveCommunity (clientService c) ctx p w)") auto
  then show ?thesis using svc.list_community_first [OF assms] by (simp add: modRouteToCommunity_def)
qed

theorem list_ambiguous_community_witness:
  "fst (listCommunities quiet noCtx [''01234567''] (clientService sampleClient) []) = None \<and>
    fst (modRouteToCommunity noCtx (clientService sampleClient) ''01234567'' ''alice/app'' (\<lambda>i j w. (None, w)) []) \<noteq> None"
proof -
  let ?x = "\<lparr>cmName = ''physics'', cmID = Some ''0123456789'', cmRoutes = []\<rparr>"
  let ?y = "\<lparr>cmName = ''biology'', cmID = Some ''01234567ab'', cmRoutes = []\<rparr>"
  have f: "fetchCommunities sampleClient noCtx [] = (Inr [?x, ?y], [(''GET'', ''https://registry/api/v1/community'')])"
    by code_simp
  have m: "filter (\<lambda>x. Community_Matches x ''01234567'') [?x, ?y] = [?x, ?y]" by code_simp
  show ?thesis
    using list_ambiguous_community [OF _ f m, of quiet "''alice/app''"]
    by (auto simp: listSingleCommunity_def dest!: spec [of _ "\<lambda>i j w. (None, w)"])
qed

text \<open>
  C39. Details of a community. When \<open>community list\<close> with an identifier succeeds on a community with
  routes, it prints that community with as many routes as the registry gave, in the same order: each
  is either as it was, or the first route of the registry's list that matches its ID, and the one
  that matches when there is only one.
\<close>

theorem community_details:
  assumes "cmRoutes c \<noteq> []" and "listSingleCommunity print ctx registry c w = (None, w')"
  shows "\<exists>rl w1 routes. svListRoutes registry ctx [] w = (Inr rl, w1) \<and>
    w' = print (formatCommunitySingle (Some (c\<lparr>cmRoutes := routes\<rparr>))) w1 \<and>
    length routes = length (cmRoutes c) \<and>
    (\<forall>k < length routes. case rtID (cmRoutes c ! k) of
       None \<Rightarrow> routes ! k = cmRoutes c ! k
     | Some i \<Rightarrow>
         (routes ! k = (case find (\<lambda>r. Route_Matches r i) rl of None \<Rightarrow> cmRoutes c ! k | Some r \<Rightarrow> r)) \<and>
         (\<forall>r \<in> set rl. (\<forall>x \<in> set rl. Route_Matches x i \<longleftrightarrow> x = r) \<longrightarrow> routes ! k = r))"
proof -
  obtain rl w1 where rl: "svListRoutes registry ctx [] w = (Inr rl, w1)"
    and w': "w' = print (formatCommunitySingle (Some (c\<lparr>cmRoutes := map (fillRoute rl) (cmRoutes c)\<rparr>))) w1"
    using assms by (auto simp: listSingleCommunity_def split: prod.splits sum.splits)
  have fill: "case rtID r of None \<Rightarrow> fillRoute rl r = r
     | Some i \<Rightarrow> fillRoute rl r = (case find (\<lambda>r. Route_Matches r i) rl of None \<Rightarrow> r | Some r \<Rightarrow> r) \<and>
         (\<forall>n \<in> set rl. (\<forall>x \<in> set rl. Route_Matches x i \<longleftrightarrow> x = n) \<longrightarrow> fillRoute rl r = n)" for r
    by (auto simp: fillRoute_def findRoute_unique findRoute_first [symmetric] split: option.split)
  have nth: "map (fillRoute rl) (cmRoutes c) ! k = fillRoute rl (cmRoutes c ! k)"
    if "k < length (map (fillRoute rl) (cmRoutes c))" for k using that by simp
  show ?thesis
    by (rule exI [of _ rl], rule exI [of _ w1], rule exI [of _ "map (fillRoute rl) (cmRoutes c)"],
        intro conjI allI impI rl w' length_map) (simp only: nth fill)
qed

definition withRoute :: community where
  "withRoute = zeroCommunity\<lparr>cmRoutes := [zeroRoute\<lparr>rtID := Some ''abcdefgh''\<rparr>]\<rparr>"

theorem community_details_witness:
  "\<exists>rl w1. svListRoutes (clientService sampleClient) noCtx [] [] = (Inr rl, w1)"
proof -
  have "fst (listSingleCommunity quiet noCtx (clientService sampleClient) withRoute []) = None" by code_simp
  then obtain w' where "listSingleCommunity quiet noCtx (clientService sampleClient) withRoute [] = (None, w')"
    by (metis prod.collapse)
  from community_details [OF _ this] show ?thesis by (auto simp: withRoute_def)
qed

text \<open>
  C13. Registry commands act as the user. Whatever command of the tree other than \<open>open\<close> is run, it
  depends on the network only through requests that carry the user's token and no JWT.
\<close>

theorem commands_carry_token:
  fixes env :: "'w cli_env"
  assumes "commandAt (Tasks env a srcs) path = Some d" and "cdAction d = Some act" and "path \<noteq> [''open'']"
    and "\<And>t ctx req w. headerGet ''X-Token'' req = Some (gaToken (caGlobal a)) \<Longrightarrow>
      headerGet ''X-Jwt'' req = None \<Longrightarrow> tr t ctx req w = ceTransport env t ctx req w"
  shows "\<exists>d' act'. commandAt (Tasks (env\<lparr>ceTransport := tr\<rparr>) a srcs) path = Some d' \<and> cdAction d' = Some act' \<and>
    act' ctx nargs w = act ctx nargs w"
proof -
  obtain h :: "'w registry_handler" where h: "(path, h) \<in> set registryPaths" using tree_path [OF assms(1-3)] by auto
  then have "act = wrapRegistry env a h" using registryPaths_action [OF h, of env a srcs] assms(1,2) by simp
  moreover obtain d' where "commandAt (Tasks (env\<lparr>ceTransport := tr\<rparr>) a srcs) path = Some d'"
      "cdAction d' = Some (wrapRegistry (env\<lparr>ceTransport := tr\<rparr>) a h)"
    using registryPaths_action [OF h] by blast
  moreover have "wrapRegistry (env\<lparr>ceTransport := tr\<rparr>) a h ctx nargs w = wrapRegistry env a h ctx nargs w"
    using registryPaths_handler [OF h] assms(4) by (rule wrapRegistry_token)
  ultimately show ?thesis by blast
qed

definition sampleCliEnv :: "(string \<times> string) list cli_env" where
  "sampleCliEnv = \<lparr>ceTransport = sampleServer, ceLevels = (\<lambda>f w. w), cePrint = quiet,
     ceOpen = (\<lambda>ctx nargs a s l w. None), ceNamespaces = False,
     ceInfo = \<lparr>biVersion = ''1'', biGitCommit = [], biGitBranch = [], biGoVersion = [], biBuildDate = []\<rparr>\<rparr>"

theorem commands_carry_token_witness:
  "\<exists>d' act'. commandAt (Tasks (sampleCliEnv\<lparr>ceTransport := (\<lambda>t ctx req w.
      if headerGet ''X-Token'' req = Some [] then sampleServer t ctx req w else (Inl ErrEOF, w))\<rparr>) zeroArgs [])
      [''route'', ''list''] = Some d' \<and> cdAction d' = Some act'"
proof -
  let ?act = "wrapRegistry sampleCliEnv zeroArgs listRoutes"
  obtain d where "commandAt (Tasks sampleCliEnv zeroArgs []) [''route'', ''list''] = Some d" "cdAction d = Some ?act"
    using registryPaths_action [of "[''route'', ''list'']" listRoutes sampleCliEnv zeroArgs "[]"]
    by (auto simp: registryPaths_def)
  from commands_carry_token [OF this, where tr = "\<lambda>t ctx req w.
      if headerGet ''X-Token'' req = Some [] then sampleServer t ctx req w else (Inl ErrEOF, w)"]
  show ?thesis by (fastforce simp: sampleCliEnv_def zeroArgs_def)
qed

end
