(* ===== verification/WhMain.thy ===== *)
theory WhMain
  imports Commands
begin

text \<open>
  \<open>main.go\<close>: the two passes over the command line. \<open>meParse\<close> is what the bootstrap command of pass 1
  stores in its flags, \<open>meRun\<close> is \<open>app.Run\<close> of \<open>urfave/cli\<close> on the command tree (a function of the
  configuration, which parsing fills in), with the flags of the root command.
\<close>

record 'w main_env =
  meCli :: "'w cli_env"
  meSignals :: "'w ctx"
  meLogger :: "'w slog"
  meParse :: "string list \<Rightarrow> go_error + string list \<times> bool"
  meLoad :: "string \<Rightarrow> go_error + map_source"
  meRun :: "(cli_args \<Rightarrow> 'w command) \<Rightarrow> cli_args flag list \<Rightarrow> (string list \<times> bool) flag list \<Rightarrow>
    ('w, 'w slog) go_context \<Rightarrow> string list \<Rightarrow> 'w \<Rightarrow> (outcome \<times> 'w) option"

text \<open>The level variable of the program's logger is at address 0.\<close>

definition mainContext :: "'w main_env \<Rightarrow> ('w, 'w slog) go_context" where
  "mainContext env =
     WithLogger \<lparr>gcErr = meSignals env, gcLogger = None\<rparr> (Some (newContextLogger (meLogger env) (Some 0)))"

definition whMain :: "'w main_env \<Rightarrow> string list \<Rightarrow> 'w \<Rightarrow> (outcome \<times> 'w) option" where
  "whMain env osArgs w =
     (let w = ceLevels (meCli env) (\<lambda>st. st(0 := LevelWarn)) w;
          lCtx = mainContext env
      in case bootstrapRun (meLoad env) (meParse env osArgs) of
           Inl err \<Rightarrow> Some (Fatal err, w)
         | Inr srcs \<Rightarrow>
             (case meRun env (\<lambda>cliArgs. Tasks (meCli env) cliArgs srcs) (GlobalFlags srcs) BootstrapFlags
                     lCtx osArgs w of
                None \<Rightarrow> None
              | Some (Returned (Some err), w1) \<Rightarrow> Some (Fatal err, w1)
              | Some (r, w1) \<Rightarrow> Some (r, w1)))"

text \<open>Every command of the tree finds the program's logger, and can change its level.\<close>

lemma mainContext_logger [simp]: "contextLogger (mainContext env) = Some (meLogger env)"
  by (simp add: mainContext_def newContextLogger_def contextLogger_WithLogger)

lemma mainContext_level:
  "SetLogLevel (GetLogger (mainContext env)) level st = (None, st(0 := level))"
  by (simp add: mainContext_def newContextLogger_def WithLogger_def GetLogger_def SetLogLevel_def)

end
