(* ===== verification/Namespaces.thy ===== *)
theory Namespaces
  imports Support
begin

text \<open>
  \<open>internal/ns\<close>: running a command in a network namespace of its own. This theory holds the sequential
  code: the checks, the ID maps, the synchronisation over the pipe, the mounts, and the processes that
  are started. The operating system (files, pipes, \<open>mount\<close>, processes) is a parameter; what a \<open>select\<close>
  chooses is an event of the world. The concurrent parts are in \<open>NamespaceSteps\<close>.
\<close>

section \<open>Availability\<close>

text \<open>The argument is what reading \<open>/proc/sys/user/max_user_namespaces\<close> gave.\<close>

definition nsInitialize :: "go_error + string \<Rightarrow> go_error + unit" where
  "nsInitialize readFile =
     (case readFile of
        Inl err \<Rightarrow> Inl err
      | Inr content \<Rightarrow>
          (case atoiE (TrimSpace content) of
             Inl err \<Rightarrow> Inl (Errorf ''failed sysctl user.max_user_namespaces'' err)
           | Inr v \<Rightarrow>
               if v \<le> 0
               then Inl (ErrString (''user namespaces disabled: sysctl user.max_user_namespaces='' @ itoa v))
               else Inr ()))"

text \<open>\<open>ns_other.go\<close>: the systems other than Linux.\<close>

definition notImplemented :: go_error where "notImplemented = ErrString ''Not implemented''"

definition otherInitialize :: "go_error + 'w namespace_exec" where
  "otherInitialize = Inl notImplemented"

definition otherNamespace :: "'w namespace_exec" where
  "otherNamespace = \<lparr>nsExec = (\<lambda>ctx command podman sidecar w. Some (Returned (Some notImplemented), w)),
     nsLaunchNS = (\<lambda>ctx networkHandler secondStage w. Some (Some notImplemented, w))\<rparr>"

section \<open>ID maps\<close>

record id_map =
  idContainerID :: int
  idHostID :: int
  idSize :: int

definition getIDMap :: "int \<Rightarrow> int \<Rightarrow> id_map list" where
  "getIDMap ns host = [\<lparr>idContainerID = ns, idHostID = host, idSize = 1\<rparr>]"

text \<open>How the kernel reads a map: the ID outside that an ID inside stands for.\<close>

definition toHost :: "id_map list \<Rightarrow> int \<Rightarrow> int option" where
  "toHost ms i =
     map_option (\<lambda>m. idHostID m + (i - idContainerID m))
       (find (\<lambda>m. idContainerID m \<le> i \<and> i < idContainerID m + idSize m) ms)"

section \<open>Synchronisation\<close>

text \<open>\<open>readPipe n\<close> reads at most \<open>n\<close> bytes; the rest of the buffer stays zero.\<close>

definition recvSync ::
  "(nat \<Rightarrow> 'w \<Rightarrow> (go_error + string) \<times> 'w) \<Rightarrow> string \<Rightarrow> 'w \<Rightarrow> go_error option \<times> 'w" where
  "recvSync readPipe syncData w =
     (let n = length syncData in
      case readPipe n w of
        (Inl err, w1) \<Rightarrow> (Some err, w1)
      | (Inr got, w1) \<Rightarrow>
          (let b = take n (got @ replicate n (CHR 0x00)) in
           if b \<noteq> syncData
           then (Some (ErrString (''sync mismatch: got '' @ quote b @ '' want '' @ quote syncData)), w1)
           else (None, w1)))"

definition sendSync ::
  "(string \<Rightarrow> 'w \<Rightarrow> go_error option \<times> 'w) \<Rightarrow> string \<Rightarrow> 'w \<Rightarrow> go_error option \<times> 'w" where
  "sendSync writePipe syncData w =
     (case writePipe syncData w of (Some err, w1) \<Rightarrow> (Some err, w1) | (None, w1) \<Rightarrow> (None, w1))"

section \<open>Child processes\<close>

datatype clone_flag = NEWNS | NEWNET | NEWPID | NEWUSER | NEWIPC

record proc_attr =
  paCloneflags :: "clone_flag list"
  paUidMappings :: "id_map list"
  paGidMappings :: "id_map list"

text \<open>
  A command as it is started: arguments, attributes, environment (\<open>None\<close> inherits), files beyond the
  standard three, whether these three are those of the program, and the time that its \<open>Cancel\<close>
  leaves between the two signals.
\<close>

record child_cmd =
  ccArgs :: "string list"
  ccSysProcAttr :: "proc_attr option"
  ccEnv :: "string list option"
  ccExtraFiles :: "string list"
  ccStdio :: bool
  ccKillTimeout :: duration

datatype signal = SIGTERM | SIGKILL

datatype terminate_event = TimeExpired | ChildWaited "go_error option"

text \<open>\<open>terminateChild\<close>: \<open>signalChild\<close> and \<open>waitChild\<close> act on the process, errors of both are dropped.\<close>

definition terminateChild ::
  "(signal \<Rightarrow> 'w \<Rightarrow> 'w) \<Rightarrow> ('w \<Rightarrow> 'w) \<Rightarrow> (duration \<Rightarrow> 'w \<Rightarrow> terminate_event \<times> 'w) \<Rightarrow> duration \<Rightarrow>
   'w \<Rightarrow> go_error option \<times> 'w" where
  "terminateChild signalChild waitForChild select killTimeout w =
     (let w = signalChild SIGTERM w in
      case select killTimeout w of
        (TimeExpired, w1) \<Rightarrow> (None, waitForChild (signalChild SIGKILL w1))
      | (ChildWaited err, w1) \<Rightarrow> (err, w1))"

datatype child_event = ChildCtxDone | ChildExited "go_error option"

record 'w proc_ops =
  poStart :: "child_cmd \<Rightarrow> 'w ctx \<Rightarrow> 'w \<Rightarrow> go_error option \<times> 'w"
  poSelect :: "'w ctx \<Rightarrow> 'w \<Rightarrow> child_event \<times> 'w"
  poGetenv :: "string \<Rightarrow> 'w \<Rightarrow> string"

definition childOf :: "proc_attr option \<Rightarrow> string list \<Rightarrow> child_cmd" where
  "childOf sysProcAttr command =
     \<lparr>ccArgs = command, ccSysProcAttr = sysProcAttr, ccEnv = None, ccExtraFiles = [], ccStdio = True,
      ccKillTimeout = 5 * second\<rparr>"

definition execChild ::
  "'w proc_ops \<Rightarrow> 'w ctx \<Rightarrow> proc_attr option \<Rightarrow> string list \<Rightarrow> 'w \<Rightarrow> go_error option \<times> 'w" where
  "execChild ops ctx sysProcAttr command w =
     (case poStart ops (childOf sysProcAttr command) ctx w of
        (Some err, w1) \<Rightarrow> (Some err, w1)
      | (None, w1) \<Rightarrow>
          (case poSelect ops ctx w1 of
             (ChildCtxDone, w2) \<Rightarrow> (None, w2)
           | (ChildExited err, w2) \<Rightarrow> (err, w2)))"

text \<open>
  \<open>fmt.Sscanf(s, "%d", \&v)\<close> on a variable that is zero: spaces, a sign, and the longest run of digits; it
  stays zero when there is none or the number leaves the 64-bit range.
\<close>

definition scanInt :: "string \<Rightarrow> int" where
  "scanInt s =
     (let t = concat (dropWhile (\<lambda>r. isSpaceRune r \<and> r \<noteq> [CHR 0x0A]) (runes s));
          (sgn, ds) = (case t of [] \<Rightarrow> ([], []) | c # cs \<Rightarrow>
                         if c = CHR ''-'' \<or> c = CHR ''+'' then ([c], cs) else ([], t))
      in case atoi (sgn @ takeWhile isDigit ds) of None \<Rightarrow> 0 | Some v \<Rightarrow> v)"

definition remapAttr :: "int \<Rightarrow> int \<Rightarrow> proc_attr" where
  "remapAttr euid egid =
     \<lparr>paCloneflags = [NEWUSER], paUidMappings = getIDMap euid 0, paGidMappings = getIDMap egid 0\<rparr>"

definition execChildInRemap ::
  "'w proc_ops \<Rightarrow> 'w ctx \<Rightarrow> string list \<Rightarrow> 'w \<Rightarrow> go_error option \<times> 'w" where
  "execChildInRemap ops ctx command w =
     (let euid = scanInt (poGetenv ops ''_CONTAINERS_ROOTLESS_UID'' w);
          egid = scanInt (poGetenv ops ''_CONTAINERS_ROOTLESS_GID'' w)
      in execChild ops ctx (Some (remapAttr euid egid)) command w)"

section \<open>The second stage: inside the namespace\<close>

record 'w exec_ops =
  eoReadPipe :: "nat \<Rightarrow> 'w \<Rightarrow> (go_error + string) \<times> 'w"
  eoMount :: "string \<Rightarrow> string \<Rightarrow> string \<Rightarrow> 'w \<Rightarrow> go_error option \<times> 'w"
  eoGetenv :: "string \<Rightarrow> 'w \<Rightarrow> string"
  eoSetenv :: "string \<Rightarrow> string \<Rightarrow> 'w \<Rightarrow> 'w"

definition mountOne :: "'w exec_ops \<Rightarrow> string \<Rightarrow> string \<Rightarrow> string \<Rightarrow> 'w \<Rightarrow> go_error option \<times> 'w" where
  "mountOne ops source target fstype w =
     (case eoMount ops source target fstype w of
        (Some err, w1) \<Rightarrow> (Some (ErrString (''mount '' @ target @ '': '' @ errorText err)), w1)
      | (None, w1) \<Rightarrow> (None, w1))"

text \<open>``if err then return'' on effects.\<close>

definition andThen :: "('w \<Rightarrow> go_error option \<times> 'w) \<Rightarrow> ('w \<Rightarrow> go_error option \<times> 'w) \<Rightarrow> 'w \<Rightarrow> go_error option \<times> 'w" where
  "andThen f g w = (case f w of (Some err, w1) \<Rightarrow> (Some err, w1) | (None, w1) \<Rightarrow> g w1)"

definition noError :: "'w \<Rightarrow> go_error option \<times> 'w" where "noError w = (None, w)"

definition podmanMounts :: "'w exec_ops \<Rightarrow> 'w \<Rightarrow> go_error option \<times> 'w" where
  "podmanMounts ops =
     andThen
       (\<lambda>w. let tmpdir = eoGetenv ops ''TMPDIR'' w in
            if tmpdir \<noteq> [] then mountOne ops ''tmpfs'' tmpdir ''tmpfs'' w else noError w)
       (\<lambda>w. let homedir = eoGetenv ops ''HOME'' w in
            if homedir \<noteq> []
            then (let storagedir = homedir @ ''/.local/share/containers/''
                  in mountOne ops ''tmpfs'' storagedir ''tmpfs'' w)
            else noError w)"

definition execMounts :: "'w exec_ops \<Rightarrow> bool \<Rightarrow> 'w \<Rightarrow> go_error option \<times> 'w" where
  "execMounts ops podman =
     andThen (mountOne ops ''proc'' ''/proc'' ''proc'')
       (andThen (mountOne ops ''devpts'' ''/dev/pts'' ''devpts'')
         (andThen (mountOne ops ''tmpfs'' ''/run/user'' ''tmpfs'')
           (if podman then podmanMounts ops else noError)))"

text \<open>\<open>Exec\<close> up to the start of its two goroutines.\<close>

definition execSetup :: "'w exec_ops \<Rightarrow> bool \<Rightarrow> 'w \<Rightarrow> go_error option \<times> 'w" where
  "execSetup ops podman w =
     (case recvSync (eoReadPipe ops) ''SYNC'' w of
        (Some err, w1) \<Rightarrow> (Some (ErrString (''child launch sync (pre-exec): '' @ errorText err)), w1)
      | (None, w1) \<Rightarrow>
          (case execMounts ops podman w1 of
             (Some err, w2) \<Rightarrow> (Some err, w2)
           | (None, w2) \<Rightarrow> (None, eoSetenv ops ''_CONTAINERS_USERNS_CONFIGURED'' ''done'' w2)))"

text \<open>The first goroutine.\<close>

definition execLaunch ::
  "'w proc_ops \<Rightarrow> 'w ctx \<Rightarrow> bool \<Rightarrow> string list \<Rightarrow> 'w \<Rightarrow> go_error option \<times> 'w" where
  "execLaunch ops cCtx podman command =
     (if podman then execChild ops cCtx None command else execChildInRemap ops cCtx command)"

section \<open>The first stage: outside the namespace\<close>

definition launchEnv :: "string list \<Rightarrow> int \<Rightarrow> int \<Rightarrow> string list" where
  "launchEnv environ euid egid =
     environ @ [''_CONTAINERS_USERNS_CONFIGURED=init'',
                ''_CONTAINERS_ROOTLESS_UID='' @ itoa euid,
                ''_CONTAINERS_ROOTLESS_GID='' @ itoa egid]"

definition launchCmd :: "string list \<Rightarrow> int \<Rightarrow> int \<Rightarrow> string list \<Rightarrow> child_cmd" where
  "launchCmd environ euid egid secondStage =
     \<lparr>ccArgs = secondStage,
      ccSysProcAttr = Some \<lparr>paCloneflags = [NEWNS, NEWNET, NEWPID, NEWUSER, NEWIPC],
        paUidMappings = getIDMap 0 euid, paGidMappings = getIDMap 0 egid\<rparr>,
      ccEnv = Some (launchEnv environ euid egid),
      ccExtraFiles = [''childR''], ccStdio = True, ccKillTimeout = 5 * second\<rparr>"

text \<open>The network handler's process.\<close>

definition networkCmd :: "string \<Rightarrow> int \<Rightarrow> child_cmd" where
  "networkCmd slirpcmd pid =
     \<lparr>ccArgs = [slirpcmd, ''-c'', ''--ready-fd=3'', itoa pid, ''tap0''],
      ccSysProcAttr = None, ccEnv = None, ccExtraFiles = [''childW''], ccStdio = False, ccKillTimeout = 0\<rparr>"

text \<open>
  What a process finds under a name in its environment: of several entries for one name, \<open>os/exec\<close>
  passes on the last.
\<close>

definition lookupEnv :: "string list \<Rightarrow> string \<Rightarrow> string" where
  "lookupEnv environ name =
     (case rev (filter (\<lambda>e. hasPrefix e (name @ ''='')) environ) of
        [] \<Rightarrow> []
      | e # _ \<Rightarrow> drop (length name + 1) e)"

end
