(* ===== verification/NamespaceSteps.thy ===== *)
theory NamespaceSteps
  imports Namespaces
begin

text \<open>
  The concurrent parts of \<open>internal/ns/ns_linux.go\<close> as step relations. A step is one action of one
  goroutine, of a process, or of the user (who may cancel the context at any time); a \<open>select\<close> takes
  any of its branches that is ready. A result sent by \<open>doAsync\<close> is an option that is set once; nobody
  reads such a channel twice.
\<close>

section \<open>The end of \<open>Exec\<close>\<close>

text \<open>
  The main goroutine is in its \<open>select\<close>, waits for the sidecar with the value that it will return, or has
  returned. \<open>esCancelled\<close> is whether \<open>cancel\<close> was called.
\<close>

datatype exec_main = ExecSelect | ExecJoin "go_error option" | ExecReturned "go_error option"

record exec_state =
  esCtxDone :: bool
  esCancelled :: bool
  esHasSidecar :: bool
  esChild :: "go_error option option"
  esSidecar :: "go_error option option"
  esMain :: exec_main

definition execStart :: "bool \<Rightarrow> exec_state" where
  "execStart hasSidecar = \<lparr>esCtxDone = False, esCancelled = False, esHasSidecar = hasSidecar,
     esChild = None, esSidecar = None, esMain = ExecSelect\<rparr>"

text \<open>The context \<open>cCtx\<close> of the two goroutines.\<close>

definition execInnerDone :: "exec_state \<Rightarrow> bool" where
  "execInnerDone s \<longleftrightarrow> esCtxDone s \<or> esCancelled s"

inductive exec_step :: "exec_state \<Rightarrow> exec_state \<Rightarrow> bool" where
  exec_interrupt: "\<not> esCtxDone s \<Longrightarrow> exec_step s (s\<lparr>esCtxDone := True\<rparr>)"
| exec_child: "esChild s = None \<Longrightarrow> exec_step s (s\<lparr>esChild := Some r\<rparr>)"
| exec_sidecar: "esSidecar s = None \<Longrightarrow> esHasSidecar s \<Longrightarrow> exec_step s (s\<lparr>esSidecar := Some r\<rparr>)"
| exec_no_sidecar: "esSidecar s = None \<Longrightarrow> \<not> esHasSidecar s \<Longrightarrow> execInnerDone s \<Longrightarrow>
    exec_step s (s\<lparr>esSidecar := Some None\<rparr>)"
| exec_select_ctx: "esMain s = ExecSelect \<Longrightarrow> esCtxDone s \<Longrightarrow>
    exec_step s (s\<lparr>esCancelled := True, esMain := ExecJoin (Some ErrCanceled)\<rparr>)"
| exec_select_child: "esMain s = ExecSelect \<Longrightarrow> esChild s = Some r \<Longrightarrow>
    exec_step s (s\<lparr>esCancelled := True, esMain := ExecJoin r\<rparr>)"
| exec_select_sidecar: "esMain s = ExecSelect \<Longrightarrow> esSidecar s = Some r \<Longrightarrow>
    exec_step s (s\<lparr>esCancelled := True, esMain := ExecReturned r\<rparr>)"
| exec_join: "esMain s = ExecJoin r \<Longrightarrow> esSidecar s = Some q \<Longrightarrow>
    exec_step s (s\<lparr>esMain := ExecReturned r\<rparr>)"

text \<open>The deferred \<open>cancel\<close> is part of returning. The user's context fails with \<open>Canceled\<close>.\<close>

code_pred exec_step .

inductive_cases exec_stepE: "exec_step s s'"

abbreviation exec_steps :: "exec_state \<Rightarrow> exec_state \<Rightarrow> bool" where
  "exec_steps \<equiv> exec_step\<^sup>*\<^sup>*"

section \<open>Launching\<close>

text \<open>
  \<open>LaunchNS\<close> after its child was started, with \<open>launchNetwork\<close> and the goroutine in it that waits for
  the network handler's ready byte. \<open>launchNetwork\<close> returns in two steps: its deferred calls close the
  pipe first and the channel \<open>ready\<close> last.
\<close>

datatype ready_reader = NotReading | Reading | HasByte | ReaderDone "go_error option" | ReaderSeen

datatype net_main = NetStart | NetSelect | NetClosing "go_error option" | NetDone "go_error option"

datatype launch_main =
    AwaitReady
  | AwaitNetwork
  | SendingSync
  | LaunchSelect
  | LaunchReturned "go_error option"

record launch_state =
  lsCtxDone :: bool
  lsChild :: "go_error option option"
  lsSlirp :: "go_error option option"
  lsReader :: ready_reader
  lsNet :: net_main
  lsReady :: bool
  lsClosed :: bool
  lsMain :: launch_main
  lsSynced :: bool
  lsPanicked :: bool

text \<open>
  \<open>lsReady\<close> is whether the buffer of the channel \<open>ready\<close> holds its value, \<open>lsClosed\<close> whether it is closed,
  \<open>lsSynced\<close> whether \<open>SYNC\<close> was written, \<open>lsPanicked\<close> whether the program crashed.
\<close>

definition launchStart :: launch_state where
  "launchStart = \<lparr>lsCtxDone = False, lsChild = None, lsSlirp = None, lsReader = NotReading, lsNet = NetStart,
     lsReady = False, lsClosed = False, lsMain = AwaitReady, lsSynced = False, lsPanicked = False\<rparr>"

text \<open>\<open>cCtx\<close>, which the deferred \<open>cancel\<close> of \<open>LaunchNS\<close> ends.\<close>

definition launchInnerDone :: "launch_state \<Rightarrow> bool" where
  "launchInnerDone s \<longleftrightarrow> lsCtxDone s \<or> (case lsMain s of LaunchReturned _ \<Rightarrow> True | _ \<Rightarrow> False)"

text \<open>The steps of \<open>launchNetwork\<close> and of its goroutine that reads the ready byte.\<close>

inductive network_step :: "launch_state \<Rightarrow> launch_state \<Rightarrow> bool" where
  net_fail: "lsNet s = NetStart \<Longrightarrow> network_step s (s\<lparr>lsNet := NetClosing (Some e)\<rparr>)"
| net_start: "lsNet s = NetStart \<Longrightarrow> network_step s (s\<lparr>lsNet := NetSelect, lsReader := Reading\<rparr>)"
| reader_error: "lsReader s = Reading \<Longrightarrow> network_step s (s\<lparr>lsReader := ReaderDone (Some e)\<rparr>)"
| reader_send: "lsReader s = HasByte \<Longrightarrow> \<not> lsClosed s \<Longrightarrow>
    network_step s (s\<lparr>lsReady := True, lsReader := ReaderDone None\<rparr>)"
| reader_panic: "lsReader s = HasByte \<Longrightarrow> lsClosed s \<Longrightarrow> network_step s (s\<lparr>lsPanicked := True\<rparr>)"
| net_reader_error: "lsNet s = NetSelect \<Longrightarrow> lsReader s = ReaderDone (Some e) \<Longrightarrow>
    network_step s (s\<lparr>lsNet := NetClosing (Some e)\<rparr>)"
| net_reader_ready: "lsNet s = NetSelect \<Longrightarrow> lsReader s = ReaderDone None \<Longrightarrow>
    network_step s (s\<lparr>lsReader := ReaderSeen\<rparr>)"
| net_ctx: "lsNet s = NetSelect \<Longrightarrow> launchInnerDone s \<Longrightarrow> network_step s (s\<lparr>lsNet := NetClosing None\<rparr>)"
| net_slirp: "lsNet s = NetSelect \<Longrightarrow> lsSlirp s = Some r \<Longrightarrow> network_step s (s\<lparr>lsNet := NetClosing r\<rparr>)"
| net_close: "lsNet s = NetClosing r \<Longrightarrow> network_step s (s\<lparr>lsClosed := True, lsNet := NetDone r\<rparr>)"

text \<open>The steps of \<open>LaunchNS\<close> itself.\<close>

inductive main_step :: "launch_state \<Rightarrow> launch_state \<Rightarrow> bool" where
  main_ready: "lsMain s = AwaitReady \<Longrightarrow> lsReady s \<Longrightarrow>
    main_step s (s\<lparr>lsReady := False, lsMain := SendingSync\<rparr>)"
| main_closed: "lsMain s = AwaitReady \<Longrightarrow> \<not> lsReady s \<Longrightarrow> lsClosed s \<Longrightarrow>
    main_step s (s\<lparr>lsMain := AwaitNetwork\<rparr>)"
| main_network: "lsMain s = AwaitNetwork \<Longrightarrow> lsNet s = NetDone r \<Longrightarrow>
    main_step s (s\<lparr>lsMain := LaunchReturned r\<rparr>)"
| main_sync: "lsMain s = SendingSync \<Longrightarrow> main_step s (s\<lparr>lsSynced := True, lsMain := LaunchSelect\<rparr>)"
| main_sync_error: "lsMain s = SendingSync \<Longrightarrow>
    main_step s (s\<lparr>lsMain := LaunchReturned (Some (ErrString (''parent launch sync: '' @ t)))\<rparr>)"
| main_ctx: "lsMain s = LaunchSelect \<Longrightarrow> lsCtxDone s \<Longrightarrow> main_step s (s\<lparr>lsMain := LaunchReturned None\<rparr>)"
| main_child: "lsMain s = LaunchSelect \<Longrightarrow> lsChild s = Some r \<Longrightarrow>
    main_step s (s\<lparr>lsMain := LaunchReturned r\<rparr>)"
| main_slirp: "lsMain s = LaunchSelect \<Longrightarrow> lsNet s = NetDone r \<Longrightarrow>
    main_step s (s\<lparr>lsMain := LaunchReturned r\<rparr>)"

text \<open>A crash ends every goroutine.\<close>

definition launch_internal :: "launch_state \<Rightarrow> launch_state \<Rightarrow> bool" where
  "launch_internal s s' \<longleftrightarrow> \<not> lsPanicked s \<and> (network_step s s' \<or> main_step s s')"

text \<open>What the user, the child and the network handler do.\<close>

inductive launch_external :: "launch_state \<Rightarrow> launch_state \<Rightarrow> bool" where
  launch_interrupt: "\<not> lsCtxDone s \<Longrightarrow> launch_external s (s\<lparr>lsCtxDone := True\<rparr>)"
| launch_child_ends: "lsChild s = None \<Longrightarrow> launch_external s (s\<lparr>lsChild := Some r\<rparr>)"
| launch_slirp_ends: "lsSlirp s = None \<Longrightarrow> lsNet s \<noteq> NetStart \<Longrightarrow> launch_external s (s\<lparr>lsSlirp := Some r\<rparr>)"
| launch_byte: "lsReader s = Reading \<Longrightarrow> \<not> lsClosed s \<Longrightarrow> launch_external s (s\<lparr>lsReader := HasByte\<rparr>)"

definition launch_step :: "launch_state \<Rightarrow> launch_state \<Rightarrow> bool" where
  "launch_step s s' \<longleftrightarrow> launch_internal s s' \<or> \<not> lsPanicked s \<and> launch_external s s'"

inductive_cases network_stepE: "network_step s s'"
inductive_cases main_stepE: "main_step s s'"
inductive_cases launch_externalE: "launch_external s s'"

abbreviation launch_steps :: "launch_state \<Rightarrow> launch_state \<Rightarrow> bool" where
  "launch_steps \<equiv> launch_step\<^sup>*\<^sup>*"

text \<open>An invariant of a relation holds in every state it reaches.\<close>

lemma reachable_invariant:
  assumes "r\<^sup>*\<^sup>* s s'" and "I s" and "\<And>s s'. I s \<Longrightarrow> r s s' \<Longrightarrow> I s'"
  shows "I s'"
  using assms(1,2) by induction (auto intro: assms(3))

section \<open>The sidecar is always waited for\<close>

text \<open>
  Once the main goroutine has left its \<open>select\<close> the inner context is done, and it has returned only if
  the sidecar has; which of the three ends of the \<open>select\<close> it took decides the value.
\<close>

definition exec_inv :: "exec_state \<Rightarrow> bool" where
  "exec_inv s \<longleftrightarrow>
     (case esMain s of
        ExecSelect \<Rightarrow> \<not> esCancelled s
      | ExecJoin r \<Rightarrow> esCancelled s \<and> (esChild s = Some r \<or> esCtxDone s \<and> r = Some ErrCanceled)
      | ExecReturned r \<Rightarrow> esCancelled s \<and> esSidecar s \<noteq> None \<and>
          (esChild s = Some r \<or> esCtxDone s \<and> r = Some ErrCanceled \<or> esSidecar s = Some r))"

lemma exec_inv_step: "exec_inv s \<Longrightarrow> exec_step s s' \<Longrightarrow> exec_inv s'"
  by (erule exec_stepE; auto simp: exec_inv_def split: exec_main.split_asm)

lemma exec_inv_reachable: "exec_steps (execStart hasSidecar) s \<Longrightarrow> exec_inv s"
  by (erule reachable_invariant [where I = exec_inv])
    (simp add: exec_inv_def execStart_def, rule exec_inv_step)

section \<open>The synchronisation comes after the ready byte\<close>

text \<open>
  The flag \<open>ready\<close> and everything after it in \<open>LaunchNS\<close> need the byte; the channel is closed only by the
  end of \<open>launchNetwork\<close>.
\<close>

definition byteSeen :: "ready_reader \<Rightarrow> bool" where
  "byteSeen r \<longleftrightarrow> r = ReaderDone None \<or> r = ReaderSeen"

definition launch_inv :: "launch_state \<Rightarrow> bool" where
  "launch_inv s \<longleftrightarrow>
     (lsReady s \<longrightarrow> byteSeen (lsReader s)) \<and>
     (lsSynced s \<or> lsMain s = SendingSync \<or> lsMain s = LaunchSelect \<longrightarrow> byteSeen (lsReader s)) \<and>
     (lsMain s = LaunchSelect \<longrightarrow> lsSynced s) \<and>
     (lsSynced s \<longrightarrow> lsMain s = LaunchSelect \<or> (\<exists>r. lsMain s = LaunchReturned r)) \<and>
     (lsClosed s \<longleftrightarrow> (\<exists>r. lsNet s = NetDone r)) \<and>
     (lsMain s = AwaitNetwork \<longrightarrow> lsClosed s) \<and>
     (lsNet s = NetStart \<longrightarrow> lsReader s = NotReading) \<and>
     (lsPanicked s \<longrightarrow> lsReader s = HasByte \<and> lsClosed s)"

text \<open>
  The value of \<open>LaunchNS\<close>. After the synchronisation it is that of the child or of \<open>launchNetwork\<close>, or nil
  when the user has cancelled; before, it is the value of \<open>launchNetwork\<close>, or the error of the
  synchronisation, which is tried only after the byte.
\<close>

definition launch_result :: "launch_state \<Rightarrow> go_error option \<Rightarrow> bool" where
  "launch_result s r \<longleftrightarrow>
     (if lsSynced s
      then lsChild s = Some r \<or> lsNet s = NetDone r \<or> lsCtxDone s \<and> r = None
      else lsNet s = NetDone r \<or>
        byteSeen (lsReader s) \<and> (\<exists>t. r = Some (ErrString (''parent launch sync: '' @ t))))"

definition launch_value :: "launch_state \<Rightarrow> bool" where
  "launch_value s \<longleftrightarrow> (\<forall>r. lsMain s = LaunchReturned r \<longrightarrow> launch_result s r)"

lemma network_internal: "network_step s s' \<Longrightarrow> \<not> lsPanicked s \<Longrightarrow> launch_internal s s'"
  by (simp add: launch_internal_def)

lemma main_internal: "main_step s s' \<Longrightarrow> \<not> lsPanicked s \<Longrightarrow> launch_internal s s'"
  by (simp add: launch_internal_def)

lemma launch_inv_network: "launch_inv s \<Longrightarrow> \<not> lsPanicked s \<Longrightarrow> network_step s s' \<Longrightarrow> launch_inv s'"
  by (erule network_stepE; clarsimp simp: launch_inv_def byteSeen_def)

lemma launch_inv_main: "launch_inv s \<Longrightarrow> \<not> lsPanicked s \<Longrightarrow> main_step s s' \<Longrightarrow> launch_inv s'"
  by (erule main_stepE; clarsimp simp: launch_inv_def byteSeen_def)

lemma launch_inv_external: "launch_inv s \<Longrightarrow> \<not> lsPanicked s \<Longrightarrow> launch_external s s' \<Longrightarrow> launch_inv s'"
  by (erule launch_externalE; clarsimp simp: launch_inv_def byteSeen_def)

lemma launch_inv_step: "launch_inv s \<Longrightarrow> launch_step s s' \<Longrightarrow> launch_inv s'"
  using launch_inv_network [of s s'] launch_inv_main [of s s'] launch_inv_external [of s s']
  unfolding launch_step_def launch_internal_def by blast

lemma launch_result_network:
  "network_step s s' \<Longrightarrow> launch_inv s \<Longrightarrow> launch_result s r \<Longrightarrow> lsMain s' = lsMain s \<and> launch_result s' r"
  by (erule network_stepE; auto simp: launch_result_def launch_inv_def byteSeen_def split: if_split_asm)

lemma launch_result_external:
  "launch_external s s' \<Longrightarrow> launch_result s r \<Longrightarrow> lsMain s' = lsMain s \<and> launch_result s' r"
  by (erule launch_externalE; auto simp: launch_result_def byteSeen_def split: if_split_asm)

lemma launch_main_kept: "network_step s s' \<or> launch_external s s' \<Longrightarrow> lsMain s' = lsMain s"
  by (auto elim: network_stepE launch_externalE)

lemma launch_value_other:
  "network_step s s' \<or> launch_external s s' \<Longrightarrow> launch_inv s \<Longrightarrow> launch_value s \<Longrightarrow> launch_value s'"
  using launch_result_network [of s s'] launch_result_external [of s s'] launch_main_kept [of s s']
  unfolding launch_value_def by metis

lemma launch_value_main: "launch_inv s \<Longrightarrow> main_step s s' \<Longrightarrow> launch_value s'"
  by (erule main_stepE; clarsimp simp: launch_value_def launch_result_def launch_inv_def byteSeen_def)

lemma launch_inv_reachable: "launch_steps launchStart s \<Longrightarrow> launch_inv s"
  by (erule reachable_invariant [where I = launch_inv])
    (simp add: launch_inv_def launchStart_def byteSeen_def, rule launch_inv_step)

lemma launch_value_reachable:
  assumes "launch_steps launchStart s"
  shows "launch_value s"
proof -
  have "launch_inv s \<and> launch_value s"
  proof (rule reachable_invariant [OF assms, where I = "\<lambda>s. launch_inv s \<and> launch_value s"])
    show "launch_inv launchStart \<and> launch_value launchStart"
      by (simp add: launch_inv_def launch_value_def launchStart_def byteSeen_def)
    show "launch_inv s \<and> launch_value s \<Longrightarrow> launch_step s s' \<Longrightarrow> launch_inv s' \<and> launch_value s'" for s s'
      using launch_inv_step [of s s'] launch_value_main [of s s'] launch_value_other [of s s']
      unfolding launch_step_def launch_internal_def by blast
  qed
  then show ?thesis ..
qed

section \<open>The goroutines come to an end\<close>

text \<open>A rank that every step of a goroutine lowers, and what a state without such a step looks like.\<close>

fun readerRank :: "ready_reader \<Rightarrow> nat" where
  "readerRank NotReading = 4"
| "readerRank Reading = 3"
| "readerRank HasByte = 2"
| "readerRank (ReaderDone _) = 1"
| "readerRank ReaderSeen = 0"

fun netRank :: "net_main \<Rightarrow> nat" where
  "netRank NetStart = 3"
| "netRank NetSelect = 2"
| "netRank (NetClosing _) = 1"
| "netRank (NetDone _) = 0"

fun launchRank :: "launch_main \<Rightarrow> nat" where
  "launchRank AwaitReady = 3"
| "launchRank AwaitNetwork = 2"
| "launchRank SendingSync = 2"
| "launchRank LaunchSelect = 1"
| "launchRank (LaunchReturned _) = 0"

definition stateRank :: "launch_state \<Rightarrow> nat" where
  "stateRank s = readerRank (lsReader s) + netRank (lsNet s) + launchRank (lsMain s) +
     (if lsPanicked s then 0 else 1)"

lemma stateRank_le: "stateRank s \<le> 11"
  by (cases "lsReader s"; cases "lsNet s"; cases "lsMain s") (simp_all add: stateRank_def)

lemma stateRank_decreases:
  assumes "launch_internal s s'" and "launch_inv s"
  shows "stateRank s' < stateRank s"
proof -
  have "\<not> lsPanicked s" using assms(1) by (simp add: launch_internal_def)
  then have "network_step s s' \<Longrightarrow> stateRank s' < stateRank s"
    by (elim network_stepE) (use assms(2) in \<open>simp_all add: stateRank_def launch_inv_def\<close>)
  moreover have "main_step s s' \<Longrightarrow> stateRank s' < stateRank s"
    by (erule main_stepE) (simp_all add: stateRank_def)
  ultimately show ?thesis using assms(1) by (auto simp: launch_internal_def)
qed

lemma launch_internal_inv: "launch_inv s \<Longrightarrow> launch_internal s s' \<Longrightarrow> launch_inv s'"
  using launch_inv_step [of s s'] by (simp add: launch_step_def)

text \<open>So the goroutines alone go on for no more than eleven steps, and always reach an end.\<close>

lemma internal_run_bounded:
  "(launch_internal ^^ n) s s' \<Longrightarrow> launch_inv s \<Longrightarrow> n + stateRank s' \<le> stateRank s"
proof (induction n arbitrary: s)
  case (Suc n)
  then obtain t where "launch_internal s t" "(launch_internal ^^ n) t s'" by (blast dest: relpowp_Suc_D2)
  with Suc launch_internal_inv stateRank_decreases show ?case by fastforce
qed simp

lemma internal_run_ends:
  "launch_inv s \<Longrightarrow> \<exists>s'. launch_internal\<^sup>*\<^sup>* s s' \<and> (\<nexists>s''. launch_internal s' s'')"
proof (induction "stateRank s" arbitrary: s rule: less_induct)
  case less
  show ?case
  proof (cases "\<exists>t. launch_internal s t")
    case True
    then obtain t where t: "launch_internal s t" by blast
    from less.hyps [OF stateRank_decreases [OF t less.prems] launch_internal_inv [OF less.prems t]] t
    show ?thesis by (meson converse_rtranclp_into_rtranclp)
  qed blast
qed

lemma internal_keeps:
  "launch_internal\<^sup>*\<^sup>* s s' \<Longrightarrow> launch_inv s \<Longrightarrow> launch_inv s' \<and> lsCtxDone s' = lsCtxDone s"
proof (induction rule: rtranclp_induct)
  case (step t u)
  have "network_step t u \<Longrightarrow> lsCtxDone u = lsCtxDone t" by (erule network_stepE) simp_all
  moreover have "main_step t u \<Longrightarrow> lsCtxDone u = lsCtxDone t" by (erule main_stepE) simp_all
  ultimately show ?case using step launch_internal_inv [of t u] by (auto simp: launch_internal_def)
qed simp

text \<open>The goroutine of the network handler is never stuck once the inner context is done.\<close>

lemma net_progress:
  assumes "launchInnerDone s" and "\<not> lsPanicked s" and "\<nexists>s'. launch_internal s s'"
  shows "\<exists>r. lsNet s = NetDone r"
proof (cases "lsNet s")
  case NetStart
  then show ?thesis using assms network_internal [OF net_start] by blast
next
  case NetSelect
  then show ?thesis using assms network_internal [OF net_ctx] by blast
next
  case (NetClosing r)
  then show ?thesis using assms network_internal [OF net_close] by blast
qed blast

lemma main_progress:
  assumes "lsCtxDone s" and "\<not> lsPanicked s" and "\<nexists>s'. launch_internal s s'" and "launch_inv s"
  shows "\<exists>r. lsMain s = LaunchReturned r"
proof -
  have "launchInnerDone s" using assms(1) by (simp add: launchInnerDone_def)
  then obtain r where r: "lsNet s = NetDone r" using net_progress assms(2,3) by blast
  then have closed: "lsClosed s" using assms(4) by (simp add: launch_inv_def)
  show ?thesis
  proof (cases "lsMain s")
    case AwaitReady
    then show ?thesis using assms(2,3) closed main_internal [OF main_ready] main_internal [OF main_closed] by blast
  next
    case AwaitNetwork
    then show ?thesis using assms(2,3) r main_internal [OF main_network] by blast
  next
    case SendingSync
    then show ?thesis using assms(2,3) main_internal [OF main_sync] by blast
  next
    case LaunchSelect
    then show ?thesis using assms(1-3) main_internal [OF main_ctx] by blast
  qed blast
qed

end
