(* ===== verification/NamespaceTheorems.thy ===== *)
theory NamespaceTheorems
  imports NamespaceSteps
begin

text \<open>The properties of running a command in a namespace.\<close>

section \<open>Setting up the namespace\<close>

lemma recvSync_SYNC:
  "recvSync readPipe ''SYNC'' w = (None, w1) \<longleftrightarrow> (\<exists>got. readPipe 4 w = (Inr got, w1) \<and> take 4 got = ''SYNC'')"
proof -
  have pad: "take 4 (got @ replicate 4 (CHR 0x00)) = ''SYNC'' \<longleftrightarrow> take 4 got = ''SYNC''" for got :: string
  proof (cases "4 \<le> length got")
    case False
    then have "length (take 4 got) < 4" by simp
    then have "take 4 got \<noteq> ''SYNC''" by auto
    moreover have "last (take 4 (got @ replicate 4 (CHR 0x00))) = CHR 0x00"
      using False by (simp add: take_append)
    then have "take 4 (got @ replicate 4 (CHR 0x00)) \<noteq> ''SYNC''" by auto
    ultimately show ?thesis by blast
  qed simp
  define z where "z = replicate 4 CHR 0x00"
  have len: "length ''SYNC'' = 4" by simp
  have "recvSync readPipe ''SYNC'' w =
      (case readPipe 4 w of
         (Inl err, w1) \<Rightarrow> (Some err, w1)
       | (Inr got, w1) \<Rightarrow>
           if take 4 (got @ z) \<noteq> ''SYNC''
           then (Some (ErrString (''sync mismatch: got '' @ quote (take 4 (got @ z)) @ '' want '' @ quote ''SYNC'')), w1)
           else (None, w1))"
    unfolding recvSync_def Let_def len z_def by (rule refl)
  then show ?thesis using pad
    by (cases "readPipe 4 w"; cases "fst (readPipe 4 w)") (auto simp: z_def [symmetric] simp del: take_append)
qed

text \<open>Mounts that succeed one after the other.\<close>

fun mounted :: "'w exec_ops \<Rightarrow> (string \<times> string \<times> string) list \<Rightarrow> 'w \<Rightarrow> 'w \<Rightarrow> bool" where
  "mounted ops [] w w' \<longleftrightarrow> w' = w"
| "mounted ops ((source, target, fstype) # ms) w w' \<longleftrightarrow>
     (\<exists>w1. eoMount ops source target fstype w = (None, w1) \<and> mounted ops ms w1 w')"

lemma mounted_append: "mounted ops (ms @ ns) w w' \<longleftrightarrow> (\<exists>v. mounted ops ms w v \<and> mounted ops ns v w')"
proof (induction ms arbitrary: w)
  case (Cons m ms)
  then show ?case by (cases m) (simp, blast)
qed simp

lemma mountOne_None: "mountOne ops s t f w = (None, w') \<longleftrightarrow> mounted ops [(s, t, f)] w w'"
  by (auto simp: mountOne_def split: prod.splits option.splits)

lemma andThen_None: "andThen f g w = (None, w') \<longleftrightarrow> (\<exists>v. f w = (None, v) \<and> g v = (None, w'))"
  by (auto simp: andThen_def split: prod.splits option.splits)

definition podmanList :: "(string \<Rightarrow> string) \<Rightarrow> (string \<times> string \<times> string) list" where
  "podmanList env =
     (if env ''TMPDIR'' \<noteq> [] then [(''tmpfs'', env ''TMPDIR'', ''tmpfs'')] else []) @
     (if env ''HOME'' \<noteq> [] then [(''tmpfs'', env ''HOME'' @ ''/.local/share/containers/'', ''tmpfs'')] else [])"

lemma podmanMounts_None:
  assumes "\<And>n w. eoGetenv ops n w = env n"
  shows "podmanMounts ops w = (None, w') \<longleftrightarrow> mounted ops (podmanList env) w w'"
  unfolding podmanMounts_def andThen_None podmanList_def mounted_append
  by (auto simp: assms Let_def mountOne_None noError_def)

lemma execMounts_None:
  assumes "\<And>n w. eoGetenv ops n w = env n"
  shows "execMounts ops podman w = (None, w') \<longleftrightarrow>
    mounted ops ([(''proc'', ''/proc'', ''proc''), (''devpts'', ''/dev/pts'', ''devpts''),
      (''tmpfs'', ''/run/user'', ''tmpfs'')] @ (if podman then podmanList env else [])) w w'"
  unfolding execMounts_def andThen_None mountOne_None
  by (cases podman) (auto simp: podmanMounts_None [OF assms] noError_def)

text \<open>
  C29. Setting up. The second stage goes on exactly when the parent's four bytes were \<open>SYNC\<close> and then
  \<open>/proc\<close>, \<open>/dev/pts\<close> and \<open>/run/user\<close>, for podman also \<open>TMPDIR\<close> and the container storage of \<open>HOME\<close>
  where set, were mounted in this order; without the four bytes nothing is mounted.
\<close>

theorem exec_setup_order:
  assumes "\<And>n w. eoGetenv ops n w = env n"
  shows "(execSetup ops podman w = (None, w') \<longleftrightarrow>
      (\<exists>got w1 w2. eoReadPipe ops 4 w = (Inr got, w1) \<and> take 4 got = ''SYNC'' \<and>
        mounted ops ([(''proc'', ''/proc'', ''proc''), (''devpts'', ''/dev/pts'', ''devpts''),
          (''tmpfs'', ''/run/user'', ''tmpfs'')] @ (if podman then podmanList env else [])) w1 w2 \<and>
        w' = eoSetenv ops ''_CONTAINERS_USERNS_CONFIGURED'' ''done'' w2)) \<and>
    ((\<nexists>got w1. eoReadPipe ops 4 w = (Inr got, w1) \<and> take 4 got = ''SYNC'') \<longrightarrow>
      (\<exists>e w1. \<forall>m. execSetup (ops\<lparr>eoMount := m\<rparr>) podman w = (Some e, w1)))"
proof (intro conjI impI)
  show "execSetup ops podman w = (None, w') \<longleftrightarrow>
      (\<exists>got w1 w2. eoReadPipe ops 4 w = (Inr got, w1) \<and> take 4 got = ''SYNC'' \<and>
        mounted ops ([(''proc'', ''/proc'', ''proc''), (''devpts'', ''/dev/pts'', ''devpts''),
          (''tmpfs'', ''/run/user'', ''tmpfs'')] @ (if podman then podmanList env else [])) w1 w2 \<and>
        w' = eoSetenv ops ''_CONTAINERS_USERNS_CONFIGURED'' ''done'' w2)" (is "_ \<longleftrightarrow> ?r")
  proof -
    have "execSetup ops podman w = (None, w') \<longleftrightarrow>
        (\<exists>w1 w2. recvSync (eoReadPipe ops) ''SYNC'' w = (None, w1) \<and> execMounts ops podman w1 = (None, w2) \<and>
          w' = eoSetenv ops ''_CONTAINERS_USERNS_CONFIGURED'' ''done'' w2)"
      by (auto simp: execSetup_def split: prod.splits option.splits)
    then show ?thesis unfolding recvSync_SYNC execMounts_None [OF assms] by blast
  qed
next
  assume "\<nexists>got w1. eoReadPipe ops 4 w = (Inr got, w1) \<and> take 4 got = ''SYNC''"
  then have "recvSync (eoReadPipe ops) ''SYNC'' w \<noteq> (None, w1)" for w1 by (simp only: recvSync_SYNC) blast
  then obtain e w1 where "recvSync (eoReadPipe ops) ''SYNC'' w = (Some e, w1)"
    by (cases "recvSync (eoReadPipe ops) ''SYNC'' w"; cases "fst (recvSync (eoReadPipe ops) ''SYNC'' w)") auto
  then show "\<exists>e w1. \<forall>m. execSetup (ops\<lparr>eoMount := m\<rparr>) podman w = (Some e, w1)"
    by (simp add: execSetup_def)
qed

text \<open>A system that records its mounts.\<close>

definition sampleExecOps :: "string list exec_ops" where
  "sampleExecOps = \<lparr>eoReadPipe = (\<lambda>n w. (Inr ''SYNC'', w)),
     eoMount = (\<lambda>s t f w. (None, w @ [t])),
     eoGetenv = (\<lambda>n w. if n = ''HOME'' then ''/h'' else []), eoSetenv = (\<lambda>n v w. w)\<rparr>"

theorem exec_setup_order_witness:
  "execSetup sampleExecOps True [] = (None, [''/proc'', ''/dev/pts'', ''/run/user'', ''/h/.local/share/containers/''])"
  using exec_setup_order [of sampleExecOps "\<lambda>n. if n = ''HOME'' then ''/h'' else []" True "[]"
      "[''/proc'', ''/dev/pts'', ''/run/user'', ''/h/.local/share/containers/'']"]
  by (simp add: sampleExecOps_def podmanList_def)

section \<open>Identities\<close>

lemma scanInt_itoa:
  assumes "0 \<le> n" and "n < 2 ^ 63"
  shows "scanInt (itoa n) = n"
proof -
  obtain c cs where s: "itoa n = c # cs" and c: "isDigit c"
    using digitsNat_head [of "nat n"] assms by (auto simp: itoa_def)
  have b: "48 \<le> byte c" "byte c \<le> 57" using c by (simp_all add: isDigit_def)
  have "runes (itoa n) = take (runeWidth (itoa n)) (itoa n) # runes (drop (runeWidth (itoa n)) (itoa n))"
    using s by (subst runes.simps) simp
  moreover have "runeWidth (itoa n) = 1" using s b by simp
  moreover have "\<not> isSpaceRune [c]" using b by (simp add: isSpaceRune_def)
  ultimately have "dropWhile (\<lambda>r. isSpaceRune r \<and> r \<noteq> [CHR 0x0A]) (runes (itoa n)) = runes (itoa n)"
    using s by simp
  then have "concat (dropWhile (\<lambda>r. isSpaceRune r \<and> r \<noteq> [CHR 0x0A]) (runes (itoa n))) = c # cs"
    using s by (simp only: concat_runes)
  moreover have "takeWhile isDigit (c # cs) = c # cs"
    using digitsNat_spec [of "nat n"] s assms by (simp add: itoa_def list_all_iff)
  moreover have "c \<noteq> CHR ''-''" "c \<noteq> CHR ''+''" using c by auto
  ultimately show ?thesis using atoi_itoa [of n] assms s by (simp add: scanInt_def Let_def)
qed

lemma lookupEnv_launch:
  "lookupEnv (launchEnv environ u g) ''_CONTAINERS_ROOTLESS_UID'' = itoa u"
  "lookupEnv (launchEnv environ u g) ''_CONTAINERS_ROOTLESS_GID'' = itoa g"
  "lookupEnv (launchEnv environ u g) ''_CONTAINERS_USERNS_CONFIGURED'' = ''init''"
  by (simp_all add: lookupEnv_def launchEnv_def)

text \<open>
  C28. The command keeps its identity. In the environment that the first stage gives the second, whatever
  the environment of the program was, the second stage finds the IDs of the user and maps them: an ID
  of the user in the command's namespace stands for root in the namespace around it, and this for the
  user's ID outside.
\<close>

theorem id_maps_roundtrip:
  assumes "0 \<le> euid" and "euid < 2 ^ 63" and "0 \<le> egid" and "egid < 2 ^ 63"
    and "\<And>n w. poGetenv ops n w = lookupEnv (launchEnv environ euid egid) n"
    and "ccSysProcAttr (launchCmd environ euid egid secondStage) = Some outer"
  shows "\<exists>inner :: proc_attr. execChildInRemap ops ctx command w = execChild ops ctx (Some inner) command w \<and>
    toHost (paUidMappings inner) euid = Some 0 \<and> toHost (paUidMappings outer) 0 = Some euid \<and>
    toHost (paGidMappings inner) egid = Some 0 \<and> toHost (paGidMappings outer) 0 = Some egid"
proof -
  have "execChildInRemap ops ctx command w = execChild ops ctx (Some (remapAttr euid egid)) command w"
    using assms(1-4) by (simp add: execChildInRemap_def assms(5) lookupEnv_launch scanInt_itoa)
  moreover have "outer = \<lparr>paCloneflags = [NEWNS, NEWNET, NEWPID, NEWUSER, NEWIPC],
      paUidMappings = getIDMap 0 euid, paGidMappings = getIDMap 0 egid\<rparr>"
    using assms(6) by (simp add: launchCmd_def)
  ultimately show ?thesis
    by (intro exI [of _ "remapAttr euid egid"]) (simp add: remapAttr_def getIDMap_def toHost_def)
qed

definition sampleProcOps :: "unit proc_ops" where
  "sampleProcOps = \<lparr>poStart = (\<lambda>c ctx w. (None, w)), poSelect = (\<lambda>ctx w. (ChildExited None, w)),
     poGetenv = (\<lambda>n w. lookupEnv (launchEnv [''_CONTAINERS_ROOTLESS_UID=7''] 12 34) n)\<rparr>"

theorem id_maps_roundtrip_witness:
  "\<exists>inner :: proc_attr. execChildInRemap sampleProcOps (\<lambda>_. None) [''id''] () = (None, ()) \<and>
    toHost (paUidMappings inner) 12 = Some 0 \<and> toHost (paGidMappings inner) 34 = Some 0"
proof -
  let ?outer = "\<lparr>paCloneflags = [NEWNS, NEWNET, NEWPID, NEWUSER, NEWIPC], paUidMappings = getIDMap 0 12,
    paGidMappings = getIDMap 0 34\<rparr>"
  have "poGetenv sampleProcOps n w = lookupEnv (launchEnv [''_CONTAINERS_ROOTLESS_UID=7''] 12 34) n" for n w
    by (simp add: sampleProcOps_def)
  moreover have "ccSysProcAttr (launchCmd [''_CONTAINERS_ROOTLESS_UID=7''] 12 34 [''wh'']) = Some ?outer"
    by (simp add: launchCmd_def)
  ultimately obtain inner where
    "execChildInRemap sampleProcOps (\<lambda>_. None) [''id''] () = execChild sampleProcOps (\<lambda>_. None) (Some inner) [''id''] ()"
    "toHost (paUidMappings inner) 12 = Some 0" "toHost (paGidMappings inner) 34 = Some 0"
    using id_maps_roundtrip [of 12 34 sampleProcOps "[''_CONTAINERS_ROOTLESS_UID=7'']" "[''wh'']" ?outer
        "\<lambda>_. None" "[''id'']" "()"] by auto
  moreover have "execChild sampleProcOps (\<lambda>_. None) (Some inner) [''id''] () = (None, ())"
    by (simp add: sampleProcOps_def execChild_def)
  ultimately show ?thesis by (intro exI [of _ inner]) simp
qed

section \<open>The end of the second stage\<close>

text \<open>
  C18. The sidecar is waited for. In every state that \<open>Exec\<close> can reach after its setup: if it has
  returned, the wormhole has ended and the inner context is done, and the value is that of the child,
  of the cancelled context or of the wormhole; while it waits for the wormhole the inner context is
  done; and once the wormhole has ended, \<open>Exec\<close> has returned or can return in one step.
\<close>

theorem exec_waits_for_sidecar:
  assumes "exec_steps (execStart hasSidecar) s"
  shows "(\<forall>r. esMain s = ExecReturned r \<longrightarrow> esSidecar s \<noteq> None \<and> execInnerDone s \<and>
      (esChild s = Some r \<or> esCtxDone s \<and> r = Some ErrCanceled \<or> esSidecar s = Some r)) \<and>
    (\<forall>r. esMain s = ExecJoin r \<longrightarrow> execInnerDone s) \<and>
    (esSidecar s \<noteq> None \<longrightarrow> (\<exists>r. esMain s = ExecReturned r) \<or>
      (\<exists>s' r. exec_step s s' \<and> esMain s' = ExecReturned r))"
proof (intro conjI)
  have inv: "exec_inv s" using assms by (rule exec_inv_reachable)
  show "\<forall>r. esMain s = ExecReturned r \<longrightarrow> esSidecar s \<noteq> None \<and> execInnerDone s \<and>
      (esChild s = Some r \<or> esCtxDone s \<and> r = Some ErrCanceled \<or> esSidecar s = Some r)"
    using inv by (auto simp: exec_inv_def execInnerDone_def)
  show "\<forall>r. esMain s = ExecJoin r \<longrightarrow> execInnerDone s"
    using inv by (auto simp: exec_inv_def execInnerDone_def)
  show "esSidecar s \<noteq> None \<longrightarrow> (\<exists>r. esMain s = ExecReturned r) \<or>
      (\<exists>s' r. exec_step s s' \<and> esMain s' = ExecReturned r)"
  proof
    assume "esSidecar s \<noteq> None"
    then obtain q where q: "esSidecar s = Some q" by blast
    show "(\<exists>r. esMain s = ExecReturned r) \<or> (\<exists>s' r. exec_step s s' \<and> esMain s' = ExecReturned r)"
    proof (cases "esMain s")
      case ExecSelect
      with q have "exec_step s (s\<lparr>esCancelled := True, esMain := ExecReturned q\<rparr>)" by (rule exec_select_sidecar [rotated])
      then show ?thesis by (intro disjI2 exI conjI) (assumption, simp)
    next
      case (ExecJoin r)
      then have "exec_step s (s\<lparr>esMain := ExecReturned r\<rparr>)" using q by (rule exec_join)
      then show ?thesis by (intro disjI2 exI conjI) (assumption, simp)
    qed blast
  qed
qed

theorem exec_waits_for_sidecar_witness:
  "\<exists>s. exec_steps (execStart True) s \<and> esMain s = ExecReturned None \<and> esSidecar s \<noteq> None"
proof -
  let ?s0 = "execStart True"
  let ?s1 = "?s0\<lparr>esChild := Some None\<rparr>"
  let ?s2 = "?s1\<lparr>esCancelled := True, esMain := ExecJoin None\<rparr>"
  let ?s3 = "?s2\<lparr>esSidecar := Some (Some ErrCanceled)\<rparr>"
  let ?s4 = "?s3\<lparr>esMain := ExecReturned None\<rparr>"
  have "exec_step ?s0 ?s1" by (rule exec_child) (simp add: execStart_def)
  moreover have "exec_step ?s1 ?s2" by (rule exec_select_child) (simp_all add: execStart_def)
  moreover have "exec_step ?s2 ?s3" by (rule exec_sidecar) (simp_all add: execStart_def)
  moreover have "exec_step ?s3 ?s4" by (rule exec_join) simp_all
  ultimately have r: "exec_steps ?s0 ?s4" by (meson converse_rtranclp_into_rtranclp rtranclp.rtrancl_refl)
  from exec_waits_for_sidecar [OF r] have "esSidecar ?s4 \<noteq> None" by simp
  with r show ?thesis by (intro exI [of _ ?s4]) simp
qed

section \<open>The first stage\<close>

text \<open>A run of the first stage up to the ready byte and the synchronisation.\<close>

lemma launch_int: "launch_steps s t \<Longrightarrow> launch_internal t u \<Longrightarrow> launch_steps s u"
  by (rule rtranclp.rtrancl_into_rtrancl) (auto simp: launch_step_def)

lemma launch_ext: "launch_steps s t \<Longrightarrow> launch_external t u \<Longrightarrow> \<not> lsPanicked t \<Longrightarrow> launch_steps s u"
  by (rule rtranclp.rtrancl_into_rtrancl) (auto simp: launch_step_def)

definition launchReading :: launch_state where
  "launchReading = launchStart\<lparr>lsNet := NetSelect, lsReader := Reading\<rparr>"

lemma launchReading_reachable: "launch_steps launchStart launchReading"
  unfolding launchReading_def
  by (rule launch_int [OF rtranclp.rtrancl_refl network_internal [OF net_start]]) (simp_all add: launchStart_def)

definition launchSynced :: launch_state where
  "launchSynced = launchReading\<lparr>lsReader := ReaderDone None, lsReady := False, lsMain := LaunchSelect, lsSynced := True\<rparr>"

lemma launchSynced_reachable: "launch_steps launchStart launchSynced"
proof -
  let ?a = "launchReading\<lparr>lsReader := HasByte\<rparr>"
  let ?b = "?a\<lparr>lsReady := True, lsReader := ReaderDone None\<rparr>"
  let ?c = "?b\<lparr>lsReady := False, lsMain := SendingSync\<rparr>"
  let ?d = "?c\<lparr>lsSynced := True, lsMain := LaunchSelect\<rparr>"
  have "launch_external launchReading ?a" by (rule launch_byte) (simp_all add: launchReading_def launchStart_def)
  with launchReading_reachable have a: "launch_steps launchStart ?a"
    by (rule launch_ext) (simp add: launchReading_def launchStart_def)
  have "launch_internal ?a ?b" by (rule network_internal, rule reader_send) (simp_all add: launchReading_def launchStart_def)
  with a have b: "launch_steps launchStart ?b"
    by (rule launch_int)
  have "launch_internal ?b ?c" by (rule main_internal, rule main_ready) (simp_all add: launchReading_def launchStart_def)
  with b have c: "launch_steps launchStart ?c"
    by (rule launch_int)
  have "launch_internal ?c ?d" by (rule main_internal, rule main_sync) (simp_all add: launchReading_def launchStart_def)
  with c have "launch_steps launchStart ?d"
    by (rule launch_int)
  then show ?thesis by (simp add: launchSynced_def launchReading_def launchStart_def)
qed

text \<open>
  C17. The network comes first. In every state that the first stage can reach, \<open>SYNC\<close> was written to the
  second stage only if the network handler's ready byte was read, and \<open>LaunchNS\<close> waits for the command
  only after it wrote \<open>SYNC\<close>. When it has returned after \<open>SYNC\<close>, its value is that of the command or of
  \<open>launchNetwork\<close>, or nil with the context of the user done. When it has returned without \<open>SYNC\<close>, its
  value is the value that \<open>launchNetwork\<close> returned, or the error of writing \<open>SYNC\<close> after the byte was
  read; so if no byte came, it is the value of \<open>launchNetwork\<close>.
\<close>

theorem launch_sync_after_ready:
  assumes "launch_steps launchStart s"
  shows "(lsSynced s \<longrightarrow> byteSeen (lsReader s)) \<and>
    (lsMain s = LaunchSelect \<longrightarrow> lsSynced s) \<and>
    (lsMain s = AwaitNetwork \<longrightarrow> \<not> lsSynced s \<and> (\<exists>r. lsNet s = NetDone r)) \<and>
    (\<forall>r. lsMain s = LaunchReturned r \<longrightarrow>
      (if lsSynced s
       then lsChild s = Some r \<or> lsNet s = NetDone r \<or> lsCtxDone s \<and> r = None
       else lsNet s = NetDone r \<or>
         byteSeen (lsReader s) \<and> (\<exists>t. r = Some (ErrString (''parent launch sync: '' @ t)))))"
proof (intro conjI)
  have inv: "launch_inv s" using assms by (rule launch_inv_reachable)
  then show "lsSynced s \<longrightarrow> byteSeen (lsReader s)" "lsMain s = LaunchSelect \<longrightarrow> lsSynced s"
    "lsMain s = AwaitNetwork \<longrightarrow> \<not> lsSynced s \<and> (\<exists>r. lsNet s = NetDone r)"
    by (auto simp: launch_inv_def)
  show "\<forall>r. lsMain s = LaunchReturned r \<longrightarrow>
      (if lsSynced s
       then lsChild s = Some r \<or> lsNet s = NetDone r \<or> lsCtxDone s \<and> r = None
       else lsNet s = NetDone r \<or>
         byteSeen (lsReader s) \<and> (\<exists>t. r = Some (ErrString (''parent launch sync: '' @ t))))"
    using launch_value_reachable [OF assms] unfolding launch_value_def launch_result_def .
qed

text \<open>A network handler that cannot be started: its error is the value of \<open>LaunchNS\<close>.\<close>

definition launchFailed :: launch_state where
  "launchFailed = launchStart\<lparr>lsNet := NetDone (Some (ErrString ''no slirp4netns'')), lsClosed := True,
     lsMain := LaunchReturned (Some (ErrString ''no slirp4netns''))\<rparr>"

lemma launchFailed_reachable: "launch_steps launchStart launchFailed"
proof -
  let ?e = "Some (ErrString ''no slirp4netns'')"
  let ?a = "launchStart\<lparr>lsNet := NetClosing ?e\<rparr>"
  let ?b = "?a\<lparr>lsClosed := True, lsNet := NetDone ?e\<rparr>"
  let ?c = "?b\<lparr>lsMain := AwaitNetwork\<rparr>"
  let ?d = "?c\<lparr>lsMain := LaunchReturned ?e\<rparr>"
  have "launch_internal launchStart ?a" by (rule network_internal, rule net_fail) (simp_all add: launchStart_def)
  then have a: "launch_steps launchStart ?a" by (rule launch_int [OF rtranclp.rtrancl_refl])
  have "launch_internal ?a ?b" by (rule network_internal, rule net_close) (simp_all add: launchStart_def)
  with a have b: "launch_steps launchStart ?b" by (rule launch_int)
  have "launch_internal ?b ?c" by (rule main_internal, rule main_closed) (simp_all add: launchStart_def)
  with b have c: "launch_steps launchStart ?c" by (rule launch_int)
  have "launch_internal ?c ?d" by (rule main_internal, rule main_network) (simp_all add: launchStart_def)
  with c have "launch_steps launchStart ?d" by (rule launch_int)
  then show ?thesis by (simp add: launchFailed_def launchStart_def)
qed

theorem launch_sync_after_ready_witness:
  "lsSynced launchSynced \<and> byteSeen (lsReader launchSynced) \<and>
   (\<exists>r. lsMain launchFailed = LaunchReturned r \<and> lsNet launchFailed = NetDone r \<and> r \<noteq> None)"
proof -
  have "lsSynced launchSynced" by (simp add: launchSynced_def)
  moreover have "lsMain launchFailed = LaunchReturned (Some (ErrString ''no slirp4netns''))"
    "\<not> lsSynced launchFailed" "\<not> byteSeen (lsReader launchFailed)"
    by (simp_all add: launchFailed_def launchStart_def byteSeen_def)
  ultimately show ?thesis
    using launch_sync_after_ready [OF launchSynced_reachable] launch_sync_after_ready [OF launchFailed_reachable]
    by auto
qed

text \<open>
  C19. A cancelled launch ends. From a reachable state the goroutines of the first stage alone (the
  user, the command and the network handler do nothing more) take at most eleven steps, and every such
  run can be continued to an end. If the user's context is done, then at every end \<open>LaunchNS\<close> has returned,
  unless the program has crashed by the send on the closed channel \<open>ready\<close> (C20), which leaves the
  reader with a byte and the channel closed. (The step \<open>net_close\<close> takes it for granted that the deferred
  calls of \<open>launchNetwork\<close>, which kill the network handler and wait for it, return.)
\<close>

theorem launch_terminates:
  assumes "launch_steps launchStart s"
  shows "(\<forall>n s'. (launch_internal ^^ n) s s' \<longrightarrow> n \<le> 11) \<and>
    (\<forall>s'. launch_internal\<^sup>*\<^sup>* s s' \<longrightarrow>
      (\<exists>t. launch_internal\<^sup>*\<^sup>* s' t \<and> (\<nexists>s''. launch_internal t s''))) \<and>
    (\<forall>t. launch_internal\<^sup>*\<^sup>* s t \<longrightarrow> (\<nexists>s''. launch_internal t s'') \<longrightarrow> lsCtxDone s \<longrightarrow>
      (\<exists>r. lsMain t = LaunchReturned r) \<or> lsPanicked t \<and> lsReader t = HasByte \<and> lsClosed t)"
proof (intro conjI allI impI)
  note inv = launch_inv_reachable [OF assms]
  show "n \<le> 11" if "(launch_internal ^^ n) s s'" for n s'
    using internal_run_bounded [OF that inv] stateRank_le [of s] by simp
  show "\<exists>t. launch_internal\<^sup>*\<^sup>* s' t \<and> (\<nexists>s''. launch_internal t s'')" if "launch_internal\<^sup>*\<^sup>* s s'" for s'
    using internal_keeps [OF that inv] by (intro internal_run_ends) simp
  show "(\<exists>r. lsMain t = LaunchReturned r) \<or> lsPanicked t \<and> lsReader t = HasByte \<and> lsClosed t"
    if run: "launch_internal\<^sup>*\<^sup>* s t" and stuck: "\<nexists>s''. launch_internal t s''" and ctx: "lsCtxDone s" for t
  proof (cases "lsPanicked t")
    case True
    then show ?thesis using internal_keeps [OF run inv] unfolding launch_inv_def by blast
  next
    case False
    then show ?thesis using internal_keeps [OF run inv] main_progress [OF _ False stuck] ctx by simp
  qed
qed

theorem launch_terminates_witness:
  "\<exists>s t. launch_steps launchStart s \<and> lsCtxDone s \<and> launch_internal\<^sup>*\<^sup>* s t \<and> (\<nexists>u. launch_internal t u) \<and>
    ((\<exists>r. lsMain t = LaunchReturned r) \<or> lsPanicked t \<and> lsReader t = HasByte \<and> lsClosed t)"
proof -
  let ?s = "launchSynced\<lparr>lsCtxDone := True\<rparr>"
  have "launch_external launchSynced ?s"
    by (rule launch_interrupt) (simp add: launchSynced_def launchReading_def launchStart_def)
  with launchSynced_reachable have r: "launch_steps launchStart ?s"
    by (rule launch_ext) (simp add: launchSynced_def launchReading_def launchStart_def)
  have ctx: "lsCtxDone ?s" by simp
  note ends = launch_terminates [OF r]
  from ends obtain t where t: "launch_internal\<^sup>*\<^sup>* ?s t" "\<nexists>u. launch_internal t u"
    by blast
  with ends ctx have "(\<exists>r. lsMain t = LaunchReturned r) \<or> lsPanicked t \<and> lsReader t = HasByte \<and> lsClosed t"
    by blast
  with r ctx t show ?thesis by (intro exI [of _ ?s] exI [of _ t] conjI)
qed

text \<open>
  C20. A race at the end of \<open>launchNetwork\<close>. If the user cancels while the network handler becomes ready,
  \<open>launchNetwork\<close> may close the channel \<open>ready\<close> between the reading of the ready byte and the sending of
  the value: the goroutine then sends on a closed channel, which crashes the program.
\<close>

theorem ready_race_panics:
  "\<exists>s. launch_steps launchStart s \<and> lsPanicked s \<and> lsCtxDone s \<and> \<not> lsSynced s"
proof -
  let ?a = "launchReading\<lparr>lsCtxDone := True\<rparr>"
  let ?b = "?a\<lparr>lsReader := HasByte\<rparr>"
  let ?c = "?b\<lparr>lsNet := NetClosing None\<rparr>"
  let ?d = "?c\<lparr>lsClosed := True, lsNet := NetDone None\<rparr>"
  let ?e = "?d\<lparr>lsPanicked := True\<rparr>"
  note defs = launchReading_def launchStart_def launchInnerDone_def
  have "launch_external launchReading ?a" by (rule launch_interrupt) (simp add: defs)
  with launchReading_reachable have a: "launch_steps launchStart ?a"
    by (rule launch_ext) (simp add: defs)
  have "launch_external ?a ?b" by (rule launch_byte) (simp_all add: defs)
  with a have b: "launch_steps launchStart ?b" by (rule launch_ext) (simp add: defs)
  have "launch_internal ?b ?c" by (rule network_internal, rule net_ctx) (simp_all add: defs)
  with b have c: "launch_steps launchStart ?c" by (rule launch_int)
  have "launch_internal ?c ?d" by (rule network_internal, rule net_close) (simp_all add: defs)
  with c have d: "launch_steps launchStart ?d" by (rule launch_int)
  have "launch_internal ?d ?e" by (rule network_internal, rule reader_panic) (simp_all add: defs)
  with d have "launch_steps launchStart ?e" by (rule launch_int)
  then show ?thesis by (intro exI [of _ ?e]) (simp add: defs)
qed

end
