(* ===== verification/Spec2Isabelle.thy ===== *)
theory Spec2Isabelle
  imports SelfHealTheorems RegistryTheorems CliTheorems FormatTheorems OpenTheorems CommandTheorems WhMain
    NamespaceTheorems
begin

text \<open>
  A model of \<open>wormhole-cli\<close> (the program \<open>wh\<close>), and what makes it correct.

  The program publishes an application through LC Wormhole. \<open>wh open\<close> registers a route with the Route
  Registry, starts an Airlock proxy with the user's access rules in front of the application, and
  keeps a Piko tunnel to that proxy open, refreshing its credentials when they are rejected; with a
  command it first runs itself again in a network namespace of its own, in two stages. The other
  commands list and change communities and routes of the registry.

  The theories, with the code they model:
  \<^item> \<open>WH_Prelude\<close>: errors as sums, the loop without a condition, lemmas that all parts share.
    \<open>GoText\<close>, \<open>GoUtf8\<close>, \<open>GoError\<close>, \<open>GoTime\<close>, \<open>GoURL\<close>, \<open>GoJson\<close>: what the program uses of Go's standard
    library (strings as lists of bytes, UTF-8, error chains, 64-bit durations and floating point,
    URLs, JSON values); \<open>GoURLProperties\<close> holds the lemmas on URLs.
  \<^item> \<open>RegistryTypes\<close>, \<open>Requester\<close>, \<open>RegistryService\<close> (\<open>internal/routeregistry\<close>, \<open>internal/requester\<close>): the
    records and their JSON, one HTTP request with a token, the ten operations of the client.
    \<open>RegistryProperties\<close> proves matching and listing once, in the locales \<open>identifiable\<close> and \<open>listing\<close>,
    for communities and routes; \<open>RegistryTheorems\<close> holds the properties.
  \<^item> \<open>SelfHealConfig\<close>, \<open>SelfHealRetry\<close>, \<open>SelfHealRecovery\<close>, \<open>PikoClient\<close> (\<open>internal/selfheal\<close>,
    \<open>internal/piko\<close>): the backoff, the retry loop, the connection loop with its recovery protocol, and
    a connection attempt. \<open>SelfHealProperties\<close> has the abstract protocol and the simulation,
    \<open>SelfHealTheorems\<close> the properties.
  \<^item> \<open>CliArgs\<close>, \<open>CliTheorems\<close> (\<open>internal/cmd/wh/args\<close>, \<open>internal/cmd/bootstrap\<close>): the flags, how a flag
    gets its value from command line, environment and configuration files, and the first pass.
  \<^item> \<open>Format\<close>, \<open>FormatTheorems\<close> (\<open>internal/cmd/wh/format.go\<close>): the printed tables.
  \<^item> \<open>Support\<close> (\<open>internal/version\<close>, \<open>internal/logctx\<close>, \<open>internal/ns/ns.go\<close>): version, the logger in the
    context with its shared level, the interface of the namespaces, and how a command ends.
  \<^item> \<open>Airlock\<close>, \<open>OpenWormhole\<close>, \<open>OpenProperties\<close>, \<open>OpenTheorems\<close> (\<open>internal/cmd/wh/wh.go\<close>): access
    rules, the policy and options given to Airlock, and the command \<open>open\<close>.
  \<^item> \<open>Commands\<close>, \<open>CommandProperties\<close>, \<open>CommandTheorems\<close>, \<open>WhMain\<close> (\<open>community.go\<close>, \<open>route.go\<close>, \<open>cmds.go\<close>,
    \<open>main.go\<close>): the handlers, the wrapper that makes the registry client, the command tree and \<open>main\<close>.
    What the handlers need of the registry is the locale \<open>resolving_service\<close>, interpreted on the client.
  \<^item> \<open>Namespaces\<close>, \<open>NamespaceSteps\<close>, \<open>NamespaceTheorems\<close> (\<open>internal/ns\<close>): the two stages. The sequential
    code is functions; the goroutines, channels and \<open>select\<close>s are the step relations \<open>exec_step\<close>,
    \<open>network_step\<close> and \<open>main_step\<close>, with invariants by rule induction over the reachable states.

  Conventions. A function that fails gives a sum, \<open>Inl\<close> the error; a panic is the error \<open>GoPanic\<close>. What
  touches the outside world takes the world and returns it; the world's type is a parameter, so a
  theorem holds for every network, clock and scheduler. A context is what its \<open>Err\<close> method gives in a
  world. A \<open>select\<close> in sequential code is an event that the world chooses. Loops without a bound are
  \<open>partial_function (option)\<close> (no fuel is used anywhere): \<open>None\<close> is a loop that never returns, and the
  properties on termination say when it does. Durations are 64-bit words; backoffs are proved not to
  overflow.

  What the lemmas show. Retrying: the schedule of backoffs, the errors that end it, termination. The
  connection loop: refinement of the recovery protocol, bounds on attempts, where credentials come
  from. The registry: exact resolution, which credentials go to which request, paths, and the documents
  sent and read, by the literal names of their fields. Configuration: precedence of sources and layers.
  Tables: their lines, and alignment. Opening: rules, the policy document that Airlock is given (what
  Airlock makes of it is not part of the model), location of the keys, failure before any effect, and
  what an end without error means. Commands: exact targets, and the user's token on every request.
  Namespaces: order of setup, identity of the user, joining of the wormhole, the network before the
  command, the values that the first stage returns, and its end (or crash) after cancellation.
  Some properties show behaviour that is not intended: an endpoint that does not parse is retried for
  ever, dotted community names, empty and ambiguous identifiers, spaces in access rules, and a race
  that crashes the first stage.

  Not modelled: the third-party parts (Piko, Airlock, \<open>errgroup\<close>, \<open>zap\<close>, the parser of TOML and of the
  command line, the transport under \<open>http.Client\<close>), which are parameters; of \<open>urfave/cli\<close> the values
  of flags are modelled from its vendored source. The operating system under the namespaces is a
  parameter; processes take environment steps in the relations. \<open>os/exec\<close> calls the \<open>Cancel\<close> function of
  a command on its own when its context is done; this is not modelled, \<open>terminateChild\<close> is. The text of
  JSON documents, the contents of a bracketed IPv6 host, and printing of runes that are not printable
  are left out, as the theories say. The types \<open>JWKSet\<close>, \<open>ValidationError\<close> and \<open>HTTPValidationError\<close>
  are used nowhere.
\<close>

end
